(* ===== verification/Prelude.thy ===== *)
theory Prelude
  imports Main "HOL-Library.Word"
begin

text \<open>
  Shared vocabulary of the development: the C integer types of the eBPF programs as
  fixed-width words, the little-endian encoding of words as byte lists (both targets of the
  programs, x86-64 and arm64, are little-endian), and the collections of simplification
  rules the component theories extend.

  Signed C integers are words too: \<open>scast\<close> widens them with sign extension and
  \<open>sint\<close> reads them as two's complement numbers.
\<close>

unbundle bit_operations_syntax

type_synonym u8 = "8 word"
type_synonym u16 = "16 word"
type_synonym u32 = "32 word"
type_synonym u64 = "64 word"
type_synonym s16 = "16 word"
type_synonym s32 = "32 word"
type_synonym s64 = "64 word"
type_synonym addr = "64 word"

named_theorems bytes_simps "rules about little-endian byte lists"
named_theorems c_unfold "definitions of the modelled C functions"

section \<open>Little-endian byte lists\<close>

fun le_nat :: "u8 list \<Rightarrow> nat" where
  "le_nat [] = 0"
| "le_nat (b # bs) = unat b + 256 * le_nat bs"

fun nat_le :: "nat \<Rightarrow> nat \<Rightarrow> u8 list" where
  "nat_le 0 x = []"
| "nat_le (Suc n) x = of_nat (x mod 256) # nat_le n (x div 256)"

definition le_word :: "u8 list \<Rightarrow> 'w::len word" where
  "le_word bs = of_nat (le_nat bs)"

definition word_le :: "'w::len word \<Rightarrow> u8 list" where
  "word_le w = nat_le (LENGTH('w) div 8) (unat w)"

lemma length_nat_le [simp]: "length (nat_le n x) = n"
  by (induction n x rule: nat_le.induct) simp_all

lemma length_word_le [simp]: "length (word_le (w :: 'w::len word)) = LENGTH('w) div 8"
  by (simp add: word_le_def)

lemma unat_u8_less: "unat (b :: u8) < 256"
  using unsigned_less [of b, where ?'a = nat] by simp

lemma le_nat_less: "le_nat bs < 256 ^ length bs"
proof (induction bs)
  case Nil
  then show ?case by simp
next
  case (Cons b bs)
  have "unat b + 256 * le_nat bs < 256 * (le_nat bs + 1)"
    using unat_u8_less [of b] by simp
  also have "\<dots> \<le> 256 * 256 ^ length bs"
    using Cons.IH by (intro mult_le_mono2) simp
  finally show ?case by simp
qed

lemma le_nat_nat_le: "le_nat (nat_le n x) = x mod 256 ^ n"
proof (induction n x rule: nat_le.induct)
  case (1 x)
  then show ?case by simp
next
  case (2 n x)
  have b: "unat (of_nat (x mod 256) :: u8) = x mod 256"
    by (simp add: unat_of_nat)
  have "x mod (256 * 256 ^ n) = 256 * (x div 256 mod 256 ^ n) + x mod 256"
    by (rule mod_mult2_eq)
  with 2 b show ?case by simp
qed

lemma nat_le_le_nat: "nat_le (length bs) (le_nat bs) = bs"
proof (induction bs)
  case Nil
  then show ?case by simp
next
  case (Cons b bs)
  have "(unat b + 256 * le_nat bs) mod 256 = unat b"
    using unat_u8_less [of b] by simp
  moreover have "(unat b + 256 * le_nat bs) div 256 = le_nat bs"
    using unat_u8_less [of b] by simp
  ultimately show ?case using Cons by simp
qed

lemma exp_256: "(256 :: nat) ^ n = 2 ^ (8 * n)"
  by (simp add: power_mult)

lemma le_word_word_le [simp]:
  fixes w :: "'w::len word"
  assumes "8 dvd LENGTH('w)"
  shows "le_word (word_le w) = w"
proof -
  have "unat w < 2 ^ LENGTH('w)" by simp
  with assms have "unat w mod 256 ^ (LENGTH('w) div 8) = unat w"
    by (simp add: exp_256)
  then show ?thesis
    by (simp add: le_word_def word_le_def le_nat_nat_le)
qed

lemma unat_le_word:
  assumes "8 * length bs \<le> LENGTH('w::len)"
  shows "unat (le_word bs :: 'w word) = le_nat bs"
proof -
  have "le_nat bs < 2 ^ (8 * length bs)"
    using le_nat_less [of bs] by (simp add: exp_256)
  also have "\<dots> \<le> 2 ^ LENGTH('w)"
    using assms by (intro power_increasing) simp_all
  finally show ?thesis
    by (simp add: le_word_def unat_of_nat)
qed

lemma word_le_le_word:
  assumes "8 * length bs = LENGTH('w::len)"
  shows "word_le (le_word bs :: 'w word) = bs"
  using assms unat_le_word [of bs, where 'w = 'w] nat_le_le_nat [of bs]
  by (simp add: word_le_def flip: assms)

lemma le_word_inject:
  assumes "8 * length bs = LENGTH('w::len)" "length cs = length bs"
  shows "(le_word bs :: 'w word) = le_word cs \<longleftrightarrow> bs = cs"
  using word_le_le_word [of bs, where 'w = 'w] word_le_le_word [of cs, where 'w = 'w] assms
  by metis

lemma le_nat_append: "le_nat (xs @ ys) = le_nat xs + 256 ^ length xs * le_nat ys"
  by (induction xs) (simp_all add: algebra_simps)

lemma le_nat_zeros: "le_nat (replicate n 0) = 0"
  by (induction n) simp_all

lemma nat_le_zero: "nat_le n 0 = replicate n 0"
  by (induction n) simp_all

lemma le_nat_slice:
  assumes "k + n \<le> length bs"
  shows "le_nat (take n (drop k bs)) = take_bit (8 * n) (drop_bit (8 * k) (le_nat bs))"
proof -
  let ?a = "take k bs" and ?b = "take n (drop k bs)" and ?c = "drop n (drop k bs)"
  have l: "length ?a = k" "length ?b = n" using assms by simp_all
  have "bs = ?a @ ?b @ ?c" by (simp only: append_take_drop_id)
  then have "le_nat bs = le_nat ?a + 256 ^ k * (le_nat ?b + 256 ^ n * le_nat ?c)"
    using le_nat_append [of ?a "?b @ ?c"] le_nat_append [of ?b ?c] l by simp
  then have "le_nat bs div 256 ^ k = le_nat ?b + 256 ^ n * le_nat ?c"
    using le_nat_less [of ?a] l by simp
  then have "le_nat bs div 256 ^ k mod 256 ^ n = le_nat ?b" using le_nat_less [of ?b] l by simp
  then show ?thesis by (simp add: take_bit_eq_mod drop_bit_eq_div exp_256)
qed

section \<open>Overwriting a prefix of a buffer\<close>

text \<open>
  A helper that stores \<open>n\<close> bytes at the start of a longer C array leaves the rest of the
  array as it was.
\<close>

definition overwrite :: "u8 list \<Rightarrow> u8 list \<Rightarrow> u8 list" where
  "overwrite bs buf = bs @ drop (length bs) buf"

lemma length_overwrite [simp]:
  "length bs \<le> length buf \<Longrightarrow> length (overwrite bs buf) = length buf"
  by (simp add: overwrite_def)

lemma take_overwrite [bytes_simps]:
  "n \<le> length bs \<Longrightarrow> take n (overwrite bs buf) = take n bs"
  by (simp add: overwrite_def)

lemma overwrite_all [bytes_simps]:
  "length bs = length buf \<Longrightarrow> overwrite bs buf = bs"
  by (simp add: overwrite_def)

section \<open>Words\<close>

lemma unat_less_u32: "unat (x :: u32) < 4294967296"
  using unsigned_less [of x, where ?'a = nat] by simp

lemma unat_less_u64: "unat (x :: u64) < 18446744073709551616"
  using unsigned_less [of x, where ?'a = nat] by simp

lemma xor_right_cancel [simp]: "(a :: 'w::len word) XOR k = b XOR k \<longleftrightarrow> a = b"
  by (auto simp: bit_eq_iff bit_xor_iff)

lemma xor_left_cancel [simp]: "(k :: 'w::len word) XOR a = k XOR b \<longleftrightarrow> a = b"
  by (auto simp: bit_eq_iff bit_xor_iff)

lemma ucast_up_inj:
  fixes x y :: "'a::len word"
  assumes "(ucast x :: 'b::len word) = ucast y" "LENGTH('a) \<le> LENGTH('b)"
  shows "x = y"
proof (rule bit_word_eqI)
  fix n assume "n < LENGTH('a)"
  moreover from assms(1) have "bit (ucast x :: 'b word) n = bit (ucast y :: 'b word) n" by simp
  ultimately show "bit x n = bit y n" using assms(2) by (simp add: bit_simps)
qed

text \<open>An odd multiplier is invertible modulo a power of two, here for 64 bits.\<close>

lemma mult_right_cancel_word:
  fixes m inv x y :: "'w::len word"
  assumes "m * inv = 1" "x * m = y * m"
  shows "x = y"
proof -
  have "x = x * (m * inv)" using assms(1) by simp
  also have "\<dots> = (x * m) * inv" by (simp add: ac_simps)
  also have "\<dots> = (y * m) * inv" using assms(2) by simp
  also have "\<dots> = y * (m * inv)" by (simp add: ac_simps)
  finally show ?thesis using assms(1) by simp
qed

text \<open>
  \<open>x ^= x >> r\<close> is injective when the shift is positive: the top \<open>r\<close> bits are
  unchanged and the others follow from them, highest first.
\<close>

lemma xorshift_inj:
  fixes x y :: "'w::len word"
  assumes eq: "x XOR drop_bit r x = y XOR drop_bit r y" and r: "0 < r"
  shows "x = y"
proof (rule bit_word_eqI)
  have step: "bit x n \<noteq> bit x (r + n) \<longleftrightarrow> bit y n \<noteq> bit y (r + n)" for n
  proof -
    have "bit (x XOR drop_bit r x) n \<longleftrightarrow> bit (y XOR drop_bit r y) n"
      using eq by simp
    then show ?thesis by (simp add: bit_simps add.commute)
  qed
  have all: "bit x n = bit y n" for n
  proof (induction "LENGTH('w) - n" arbitrary: n rule: less_induct)
    case less
    show ?case
    proof (cases "n < LENGTH('w)")
      case True
      with r have "LENGTH('w) - (r + n) < LENGTH('w) - n" by simp
      then have "bit x (r + n) = bit y (r + n)" by (rule less)
      with step [of n] show ?thesis by blast
    next
      case False
      then show ?thesis by (auto dest: bit_imp_le_length)
    qed
  qed
  fix n assume "n < LENGTH('w)"
  show "bit x n = bit y n" by (rule all)
qed

end
