(* ===== verification/Pyoffsets.thy ===== *)
theory Pyoffsets
  imports Prelude
begin

text \<open>
  \<open>ebpf/bpf/pyoffsets.h\<close>: who owns an interpreter frame, where the C library keeps
  thread-specific data, and the offsets of the CPython structures, which user space fills in
  for the interpreter version it found. Offsets are 16-bit signed; \<open>-1\<close> marks a field the
  version does not have.
\<close>

datatype frame_owner =
  FRAME_OWNED_BY_THREAD
| FRAME_OWNED_BY_GENERATOR
| FRAME_OWNED_BY_FRAME_OBJECT
| FRAME_OWNED_BY_CSTACK

fun frame_owner_val :: "frame_owner \<Rightarrow> u8" where
  "frame_owner_val FRAME_OWNED_BY_THREAD = 0"
| "frame_owner_val FRAME_OWNED_BY_GENERATOR = 1"
| "frame_owner_val FRAME_OWNED_BY_FRAME_OBJECT = 2"
| "frame_owner_val FRAME_OWNED_BY_CSTACK = 3"

record libc =
  musl :: bool
  pthread_size :: s16
  pthread_specific1stblock :: s16

record py_offset_config =
  PyThreadState_frame :: s16
  PyThreadState_cframe :: s16
  PyCFrame_current_frame :: s16
  PyCodeObject_co_filename :: s16
  PyCodeObject_co_name :: s16
  PyCodeObject_co_varnames :: s16
  PyCodeObject_co_localsplusnames :: s16
  PyCodeObject__co_cell2arg :: s16
  PyCodeObject__co_cellvars :: s16
  PyCodeObject__co_nlocals :: s16
  PyTupleObject_ob_item :: s16
  PyVarObject_ob_size :: s16
  PyObject_ob_type :: s16
  PyTypeObject_tp_name :: s16
  VFrame_code :: s16
  VFrame_previous :: s16
  VFrame_localsplus :: s16
  PyInterpreterFrame_owner :: s16
  PyASCIIObject_size :: s16
  PyCompactUnicodeObject_size :: s16
  PyCellObject_ob_ref :: s16
  off_base :: u64
  PyCell_Type :: u64

text \<open>Pointer plus a 16-bit signed offset.\<close>

abbreviation ptr_off :: "addr \<Rightarrow> s16 \<Rightarrow> addr" where
  "ptr_off p off \<equiv> p + scast off"

lemma frame_owner_val_inj: "frame_owner_val a = frame_owner_val b \<Longrightarrow> a = b"
  by (cases a; cases b) simp_all

end
