(* ===== verification/Bpf_Env.thy ===== *)
theory Bpf_Env
  imports Prelude
begin

text \<open>
  What the eBPF programs call but do not contain: the kernel's helper functions, declared and
  documented in \<open>ebpf/bpf/libbpf/bpf_helper_defs.h\<close>, and the field offsets the loader
  patches in for CO-RE relocations. They are parameters of the model, the fields of a
  \<open>kernel\<close> record; every modelled function takes the record as its first argument.

  A helper that stores into a buffer takes the old contents of the buffer and returns its
  result code together with the new contents, so nothing is assumed about what a failing
  call leaves behind. The laws the programs rely on are the locales \<open>probe_read\<close>
  (memory reads), \<open>probe_read_str\<close> (string reads) and \<open>bpf_hash_map\<close> (map updates and
  deletions); each states what the helper's documentation says. They are interpreted on
  reference helpers for an arbitrary memory and an arbitrary map size.
\<close>

section \<open>The helpers as parameters\<close>

record kernel =
  probe_read_user :: "u8 list \<Rightarrow> addr \<Rightarrow> int \<times> u8 list"
  probe_read_user_str :: "u8 list \<Rightarrow> addr \<Rightarrow> int \<times> u8 list"
  probe_read_kernel :: "u8 list \<Rightarrow> addr \<Rightarrow> int \<times> u8 list"
  probe_read_kernel_str :: "u8 list \<Rightarrow> addr \<Rightarrow> int \<times> u8 list"
  probe_read_any :: "u8 list \<Rightarrow> addr \<Rightarrow> int \<times> u8 list"
  probe_read_any_str :: "u8 list \<Rightarrow> addr \<Rightarrow> int \<times> u8 list"
  perf_prog_read_value :: "u8 list \<Rightarrow> int \<times> u8 list"
  get_current_pid_tgid :: u64
  get_current_task :: addr
  get_smp_processor_id :: u32
  get_stackid :: "u64 \<Rightarrow> s64"
  \<comment> \<open>CO-RE field offsets: \<open>task_struct\<close>, \<open>nsproxy\<close>, \<open>pid_namespace\<close>, \<open>pid\<close>, \<open>upid\<close>\<close>
  task_flags :: u64
  task_group_leader :: u64
  task_nsproxy :: u64
  task_thread_pid :: u64
  task_thread_fsbase :: u64
  task_thread_uw_tp_value :: u64
  nsproxy_pid_ns_for_children :: u64
  pid_namespace_level :: u64
  pid_namespace_ns_inum :: u64
  pid_numbers :: u64
  upid_size :: u64
  upid_nr :: u64
  upid_ns :: u64
  \<comment> \<open>contents of automatic variables declared without an initialiser\<close>
  uninit :: "string \<Rightarrow> u64"

text \<open>
  A read of a scalar: the variable's old value is in the buffer, the new value is what the
  buffer holds afterwards.
\<close>

definition read_user :: "'z kernel_scheme \<Rightarrow> 'w::len word \<Rightarrow> addr \<Rightarrow> int \<times> 'w word" where
  "read_user K old src =
     (case probe_read_user K (word_le old) src of (rc, bs) \<Rightarrow> (rc, le_word bs))"

definition read_kernel :: "'z kernel_scheme \<Rightarrow> 'w::len word \<Rightarrow> addr \<Rightarrow> int \<times> 'w word" where
  "read_kernel K old src =
     (case probe_read_kernel K (word_le old) src of (rc, bs) \<Rightarrow> (rc, le_word bs))"

type_synonym read_fn = "u8 list \<Rightarrow> addr \<Rightarrow> int \<times> u8 list"

section \<open>Memory\<close>

type_synonym memory = "addr \<rightharpoonup> u8"

fun mem_bytes :: "memory \<Rightarrow> addr \<Rightarrow> nat \<Rightarrow> u8 list option" where
  "mem_bytes mem a 0 = Some []"
| "mem_bytes mem a (Suc n) =
     (case mem a of None \<Rightarrow> None | Some b \<Rightarrow> map_option ((#) b) (mem_bytes mem (a + 1) n))"

lemma mem_bytes_length: "mem_bytes mem a n = Some bs \<Longrightarrow> length bs = n"
  by (induction n arbitrary: a bs) (auto split: option.splits)

lemma mem_bytes_take:
  "mem_bytes mem a n = Some bs \<Longrightarrow> k \<le> n \<Longrightarrow> mem_bytes mem a k = Some (take k bs)"
proof (induction n arbitrary: a bs k)
  case 0
  then show ?case by simp
next
  case (Suc n)
  from Suc.prems(1) obtain b cs
    where b: "mem a = Some b" and cs: "mem_bytes mem (a + 1) n = Some cs" and bs: "bs = b # cs"
    by (auto split: option.splits)
  show ?case
  proof (cases k)
    case 0
    then show ?thesis by simp
  next
    case (Suc k')
    with Suc.prems(2) have "mem_bytes mem (a + 1) k' = Some (take k' cs)"
      using Suc.IH [OF cs] by simp
    with b bs Suc show ?thesis by simp
  qed
qed

lemma mem_bytes_slice:
  assumes "mem_bytes mem a m = Some bs" "k + n \<le> m"
  shows "mem_bytes mem (a + of_nat k) n = Some (take n (drop k bs))"
  using assms
proof (induction k arbitrary: a m bs)
  case 0
  then show ?case by (simp add: mem_bytes_take)
next
  case (Suc k)
  then obtain m' where m: "m = Suc m'" by (cases m) auto
  with Suc.prems(1) obtain b cs where cs: "mem_bytes mem (a + 1) m' = Some cs" "bs = b # cs"
    by (auto split: option.splits)
  have "mem_bytes mem (a + 1 + of_nat k) n = Some (take n (drop k cs))"
    using Suc.IH [OF cs(1)] Suc.prems(2) m by simp
  then show ?case by (simp add: cs(2) add.commute add.left_commute)
qed

lemma mem_bytes_nth:
  "mem_bytes mem a n = Some bs \<Longrightarrow> i < n \<Longrightarrow> mem (a + of_nat i) = Some (bs ! i)"
proof (induction n arbitrary: a bs i)
  case 0
  then show ?case by simp
next
  case (Suc n)
  from Suc.prems(1) obtain b cs
    where b: "mem a = Some b" and cs: "mem_bytes mem (a + 1) n = Some cs" and bs: "bs = b # cs"
    by (auto split: option.splits)
  show ?case
  proof (cases i)
    case 0
    with b bs show ?thesis by simp
  next
    case (Suc j)
    with Suc.prems(2) Suc.IH [OF cs, of j] bs show ?thesis by (simp add: add.assoc)
  qed
qed

text \<open>A word-sized load from memory.\<close>

definition mem_word :: "memory \<Rightarrow> addr \<Rightarrow> 'w::len word option" where
  "mem_word mem a = map_option le_word (mem_bytes mem a (LENGTH('w) div 8))"

locale probe_read =
  fixes rd :: "u8 list \<Rightarrow> addr \<Rightarrow> int \<times> u8 list"
    and mem :: memory
  assumes rd_ok: "rd dst a = (0, bs) \<Longrightarrow> mem_bytes mem a (length dst) = Some bs"
    and rd_fail: "rd dst a = (rc, bs) \<Longrightarrow> rc \<noteq> 0 \<Longrightarrow> rc < 0 \<and> length bs = length dst"
begin

lemma rd_length: "rd dst a = (rc, bs) \<Longrightarrow> length bs = length dst"
  using mem_bytes_length [OF rd_ok, of dst a bs] rd_fail [of dst a rc bs] by (cases "rc = 0") auto

text \<open>What a successful read stores does not depend on the old contents.\<close>

lemma rd_det:
  "rd dst a = (0, bs) \<Longrightarrow> rd dst' a = (0, bs') \<Longrightarrow> length dst' = length dst \<Longrightarrow> bs' = bs"
  using rd_ok [of dst a bs] rd_ok [of dst' a bs'] by simp

end

text \<open>Memory that is resident, so that a read of mapped bytes does not fail.\<close>

locale probe_read_resident = probe_read +
  assumes rd_mapped: "mem_bytes mem a (length dst) = Some bs \<Longrightarrow> rd dst a = (0, bs)"
begin

text \<open>Whether a read succeeds is determined by the memory too.\<close>

lemma rd_rc_det:
  assumes "rd dst a = (rc, bs)" "rd dst' a = (rc', bs')" "length dst' = length dst"
  shows "rc' = 0 \<longleftrightarrow> rc = 0"
  using assms rd_ok [of dst a bs] rd_ok [of dst' a bs'] rd_mapped by fastforce

end

definition ref_probe_read :: "memory \<Rightarrow> u8 list \<Rightarrow> addr \<Rightarrow> int \<times> u8 list" where
  "ref_probe_read mem dst a =
     (case mem_bytes mem a (length dst) of
        Some bs \<Rightarrow> (0, bs)
      | None \<Rightarrow> (-14, replicate (length dst) 0))"

interpretation ref_read: probe_read_resident "ref_probe_read mem" mem for mem
  by unfold_locales (auto simp: ref_probe_read_def split: option.splits)

section \<open>Strings\<close>

text \<open>
  \<open>bpf_probe_read_user_str\<close>: on success the result is the strictly positive number of
  bytes written including the NUL, at most the size of the buffer; the rest of the buffer is
  not padded; a longer string is cut and the last byte is NUL.
\<close>

locale probe_read_str =
  fixes rds :: "u8 list \<Rightarrow> addr \<Rightarrow> int \<times> u8 list"
    and mem :: memory
  assumes rds_ok: "rds dst a = (n, bs) \<Longrightarrow> 0 \<le> n \<Longrightarrow> dst \<noteq> [] \<Longrightarrow>
      0 < n \<and> nat n \<le> length dst \<and> length bs = length dst \<and>
      drop (nat n) bs = drop (nat n) dst \<and> bs ! (nat n - 1) = 0 \<and>
      mem_bytes mem a (nat n - 1) = Some (take (nat n - 1) bs) \<and>
      0 \<notin> set (take (nat n - 1) bs) \<and>
      (nat n < length dst \<longrightarrow> mem (a + of_nat (nat n - 1)) = Some 0)"
    and rds_fail: "rds dst a = (n, bs) \<Longrightarrow> n < 0 \<Longrightarrow> length bs = length dst"
begin

lemma rds_le:
  assumes r: "rds dst a = (n, bs)" "0 \<le> n" "dst \<noteq> []"
    and r': "rds dst' a = (n', bs')" "0 \<le> n'" "length dst' = length dst"
  shows "n' \<le> n"
proof (rule ccontr)
  assume "\<not> n' \<le> n"
  have ne: "dst' \<noteq> []" using r(3) r'(3) by auto
  note ok = rds_ok [OF r] and ok' = rds_ok [OF r'(1,2) ne]
  from \<open>\<not> n' \<le> n\<close> ok have lt: "nat n - 1 < nat n' - 1" by auto
  from ok ok' \<open>\<not> n' \<le> n\<close> r'(3) have z: "mem (a + of_nat (nat n - 1)) = Some 0" by auto
  have "mem (a + of_nat (nat n - 1)) = Some (take (nat n' - 1) bs' ! (nat n - 1))"
    using ok' lt mem_bytes_nth by blast
  then have "take (nat n' - 1) bs' ! (nat n - 1) = 0" using z by simp
  moreover have "nat n - 1 < length (take (nat n' - 1) bs')"
    using lt ok' by auto
  ultimately have "0 \<in> set (take (nat n' - 1) bs')" by (metis nth_mem)
  with ok' show False by simp
qed

lemma rds_det:
  assumes r: "rds dst a = (n, bs)" "0 \<le> n" "dst \<noteq> []"
    and r': "rds dst' a = (n', bs')" "0 \<le> n'" "length dst' = length dst"
  shows "n' = n \<and> take (nat n) bs' = take (nat n) bs"
proof -
  have ne: "dst' \<noteq> []" using r(3) r'(3) by auto
  have n: "n' = n"
    using rds_le [OF r r'] rds_le [OF r'(1,2) ne r(1,2)] r'(3) by simp
  note ok = rds_ok [OF r] and ok' = rds_ok [OF r'(1,2) ne]
  have "take (nat n) xs = take (nat n - 1) xs @ [xs ! (nat n - 1)]"
    if "length xs = length dst" for xs :: "u8 list"
    using ok that take_Suc_conv_app_nth [of "nat n - 1" xs] by auto
  with ok ok' n r'(3) show ?thesis by auto
qed

end

fun cstr :: "memory \<Rightarrow> addr \<Rightarrow> nat \<Rightarrow> u8 list option" where
  "cstr mem a 0 = Some []"
| "cstr mem a (Suc n) =
     (case mem a of
        None \<Rightarrow> None
      | Some b \<Rightarrow> if b = 0 then Some [] else map_option ((#) b) (cstr mem (a + 1) n))"

definition ref_read_str :: "memory \<Rightarrow> u8 list \<Rightarrow> addr \<Rightarrow> int \<times> u8 list" where
  "ref_read_str mem dst a =
     (case cstr mem a (length dst - 1) of
        None \<Rightarrow> (-14, dst)
      | Some s \<Rightarrow> (int (length s) + 1, overwrite (s @ [0]) dst))"

lemma cstr_props:
  "cstr mem a n = Some s \<Longrightarrow>
     length s \<le> n \<and> 0 \<notin> set s \<and> mem_bytes mem a (length s) = Some s \<and>
     (length s < n \<longrightarrow> mem (a + of_nat (length s)) = Some 0)"
proof (induction n arbitrary: a s)
  case 0
  then show ?case by simp
next
  case (Suc n)
  then show ?case
    by (fastforce split: option.splits if_splits simp: add.assoc)
qed

text \<open>A string that is mapped up to its NUL, or up to the size of the buffer, is read whole.\<close>

lemma cstr_unique:
  assumes "mem_bytes mem a (length s) = Some s" "0 \<notin> set s" "length s \<le> n"
    and "length s < n \<Longrightarrow> mem (a + of_nat (length s)) = Some 0"
  shows "cstr mem a n = Some s"
  using assms
proof (induction s arbitrary: a n)
  case Nil
  then show ?case by (cases n) auto
next
  case (Cons b s)
  from Cons.prems(3) obtain k where n: "n = Suc k" by (cases n) auto
  have "cstr mem (a + 1) k = Some s"
  proof (rule Cons.IH)
    show "mem_bytes mem (a + 1) (length s) = Some s"
      using Cons.prems(1) by (auto split: option.splits)
    show "0 \<notin> set s" using Cons.prems(2) by simp
    show "length s \<le> k" using Cons.prems(3) n by simp
    show "mem (a + 1 + of_nat (length s)) = Some 0" if "length s < k"
      using Cons.prems(4) n that by (simp add: add.assoc)
  qed
  moreover have "mem a = Some b" "b \<noteq> 0"
    using Cons.prems(1,2) by (auto split: option.splits)
  ultimately show ?case by (simp add: n)
qed

locale probe_read_str_resident = probe_read_str +
  assumes rds_mapped: "cstr mem a (length dst - 1) = Some s \<Longrightarrow> dst \<noteq> [] \<Longrightarrow> 0 \<le> fst (rds dst a)"
begin

lemma rds_cstr:
  assumes s: "cstr mem a (length dst - 1) = Some s" and ne: "dst \<noteq> []"
  shows "rds dst a = (int (length s) + 1, overwrite (s @ [0]) dst)"
proof -
  obtain n bs where r: "rds dst a = (n, bs)" by (metis surj_pair)
  have n0: "0 \<le> n" using rds_mapped [OF s ne] r by simp
  note ok = rds_ok [OF r n0 ne]
  let ?t = "take (nat n - 1) bs"
  have lt: "length ?t = nat n - 1" using ok by auto
  have "cstr mem a (length dst - 1) = Some ?t"
  proof (rule cstr_unique)
    show "mem_bytes mem a (length ?t) = Some ?t" using ok lt by simp
    show "0 \<notin> set ?t" using ok by blast
    show "length ?t \<le> length dst - 1" using ok lt by linarith
    show "mem (a + of_nat (length ?t)) = Some 0" if "length ?t < length dst - 1"
      using that ok lt by auto
  qed
  with s have t: "?t = s" by simp
  then have n: "n = int (length s) + 1" using lt ok by auto
  then have nn: "nat n = Suc (length s)" by simp
  have "bs = take (nat n) bs @ drop (nat n) bs" by simp
  also have "take (nat n) bs = ?t @ [bs ! (nat n - 1)]"
    using ok take_Suc_conv_app_nth [of "nat n - 1" bs] by auto
  finally have "bs = s @ [0] @ drop (nat n) dst" using ok t by simp
  then show ?thesis using r n nn by (simp add: overwrite_def)
qed

end

interpretation ref_str: probe_read_str_resident "ref_read_str mem" mem for mem
proof unfold_locales
  fix dst a n bs
  assume eq: "ref_read_str mem dst a = (n, bs)" and "0 \<le> n" "dst \<noteq> []"
  then obtain s where s: "cstr mem a (length dst - 1) = Some s"
    and n: "n = int (length s) + 1" and bs: "bs = overwrite (s @ [0]) dst"
    by (auto simp: ref_read_str_def split: option.splits)
  from \<open>dst \<noteq> []\<close> have pos: "0 < length dst" by simp
  show "0 < n \<and> nat n \<le> length dst \<and> length bs = length dst \<and>
      drop (nat n) bs = drop (nat n) dst \<and> bs ! (nat n - 1) = 0 \<and>
      mem_bytes mem a (nat n - 1) = Some (take (nat n - 1) bs) \<and>
      0 \<notin> set (take (nat n - 1) bs) \<and>
      (nat n < length dst \<longrightarrow> mem (a + of_nat (nat n - 1)) = Some 0)"
    using cstr_props [OF s] pos
    by (cases dst) (auto simp: n bs nat_add_distrib overwrite_def nth_append)
qed (auto simp: ref_read_str_def split: option.splits)

section \<open>Hash maps\<close>

text \<open>The update flags, an enumeration of the kernel headers.\<close>

definition BPF_ANY :: u64 where "BPF_ANY = 0"
definition BPF_NOEXIST :: u64 where "BPF_NOEXIST = 1"
definition BPF_EXIST :: u64 where "BPF_EXIST = 2"

type_synonym ('k, 'v) map_update = "('k \<rightharpoonup> 'v) \<Rightarrow> 'k \<Rightarrow> 'v \<Rightarrow> u64 \<Rightarrow> int \<times> ('k \<rightharpoonup> 'v)"
type_synonym ('k, 'v) map_delete = "('k \<rightharpoonup> 'v) \<Rightarrow> 'k \<Rightarrow> int \<times> ('k \<rightharpoonup> 'v)"

locale bpf_hash_map =
  fixes update :: "('k, 'v) map_update"
    and max_entries :: nat
  assumes update_ok: "update m k v fl = (0, m') \<Longrightarrow> m' = m(k \<mapsto> v)"
    and update_fail: "update m k v fl = (rc, m') \<Longrightarrow> rc \<noteq> 0 \<Longrightarrow> rc < 0 \<and> m' = m"
    and update_noexist: "k \<in> dom m \<Longrightarrow> fst (update m k v BPF_NOEXIST) \<noteq> 0"
    and update_exist: "k \<notin> dom m \<Longrightarrow> fst (update m k v BPF_EXIST) \<noteq> 0"
    and update_bound: "update m k v fl = (0, m') \<Longrightarrow> finite (dom m) \<Longrightarrow>
      card (dom m) \<le> max_entries \<Longrightarrow> card (dom m') \<le> max_entries"
begin

lemma update_cases:
  obtains "update m k v fl = (0, m(k \<mapsto> v))"
  | rc where "update m k v fl = (rc, m)" "rc < 0"
  using update_ok update_fail by (metis surj_pair)

lemma noexist_keeps:
  "update m k v BPF_NOEXIST = (rc, m') \<Longrightarrow> m k = Some w \<Longrightarrow> m' = m"
  using update_noexist [of k m v] update_fail [of m k v BPF_NOEXIST rc m'] by auto

lemma noexist_ok_new: "update m k v BPF_NOEXIST = (0, m') \<Longrightarrow> m k = None"
  using update_noexist [of k m v] by fastforce

lemma noexist_le: "update m k v BPF_NOEXIST = (rc, m') \<Longrightarrow> m \<subseteq>\<^sub>m m'"
  using update_cases [of m k v BPF_NOEXIST] noexist_ok_new [of m k v m']
  by (metis map_le_imp_upd_le map_le_refl map_le_upd fun_upd_triv Pair_inject)

lemma update_finite: "update m k v fl = (rc, m') \<Longrightarrow> finite (dom m) \<Longrightarrow> finite (dom m')"
  using update_ok [of m k v fl m'] update_fail [of m k v fl rc m'] by (cases "rc = 0") auto

lemma update_card: "update m k v fl = (rc, m') \<Longrightarrow> finite (dom m) \<Longrightarrow>
  card (dom m) \<le> max_entries \<Longrightarrow> card (dom m') \<le> max_entries"
  using update_bound [of m k v fl m'] update_fail [of m k v fl rc m'] by (cases "rc = 0") auto

end

text \<open>A map with room for the key, in which an admissible update succeeds.\<close>

locale bpf_hash_map_room = bpf_hash_map +
  assumes update_room: "k \<in> dom m \<or> card (dom m) < max_entries \<Longrightarrow> update m k v BPF_ANY = (0, m(k \<mapsto> v))"
    and update_room_new: "k \<notin> dom m \<Longrightarrow> card (dom m) < max_entries \<Longrightarrow>
      update m k v BPF_NOEXIST = (0, m(k \<mapsto> v))"

locale bpf_map_delete =
  fixes delete :: "('k, 'v) map_delete"
  assumes delete_ok: "delete m k = (0, m') \<Longrightarrow> m' = m(k := None)"
    and delete_fail: "delete m k = (rc, m') \<Longrightarrow> rc \<noteq> 0 \<Longrightarrow> rc < 0 \<and> m' = m"
begin

lemma delete_le: "delete m k = (rc, m') \<Longrightarrow> m' \<subseteq>\<^sub>m m"
  using delete_ok [of m k m'] delete_fail [of m k rc m']
  by (cases "rc = 0") (auto simp: map_le_def)

lemma delete_other: "delete m k = (rc, m') \<Longrightarrow> k' \<noteq> k \<Longrightarrow> m' k' = m k'"
  using delete_ok [of m k m'] delete_fail [of m k rc m'] by (cases "rc = 0") auto

end

text \<open>Deleting a key that is present succeeds.\<close>

locale bpf_map_delete_present = bpf_map_delete +
  assumes delete_present: "k \<in> dom m \<Longrightarrow> delete m k = (0, m(k := None))"
begin

lemma delete_snd: "snd (delete m k) = m(k := None)"
proof (cases "k \<in> dom m")
  case True
  then show ?thesis by (simp add: delete_present)
next
  case False
  then have m: "m(k := None) = m" by auto
  obtain rc m' where d: "delete m k = (rc, m')" by (cases "delete m k")
  then show ?thesis using m delete_ok [of m k m'] delete_fail [of m k rc m'] by (cases "rc = 0") simp_all
qed

end

definition ref_update :: "nat \<Rightarrow> ('k, 'v) map_update" where
  "ref_update n m k v fl =
     (if fl = BPF_NOEXIST \<and> m k \<noteq> None then (-17, m)
      else if fl = BPF_EXIST \<and> m k = None then (-2, m)
      else if m k = None \<and> n \<le> card (dom m) then (-7, m)
      else (0, m(k \<mapsto> v)))"

definition ref_delete :: "('k, 'v) map_delete" where
  "ref_delete m k = (if m k = None then (-2, m) else (0, m(k := None)))"

interpretation ref_map: bpf_hash_map_room "ref_update n" n for n
proof unfold_locales
  fix m m' :: "'a \<rightharpoonup> 'b" and k v fl
  assume "ref_update n m k v fl = (0, m')" "finite (dom m)" "card (dom m) \<le> n"
  then have "m' = m(k \<mapsto> v)" and "m k \<noteq> None \<or> card (dom m) < n"
    by (auto simp: ref_update_def split: if_splits)
  with \<open>finite (dom m)\<close> \<open>card (dom m) \<le> n\<close> show "card (dom m') \<le> n"
    by (auto simp: card_insert_if)
qed (auto simp: ref_update_def BPF_ANY_def BPF_NOEXIST_def BPF_EXIST_def split: if_splits)

interpretation ref_del: bpf_map_delete_present ref_delete
  by unfold_locales (auto simp: ref_delete_def split: if_splits)

section \<open>Typed reads under the memory law\<close>

lemma read_user_ok:
  assumes "probe_read (probe_read_user K) mem" "read_user K old a = (0, v)"
  shows "mem_word mem a = Some v"
  using assms probe_read.rd_ok [OF assms(1)]
  by (fastforce simp: read_user_def mem_word_def split: prod.splits)

lemma read_user_resident:
  fixes v :: "'w::len word"
  assumes "probe_read_resident (probe_read_user K) mem" "mem_word mem a = Some v"
  shows "read_user K old a = (0, v)"
  using assms probe_read_resident.rd_mapped [OF assms(1), of a "word_le old"]
  by (auto simp: read_user_def mem_word_def)

lemma read_user_det:
  assumes "probe_read (probe_read_user K) mem"
    and "read_user K old a = (0, v)" "read_user K old' a = (0, v')"
  shows "v' = v"
  using read_user_ok [OF assms(1,2)] read_user_ok [OF assms(1,3)] by simp

lemmas resident_read = probe_read_resident.axioms(1)

end
