(* ===== verification/Pystr.thy ===== *)
theory Pystr
  imports Pyoffsets Bpf_Env
begin

text \<open>
  \<open>ebpf/bpf/pystr.h\<close>: reading a CPython string object. A compact string keeps its data right
  behind the header; its code points are 1, 2 or 4 bytes wide (\<open>kind\<close>). The data is cut at
  the size of the destination buffer.

  The destination is an array in the program's state: the model returns its new contents. The
  header is the 40 bytes of \<open>PyASCIIObject\<close>; its bit fields are allocated from the low end
  of the word at offset 32.
\<close>

definition PYSTR_TYPE_1BYTE :: u8 where "PYSTR_TYPE_1BYTE = 1"
definition PYSTR_TYPE_2BYTE :: u8 where "PYSTR_TYPE_2BYTE = 2"
definition PYSTR_TYPE_4BYTE :: u8 where "PYSTR_TYPE_4BYTE = 4"
definition PYSTR_TYPE_ASCII :: u8 where "PYSTR_TYPE_ASCII = 8"
definition PYSTR_TYPE_UTF8 :: u8 where "PYSTR_TYPE_UTF8 = 16"
definition PYSTR_TYPE_NOT_COMPACT :: u8 where "PYSTR_TYPE_NOT_COMPACT = 32"

lemmas pystr_consts = PYSTR_TYPE_1BYTE_def PYSTR_TYPE_2BYTE_def PYSTR_TYPE_4BYTE_def
  PYSTR_TYPE_ASCII_def PYSTR_TYPE_UTF8_def PYSTR_TYPE_NOT_COMPACT_def

record py_str_type =
  str_type :: u8
  size_codepoints :: u8

text \<open>The header fields the code looks at.\<close>

record py_ascii_object =
  ao_length :: u64
  ao_kind :: u64
  ao_compact :: bool
  ao_ascii :: bool

definition sizeof_PyASCIIObject :: nat where
  "sizeof_PyASCIIObject = 40"

definition ascii_object :: "u8 list \<Rightarrow> py_ascii_object" where
  "ascii_object bs =
     (let state = le_word (take 4 (drop 32 bs)) :: u32
      in \<lparr>ao_length = le_word (take 8 (drop 16 bs)),
          ao_kind = ucast (take_bit 3 (drop_bit 2 state)),
          ao_compact = bit state 5,
          ao_ascii = bit state 6\<rparr>)"

definition pystr_size :: "py_ascii_object \<Rightarrow> u64 \<Rightarrow> u64 \<times> u8" where
  "pystr_size ob buf_size =
     (let sz_bytes = ao_kind ob * ao_length ob
      in if buf_size < sz_bytes
         then (buf_size, ucast (buf_size div ao_kind ob))
         else (sz_bytes, ucast (ao_length ob)))"

definition pystr_read ::
  "'z kernel_scheme \<Rightarrow> addr \<Rightarrow> py_offset_config \<Rightarrow> u8 list \<Rightarrow> u64 \<Rightarrow> py_str_type
     \<Rightarrow> int \<times> u8 list \<times> py_str_type" where
  "pystr_read K str offsets buf buf_size ty =
     (let (rc, hdr) = probe_read_user K (replicate sizeof_PyASCIIObject 0) str;
          ob = ascii_object hdr
      in if rc \<noteq> 0 then (-1, buf, ty)
         else if \<not> ao_compact ob then (0, buf, ty\<lparr>str_type := PYSTR_TYPE_NOT_COMPACT\<rparr>)
         else
           let (sz_bytes, ncp) = pystr_size ob buf_size;
               ty = ty\<lparr>size_codepoints := ncp\<rparr>;
               (ty, dat) =
                 (if ao_ascii ob
                  then (ty\<lparr>str_type := ucast (ao_kind ob) OR PYSTR_TYPE_ASCII\<rparr>,
                        ptr_off str (PyASCIIObject_size offsets))
                  else (ty\<lparr>str_type := ucast (ao_kind ob)\<rparr>,
                        ptr_off str (PyCompactUnicodeObject_size offsets)));
               (rc, bs) = probe_read_user K (take (unat sz_bytes) buf) dat;
               buf = overwrite bs buf
           in if rc \<noteq> 0 then (-1, buf, ty) else (0, buf, ty))"

section \<open>Sizes\<close>

lemma pystr_size_le: "pystr_size ob buf_size = (sz, n) \<Longrightarrow> sz \<le> buf_size"
  by (auto simp: pystr_size_def Let_def not_less split: if_splits)

text \<open>The division by \<open>kind\<close> is only reached with a non-zero divisor.\<close>

lemma pystr_div_safe: "buf_size < ao_kind ob * ao_length ob \<Longrightarrow> ao_kind ob \<noteq> 0"
  by auto

lemma unat_mult_pow2:
  fixes k n :: u64
  assumes "k \<in> {1, 2, 4}"
  shows "unat (k * n) = unat k * (unat n mod (2 ^ 64 div unat k))"
proof -
  have d: "unat k * (2 ^ 64 div unat k) = 2 ^ 64" using assms by auto
  have "unat (k * n) = unat k * unat n mod 2 ^ 64"
    by (simp add: unat_word_ariths)
  then show ?thesis
    using mult_mod_right [of "unat k" "unat n" "2 ^ 64 div unat k"] unfolding d by simp
qed

text \<open>
  For the three kinds CPython has and a buffer of at most 255 bytes, the recorded number of
  code points is exactly the number of whole code points copied, even where the product
  \<open>kind * length\<close> wraps around.
\<close>

lemma pystr_size_codepoints:
  assumes kind: "ao_kind ob \<in> {1, 2, 4}" and buf: "unat buf_size < 256"
    and eq: "pystr_size ob buf_size = (sz, n)"
  shows "unat n = unat sz div unat (ao_kind ob)"
proof (cases "buf_size < ao_kind ob * ao_length ob")
  case True
  with eq have sz: "sz = buf_size" and n: "n = ucast (buf_size div ao_kind ob)"
    by (auto simp: pystr_size_def)
  have "unat buf_size div unat (ao_kind ob) < 256"
    using buf by (meson div_le_dividend le_less_trans)
  then show ?thesis
    by (simp add: sz n unsigned_ucast_eq unat_div take_bit_nat_eq_self)
next
  case False
  with eq have sz: "sz = ao_kind ob * ao_length ob" and n: "n = ucast (ao_length ob)"
    by (auto simp: pystr_size_def)
  let ?k = "unat (ao_kind ob)" and ?l = "unat (ao_length ob)"
  have k: "?k \<in> {1, 2, 4}" using kind by auto
  have szk: "unat sz = ?k * (?l mod (2 ^ 64 div ?k))"
    unfolding sz by (rule unat_mult_pow2 [OF kind])
  have "unat sz < 256"
    using False buf sz by (simp add: not_less word_le_nat_alt)
  then have small: "?l mod (2 ^ 64 div ?k) < 256" using szk k by auto
  have "256 dvd 2 ^ 64 div ?k" using k by auto
  then have "?l mod 256 = ?l mod (2 ^ 64 div ?k) mod 256" by (simp add: mod_mod_cancel)
  with small have "?l mod 256 = ?l mod (2 ^ 64 div ?k)" by simp
  moreover have "unat n = ?l mod 256"
    by (simp add: n unsigned_ucast_eq take_bit_eq_mod)
  ultimately show ?thesis using szk k by auto
qed

section \<open>Buffers\<close>

text \<open>The two results of the ASCII case distinction, and the function in terms of them.\<close>

definition pystr_type_byte :: "py_ascii_object \<Rightarrow> u8" where
  "pystr_type_byte ob = (if ao_ascii ob then ucast (ao_kind ob) OR PYSTR_TYPE_ASCII else ucast (ao_kind ob))"

definition pystr_data :: "py_offset_config \<Rightarrow> addr \<Rightarrow> py_ascii_object \<Rightarrow> addr" where
  "pystr_data offsets str ob =
     ptr_off str (if ao_ascii ob then PyASCIIObject_size offsets else PyCompactUnicodeObject_size offsets)"

lemma pystr_read_eq:
  assumes "probe_read_user K (replicate sizeof_PyASCIIObject 0) str = (rc, hdr)"
    and "ascii_object hdr = ob" "pystr_size ob buf_size = (sz, n)"
    and "probe_read_user K (take (unat sz) buf) (pystr_data offsets str ob) = (rc2, bs)"
  shows "pystr_read K str offsets buf buf_size ty =
     (if rc \<noteq> 0 then (-1, buf, ty)
      else if \<not> ao_compact ob then (0, buf, ty\<lparr>str_type := PYSTR_TYPE_NOT_COMPACT\<rparr>)
      else (if rc2 \<noteq> 0 then -1 else 0, overwrite bs buf,
            \<lparr>str_type = pystr_type_byte ob, size_codepoints = n\<rparr>))"
  using assms
  by (cases "ao_ascii ob") (simp_all add: pystr_read_def pystr_type_byte_def pystr_data_def)

text \<open>The reads behind one call, named.\<close>

lemma pystr_read_reads:
  obtains rc hdr sz n rc2 bs
  where "probe_read_user K (replicate sizeof_PyASCIIObject 0) str = (rc, hdr)"
    and "pystr_size (ascii_object hdr) buf_size = (sz, n)"
    and "probe_read_user K (take (unat sz) buf) (pystr_data offsets str (ascii_object hdr)) = (rc2, bs)"
  by (meson surj_pair)

text \<open>The write stays inside the buffer: its length is kept.\<close>

lemma pystr_read_length:
  assumes mem: "probe_read (probe_read_user K) mem"
    and eq: "pystr_read K str offsets buf buf_size ty = (rc, buf', ty')"
  shows "length buf' = length buf"
proof -
  obtain rc1 hdr sz n rc2 bs
    where r: "probe_read_user K (replicate sizeof_PyASCIIObject 0) str = (rc1, hdr)"
      "pystr_size (ascii_object hdr) buf_size = (sz, n)"
      "probe_read_user K (take (unat sz) buf) (pystr_data offsets str (ascii_object hdr)) = (rc2, bs)"
    by (rule pystr_read_reads)
  have "length bs \<le> length buf" using probe_read.rd_length [OF mem r(3)] by simp
  with eq show ?thesis
    by (auto simp: pystr_read_eq [OF r(1) refl r(2,3)] split: if_splits)
qed

text \<open>A string object in user memory: its header and its data.\<close>

definition py_str_at ::
  "memory \<Rightarrow> py_offset_config \<Rightarrow> addr \<Rightarrow> py_ascii_object \<Rightarrow> u8 list \<Rightarrow> bool" where
  "py_str_at mem offsets str ob dat \<longleftrightarrow>
     (\<exists>hdr. mem_bytes mem str sizeof_PyASCIIObject = Some hdr \<and> ascii_object hdr = ob) \<and>
     mem_bytes mem (pystr_data offsets str ob) (length dat) = Some dat"

lemma pystr_read_resident:
  assumes mem: "probe_read_resident (probe_read_user K) mem"
    and str: "py_str_at mem offsets str ob dat"
    and compact: "ao_compact ob"
    and buf: "unat buf_size = length buf"
    and sz: "pystr_size ob buf_size = (sz, n)" and enough: "unat sz \<le> length dat"
  shows "pystr_read K str offsets buf buf_size ty =
     (0, overwrite (take (unat sz) dat) buf, \<lparr>str_type = pystr_type_byte ob, size_codepoints = n\<rparr>)"
proof -
  from str obtain hdr where hdr: "mem_bytes mem str sizeof_PyASCIIObject = Some hdr"
    and ob: "ascii_object hdr = ob" by (auto simp: py_str_at_def)
  have r1: "probe_read_user K (replicate sizeof_PyASCIIObject 0) str = (0, hdr)"
    using probe_read_resident.rd_mapped [OF mem] hdr by simp
  have len: "unat sz \<le> length buf"
    using pystr_size_le [OF sz] buf by (simp add: word_le_nat_alt)
  have "mem_bytes mem (pystr_data offsets str ob) (unat sz) = Some (take (unat sz) dat)"
    using str enough by (auto simp: py_str_at_def intro: mem_bytes_take)
  then have r2: "probe_read_user K (take (unat sz) buf) (pystr_data offsets str ob) = (0, take (unat sz) dat)"
    using probe_read_resident.rd_mapped [OF mem] len by (simp add: min_absorb2)
  show ?thesis
    using compact by (simp add: pystr_read_eq [OF r1 ob sz r2])
qed

text \<open>
  The outcome of a successful read is determined by the memory: the old contents of the
  buffer and of the type only show where nothing is written.
\<close>

lemma pystr_read_det:
  assumes mem: "probe_read (probe_read_user K) mem"
    and eq: "pystr_read K str offsets buf buf_size ty = (0, buf1, ty1)"
    and eq': "pystr_read K str offsets buf' buf_size ty' = (0, buf2, ty2)"
    and buf: "length buf' = length buf" "unat buf_size = length buf"
    and same: "size_codepoints ty' = size_codepoints ty"
  shows "ty2 = ty1 \<and> (\<exists>bs. length bs \<le> length buf \<and> buf1 = overwrite bs buf \<and> buf2 = overwrite bs buf')"
proof -
  obtain rc hdr sz n rc2 bs
    where r: "probe_read_user K (replicate sizeof_PyASCIIObject 0) str = (rc, hdr)"
      "pystr_size (ascii_object hdr) buf_size = (sz, n)"
      "probe_read_user K (take (unat sz) buf) (pystr_data offsets str (ascii_object hdr)) = (rc2, bs)"
    by (rule pystr_read_reads)
  obtain rc3 bs' where r3:
      "probe_read_user K (take (unat sz) buf') (pystr_data offsets str (ascii_object hdr)) = (rc3, bs')"
    by (meson surj_pair)
  note e = eq [unfolded pystr_read_eq [OF r(1) refl r(2,3)]]
    and e' = eq' [unfolded pystr_read_eq [OF r(1) refl r(2) r3]]
  show ?thesis
  proof (cases "ao_compact (ascii_object hdr)")
    case False
    with e e' same show ?thesis
      by (cases ty; cases ty') (auto simp: overwrite_def split: if_splits intro!: exI [where x = "[]"])
  next
    case True
    with e e' have z: "rc2 = 0" "rc3 = 0" by (auto split: if_splits)
    with r(3) r3 have "bs' = bs"
      using probe_read.rd_det [OF mem, of _ _ bs] buf(1) by simp
    moreover have "length bs \<le> length buf"
      using probe_read.rd_length [OF mem r(3)] by simp
    ultimately show ?thesis using e e' True z by (auto split: if_splits)
  qed
qed

text \<open>In resident memory the return value does not depend on the buffer either.\<close>

lemma pystr_read_rc_det:
  assumes mem: "probe_read_resident (probe_read_user K) mem" and buf: "length buf' = length buf"
  shows "fst (pystr_read K str offsets buf' buf_size ty') = fst (pystr_read K str offsets buf buf_size ty)"
proof -
  obtain rc hdr sz n rc2 bs
    where r: "probe_read_user K (replicate sizeof_PyASCIIObject 0) str = (rc, hdr)"
      "pystr_size (ascii_object hdr) buf_size = (sz, n)"
      "probe_read_user K (take (unat sz) buf) (pystr_data offsets str (ascii_object hdr)) = (rc2, bs)"
    by (rule pystr_read_reads)
  obtain rc3 bs' where r3:
      "probe_read_user K (take (unat sz) buf') (pystr_data offsets str (ascii_object hdr)) = (rc3, bs')"
    by (meson surj_pair)
  have "rc3 = 0 \<longleftrightarrow> rc2 = 0"
    using probe_read_resident.rd_rc_det [OF mem r(3) r3] buf by simp
  then show ?thesis
    by (simp add: pystr_read_eq [OF r(1) refl r(2,3)] pystr_read_eq [OF r(1) refl r(2) r3])
qed

text \<open>A whole string object and what reading it stores.\<close>

definition compact_str :: "memory \<Rightarrow> py_offset_config \<Rightarrow> addr \<Rightarrow> py_ascii_object \<Rightarrow> u8 list \<Rightarrow> bool" where
  "compact_str mem offsets str ob dat \<longleftrightarrow>
     py_str_at mem offsets str ob dat \<and> ao_compact ob \<and> ao_kind ob \<in> {1, 2, 4} \<and>
     unat (ao_kind ob) * unat (ao_length ob) = length dat \<and> length dat < 2 ^ 64"

definition str_descr :: "py_ascii_object \<Rightarrow> nat \<Rightarrow> py_str_type" where
  "str_descr ob n = \<lparr>str_type = pystr_type_byte ob, size_codepoints = of_nat (n div unat (ao_kind ob))\<rparr>"

lemma pystr_read_compact:
  assumes mem: "probe_read_resident (probe_read_user K) mem"
    and str: "compact_str mem offsets str ob dat"
    and buf: "unat buf_size = length buf" "length buf < 256"
  shows "pystr_read K str offsets buf buf_size ty =
       (0, overwrite (take (length buf) dat) buf, str_descr ob (min (length dat) (length buf)))"
proof -
  note s = str [unfolded compact_str_def]
  obtain sz n where sz: "pystr_size ob buf_size = (sz, n)" by (cases "pystr_size ob buf_size")
  have "unat (ao_kind ob * ao_length ob) = length dat"
    using s by (simp add: unat_word_ariths)
  then have m: "unat sz = min (length dat) (length buf)"
    using sz buf by (auto simp: pystr_size_def word_less_nat_alt Let_def split: if_splits)
  then have t: "take (unat sz) dat = take (length buf) dat" by (simp add: min_def)
  have "unat n = unat sz div unat (ao_kind ob)"
    using s buf sz by (intro pystr_size_codepoints) simp_all
  then have "n = of_nat (unat sz div unat (ao_kind ob))" by (metis of_nat_unat ucast_id)
  then show ?thesis
    using pystr_read_resident [OF mem _ _ buf(1) sz, of offsets str dat ty] s m t
    by (simp add: str_descr_def)
qed

section \<open>Properties\<close>

text \<open>C22: Reading a compact string object whose header and data are mapped succeeds, copies
  the first \<open>min (kind * length) buf_size\<close> data bytes to the front of the buffer, leaves the
  rest of the buffer alone, and records the kind with the ASCII bit and a code point count
  that is the number of whole code points copied.\<close>

theorem pystr_read_correct:
  assumes "probe_read_resident (probe_read_user K) mem"
    and "compact_str mem offsets str ob dat"
    and "unat buf_size = length buf" "length buf < 256"
  shows "\<exists>ty'. pystr_read K str offsets buf buf_size ty =
       (0, overwrite (take (length buf) dat) buf, ty') \<and>
     str_type ty' = pystr_type_byte ob \<and>
     unat (size_codepoints ty') = min (length dat) (length buf) div unat (ao_kind ob)"
proof -
  have "min (length dat) (length buf) div unat (ao_kind ob) < 256"
    using assms(4) by (meson div_le_dividend le_less_trans min.strict_coboundedI2)
  then show ?thesis
    using pystr_read_compact [OF assms, of ty] by (simp add: str_descr_def unsigned_of_nat take_bit_nat_eq_self)
qed

text \<open>Whatever the header says, the number of bytes \<open>pystr_read\<close> asks the kernel to
  store never exceeds the buffer size, and the division by the string kind is never a
  division by zero.\<close>

lemma pystr_size_safe:
  "fst (pystr_size ob buf_size) \<le> buf_size \<and>
   (ao_kind ob = 0 \<longrightarrow> pystr_size ob buf_size = (0, ucast (ao_length ob)))"
  using pystr_size_le [of ob buf_size] by (cases "pystr_size ob buf_size") (auto simp: pystr_size_def)

end
