(* ===== verification/Pysym.thy ===== *)
theory Pysym
  imports Pystr
begin

text \<open>
  The part of \<open>ebpf/bpf/pyperf.bpf.c\<close> that turns an interpreter frame into a symbol: the class
  name guessed from the first argument, the file name, the function name.

  \<open>try_read\<close> is the macro \<open>try_read_or_fail\<close>: read a local variable from user memory and
  leave the function with the given result when the helper reports an error. Trace output
  (\<open>log_debug\<close>, \<open>log_error\<close>) is not modelled.

  The symbol lives in per-CPU memory and is reused from frame to frame; the functions take its
  contents and return them.
\<close>

definition PYTHON_CLASS_NAME_LEN :: nat where "PYTHON_CLASS_NAME_LEN = 32"
definition PYTHON_FUNCTION_NAME_LEN :: nat where "PYTHON_FUNCTION_NAME_LEN = 64"
definition PYTHON_FILE_NAME_LEN :: nat where "PYTHON_FILE_NAME_LEN = 128"

lemmas name_lens = PYTHON_CLASS_NAME_LEN_def PYTHON_FUNCTION_NAME_LEN_def PYTHON_FILE_NAME_LEN_def

datatype py_error =
  PY_ERROR_GENERIC | PY_ERROR_THREAD_STATE | PY_ERROR_THREAD_STATE_NULL | PY_ERROR_TOP_FRAME
| PY_ERROR_FRAME_CODE | PY_ERROR_FRAME_PREV | PY_ERROR_SYMBOL | PY_ERROR_TLSBASE
| PY_ERROR_FIRST_ARG | PY_ERROR_CLASS_NAME | PY_ERROR_FILE_NAME | PY_ERROR_NAME
| PY_ERROR_FRAME_OWNER | PY_ERROR_FRAME_OWNER_INVALID

fun py_err :: "py_error \<Rightarrow> int" where
  "py_err PY_ERROR_GENERIC = 1"
| "py_err PY_ERROR_THREAD_STATE = 2"
| "py_err PY_ERROR_THREAD_STATE_NULL = 3"
| "py_err PY_ERROR_TOP_FRAME = 4"
| "py_err PY_ERROR_FRAME_CODE = 5"
| "py_err PY_ERROR_FRAME_PREV = 6"
| "py_err PY_ERROR_SYMBOL = 7"
| "py_err PY_ERROR_TLSBASE = 8"
| "py_err PY_ERROR_FIRST_ARG = 9"
| "py_err PY_ERROR_CLASS_NAME = 10"
| "py_err PY_ERROR_FILE_NAME = 11"
| "py_err PY_ERROR_NAME = 12"
| "py_err PY_ERROR_FRAME_OWNER = 13"
| "py_err PY_ERROR_FRAME_OWNER_INVALID = 14"

lemma py_err_pos: "0 < py_err e"
  by (cases e) simp_all

lemma py_err_inj: "py_err e = py_err e' \<Longrightarrow> e = e'"
  by (cases e; cases e') simp_all

record py_symbol =
  classname :: "u8 list"
  sname :: "u8 list"
  sfile :: "u8 list"
  classname_type :: py_str_type
  name_type :: py_str_type
  file_type :: py_str_type
  sym_padding :: py_str_type

definition wf_symbol :: "py_symbol \<Rightarrow> bool" where
  "wf_symbol s \<longleftrightarrow> length (classname s) = PYTHON_CLASS_NAME_LEN \<and>
     length (sname s) = PYTHON_FUNCTION_NAME_LEN \<and> length (sfile s) = PYTHON_FILE_NAME_LEN"

text \<open>The bytes of the structure, as the helper that clears it sees them.\<close>

definition str_type_bytes :: "py_str_type \<Rightarrow> u8 list" where
  "str_type_bytes t = [str_type t, size_codepoints t]"

definition symbol_bytes :: "py_symbol \<Rightarrow> u8 list" where
  "symbol_bytes s = classname s @ sname s @ sfile s @ str_type_bytes (classname_type s) @
     str_type_bytes (name_type s) @ str_type_bytes (file_type s) @ str_type_bytes (sym_padding s)"

definition str_type_at :: "u8 list \<Rightarrow> nat \<Rightarrow> py_str_type" where
  "str_type_at bs i = \<lparr>str_type = bs ! i, size_codepoints = bs ! Suc i\<rparr>"

definition symbol_of_bytes :: "u8 list \<Rightarrow> py_symbol" where
  "symbol_of_bytes bs =
     \<lparr>classname = take 32 bs, sname = take 64 (drop 32 bs), sfile = take 128 (drop 96 bs),
      classname_type = str_type_at bs 224, name_type = str_type_at bs 226,
      file_type = str_type_at bs 228, sym_padding = str_type_at bs 230\<rparr>"

definition sizeof_py_symbol :: nat where
  "sizeof_py_symbol = PYTHON_CLASS_NAME_LEN + PYTHON_FUNCTION_NAME_LEN + PYTHON_FILE_NAME_LEN + 4 * 2"

definition sizeof_bpf_perf_event_value :: nat where
  "sizeof_bpf_perf_event_value = 3 * 8"

section \<open>Reads with early return\<close>

definition try_read :: "'z kernel_scheme \<Rightarrow> 'w::len word \<Rightarrow> addr \<Rightarrow> 'r \<Rightarrow> ('w word \<Rightarrow> 'r) \<Rightarrow> 'r" where
  "try_read K old src fail cont =
     (case read_user K old src of (rc, v) \<Rightarrow> if rc \<noteq> 0 then fail else cont v)"

section \<open>The first argument\<close>

definition self_str :: "u8 list" where "self_str = [0x73, 0x65, 0x6c, 0x66]"
definition cls_str :: "u8 list" where "cls_str = [0x63, 0x6c, 0x73, 0x00]"

text \<open>\<open>*(int32_t *) symbol->name == *(int32_t *) str\<close>\<close>

definition int32_eq :: "u8 list \<Rightarrow> u8 list \<Rightarrow> bool" where
  "int32_eq buf str \<longleftrightarrow> (le_word (take 4 buf) :: s32) = le_word (take 4 str)"

definition first_arg_name ::
  "'z kernel_scheme \<Rightarrow> addr \<Rightarrow> py_offset_config \<Rightarrow> py_symbol \<Rightarrow> bool \<Rightarrow> bool
     \<Rightarrow> int \<times> py_symbol \<times> bool \<times> bool" where
  "first_arg_name K args_ptr offsets symbol first_self first_cls =
     (let symbol = symbol\<lparr>sname := overwrite (replicate 8 0) (sname symbol)\<rparr>;
          (rc, name, ty) = pystr_read K args_ptr offsets (sname symbol)
                             (of_nat PYTHON_FUNCTION_NAME_LEN) (name_type symbol);
          symbol = symbol\<lparr>sname := name, name_type := ty\<rparr>
      in if rc \<noteq> 0 then (-1, symbol, first_self, first_cls)
         else (0, symbol, int32_eq name self_str, int32_eq name cls_str))"

definition check_first_arg ::
  "'z kernel_scheme \<Rightarrow> addr \<Rightarrow> py_offset_config \<Rightarrow> py_symbol \<Rightarrow> bool \<Rightarrow> bool
     \<Rightarrow> int \<times> py_symbol \<times> bool \<times> bool" where
  "check_first_arg K code_ptr offsets symbol first_self first_cls =
     (let fail = (-1, symbol, first_self, first_cls)
      in try_read K (uninit K ''args_ptr'')
           (ptr_off code_ptr (if PyCodeObject_co_varnames offsets = -1
              then PyCodeObject_co_localsplusnames offsets else PyCodeObject_co_varnames offsets))
           fail
      (\<lambda>args_ptr. if args_ptr = 0 then (0, symbol, False, False)
      else try_read K (uninit K ''args_size'') (ptr_off args_ptr (PyVarObject_ob_size offsets)) fail
      (\<lambda>args_size. if args_size < 1 then (0, symbol, False, False)
      else try_read K args_ptr (ptr_off args_ptr (PyTupleObject_ob_item offsets)) fail
      (\<lambda>args_ptr. first_arg_name K args_ptr offsets symbol first_self first_cls))))"

section \<open>The first argument as a cell\<close>

fun cell_loop ::
  "'z kernel_scheme \<Rightarrow> addr \<Rightarrow> py_offset_config \<Rightarrow> addr \<Rightarrow> s32 \<Rightarrow> s64 \<Rightarrow> s64 \<Rightarrow> nat list \<Rightarrow> int \<times> addr" where
  "cell_loop K frame_ptr offsets co_cell2arg co_nlocals co_cellvars_size argno [] = (0, 0)"
| "cell_loop K frame_ptr offsets co_cell2arg co_nlocals co_cellvars_size argno (i # is) =
     (if sint co_cellvars_size \<le> int i then (0, 0)
      else try_read K argno (co_cell2arg + of_nat i * 8) (-1, 0)
      (\<lambda>argno. if argno \<noteq> 0
        then cell_loop K frame_ptr offsets co_cell2arg co_nlocals co_cellvars_size argno is
      else try_read K (0 :: u64)
        (ptr_off frame_ptr (VFrame_localsplus offsets) + scast (co_nlocals + of_nat i) * 8) (-1, 0)
      (\<lambda>first_arg_cell. if first_arg_cell = 0 then (0, 0)
      else try_read K (0 :: u64) (ptr_off first_arg_cell (PyObject_ob_type offsets)) (-1, 0)
      (\<lambda>ob_type. if ob_type \<noteq> PyCell_Type offsets then (0, 0) else (0, first_arg_cell)))))"

definition get_first_arg_cell ::
  "'z kernel_scheme \<Rightarrow> addr \<Rightarrow> addr \<Rightarrow> py_offset_config \<Rightarrow> int \<times> addr" where
  "get_first_arg_cell K frame_ptr code_ptr offsets =
     (if PyCodeObject__co_cell2arg offsets = -1 \<or> PyCodeObject__co_cellvars offsets = -1 then (0, 0)
      else try_read K (0 :: u64) (ptr_off code_ptr (PyCodeObject__co_cellvars offsets)) (-1, 0)
      (\<lambda>co_cellvars. try_read K (0 :: u64) (ptr_off code_ptr (PyCodeObject__co_cell2arg offsets)) (-1, 0)
      (\<lambda>co_cell2arg. try_read K (0 :: s32) (ptr_off code_ptr (PyCodeObject__co_nlocals offsets)) (-1, 0)
      (\<lambda>co_nlocals. if co_cellvars = 0 \<or> co_cell2arg = 0 then (0, 0)
      else try_read K (0 :: s64) (ptr_off co_cellvars (PyVarObject_ob_size offsets)) (-1, 0)
      (\<lambda>co_cellvars_size. if sint co_cellvars_size < 1 then (0, 0)
      else cell_loop K frame_ptr offsets co_cell2arg co_nlocals co_cellvars_size 0 [0..<8])))))"

section \<open>The class name\<close>

definition empty_classname :: "py_symbol \<Rightarrow> py_symbol" where
  "empty_classname symbol =
     symbol\<lparr>classname_type := \<lparr>str_type = PYSTR_TYPE_1BYTE OR PYSTR_TYPE_ASCII, size_codepoints = 0\<rparr>\<rparr>"

definition read_tp_name ::
  "'z kernel_scheme \<Rightarrow> py_offset_config \<Rightarrow> py_symbol \<Rightarrow> addr \<Rightarrow> int \<times> py_symbol" where
  "read_tp_name K offsets symbol ptr =
     try_read K ptr (ptr_off ptr (PyTypeObject_tp_name offsets)) (-1, symbol)
     (\<lambda>ptr.
       let (len, bs) = probe_read_user_str K (classname symbol) ptr;
           symbol = symbol\<lparr>classname := bs\<rparr>
       in if len < 0 then (-1, symbol)
          else (0, symbol\<lparr>classname_type :=
                     \<lparr>str_type = PYSTR_TYPE_UTF8, size_codepoints = of_int (len - 1)\<rparr>\<rparr>))"

definition get_class_name ::
  "'z kernel_scheme \<Rightarrow> addr \<Rightarrow> addr \<Rightarrow> py_offset_config \<Rightarrow> bool \<Rightarrow> py_symbol \<Rightarrow> int \<times> py_symbol" where
  "get_class_name K cur_frame code_ptr offsets first_self symbol =
     try_read K (0 :: u64) (ptr_off cur_frame (VFrame_localsplus offsets)) (-1, symbol)
     (\<lambda>ptr.
       let (rc, ptr) = (if ptr = 0 then get_first_arg_cell K cur_frame code_ptr offsets else (0, ptr))
       in if rc \<noteq> 0 then (-1, symbol)
       else if ptr = 0 then (0, empty_classname symbol)
       else try_read K (0 :: u64) (ptr_off ptr (PyObject_ob_type offsets)) (-1, symbol)
       (\<lambda>ptr_ob_type.
         let class_of = (\<lambda>ptr.
               if first_self
               then try_read K ptr (ptr_off ptr (PyObject_ob_type offsets)) (-1, symbol)
                      (read_tp_name K offsets symbol)
               else read_tp_name K offsets symbol ptr)
         in if ptr_ob_type = PyCell_Type offsets
            then try_read K ptr (ptr_off ptr (PyCellObject_ob_ref offsets)) (-1, symbol)
                   (\<lambda>ptr. if ptr = 0 then (0, empty_classname symbol) else class_of ptr)
            else class_of ptr))"

section \<open>Names and frames\<close>

definition clear_symbol :: "'z kernel_scheme \<Rightarrow> py_symbol \<Rightarrow> py_symbol" where
  "clear_symbol K symbol = symbol_of_bytes (snd (perf_prog_read_value K (symbol_bytes symbol)))"

text \<open>
  The two name reads share the local \<open>pystr_ptr\<close>, whose value after the first is returned
  and passed to the second.
\<close>

definition read_file_name ::
  "'z kernel_scheme \<Rightarrow> addr \<Rightarrow> py_offset_config \<Rightarrow> py_symbol \<Rightarrow> int \<times> py_symbol \<times> addr" where
  "read_file_name K code_ptr offsets symbol =
     try_read K (0 :: u64) (ptr_off code_ptr (PyCodeObject_co_filename offsets))
       (- py_err PY_ERROR_FILE_NAME, symbol, 0)
     (\<lambda>pystr_ptr. if pystr_ptr = 0
       then (0, symbol\<lparr>file_type :=
                 \<lparr>str_type = PYSTR_TYPE_1BYTE OR PYSTR_TYPE_ASCII, size_codepoints = 0\<rparr>\<rparr>, pystr_ptr)
       else let (rc, file, ty) = pystr_read K pystr_ptr offsets (sfile symbol)
                                   (of_nat PYTHON_FILE_NAME_LEN) (file_type symbol);
                symbol = symbol\<lparr>sfile := file, file_type := ty\<rparr>
            in if rc \<noteq> 0 then (- py_err PY_ERROR_FILE_NAME, symbol, pystr_ptr)
               else (0, symbol, pystr_ptr))"

definition read_name ::
  "'z kernel_scheme \<Rightarrow> addr \<Rightarrow> py_offset_config \<Rightarrow> py_symbol \<Rightarrow> addr \<Rightarrow> int \<times> py_symbol" where
  "read_name K code_ptr offsets symbol pystr_ptr =
     try_read K pystr_ptr (ptr_off code_ptr (PyCodeObject_co_name offsets))
       (- py_err PY_ERROR_NAME, symbol)
     (\<lambda>pystr_ptr.
       let (rc, name, ty) = pystr_read K pystr_ptr offsets (sname symbol)
                              (of_nat PYTHON_FUNCTION_NAME_LEN) (name_type symbol);
           symbol = symbol\<lparr>sname := name, name_type := ty\<rparr>
       in if rc \<noteq> 0 then (- py_err PY_ERROR_NAME, symbol) else (0, symbol))"

definition get_names ::
  "'z kernel_scheme \<Rightarrow> addr \<Rightarrow> addr \<Rightarrow> py_offset_config \<Rightarrow> py_symbol \<Rightarrow> int \<times> py_symbol" where
  "get_names K cur_frame code_ptr offsets symbol =
     (let (rc, symbol, first_self, first_cls) = check_first_arg K code_ptr offsets symbol False False
      in if rc \<noteq> 0 then (- py_err PY_ERROR_FIRST_ARG, symbol)
      else
        let symbol = clear_symbol K symbol;
            (rc, symbol) = (if first_self \<or> first_cls
                            then get_class_name K cur_frame code_ptr offsets first_self symbol
                            else (0, symbol))
        in if rc \<noteq> 0 then (- py_err PY_ERROR_CLASS_NAME, symbol)
        else
          let (rc, symbol, pystr_ptr) = read_file_name K code_ptr offsets symbol
          in if rc \<noteq> 0 then (rc, symbol)
          else read_name K code_ptr offsets symbol pystr_ptr)"

text \<open>
  A frame: first who owns it (from CPython 3.11 on), then its code object, its names, and the
  next frame. The three results are the return value, the new frame pointer and the symbol.
\<close>

definition frame_names ::
  "'z kernel_scheme \<Rightarrow> addr \<Rightarrow> addr \<Rightarrow> py_offset_config \<Rightarrow> py_symbol \<Rightarrow> int \<times> addr \<times> py_symbol" where
  "frame_names K frame_ptr cur_frame offsets symbol =
     try_read K (uninit K ''code_ptr'') (ptr_off cur_frame (VFrame_code offsets))
       (- py_err PY_ERROR_FRAME_CODE, frame_ptr, symbol)
     (\<lambda>code_ptr. if code_ptr = 0 then (0, frame_ptr, symbol)
     else
       let (res, symbol) = get_names K cur_frame code_ptr offsets symbol
       in if res < 0 then (res, frame_ptr, symbol)
       else
         let (rc, frame_ptr) = read_user K frame_ptr (ptr_off cur_frame (VFrame_previous offsets))
         in if rc \<noteq> 0 then (- py_err PY_ERROR_FRAME_PREV, frame_ptr, symbol)
            else (1, frame_ptr, symbol))"

definition get_frame_data ::
  "'z kernel_scheme \<Rightarrow> addr \<Rightarrow> py_offset_config \<Rightarrow> py_symbol \<Rightarrow> int \<times> addr \<times> py_symbol" where
  "get_frame_data K frame_ptr offsets symbol =
     (let cur_frame = frame_ptr
      in if cur_frame = 0 then (0, frame_ptr, symbol)
      else if PyInterpreterFrame_owner offsets = -1 then frame_names K frame_ptr cur_frame offsets symbol
      else try_read K (0 :: u8) (ptr_off cur_frame (PyInterpreterFrame_owner offsets))
             (- py_err PY_ERROR_FRAME_OWNER, frame_ptr, symbol)
      (\<lambda>owner. if owner = frame_owner_val FRAME_OWNED_BY_CSTACK
        then
          let (rc, frame_ptr) = read_user K frame_ptr (ptr_off cur_frame (VFrame_previous offsets))
          in if rc \<noteq> 0 then (- py_err PY_ERROR_FRAME_PREV, frame_ptr, symbol)
          else
            let cur_frame = frame_ptr
            in if cur_frame = 0 then (0, frame_ptr, symbol)
               else frame_names K frame_ptr cur_frame offsets symbol
        else if owner \<noteq> frame_owner_val FRAME_OWNED_BY_THREAD \<and>
                owner \<noteq> frame_owner_val FRAME_OWNED_BY_GENERATOR \<and>
                owner \<noteq> frame_owner_val FRAME_OWNED_BY_FRAME_OBJECT
        then (- py_err PY_ERROR_FRAME_OWNER_INVALID, frame_ptr, symbol)
        else frame_names K frame_ptr cur_frame offsets symbol))"

section \<open>Early returns\<close>

text \<open>Case analysis on a read, as a rule for the splitter.\<close>

lemma try_read_split:
  "P (try_read K old src fail cont) \<longleftrightarrow>
     (\<forall>rc v. read_user K old src = (rc, v) \<longrightarrow> (rc \<noteq> 0 \<longrightarrow> P fail) \<and> (rc = 0 \<longrightarrow> P (cont v)))"
  by (cases "read_user K old src") (simp add: try_read_def)

lemma try_read_split_asm:
  "P (try_read K old src fail cont) \<longleftrightarrow>
     \<not> (\<exists>rc v. read_user K old src = (rc, v) \<and> (rc \<noteq> 0 \<and> \<not> P fail \<or> rc = 0 \<and> \<not> P (cont v)))"
  by (cases "read_user K old src") (auto simp: try_read_def)

lemmas try_splits = try_read_split try_read_split_asm

lemma try_read_resident:
  fixes v :: "'w::len word"
  assumes "probe_read_resident (probe_read_user K) mem" "mem_word mem src = Some v"
  shows "try_read K old src fail cont = cont v"
  using read_user_resident [OF assms] by (simp add: try_read_def)

section \<open>The structure keeps its shape\<close>

lemma length_of_nat_lens [simp]:
  "unat (of_nat PYTHON_FUNCTION_NAME_LEN :: u64) = PYTHON_FUNCTION_NAME_LEN"
  "unat (of_nat PYTHON_FILE_NAME_LEN :: u64) = PYTHON_FILE_NAME_LEN"
  by (simp_all add: name_lens)

lemma length_symbol_bytes: "wf_symbol s \<Longrightarrow> length (symbol_bytes s) = sizeof_py_symbol"
  by (simp add: wf_symbol_def symbol_bytes_def str_type_bytes_def sizeof_py_symbol_def)

lemma symbol_of_symbol_bytes: "wf_symbol s \<Longrightarrow> symbol_of_bytes (symbol_bytes s) = s"
  by (cases s)
     (simp add: wf_symbol_def symbol_of_bytes_def symbol_bytes_def str_type_bytes_def str_type_at_def
       nth_append name_lens)

lemma wf_symbol_of_bytes: "length bs = sizeof_py_symbol \<Longrightarrow> wf_symbol (symbol_of_bytes bs)"
  by (simp add: wf_symbol_def symbol_of_bytes_def sizeof_py_symbol_def name_lens)

text \<open>
  The helper that clears the symbol. The source relies on it storing zeros and failing
  whenever the size is not that of a \<open>bpf_perf_event_value\<close>.
\<close>

locale clears_buffer =
  fixes pv :: "u8 list \<Rightarrow> int \<times> u8 list"
  assumes clears: "length bs \<noteq> sizeof_bpf_perf_event_value \<Longrightarrow>
    \<exists>rc < 0. pv bs = (rc, replicate (length bs) 0)"

definition ref_perf_prog_read_value :: "u8 list \<Rightarrow> int \<times> u8 list" where
  "ref_perf_prog_read_value bs =
     (if length bs = sizeof_bpf_perf_event_value then (0, bs) else (-22, replicate (length bs) 0))"

interpretation ref_clear: clears_buffer ref_perf_prog_read_value
  by unfold_locales (simp add: ref_perf_prog_read_value_def)

definition zero_symbol :: py_symbol where
  "zero_symbol = symbol_of_bytes (replicate sizeof_py_symbol 0)"

lemma wf_zero_symbol [simp]: "wf_symbol zero_symbol"
  by (simp add: zero_symbol_def wf_symbol_of_bytes)

lemma sizes_differ: "sizeof_py_symbol \<noteq> sizeof_bpf_perf_event_value"
  by (simp add: sizeof_py_symbol_def sizeof_bpf_perf_event_value_def name_lens)

lemma clear_symbol_zero:
  assumes "clears_buffer (perf_prog_read_value K)" "wf_symbol s"
  shows "clear_symbol K s = zero_symbol"
  using clears_buffer.clears [OF assms(1), of "symbol_bytes s"] assms(2) sizes_differ
  by (auto simp: clear_symbol_def zero_symbol_def length_symbol_bytes)

text \<open>Every field the functions store keeps its length.\<close>

lemma wf_symbol_upd:
  "wf_symbol s \<Longrightarrow> length b = length (sname s) \<Longrightarrow> wf_symbol (s\<lparr>sname := b, name_type := t\<rparr>)"
  "wf_symbol s \<Longrightarrow> length b = length (sfile s) \<Longrightarrow> wf_symbol (s\<lparr>sfile := b, file_type := t\<rparr>)"
  "wf_symbol s \<Longrightarrow> length b = length (classname s) \<Longrightarrow> wf_symbol (s\<lparr>classname := b\<rparr>)"
  "wf_symbol s \<Longrightarrow> wf_symbol (s\<lparr>classname_type := t\<rparr>)"
  "wf_symbol s \<Longrightarrow> wf_symbol (s\<lparr>file_type := t\<rparr>)"
  by (simp_all add: wf_symbol_def)

lemma read_file_name_wf:
  assumes mem: "probe_read (probe_read_user K) mem" and wf: "wf_symbol s"
  shows "wf_symbol (fst (snd (read_file_name K code offsets s)))"
  using wf unfolding read_file_name_def Let_def
  by (auto simp: wf_symbol_def split: try_read_split prod.split dest!: pystr_read_length [OF mem])

lemma read_name_wf:
  assumes mem: "probe_read (probe_read_user K) mem" and wf: "wf_symbol s"
  shows "wf_symbol (snd (read_name K code offsets s p))"
  using wf unfolding read_name_def Let_def
  by (auto simp: wf_symbol_def split: try_read_split prod.split dest!: pystr_read_length [OF mem])

lemma first_arg_name_wf:
  assumes mem: "probe_read (probe_read_user K) mem" and wf: "wf_symbol s"
  shows "wf_symbol (fst (snd (first_arg_name K p offsets s fs fc)))"
  using wf unfolding first_arg_name_def Let_def
  by (auto split: prod.split simp: wf_symbol_def name_lens dest!: pystr_read_length [OF mem])

text \<open>A property of the symbol that both continuations of a read have.\<close>

lemma try_read_wf2:
  "wf_symbol (snd fail) \<Longrightarrow> (\<And>v. wf_symbol (snd (cont v))) \<Longrightarrow>
     wf_symbol (snd (try_read K old src fail cont))"
  by (simp add: try_read_def split: prod.split)

lemma try_read_wf3:
  "wf_symbol (fst (snd fail)) \<Longrightarrow> (\<And>v. wf_symbol (fst (snd (cont v)))) \<Longrightarrow>
     wf_symbol (fst (snd (try_read K old src fail cont)))"
  by (simp add: try_read_def split: prod.split)

lemma try_read_fst:
  "fst fail' = fst fail \<Longrightarrow> (\<And>v. fst (cont' v) = fst (cont v)) \<Longrightarrow>
     fst (try_read K old src fail' cont') = fst (try_read K old src fail cont)"
  by (simp add: try_read_def split: prod.split)

lemma check_first_arg_wf:
  assumes mem: "probe_read (probe_read_user K) mem" and wf: "wf_symbol s"
  shows "wf_symbol (fst (snd (check_first_arg K code offsets s fs fc)))"
  unfolding check_first_arg_def Let_def
  by (intro try_read_wf3) (simp_all add: wf first_arg_name_wf [OF mem wf] try_read_wf3)

lemma read_tp_name_wf:
  assumes str: "probe_read_str (probe_read_user_str K) mem" and wf: "wf_symbol s"
  shows "wf_symbol (snd (read_tp_name K offsets s p))"
proof -
  have ne: "classname s \<noteq> []" using wf by (auto simp: wf_symbol_def name_lens)
  have len: "length bs = length (classname s)"
    if "probe_read_user_str K (classname s) p = (n, bs)" for p n bs
    using ne probe_read_str.rds_ok [OF str that] probe_read_str.rds_fail [OF str that]
    by (cases "0 \<le> n") auto
  show ?thesis
    using wf unfolding read_tp_name_def Let_def
    by (simp split: try_read_split prod.split) (auto intro!: wf_symbol_upd dest: len)
qed

lemma get_class_name_wf:
  assumes str: "probe_read_str (probe_read_user_str K) mem" and wf: "wf_symbol s"
  shows "wf_symbol (snd (get_class_name K fr code offsets fs s))"
proof -
  have e: "wf_symbol (empty_classname s)" using wf by (simp add: empty_classname_def wf_symbol_def)
  show ?thesis
    unfolding get_class_name_def Let_def
    by (intro try_read_wf2) (simp_all add: wf e read_tp_name_wf [OF str wf] try_read_wf2 split: prod.split)
qed

lemmas names_wf = check_first_arg_wf get_class_name_wf read_file_name_wf read_name_wf

lemma get_names_wf:
  assumes mem: "probe_read (probe_read_user K) mem"
    and str: "probe_read_str (probe_read_user_str K) mem'"
    and clr: "clears_buffer (perf_prog_read_value K)" and wf: "wf_symbol s"
  shows "wf_symbol (snd (get_names K fr code offsets s))"
proof -
  obtain rc s1 fs fc where c: "check_first_arg K code offsets s False False = (rc, s1, fs, fc)"
    by (metis surj_pair)
  with check_first_arg_wf [OF mem wf, of code offsets False False] have s1: "wf_symbol s1" by simp
  let ?z = "clear_symbol K s1"
  have z: "wf_symbol ?z" using clear_symbol_zero [OF clr s1] by simp
  obtain rc2 s2 where g: "(if fs \<or> fc then get_class_name K fr code offsets fs ?z else (0, ?z)) = (rc2, s2)"
    by (metis surj_pair)
  have s2: "wf_symbol s2"
    using g z get_class_name_wf [OF str z, of fr code offsets fs] by (auto split: if_splits)
  obtain rc3 s3 p where f: "read_file_name K code offsets s2 = (rc3, s3, p)"
    by (metis surj_pair)
  have s3: "wf_symbol s3" using read_file_name_wf [OF mem s2, of code offsets] f by simp
  show ?thesis
    using s1 s2 s3 read_name_wf [OF mem s3, of code offsets p]
    by (simp add: get_names_def c g f Let_def)
qed

section \<open>The symbol does not depend on what was in the buffer\<close>

lemma pystr_read_prefix:
  assumes mem: "probe_read (probe_read_user K) mem"
    and eq: "pystr_read K str offsets buf n t = (0, buf1, t1)"
    and eq': "pystr_read K str offsets buf' n t' = (0, buf2, t2)"
    and buf: "length buf' = length buf" "take k buf' = take k buf" "unat n = length buf"
  shows "take k buf2 = take k buf1"
proof -
  obtain rc hdr sz m rc2 bs
    where r: "probe_read_user K (replicate sizeof_PyASCIIObject 0) str = (rc, hdr)"
      "pystr_size (ascii_object hdr) n = (sz, m)"
      "probe_read_user K (take (unat sz) buf) (pystr_data offsets str (ascii_object hdr)) = (rc2, bs)"
    by (rule pystr_read_reads)
  obtain rc3 bs' where r3:
      "probe_read_user K (take (unat sz) buf') (pystr_data offsets str (ascii_object hdr)) = (rc3, bs')"
    by (meson surj_pair)
  note e = eq [unfolded pystr_read_eq [OF r(1) refl r(2,3)]]
    and e' = eq' [unfolded pystr_read_eq [OF r(1) refl r(2) r3]]
  show ?thesis
  proof (cases "ao_compact (ascii_object hdr)")
    case False
    with e e' buf(2) show ?thesis by (auto split: if_splits)
  next
    case True
    with e e' have z: "rc2 = 0" "rc3 = 0" and b: "buf1 = overwrite bs buf" "buf2 = overwrite bs' buf'"
      by (auto split: if_splits)
    with r(3) r3 have "bs' = bs"
      using probe_read.rd_det [OF mem, of _ _ bs] buf(1) by simp
    moreover have "take k (bs @ drop (length bs) buf') = take k (bs @ drop (length bs) buf)"
      using buf(2) by (cases "length bs \<le> k") (auto simp: drop_take [symmetric] intro: arg_cong [where f = "drop _"])
    ultimately show ?thesis using b by (simp add: overwrite_def)
  qed
qed

lemma first_arg_name_det:
  assumes mem: "probe_read (probe_read_user K) mem" and wf: "wf_symbol s" "wf_symbol s'"
    and eq: "first_arg_name K p offsets s a b = (0, s1, fs, fc)"
    and eq': "first_arg_name K p offsets s' a b = (0, s2, fs', fc')"
  shows "fs' = fs \<and> fc' = fc"
proof -
  let ?b = "overwrite (replicate 8 0) (sname s)" and ?b' = "overwrite (replicate 8 0) (sname s')"
  let ?n = "of_nat PYTHON_FUNCTION_NAME_LEN :: u64"
  have b: "length ?b' = length ?b" "unat ?n = length ?b"
    using wf by (simp_all add: wf_symbol_def name_lens)
  have t: "take 4 ?b' = take 4 ?b" by (simp add: overwrite_def)
  obtain n1 t1 where p1: "pystr_read K p offsets ?b ?n (name_type s) = (0, n1, t1)"
    and f: "fs = int32_eq n1 self_str" "fc = int32_eq n1 cls_str"
    using eq by (auto simp: first_arg_name_def Let_def split: prod.splits if_splits)
  obtain n2 t2 where p2: "pystr_read K p offsets ?b' ?n (name_type s') = (0, n2, t2)"
    and f': "fs' = int32_eq n2 self_str" "fc' = int32_eq n2 cls_str"
    using eq' by (auto simp: first_arg_name_def Let_def split: prod.splits if_splits)
  have "take 4 n2 = take 4 n1" by (rule pystr_read_prefix [OF mem p1 p2 b(1) t b(2)])
  then show ?thesis by (simp add: f f' int32_eq_def)
qed

text \<open>The address of the names tuple, and the reads behind a successful check.\<close>

definition varnames_ptr :: "py_offset_config \<Rightarrow> addr \<Rightarrow> addr" where
  "varnames_ptr offsets code_ptr =
     ptr_off code_ptr (if PyCodeObject_co_varnames offsets = -1
       then PyCodeObject_co_localsplusnames offsets else PyCodeObject_co_varnames offsets)"

lemma check_first_arg_ok:
  assumes "check_first_arg K code offsets s a b = (0, s1, fs, fc)"
  shows "\<exists>p. read_user K (uninit K ''args_ptr'') (varnames_ptr offsets code) = (0, p) \<and>
    (if p = 0 then \<not> fs \<and> \<not> fc
     else \<exists>n. read_user K (uninit K ''args_size'') (ptr_off p (PyVarObject_ob_size offsets)) = (0, n) \<and>
       (if n < 1 then \<not> fs \<and> \<not> fc
        else \<exists>q. read_user K p (ptr_off p (PyTupleObject_ob_item offsets)) = (0, q) \<and>
          first_arg_name K q offsets s a b = (0, s1, fs, fc)))"
  using assms
  by (auto simp: check_first_arg_def varnames_ptr_def try_read_def Let_def split: prod.splits if_splits)

lemma check_first_arg_det:
  assumes mem: "probe_read (probe_read_user K) mem" and wf: "wf_symbol s" "wf_symbol s'"
    and eq: "check_first_arg K code offsets s a b = (0, s1, fs, fc)"
    and eq': "check_first_arg K code offsets s' a b = (0, s2, fs', fc')"
  shows "fs' = fs \<and> fc' = fc"
proof -
  note det = first_arg_name_det [OF mem wf]
  obtain p where p: "read_user K (uninit K ''args_ptr'') (varnames_ptr offsets code) = (0, p)"
    using check_first_arg_ok [OF eq] by blast
  note ok = check_first_arg_ok [OF eq, unfolded p prod.inject] check_first_arg_ok [OF eq', unfolded p prod.inject]
  show ?thesis
  proof (cases "p = 0")
    case True
    then show ?thesis using ok by auto
  next
    case False
    then obtain n where n: "read_user K (uninit K ''args_size'') (ptr_off p (PyVarObject_ob_size offsets)) = (0, n)"
      using ok(1) by auto
    show ?thesis
    proof (cases "n < 1")
      case True
      then show ?thesis using ok False n by auto
    next
      case n1: False
      then obtain q where "first_arg_name K q offsets s a b = (0, s1, fs, fc)"
          "first_arg_name K q offsets s' a b = (0, s2, fs', fc')"
        using ok False n by auto
      then show ?thesis by (rule det)
    qed
  qed
qed

lemma get_names_det:
  assumes mem: "probe_read (probe_read_user K) mem"
    and clr: "clears_buffer (perf_prog_read_value K)" and wf: "wf_symbol s" "wf_symbol s'"
    and eq: "get_names K fr code offsets s = (0, r)" and eq': "get_names K fr code offsets s' = (0, r')"
  shows "r' = r"
proof -
  obtain rc s1 fs fc where c: "check_first_arg K code offsets s False False = (rc, s1, fs, fc)"
    by (metis surj_pair)
  obtain rc' s1' fs' fc' where c': "check_first_arg K code offsets s' False False = (rc', s1', fs', fc')"
    by (metis surj_pair)
  have rc: "rc = 0" "rc' = 0"
    using eq eq' by (auto simp: get_names_def c c' split: if_splits)
  then have "fs' = fs" "fc' = fc"
    using check_first_arg_det [OF mem wf] c c' by blast+
  moreover have "clear_symbol K s1 = zero_symbol" "clear_symbol K s1' = zero_symbol"
    using check_first_arg_wf [OF mem wf(1), of code offsets False False]
      check_first_arg_wf [OF mem wf(2), of code offsets False False] c c'
      clear_symbol_zero [OF clr] by simp_all
  ultimately show ?thesis
    using eq eq' rc by (simp add: get_names_def c c')
qed

lemma get_names_nonpos: "fst (get_names K fr code offsets s) \<le> 0"
proof -
  obtain rc s1 fs fc where c: "check_first_arg K code offsets s False False = (rc, s1, fs, fc)"
    by (metis surj_pair)
  obtain rc2 s2 where g:
    "(if fs \<or> fc then get_class_name K fr code offsets fs (clear_symbol K s1) else (0, clear_symbol K s1)) = (rc2, s2)"
    by (metis surj_pair)
  obtain rc3 s3 p where f: "read_file_name K code offsets s2 = (rc3, s3, p)"
    by (metis surj_pair)
  have "fst (read_file_name K code offsets s2) \<le> 0"
    by (auto simp: read_file_name_def try_read_def Let_def split: prod.split)
  moreover have "fst (read_name K code offsets s3 p) \<le> 0"
    by (auto simp: read_name_def try_read_def Let_def split: prod.split)
  ultimately show ?thesis
    by (simp add: get_names_def c g f Let_def)
qed

lemma frame_names_ok:
  assumes "frame_names K fp fr offsets s = (1, fp', r)"
  shows "\<exists>code. read_user K (uninit K ''code_ptr'') (ptr_off fr (VFrame_code offsets)) = (0, code) \<and>
      code \<noteq> 0 \<and> get_names K fr code offsets s = (0, r) \<and>
      read_user K fp (ptr_off fr (VFrame_previous offsets)) = (0, fp')"
proof -
  obtain rc code where c: "read_user K (uninit K ''code_ptr'') (ptr_off fr (VFrame_code offsets)) = (rc, code)"
    by (metis surj_pair)
  obtain n t where g: "get_names K fr code offsets s = (n, t)"
    by (metis surj_pair)
  have "n \<le> 0" using get_names_nonpos [of K fr code offsets s] g by simp
  then show ?thesis
    using assms g c by (auto simp: frame_names_def try_read_def Let_def split: prod.splits if_splits)
qed

lemma frame_names_det:
  assumes mem: "probe_read (probe_read_user K) mem"
    and clr: "clears_buffer (perf_prog_read_value K)" and wf: "wf_symbol s" "wf_symbol s'"
    and eq: "frame_names K fp fr offsets s = (1, fp1, r)"
    and eq': "frame_names K fp fr offsets s' = (1, fp2, r')"
  shows "fp2 = fp1 \<and> r' = r"
  using frame_names_ok [OF eq] frame_names_ok [OF eq'] get_names_det [OF mem clr wf] by auto

text \<open>The frame whose code a call looks at: the one below when the C stack owns the first.\<close>

lemma get_frame_data_ok:
  assumes "get_frame_data K fp offsets s = (1, fp', r)"
  shows "\<exists>q. (\<forall>t u v. get_frame_data K fp offsets t = (1, u, v) \<longrightarrow> frame_names K q q offsets t = (1, u, v)) \<and>
     frame_names K q q offsets s = (1, fp', r)"
  using assms
  by (auto simp: get_frame_data_def try_read_def Let_def split: prod.splits if_splits)

lemma get_frame_data_det:
  assumes mem: "probe_read (probe_read_user K) mem"
    and clr: "clears_buffer (perf_prog_read_value K)" and wf: "wf_symbol s" "wf_symbol s'"
    and eq: "get_frame_data K fp offsets s = (1, fp1, r)"
    and eq': "get_frame_data K fp offsets s' = (1, fp2, r')"
  shows "fp2 = fp1 \<and> r' = r"
  using get_frame_data_ok [OF eq] frame_names_det [OF mem clr wf] eq' by blast

lemma frame_names_wf:
  assumes "probe_read (probe_read_user K) mem" "probe_read_str (probe_read_user_str K) mem'"
    and "clears_buffer (perf_prog_read_value K)" "wf_symbol s"
  shows "wf_symbol (snd (snd (frame_names K fp fr offsets s)))"
proof -
  have w: "wf_symbol t" if "get_names K fr code offsets s = (n, t)" for code n t
    using get_names_wf [OF assms, of fr code offsets] that by simp
  show ?thesis
    using assms(4)
    by (auto simp: frame_names_def try_read_def Let_def split: prod.split dest: w)
qed

lemma get_frame_data_wf:
  assumes "probe_read (probe_read_user K) mem" "probe_read_str (probe_read_user_str K) mem'"
    and "clears_buffer (perf_prog_read_value K)" "wf_symbol s"
  shows "wf_symbol (snd (snd (get_frame_data K fp offsets s)))"
  using assms(4) frame_names_wf [OF assms]
  by (auto simp: get_frame_data_def try_read_def Let_def split: prod.split)

section \<open>Reading a frame as a function of memory\<close>

text \<open>
  In resident memory the result of \<open>get_frame_data\<close>, errors included, is a function of the
  frame pointer alone: what a frame is, is \<open>frame_view\<close>, computed with a cleared symbol.
\<close>

datatype frame_view = Frame py_symbol addr | NoFrame | BadFrame int

definition view_frame :: "int \<times> addr \<times> py_symbol \<Rightarrow> frame_view" where
  "view_frame r = (case r of (res, fp, s) \<Rightarrow>
     if res < 0 then BadFrame res else if res = 0 then NoFrame else Frame s fp)"

lemma check_first_arg_rc:
  assumes mem: "probe_read_resident (probe_read_user K) mem" and wf: "wf_symbol s" "wf_symbol s'"
  shows "fst (check_first_arg K code offsets s' a b) = fst (check_first_arg K code offsets s a b)"
proof -
  have f: "fst (first_arg_name K q offsets s' a b) = fst (first_arg_name K q offsets s a b)" for q
    using pystr_read_rc_det [OF mem, of "overwrite (replicate 8 0) (sname s')"
        "overwrite (replicate 8 0) (sname s)" q offsets "of_nat PYTHON_FUNCTION_NAME_LEN"
        "name_type s'" "name_type s"] wf
    by (auto simp: first_arg_name_def wf_symbol_def name_lens Let_def split: prod.splits)
  show ?thesis
    unfolding check_first_arg_def Let_def by (intro try_read_fst) (simp_all add: f try_read_fst)
qed

lemma get_names_rc:
  assumes mem: "probe_read_resident (probe_read_user K) mem"
    and clr: "clears_buffer (perf_prog_read_value K)" and wf: "wf_symbol s" "wf_symbol s'"
  shows "fst (get_names K fr code offsets s') = fst (get_names K fr code offsets s)"
proof -
  note rd = resident_read [OF mem]
  obtain rc s1 fs fc where c: "check_first_arg K code offsets s False False = (rc, s1, fs, fc)"
    by (metis surj_pair)
  obtain rc' s1' fs' fc' where c': "check_first_arg K code offsets s' False False = (rc', s1', fs', fc')"
    by (metis surj_pair)
  have rc: "rc' = rc" using check_first_arg_rc [OF mem wf, of code offsets False False] c c' by simp
  have "rc = 0 \<Longrightarrow> fs' = fs \<and> fc' = fc"
    using check_first_arg_det [OF rd wf] c c' rc by blast
  moreover have "clear_symbol K s1 = zero_symbol" "clear_symbol K s1' = zero_symbol"
    using check_first_arg_wf [OF rd wf(1), of code offsets False False]
      check_first_arg_wf [OF rd wf(2), of code offsets False False] c c'
      clear_symbol_zero [OF clr] by simp_all
  ultimately show ?thesis
    by (cases "rc = 0") (simp_all add: get_names_def c c' rc)
qed

lemma frame_names_rc:
  assumes mem: "probe_read_resident (probe_read_user K) mem"
    and clr: "clears_buffer (perf_prog_read_value K)" and wf: "wf_symbol s" "wf_symbol s'"
  shows "fst (frame_names K fp fr offsets s') = fst (frame_names K fp fr offsets s)"
proof -
  have g: "n' = n" if "get_names K fr code offsets s = (n, t)" "get_names K fr code offsets s' = (n', t')"
    for code n t n' t'
    using get_names_rc [OF mem clr wf, of fr code offsets] that by simp
  show ?thesis
    by (auto simp: frame_names_def try_read_def Let_def split: prod.split dest: g)
qed

lemma get_frame_data_rc:
  assumes mem: "probe_read_resident (probe_read_user K) mem"
    and clr: "clears_buffer (perf_prog_read_value K)" and wf: "wf_symbol s" "wf_symbol s'"
  shows "fst (get_frame_data K fp offsets s') = fst (get_frame_data K fp offsets s)"
  unfolding get_frame_data_def try_read_def Let_def
  by (simp add: frame_names_rc [OF mem clr wf] split: prod.split)

lemma get_frame_data_range:
  "fst (get_frame_data K fp offsets s) \<in> {1, 0} \<union> {n. n < 0}"
proof -
  have "fst (frame_names K p fr offsets s) \<in> {1, 0} \<union> {n. n < 0}" for p fr
    using py_err_pos [of PY_ERROR_FRAME_CODE] py_err_pos [of PY_ERROR_FRAME_PREV]
    by (auto simp: frame_names_def Let_def split: try_read_split prod.split)
  then show ?thesis
    by (auto simp: get_frame_data_def Let_def split: try_read_split prod.split)
qed

definition frame_at :: "'z kernel_scheme \<Rightarrow> py_offset_config \<Rightarrow> addr \<Rightarrow> frame_view" where
  "frame_at K offsets fp = view_frame (get_frame_data K fp offsets zero_symbol)"

lemma get_frame_data_view:
  assumes mem: "probe_read_resident (probe_read_user K) mem"
    and clr: "clears_buffer (perf_prog_read_value K)" and wf: "wf_symbol s"
  shows "view_frame (get_frame_data K fp offsets s) = frame_at K offsets fp"
proof -
  obtain r u v where g: "get_frame_data K fp offsets s = (r, u, v)" by (metis surj_pair)
  obtain r' u' v' where g': "get_frame_data K fp offsets zero_symbol = (r', u', v')" by (metis surj_pair)
  have "r = r'" using get_frame_data_rc [OF mem clr wf_zero_symbol wf, of fp offsets] g g' by simp
  moreover have "r = 1 \<Longrightarrow> u = u' \<and> v = v'"
    using get_frame_data_det [OF resident_read [OF mem] clr wf_zero_symbol wf] g g' \<open>r = r'\<close> by simp
  moreover have "0 \<le> r \<Longrightarrow> r \<noteq> 0 \<Longrightarrow> r = 1"
    using get_frame_data_range [of K fp offsets s] g by auto
  ultimately show ?thesis
    by (auto simp: frame_at_def view_frame_def g g')
qed

section \<open>The symbol of a frame in well-formed memory\<close>

definition padded :: "nat \<Rightarrow> u8 list \<Rightarrow> u8 list" where
  "padded n dat = overwrite (take n dat) (replicate n 0)"

text \<open>The objects a code object refers to: the tuple of argument names, the file, the name.\<close>

definition no_args :: "memory \<Rightarrow> py_offset_config \<Rightarrow> addr \<Rightarrow> bool" where
  "no_args mem offsets code \<longleftrightarrow>
     (\<exists>args. mem_word mem (varnames_ptr offsets code) = Some args \<and>
       (args = 0 \<or> mem_word mem (ptr_off args (PyVarObject_ob_size offsets)) = Some (0 :: u64)))"

definition first_arg_at :: "memory \<Rightarrow> py_offset_config \<Rightarrow> addr \<Rightarrow> py_ascii_object \<Rightarrow> u8 list \<Rightarrow> bool" where
  "first_arg_at mem offsets code ob dat \<longleftrightarrow>
     (\<exists>args n item. mem_word mem (varnames_ptr offsets code) = Some args \<and> args \<noteq> 0 \<and>
       mem_word mem (ptr_off args (PyVarObject_ob_size offsets)) = Some (n :: u64) \<and> n \<noteq> 0 \<and>
       mem_word mem (ptr_off args (PyTupleObject_ob_item offsets)) = Some item \<and>
       compact_str mem offsets item ob dat)"

definition code_str :: "memory \<Rightarrow> py_offset_config \<Rightarrow> addr \<Rightarrow> s16 \<Rightarrow> py_ascii_object \<Rightarrow> u8 list \<Rightarrow> bool" where
  "code_str mem offsets code off ob dat \<longleftrightarrow>
     (\<exists>str. mem_word mem (ptr_off code off) = Some str \<and> str \<noteq> 0 \<and> compact_str mem offsets str ob dat)"

lemma check_first_arg_none:
  assumes "probe_read_resident (probe_read_user K) mem" "no_args mem offsets code"
  shows "check_first_arg K code offsets s a b = (0, s, False, False)"
  using assms(2)
  by (auto simp: no_args_def check_first_arg_def Let_def varnames_ptr_def try_read_resident [OF assms(1)])

lemma int32_eq_take: "4 \<le> length buf \<Longrightarrow> length str = 4 \<Longrightarrow> int32_eq buf str \<longleftrightarrow> take 4 buf = str"
  unfolding int32_eq_def by (subst le_word_inject) simp_all

lemma check_first_arg_name:
  assumes mem: "probe_read_resident (probe_read_user K) mem"
    and arg: "first_arg_at mem offsets code ob dat" and wf: "wf_symbol s"
  shows "\<exists>s'. wf_symbol s' \<and> check_first_arg K code offsets s a b =
     (0, s', take 4 (dat @ replicate 4 0) = self_str, take 4 (dat @ replicate 4 0) = cls_str)"
proof -
  from arg obtain args n item
    where a: "mem_word mem (varnames_ptr offsets code) = Some args" "args \<noteq> 0"
      "mem_word mem (ptr_off args (PyVarObject_ob_size offsets)) = Some (n :: u64)" "n \<noteq> 0"
      "mem_word mem (ptr_off args (PyTupleObject_ob_item offsets)) = Some item"
      "compact_str mem offsets item ob dat"
    by (auto simp: first_arg_at_def)
  have c: "check_first_arg K code offsets s a b = first_arg_name K item offsets s a b"
    using a by (simp add: check_first_arg_def Let_def varnames_ptr_def try_read_resident [OF mem])
  let ?buf = "overwrite (replicate 8 0) (sname s)"
  have l: "length ?buf = 64" using wf by (simp add: wf_symbol_def name_lens)
  have r: "pystr_read K item offsets ?buf (of_nat PYTHON_FUNCTION_NAME_LEN) (name_type s) =
      (0, overwrite (take 64 dat) ?buf, str_descr ob (min (length dat) 64))"
    using pystr_read_compact [OF mem a(6), of _ ?buf] l by (simp add: name_lens)
  have t: "take 4 (overwrite (take 64 dat) ?buf) = take 4 (dat @ replicate 4 0)"
    by (auto simp: overwrite_def min_def take_replicate)
  have l4: "4 \<le> length (overwrite (take 64 dat) ?buf)" using l by simp
  show ?thesis
    unfolding c using check_first_arg_wf [OF resident_read [OF mem] wf, of code offsets a b] c
    by (simp add: first_arg_name_def r int32_eq_take [OF l4] t self_str_def cls_str_def)
qed

lemma zero_symbol_sel [simp]:
  "classname zero_symbol = replicate 32 0" "sname zero_symbol = replicate 64 0"
  "sfile zero_symbol = replicate 128 0"
  by (simp_all add: zero_symbol_def symbol_of_bytes_def sizeof_py_symbol_def name_lens)

lemma read_names_resident:
  assumes mem: "probe_read_resident (probe_read_user K) mem"
    and fil: "code_str mem offsets code (PyCodeObject_co_filename offsets) fob fdat"
    and nam: "code_str mem offsets code (PyCodeObject_co_name offsets) nob ndat"
    and s: "sname s = replicate 64 0" "sfile s = replicate 128 0"
  shows "(let (rc, t, p) = read_file_name K code offsets s
          in if rc \<noteq> 0 then (rc, t) else read_name K code offsets t p) =
    (0, s\<lparr>sfile := padded 128 fdat, file_type := str_descr fob (min (length fdat) 128),
          sname := padded 64 ndat, name_type := str_descr nob (min (length ndat) 64)\<rparr>)"
proof -
  from fil obtain f where f: "mem_word mem (ptr_off code (PyCodeObject_co_filename offsets)) = Some f"
    "f \<noteq> 0" "compact_str mem offsets f fob fdat" by (auto simp: code_str_def)
  from nam obtain n where n: "mem_word mem (ptr_off code (PyCodeObject_co_name offsets)) = Some n"
    "compact_str mem offsets n nob ndat" by (auto simp: code_str_def)
  show ?thesis
    using f n s pystr_read_compact [OF mem f(3), of _ "replicate 128 0"]
      pystr_read_compact [OF mem n(2), of _ "replicate 64 0"]
    by (simp add: read_file_name_def read_name_def try_read_resident [OF mem] name_lens padded_def)
qed

definition names_symbol :: "py_symbol \<Rightarrow> py_ascii_object \<Rightarrow> u8 list \<Rightarrow> py_ascii_object \<Rightarrow> u8 list \<Rightarrow> py_symbol" where
  "names_symbol s fob fdat nob ndat =
     s\<lparr>sfile := padded 128 fdat, file_type := str_descr fob (min (length fdat) 128),
       sname := padded 64 ndat, name_type := str_descr nob (min (length ndat) 64)\<rparr>"

text \<open>The instance passed as \<open>self\<close>, its type, and the name of the type.\<close>

definition self_class_at :: "memory \<Rightarrow> py_offset_config \<Rightarrow> addr \<Rightarrow> u8 list \<Rightarrow> bool" where
  "self_class_at mem offsets fr cname \<longleftrightarrow>
     (\<exists>obj tp p. mem_word mem (ptr_off fr (VFrame_localsplus offsets)) = Some obj \<and> obj \<noteq> 0 \<and>
       mem_word mem (ptr_off obj (PyObject_ob_type offsets)) = Some tp \<and> tp \<noteq> PyCell_Type offsets \<and>
       mem_word mem (ptr_off tp (PyTypeObject_tp_name offsets)) = Some p \<and>
       cstr mem p 31 = Some cname)"

definition class_symbol :: "py_symbol \<Rightarrow> u8 list \<Rightarrow> py_symbol" where
  "class_symbol s cname =
     s\<lparr>classname := overwrite (cname @ [0]) (classname s),
       classname_type := \<lparr>str_type = PYSTR_TYPE_UTF8, size_codepoints = of_nat (length cname)\<rparr>\<rparr>"

lemma get_class_name_self:
  assumes mem: "probe_read_resident (probe_read_user K) mem"
    and str: "probe_read_str_resident (probe_read_user_str K) mem"
    and self: "self_class_at mem offsets fr cname" and s: "classname s = replicate 32 0"
  shows "get_class_name K fr code offsets True s = (0, class_symbol s cname)"
proof -
  from self obtain obj tp p where ob: "mem_word mem (ptr_off fr (VFrame_localsplus offsets)) = Some obj"
      "obj \<noteq> 0" "mem_word mem (ptr_off obj (PyObject_ob_type offsets)) = Some tp" "tp \<noteq> PyCell_Type offsets"
      "mem_word mem (ptr_off tp (PyTypeObject_tp_name offsets)) = Some p" "cstr mem p 31 = Some cname"
    by (auto simp: self_class_at_def)
  have "probe_read_user_str K (classname s) p = (int (length cname) + 1, overwrite (cname @ [0]) (classname s))"
    using ob(6) s by (intro probe_read_str_resident.rds_cstr [OF str]) simp_all
  then show ?thesis
    using ob by (simp add: get_class_name_def read_tp_name_def try_read_resident [OF mem] class_symbol_def)
qed

lemma get_names_plain:
  assumes "probe_read_resident (probe_read_user K) mem" "clears_buffer (perf_prog_read_value K)"
    and "wf_symbol s" "no_args mem offsets code"
    and "code_str mem offsets code (PyCodeObject_co_filename offsets) fob fdat"
    and "code_str mem offsets code (PyCodeObject_co_name offsets) nob ndat"
  shows "get_names K fr code offsets s = (0, names_symbol zero_symbol fob fdat nob ndat)"
  using read_names_resident [OF assms(1,5,6), of zero_symbol]
  by (simp add: get_names_def check_first_arg_none [OF assms(1,4)] clear_symbol_zero [OF assms(2,3)]
      names_symbol_def)

lemma get_names_self:
  assumes "probe_read_resident (probe_read_user K) mem"
    and "probe_read_str_resident (probe_read_user_str K) mem" "clears_buffer (perf_prog_read_value K)"
    and "wf_symbol s" "first_arg_at mem offsets code aob (self_str @ rest)"
    and "self_class_at mem offsets fr cname"
    and "code_str mem offsets code (PyCodeObject_co_filename offsets) fob fdat"
    and "code_str mem offsets code (PyCodeObject_co_name offsets) nob ndat"
  shows "get_names K fr code offsets s =
    (0, names_symbol (class_symbol zero_symbol cname) fob fdat nob ndat)"
proof -
  obtain s' where s': "wf_symbol s'" "check_first_arg K code offsets s False False = (0, s', True, False)"
    using check_first_arg_name [OF assms(1,5,4), of False False] by (auto simp: self_str_def cls_str_def)
  then show ?thesis
    using read_names_resident [OF assms(1,7,8), of "class_symbol zero_symbol cname"]
      get_class_name_self [OF assms(1,2,6), of zero_symbol code]
    by (simp add: get_names_def clear_symbol_zero [OF assms(3)] names_symbol_def class_symbol_def)
qed

text \<open>A frame of an interpreter without frame owners (before CPython 3.11).\<close>

lemma get_frame_data_resident:
  assumes "probe_read_resident (probe_read_user K) mem"
    and "fp \<noteq> 0" "PyInterpreterFrame_owner offsets = -1"
    and "mem_word mem (ptr_off fp (VFrame_code offsets)) = Some code" "code \<noteq> 0"
    and "get_names K fp code offsets s = (0, r)"
    and "mem_word mem (ptr_off fp (VFrame_previous offsets)) = Some q"
  shows "get_frame_data K fp offsets s = (1, q, r)"
  using assms
  by (simp add: get_frame_data_def frame_names_def try_read_resident [OF assms(1)] read_user_resident [OF assms(1)])

section \<open>Properties\<close>

text \<open>For a frame of a plain function, with memory resident, \<open>get_names\<close> returns 0 and
  stores exactly the file name and the function name of the code object, each cut to its
  field and padded with zeros, with an empty class name, whatever the buffer held before.\<close>

lemma get_names_function:
  assumes "probe_read_resident (probe_read_user K) mem" "clears_buffer (perf_prog_read_value K)"
    and "wf_symbol s" "no_args mem offsets code"
    and "code_str mem offsets code (PyCodeObject_co_filename offsets) fob fdat"
    and "code_str mem offsets code (PyCodeObject_co_name offsets) nob ndat"
  shows "get_names K fr code offsets s = (0, names_symbol zero_symbol fob fdat nob ndat)"
  by (rule get_names_plain [OF assms])

text \<open>C14: For a method, whose first argument name begins with the four characters
  \<open>self\<close>, \<open>get_names\<close> also stores the name of the type of the instance in
  the first local variable.\<close>

theorem get_names_method:
  assumes "probe_read_resident (probe_read_user K) mem"
    and "probe_read_str_resident (probe_read_user_str K) mem" "clears_buffer (perf_prog_read_value K)"
    and "wf_symbol s" "first_arg_at mem offsets code aob (self_str @ rest)"
    and "self_class_at mem offsets fr cname"
    and "code_str mem offsets code (PyCodeObject_co_filename offsets) fob fdat"
    and "code_str mem offsets code (PyCodeObject_co_name offsets) nob ndat"
  shows "get_names K fr code offsets s =
    (0, names_symbol (class_symbol zero_symbol cname) fob fdat nob ndat)"
  by (rule get_names_self [OF assms])

text \<open>C20: Two successful reads of one frame produce the same symbol and the same next frame,
  whatever each of them found in the reused buffer, so that the symbol map deduplicates
  equal symbols.\<close>

theorem symbol_dedup:
  assumes "probe_read (probe_read_user K) mem" "clears_buffer (perf_prog_read_value K)"
    and "wf_symbol s" "wf_symbol s'"
    and "get_frame_data K fp offsets s = (1, fp1, r)" "get_frame_data K fp offsets s' = (1, fp2, r')"
  shows "fp2 = fp1 \<and> r' = r"
  by (rule get_frame_data_det [OF assms])

end
