(* ===== verification/Bpf_Core_Read.thy ===== *)
theory Bpf_Core_Read
  imports Bpf_Env
begin

text \<open>
  The macros of \<open>ebpf/bpf/libbpf/bpf_core_read.h\<close>: relocatable bit-field reads, and the
  pointer-chasing family \<open>BPF_CORE_READ\<close>, which reads \<open>src->a->b->c\<close> with one helper call
  per arrow and ignores the result codes of all but the last call.

  A field accessor is the byte offset that the relocation resolves to. The preprocessor
  arithmetic that drives the family (\<open>___narg\<close>, \<open>___empty\<close>, \<open>___last\<close>, \<open>___nolast\<close>) is
  modelled on lists of macro arguments. The lemmas show that the argument count is right for
  every supported arity, that a chain over resident memory returns the field at the end of
  the pointer path, and that a bit-field read extracts exactly the field's bits.
\<close>

section \<open>Enumerations of the header\<close>

datatype bpf_field_info_kind =
  BPF_FIELD_BYTE_OFFSET | BPF_FIELD_BYTE_SIZE | BPF_FIELD_EXISTS
| BPF_FIELD_SIGNED | BPF_FIELD_LSHIFT_U64 | BPF_FIELD_RSHIFT_U64

fun field_info_kind_val :: "bpf_field_info_kind \<Rightarrow> u32" where
  "field_info_kind_val BPF_FIELD_BYTE_OFFSET = 0"
| "field_info_kind_val BPF_FIELD_BYTE_SIZE = 1"
| "field_info_kind_val BPF_FIELD_EXISTS = 2"
| "field_info_kind_val BPF_FIELD_SIGNED = 3"
| "field_info_kind_val BPF_FIELD_LSHIFT_U64 = 4"
| "field_info_kind_val BPF_FIELD_RSHIFT_U64 = 5"

datatype bpf_type_id_kind = BPF_TYPE_ID_LOCAL | BPF_TYPE_ID_TARGET
datatype bpf_type_info_kind = BPF_TYPE_EXISTS | BPF_TYPE_SIZE
datatype bpf_enum_value_kind = BPF_ENUMVAL_EXISTS | BPF_ENUMVAL_VALUE

section \<open>Bit fields\<close>

text \<open>
  \<open>reloc\<close> gives the value of \<open>__builtin_preserve_field_info\<close> for the field at hand, a
  number the loader computes.
\<close>

type_synonym field_reloc = "bpf_field_info_kind \<Rightarrow> u32"

definition core_bitfield_probe_read :: "read_fn \<Rightarrow> u64 \<Rightarrow> addr \<Rightarrow> field_reloc \<Rightarrow> int \<times> u64" where
  "core_bitfield_probe_read rd val src reloc =
     (let sz = unat (reloc BPF_FIELD_BYTE_SIZE);
          buf = word_le val
      in case rd (take sz buf) (src + ucast (reloc BPF_FIELD_BYTE_OFFSET)) of
           (rc, bs) \<Rightarrow> (rc, le_word (overwrite bs buf)))"

definition bitfield_extract :: "field_reloc \<Rightarrow> u64 \<Rightarrow> u64" where
  "bitfield_extract reloc val =
     (let val = push_bit (unat (reloc BPF_FIELD_LSHIFT_U64)) val
      in if reloc BPF_FIELD_SIGNED \<noteq> 0
         then signed_drop_bit (unat (reloc BPF_FIELD_RSHIFT_U64)) val
         else drop_bit (unat (reloc BPF_FIELD_RSHIFT_U64)) val)"

definition BPF_CORE_READ_BITFIELD_PROBED :: "'z kernel_scheme \<Rightarrow> addr \<Rightarrow> field_reloc \<Rightarrow> u64" where
  "BPF_CORE_READ_BITFIELD_PROBED K s reloc =
     bitfield_extract reloc (snd (core_bitfield_probe_read (probe_read_kernel K) 0 s reloc))"

text \<open>
  The variant with direct loads: \<open>ld\<close> is a direct little-endian load of a number of bytes;
  for a size other than 1, 2, 4 and 8 the switch leaves \<open>val\<close> uninitialised.
\<close>

definition BPF_CORE_READ_BITFIELD ::
  "'z kernel_scheme \<Rightarrow> (addr \<Rightarrow> nat \<Rightarrow> u8 list) \<Rightarrow> addr \<Rightarrow> field_reloc \<Rightarrow> u64" where
  "BPF_CORE_READ_BITFIELD K ld s reloc =
     (let p = s + ucast (reloc BPF_FIELD_BYTE_OFFSET);
          sz = unat (reloc BPF_FIELD_BYTE_SIZE);
          val = (if sz \<in> {1, 2, 4, 8} then le_word (ld p sz) else uninit K ''val'')
      in bitfield_extract reloc val)"

section \<open>Counting macro arguments\<close>

text \<open>
  \<open>___nth\<close> selects its twelfth argument; \<open>___narg\<close> appends the numbers 10 down to 0 to
  the argument list, so that the twelfth is the count.
\<close>

datatype 'a pp_tok = Arg 'a | Num nat | Nsym

definition pp_nth :: "'a pp_tok list \<Rightarrow> 'a pp_tok option" where
  "pp_nth ts = (if 11 < length ts then Some (ts ! 11) else None)"

definition narg :: "'a list \<Rightarrow> 'a pp_tok option" where
  "narg args = pp_nth (Nsym # map Arg args @ map Num [10, 9, 8, 7, 6, 5, 4, 3, 2, 1, 0])"

definition empty_macro :: "'a list \<Rightarrow> 'a pp_tok option" where
  "empty_macro args = pp_nth (Nsym # map Arg args @ replicate 10 Nsym @ [Num 0])"

text \<open>\<open>___last\<close> and \<open>___nolast\<close> dispatch on the count; ten cases are defined.\<close>

definition last_macro :: "'a list \<Rightarrow> 'a option" where
  "last_macro args =
     (case narg args of Some (Num n) \<Rightarrow> (if 1 \<le> n then Some (last args) else None) | _ \<Rightarrow> None)"

definition nolast_macro :: "'a list \<Rightarrow> 'a list option" where
  "nolast_macro args =
     (case narg args of Some (Num n) \<Rightarrow> (if 2 \<le> n then Some (butlast args) else None) | _ \<Rightarrow> None)"

section \<open>Pointer chasing\<close>

definition read_via :: "read_fn \<Rightarrow> 'w::len word \<Rightarrow> addr \<Rightarrow> int \<times> 'w word" where
  "read_via rd old src = (case rd (word_le old) src of (rc, bs) \<Rightarrow> (rc, le_word bs))"

text \<open>\<open>___read_ptrs\<close>: every read goes into the local \<open>__t\<close>, result codes are dropped.\<close>

fun read_ptrs :: "read_fn \<Rightarrow> addr \<Rightarrow> addr \<Rightarrow> u64 list \<Rightarrow> addr" where
  "read_ptrs rd t src [] = src"
| "read_ptrs rd t src (a # as) =
     (let t' = snd (read_via rd t (src + a)) in read_ptrs rd t' t' as)"

definition core_read :: "read_fn \<Rightarrow> read_fn \<Rightarrow> addr \<Rightarrow> u8 list \<Rightarrow> addr \<Rightarrow> u64 list \<Rightarrow> int \<times> u8 list" where
  "core_read fn fn_ptr t dst src accs =
     fn dst (read_ptrs fn_ptr t src (butlast accs) + last accs)"

definition BPF_CORE_READ_INTO :: "'z kernel_scheme \<Rightarrow> u8 list \<Rightarrow> addr \<Rightarrow> u64 list \<Rightarrow> int \<times> u8 list" where
  "BPF_CORE_READ_INTO K dst src accs =
     core_read (probe_read_kernel K) (probe_read_kernel K) (uninit K ''__t'') dst src accs"

definition BPF_CORE_READ_USER_INTO :: "'z kernel_scheme \<Rightarrow> u8 list \<Rightarrow> addr \<Rightarrow> u64 list \<Rightarrow> int \<times> u8 list" where
  "BPF_CORE_READ_USER_INTO K dst src accs =
     core_read (probe_read_user K) (probe_read_user K) (uninit K ''__t'') dst src accs"

definition BPF_PROBE_READ_INTO :: "'z kernel_scheme \<Rightarrow> u8 list \<Rightarrow> addr \<Rightarrow> u64 list \<Rightarrow> int \<times> u8 list" where
  "BPF_PROBE_READ_INTO K dst src accs =
     core_read (probe_read_any K) (probe_read_any K) (uninit K ''__t'') dst src accs"

definition BPF_PROBE_READ_USER_INTO :: "'z kernel_scheme \<Rightarrow> u8 list \<Rightarrow> addr \<Rightarrow> u64 list \<Rightarrow> int \<times> u8 list" where
  "BPF_PROBE_READ_USER_INTO K dst src accs =
     core_read (probe_read_user K) (probe_read_user K) (uninit K ''__t'') dst src accs"

definition BPF_CORE_READ_STR_INTO :: "'z kernel_scheme \<Rightarrow> u8 list \<Rightarrow> addr \<Rightarrow> u64 list \<Rightarrow> int \<times> u8 list" where
  "BPF_CORE_READ_STR_INTO K dst src accs =
     core_read (probe_read_kernel_str K) (probe_read_kernel K) (uninit K ''__t'') dst src accs"

definition BPF_CORE_READ_USER_STR_INTO :: "'z kernel_scheme \<Rightarrow> u8 list \<Rightarrow> addr \<Rightarrow> u64 list \<Rightarrow> int \<times> u8 list" where
  "BPF_CORE_READ_USER_STR_INTO K dst src accs =
     core_read (probe_read_user_str K) (probe_read_user K) (uninit K ''__t'') dst src accs"

definition BPF_PROBE_READ_STR_INTO :: "'z kernel_scheme \<Rightarrow> u8 list \<Rightarrow> addr \<Rightarrow> u64 list \<Rightarrow> int \<times> u8 list" where
  "BPF_PROBE_READ_STR_INTO K dst src accs =
     core_read (probe_read_any_str K) (probe_read_any K) (uninit K ''__t'') dst src accs"

definition BPF_PROBE_READ_USER_STR_INTO :: "'z kernel_scheme \<Rightarrow> u8 list \<Rightarrow> addr \<Rightarrow> u64 list \<Rightarrow> int \<times> u8 list" where
  "BPF_PROBE_READ_USER_STR_INTO K dst src accs =
     core_read (probe_read_user_str K) (probe_read_user K) (uninit K ''__t'') dst src accs"

text \<open>The expression forms return the variable \<open>__r\<close>, whatever the last read left in it.\<close>

definition BPF_CORE_READ :: "'z kernel_scheme \<Rightarrow> addr \<Rightarrow> u64 list \<Rightarrow> 'w::len word" where
  "BPF_CORE_READ K src accs =
     le_word (snd (BPF_CORE_READ_INTO K (word_le (ucast (uninit K ''__r'') :: 'w word)) src accs))"

definition BPF_CORE_READ_USER :: "'z kernel_scheme \<Rightarrow> addr \<Rightarrow> u64 list \<Rightarrow> 'w::len word" where
  "BPF_CORE_READ_USER K src accs =
     le_word (snd (BPF_CORE_READ_USER_INTO K (word_le (ucast (uninit K ''__r'') :: 'w word)) src accs))"

definition BPF_PROBE_READ :: "'z kernel_scheme \<Rightarrow> addr \<Rightarrow> u64 list \<Rightarrow> 'w::len word" where
  "BPF_PROBE_READ K src accs =
     le_word (snd (BPF_PROBE_READ_INTO K (word_le (ucast (uninit K ''__r'') :: 'w word)) src accs))"

definition BPF_PROBE_READ_USER :: "'z kernel_scheme \<Rightarrow> addr \<Rightarrow> u64 list \<Rightarrow> 'w::len word" where
  "BPF_PROBE_READ_USER K src accs =
     le_word (snd (BPF_PROBE_READ_USER_INTO K (word_le (ucast (uninit K ''__r'') :: 'w word)) src accs))"

section \<open>The argument count is right\<close>

lemma narg_length:
  assumes "length args \<le> 10"
  shows "narg args = Some (Num (length args))"
proof -
  have "rev [0..<11] = [10, 9, 8, 7, 6, 5, 4, 3, 2, 1, 0 :: nat]" by (simp add: upt_rec)
  then have n: "narg args = pp_nth (Nsym # map Arg args @ map Num (rev [0..<11]))"
    by (simp add: narg_def)
  have "(map Num (rev [0..<11]) :: 'a pp_tok list) ! (10 - length args) = Num (length args)"
    using assms by (simp add: rev_nth)
  with assms show ?thesis
    by (simp add: n pp_nth_def nth_append del: upt_Suc)
qed

lemma empty_macro_eq:
  assumes "length args \<le> 10"
  shows "empty_macro args = Some (if args = [] then Num 0 else Nsym)"
proof -
  have "(replicate 10 Nsym @ [Num 0]) ! (10 - length args) =
      (if args = [] then Num 0 else Nsym :: 'a pp_tok)"
    using assms by (cases args) (auto simp: nth_append)
  with assms show ?thesis
    by (simp add: empty_macro_def pp_nth_def nth_append del: replicate.simps)
qed

lemma last_nolast_split:
  assumes "2 \<le> length args" "length args \<le> 10"
  shows "\<exists>x xs. last_macro args = Some x \<and> nolast_macro args = Some xs \<and> args = xs @ [x]"
  using assms narg_length [OF assms(2)]
  by (cases args rule: rev_cases) (auto simp: last_macro_def nolast_macro_def)

section \<open>Chains over resident memory\<close>

text \<open>The address a path of arrows leads to, if every pointer on the way is mapped.\<close>

fun mem_path :: "memory \<Rightarrow> addr \<Rightarrow> u64 list \<Rightarrow> addr option" where
  "mem_path mem src [] = Some src"
| "mem_path mem src (a # as) =
     (case mem_word mem (src + a) of None \<Rightarrow> None | Some t \<Rightarrow> mem_path mem t as)"

lemma read_via_resident:
  fixes v :: "'w::len word"
  assumes "probe_read_resident rd mem" "mem_word mem a = Some v"
  shows "read_via rd old a = (0, v)"
  using assms probe_read_resident.rd_mapped [OF assms(1), of a "word_le old"]
  by (auto simp: read_via_def mem_word_def)

lemma read_ptrs_path:
  assumes "probe_read_resident rd mem" "mem_path mem src as = Some p"
  shows "read_ptrs rd t src as = p"
  using assms(2)
proof (induction as arbitrary: t src)
  case Nil
  then show ?case by simp
next
  case (Cons a as)
  from Cons.prems obtain t' where t': "mem_word mem (src + a) = Some t'"
    and p: "mem_path mem t' as = Some p"
    by (auto split: option.splits)
  have "read_via rd t (src + a) = (0, t')"
    by (rule read_via_resident [OF assms(1) t'])
  then show ?case using Cons.IH [OF p] by simp
qed

lemma BPF_CORE_READ_resident:
  fixes v :: "'w::len word"
  assumes "probe_read_resident (probe_read_kernel K) mem"
    and "mem_path mem src as = Some p" "mem_word mem (p + a) = Some v"
  shows "BPF_CORE_READ K src (as @ [a]) = v"
proof -
  have "probe_read_kernel K (word_le (ucast (uninit K ''__r'') :: 'w word)) (p + a) =
      (0, the (mem_bytes mem (p + a) (LENGTH('w) div 8)))"
    using assms(3) probe_read_resident.rd_mapped [OF assms(1)] by (auto simp: mem_word_def)
  with assms(3) show ?thesis
    by (auto simp: BPF_CORE_READ_def BPF_CORE_READ_INTO_def core_read_def
        read_ptrs_path [OF assms(1,2)] mem_word_def)
qed

section \<open>Bit fields are extracted exactly\<close>

text \<open>
  For a field of \<open>bits\<close> bits at bit \<open>lo\<close> of its storage unit the loader supplies the
  shifts \<open>64 - (lo + bits)\<close> and \<open>64 - bits\<close>.
\<close>

definition bitfield_reloc :: "field_reloc \<Rightarrow> nat \<Rightarrow> nat \<Rightarrow> bool" where
  "bitfield_reloc reloc lo bits \<longleftrightarrow>
     unat (reloc BPF_FIELD_LSHIFT_U64) = 64 - (lo + bits) \<and>
     unat (reloc BPF_FIELD_RSHIFT_U64) = 64 - bits"

lemma bitfield_extract_unsigned:
  assumes "bitfield_reloc reloc lo bits" "lo + bits \<le> 64" "reloc BPF_FIELD_SIGNED = 0"
  shows "bitfield_extract reloc val = take_bit bits (drop_bit lo val)"
proof (rule bit_word_eqI)
  fix n assume "n < LENGTH(64)"
  with assms show "bit (bitfield_extract reloc val) n = bit (take_bit bits (drop_bit lo val)) n"
    by (auto simp: bitfield_extract_def bitfield_reloc_def bit_simps Let_def
        add.commute [of n lo])
qed

lemma bitfield_extract_signed:
  assumes "bitfield_reloc reloc lo bits" "lo + bits \<le> 64" "0 < bits" "reloc BPF_FIELD_SIGNED \<noteq> 0"
  shows "bitfield_extract reloc val = signed_take_bit (bits - 1) (drop_bit lo val)"
proof (rule bit_word_eqI)
  fix n assume n: "n < LENGTH(64)"
  have l: "bit (bitfield_extract reloc val) n =
      bit (push_bit (64 - (lo + bits)) val) (if bits \<le> n then 63 else 64 - bits + n)"
    using assms n by (auto simp: bitfield_extract_def bitfield_reloc_def bit_signed_drop_bit_iff)
  have r: "bit (signed_take_bit (bits - 1) (drop_bit lo val)) n =
      bit val (lo + (if bits \<le> n then bits - 1 else n))"
  proof -
    have "min n (bits - 1) = (if bits \<le> n then bits - 1 else n)" using assms(3) by auto
    with n show ?thesis by (auto simp: bit_signed_take_bit_iff bit_drop_bit_eq min.commute)
  qed
  show "bit (bitfield_extract reloc val) n = bit (signed_take_bit (bits - 1) (drop_bit lo val)) n"
    unfolding l r using assms(2,3) n
    by (cases "bits \<le> n") (auto simp: bit_push_bit_iff add.commute)
qed

end
