(* ===== verification/Pthread.thy ===== *)
theory Pthread
  imports Pyoffsets Bpf_Core_Read
begin

text \<open>
  \<open>ebpf/bpf/pthread.bpf.h\<close>, \<open>pthread_amd64.h\<close> and \<open>pthread_arm64.h\<close>: reading the value of
  a thread-specific-data key of the running thread out of the C library's thread descriptor,
  for glibc and for musl. The two architectures keep the thread pointer in different registers
  and place the descriptor differently.

  Results are pairs of the C return value and the new value of the out parameter. The locale
  \<open>thread_specific\<close> is what the Python profiler relies on; it is interpreted on both
  architectures.
\<close>

datatype arch = X86 | ARM64

section \<open>amd64\<close>

definition pthread_getspecific_glibc_amd64 ::
  "'z kernel_scheme \<Rightarrow> libc \<Rightarrow> s32 \<Rightarrow> addr \<Rightarrow> addr \<Rightarrow> int \<times> addr" where
  "pthread_getspecific_glibc_amd64 K lc key out tls_base =
     (if 32 \<le> sint key then (-1, out)
      else
        let (rc, tmp) = read_user K (0 :: u64)
              (ptr_off tls_base (pthread_specific1stblock lc) + scast (key * 0x10) + 0x08)
        in if rc \<noteq> 0 then (-1, out) else (0, tmp))"

definition pthread_getspecific_musl_amd64 ::
  "'z kernel_scheme \<Rightarrow> libc \<Rightarrow> s32 \<Rightarrow> addr \<Rightarrow> addr \<Rightarrow> int \<times> addr" where
  "pthread_getspecific_musl_amd64 K lc key out tls_base =
     (let (rc, tmp) = read_user K (0 :: u64) tls_base
      in if rc \<noteq> 0 then (-1, out)
      else let (rc, tmp) = read_user K tmp (ptr_off tmp (pthread_specific1stblock lc))
      in if rc \<noteq> 0 then (-1, out)
      else let (rc, tmp) = read_user K tmp (tmp + scast (key * 0x8))
      in if rc \<noteq> 0 then (-1, out)
      else (0, tmp))"

definition pyro_pthread_getspecific_amd64 ::
  "'z kernel_scheme \<Rightarrow> libc \<Rightarrow> s32 \<Rightarrow> addr \<Rightarrow> int \<times> addr" where
  "pyro_pthread_getspecific_amd64 K lc key out =
     (if key = -1 then (-1, out)
      else let task = get_current_task K
      in if task = 0 then (-1, out)
      else let (rc, tls_base) = read_kernel K (0 :: u64) (task + task_thread_fsbase K)
      in if rc \<noteq> 0 then (-1, out)
      else if musl lc then pthread_getspecific_musl_amd64 K lc key out tls_base
      else pthread_getspecific_glibc_amd64 K lc key out tls_base)"

section \<open>arm64\<close>

definition pthread_getspecific_glibc_arm64 ::
  "'z kernel_scheme \<Rightarrow> libc \<Rightarrow> s32 \<Rightarrow> addr \<Rightarrow> addr \<Rightarrow> int \<times> addr" where
  "pthread_getspecific_glibc_arm64 K lc key out tls_base =
     (if 32 \<le> sint key then (-1, out)
      else
        let tls_base = tls_base - scast (pthread_size lc);
            (rc, res) = read_user K (0 :: u64)
              (ptr_off tls_base (pthread_specific1stblock lc) + scast (key * 0x10) + 0x08)
        in if rc \<noteq> 0 then (-1, out) else (0, res))"

definition pthread_getspecific_musl_arm64 ::
  "'z kernel_scheme \<Rightarrow> libc \<Rightarrow> s32 \<Rightarrow> addr \<Rightarrow> addr \<Rightarrow> int \<times> addr" where
  "pthread_getspecific_musl_arm64 K lc key out tls_base =
     (let (rc, tmp) = read_user K (uninit K ''tmp'')
            (ptr_off (tls_base - scast (pthread_size lc)) (pthread_specific1stblock lc))
      in if rc \<noteq> 0 then (-1, out)
      else let (rc, tmp) = read_user K tmp (tmp + scast (key * 0x8))
      in if rc \<noteq> 0 then (-1, out)
      else (0, tmp))"

definition pyro_pthread_getspecific_arm64 ::
  "'z kernel_scheme \<Rightarrow> libc \<Rightarrow> s32 \<Rightarrow> addr \<Rightarrow> int \<times> addr" where
  "pyro_pthread_getspecific_arm64 K lc key out =
     (if key = -1 then (-1, out)
      else let task = get_current_task K
      in if task = 0 then (-1, out)
      else let (rc, tls_base) = read_kernel K (0 :: u64) (task + task_thread_uw_tp_value K)
      in if rc \<noteq> 0 then (-1, out)
      else if musl lc then pthread_getspecific_musl_arm64 K lc key out tls_base
      else pthread_getspecific_glibc_arm64 K lc key out tls_base)"

text \<open>\<open>pthread.bpf.h\<close> selects the implementation by target.\<close>

definition pyro_pthread_getspecific ::
  "arch \<Rightarrow> 'z kernel_scheme \<Rightarrow> libc \<Rightarrow> s32 \<Rightarrow> addr \<Rightarrow> int \<times> addr" where
  "pyro_pthread_getspecific ar =
     (case ar of X86 \<Rightarrow> pyro_pthread_getspecific_amd64 | ARM64 \<Rightarrow> pyro_pthread_getspecific_arm64)"

lemmas pthread_amd64_defs = pyro_pthread_getspecific_amd64_def
  pthread_getspecific_glibc_amd64_def pthread_getspecific_musl_amd64_def
lemmas pthread_arm64_defs = pyro_pthread_getspecific_arm64_def
  pthread_getspecific_glibc_arm64_def pthread_getspecific_musl_arm64_def

section \<open>The contract\<close>

text \<open>
  Where the value of a key lives, as the C libraries lay it out: glibc keeps the first 32 keys
  in the descriptor, 16 bytes each with the value in the second half; musl keeps a pointer to
  an array of values, in the descriptor the thread pointer designates.
\<close>

definition tls_base_field :: "arch \<Rightarrow> 'z kernel_scheme \<Rightarrow> u64" where
  "tls_base_field ar K = (case ar of X86 \<Rightarrow> task_thread_fsbase K | ARM64 \<Rightarrow> task_thread_uw_tp_value K)"

definition key_slot :: "arch \<Rightarrow> memory \<Rightarrow> libc \<Rightarrow> s32 \<Rightarrow> addr \<Rightarrow> addr option" where
  "key_slot ar mem lc key tp =
     (case (ar, musl lc) of
        (X86, False) \<Rightarrow> Some (tp + scast (pthread_specific1stblock lc) + scast (key * 16) + 8)
      | (ARM64, False) \<Rightarrow>
          Some (tp - scast (pthread_size lc) + scast (pthread_specific1stblock lc) + scast (key * 16) + 8)
      | (X86, True) \<Rightarrow>
          map_option (\<lambda>tsd. tsd + scast (key * 8))
            (Option.bind (mem_word mem tp) (\<lambda>self. mem_word mem (self + scast (pthread_specific1stblock lc))))
      | (ARM64, True) \<Rightarrow>
          map_option (\<lambda>tsd. tsd + scast (key * 8))
            (mem_word mem (tp - scast (pthread_size lc) + scast (pthread_specific1stblock lc))))"

locale thread_specific =
  fixes getspecific :: "libc \<Rightarrow> s32 \<Rightarrow> addr \<Rightarrow> int \<times> addr"
    and mem :: memory
    and slot :: "libc \<Rightarrow> s32 \<Rightarrow> addr option"
  assumes no_key: "getspecific lc (-1) out = (-1, out)"
    and error: "getspecific lc key out = (rc, out') \<Longrightarrow> rc \<noteq> 0 \<Longrightarrow> rc = -1 \<and> out' = out"
    and success: "getspecific lc key out = (0, out') \<Longrightarrow>
      \<exists>a. slot lc key = Some a \<and> mem_word mem a = Some out'"
begin

lemma value_det:
  "getspecific lc key out1 = (0, v1) \<Longrightarrow> getspecific lc key out2 = (0, v2) \<Longrightarrow> v2 = v1"
  using success [of lc key out1 v1] success [of lc key out2 v2] by auto

lemma success_key: "getspecific lc key out = (0, v) \<Longrightarrow> key \<noteq> -1"
  using no_key by auto

end

definition tls_slot :: "arch \<Rightarrow> 'z kernel_scheme \<Rightarrow> memory \<Rightarrow> memory \<Rightarrow> libc \<Rightarrow> s32 \<Rightarrow> addr option" where
  "tls_slot ar K kmem mem lc key =
     Option.bind (mem_word kmem (get_current_task K + tls_base_field ar K)) (key_slot ar mem lc key)"

lemma read_kernel_ok:
  assumes "probe_read (probe_read_kernel K) mem" "read_kernel K old a = (0, v)"
  shows "mem_word mem a = Some v"
  using assms probe_read.rd_ok [OF assms(1)]
  by (fastforce simp: read_kernel_def mem_word_def split: prod.splits)

lemmas tls_slot_simps = tls_slot_def key_slot_def tls_base_field_def

lemma thread_specific_amd64:
  assumes u: "probe_read (probe_read_user K) mem" and k: "probe_read (probe_read_kernel K) kmem"
  shows "thread_specific (pyro_pthread_getspecific_amd64 K) mem (tls_slot X86 K kmem mem)"
proof unfold_locales
  fix lc key out out'
  assume "pyro_pthread_getspecific_amd64 K lc key out = (0, out')"
  then show "\<exists>a. tls_slot X86 K kmem mem lc key = Some a \<and> mem_word mem a = Some out'"
    by (auto simp: pthread_amd64_defs tls_slot_simps Let_def split: if_splits prod.splits
        dest!: read_user_ok [OF u] read_kernel_ok [OF k])
qed (auto simp: pthread_amd64_defs Let_def split: if_splits prod.splits)

lemma thread_specific_arm64:
  assumes u: "probe_read (probe_read_user K) mem" and k: "probe_read (probe_read_kernel K) kmem"
  shows "thread_specific (pyro_pthread_getspecific_arm64 K) mem (tls_slot ARM64 K kmem mem)"
proof unfold_locales
  fix lc key out out'
  assume "pyro_pthread_getspecific_arm64 K lc key out = (0, out')"
  then show "\<exists>a. tls_slot ARM64 K kmem mem lc key = Some a \<and> mem_word mem a = Some out'"
    by (auto simp: pthread_arm64_defs tls_slot_simps Let_def split: if_splits prod.splits
        dest!: read_user_ok [OF u] read_kernel_ok [OF k])
qed (auto simp: pthread_arm64_defs Let_def split: if_splits prod.splits)

lemma thread_specific_arch:
  assumes "probe_read (probe_read_user K) mem" "probe_read (probe_read_kernel K) kmem"
  shows "thread_specific (pyro_pthread_getspecific ar K) mem (tls_slot ar K kmem mem)"
  using thread_specific_amd64 [OF assms] thread_specific_arm64 [OF assms]
  by (cases ar) (simp_all add: pyro_pthread_getspecific_def)

text \<open>A kernel with the reference helpers over a user memory and a kernel memory.\<close>

definition ref_kernel :: "'z kernel_scheme \<Rightarrow> memory \<Rightarrow> memory \<Rightarrow> 'z kernel_scheme" where
  "ref_kernel K kmem mem =
     K\<lparr>probe_read_user := ref_probe_read mem, probe_read_user_str := ref_read_str mem,
       probe_read_kernel := ref_probe_read kmem, probe_read_kernel_str := ref_read_str kmem\<rparr>"

lemma ref_kernel_sel [simp]:
  "probe_read_user (ref_kernel K kmem mem) = ref_probe_read mem"
  "probe_read_user_str (ref_kernel K kmem mem) = ref_read_str mem"
  "probe_read_kernel (ref_kernel K kmem mem) = ref_probe_read kmem"
  by (simp_all add: ref_kernel_def)

interpretation tls_amd64: thread_specific "pyro_pthread_getspecific_amd64 (ref_kernel K kmem mem)" mem
    "tls_slot X86 (ref_kernel K kmem mem) kmem mem" for K kmem mem
  by (rule thread_specific_amd64) (simp_all add: ref_read.probe_read_axioms)

interpretation tls_arm64: thread_specific "pyro_pthread_getspecific_arm64 (ref_kernel K kmem mem)" mem
    "tls_slot ARM64 (ref_kernel K kmem mem) kmem mem" for K kmem mem
  by (rule thread_specific_arm64) (simp_all add: ref_read.probe_read_axioms)

section \<open>Properties\<close>


text \<open>The key -1, a task pointer of NULL, and with glibc a key of 32 or more are rejected
  with -1, and no error path stores to the out parameter.\<close>

lemma getspecific_errors:
  assumes "key = -1 \<or> get_current_task K = 0 \<or> (\<not> musl lc \<and> 32 \<le> sint key)"
  shows "pyro_pthread_getspecific ar K lc key out = (-1, out)"
  using assms
  by (cases ar)
     (auto simp: pyro_pthread_getspecific_def pthread_amd64_defs pthread_arm64_defs Let_def split: prod.splits)

end
