(* ===== verification/Pid.thy ===== *)
theory Pid
  imports Bpf_Core_Read
begin

text \<open>
  \<open>current_pid\<close> of \<open>ebpf/bpf/pid.h\<close>: the process id of the running task as seen in the pid
  namespace whose inode number the loader configured. The function scans the innermost four
  levels of the task's namespaces for the configured inode and reports the id at that level.

  The out parameter is returned; where the code does not store to it, the old value is
  returned. The level arithmetic is on \<open>unsigned int\<close> as in the source.
\<close>

definition PID_NESTED_NAMESPACES_MAX :: nat where
  "PID_NESTED_NAMESPACES_MAX = 4"

definition ns_level :: "'z kernel_scheme \<Rightarrow> addr \<Rightarrow> u32" where
  "ns_level K task =
     BPF_CORE_READ K task
       [task_group_leader K, task_nsproxy K, nsproxy_pid_ns_for_children K, pid_namespace_level K]"

text \<open>\<open>BPF_CORE_READ(task, group_leader, thread_pid, numbers[idx].ns, ns.inum)\<close>\<close>

definition ns_inum_at :: "'z kernel_scheme \<Rightarrow> addr \<Rightarrow> u32 \<Rightarrow> u32" where
  "ns_inum_at K task idx =
     BPF_CORE_READ K task
       [task_group_leader K, task_thread_pid K,
        pid_numbers K + ucast idx * upid_size K + upid_ns K, pid_namespace_ns_inum K]"

text \<open>\<open>BPF_CORE_READ(task, group_leader, thread_pid, numbers[idx].nr)\<close>\<close>

definition ns_nr_at :: "'z kernel_scheme \<Rightarrow> addr \<Rightarrow> u32 \<Rightarrow> u32" where
  "ns_nr_at K task idx =
     BPF_CORE_READ K task
       [task_group_leader K, task_thread_pid K,
        pid_numbers K + ucast idx * upid_size K + upid_nr K]"

text \<open>
  The guard \<open>(level - i) < 0\<close> compares an \<open>unsigned int\<close> with zero.
\<close>

definition level_guard :: "u32 \<Rightarrow> nat \<Rightarrow> bool" where
  "level_guard level i \<longleftrightarrow> level - of_nat i < 0"

fun ns_scan :: "'z kernel_scheme \<Rightarrow> u64 \<Rightarrow> addr \<Rightarrow> u32 \<Rightarrow> nat list \<Rightarrow> u32 \<Rightarrow> u32" where
  "ns_scan K ino task level [] pid = pid"
| "ns_scan K ino task level (i # is) pid =
     (if level_guard level i then pid
      else if ucast (ns_inum_at K task (level - of_nat i)) = ino
      then ns_nr_at K task (level - of_nat i)
      else ns_scan K ino task level is pid)"

definition current_pid :: "'z kernel_scheme \<Rightarrow> u64 \<Rightarrow> u32 \<Rightarrow> u32" where
  "current_pid K ns_pid_ino pid =
     (if ns_pid_ino = 0 then ucast (drop_bit 32 (get_current_pid_tgid K))
      else
        let task = get_current_task K;
            level = ns_level K task
        in ns_scan K ns_pid_ino task level [0..<PID_NESTED_NAMESPACES_MAX] pid)"

section \<open>What the scan returns\<close>

text \<open>The guard of the loop never holds, whatever the level.\<close>

lemma level_guard_never [simp]: "\<not> level_guard level i"
  by (simp add: level_guard_def)

lemma ns_scan_find:
  "ns_scan K ino task level is pid =
     (case find (\<lambda>i. ucast (ns_inum_at K task (level - of_nat i)) = ino) is of
        None \<Rightarrow> pid
      | Some i \<Rightarrow> ns_nr_at K task (level - of_nat i))"
  by (induction "is") auto

lemma PID_NESTED_upt: "[0..<PID_NESTED_NAMESPACES_MAX] = [0, 1, 2, 3]"
  by (simp add: PID_NESTED_NAMESPACES_MAX_def upt_rec)

text \<open>Host pid when no namespace is configured: the thread group id, the upper half.\<close>

lemma current_pid_host:
  assumes "get_current_pid_tgid K = push_bit 32 (ucast (tgid :: u32)) OR ucast (tid :: u32)"
  shows "current_pid K 0 pid = tgid"
proof -
  have "\<not> bit tid (32 + n)" for n using bit_imp_le_length [of tid "32 + n"] by auto
  with assms show ?thesis
    by (auto simp: current_pid_def bit_simps intro!: bit_word_eqI)
qed

text \<open>
  A task whose namespaces are laid out in kernel memory: \<open>numbers ! l\<close> is the inode number
  and the process id at level \<open>l\<close>; the last level is the task's own namespace.
\<close>

definition task_namespaces ::
  "'z kernel_scheme \<Rightarrow> memory \<Rightarrow> addr \<Rightarrow> (u32 \<times> u32) list \<Rightarrow> bool" where
  "task_namespaces K mem task ns \<longleftrightarrow>
     (\<exists>p q.
       mem_path mem task [task_group_leader K, task_nsproxy K, nsproxy_pid_ns_for_children K] = Some p \<and>
       mem_word mem (p + pid_namespace_level K) = Some (of_nat (length ns - 1) :: u32) \<and>
       mem_path mem task [task_group_leader K, task_thread_pid K] = Some q \<and>
       (\<forall>l < length ns. \<exists>nsp.
          mem_word mem (q + (pid_numbers K + of_nat l * upid_size K + upid_ns K)) = Some nsp \<and>
          mem_word mem (nsp + pid_namespace_ns_inum K) = Some (fst (ns ! l)) \<and>
          mem_word mem (q + (pid_numbers K + of_nat l * upid_size K + upid_nr K)) = Some (snd (ns ! l))))"

lemma mem_path_append:
  "mem_path mem src (as @ bs) =
     (case mem_path mem src as of None \<Rightarrow> None | Some p \<Rightarrow> mem_path mem p bs)"
  by (induction as arbitrary: src) (auto split: option.splits)

lemma ucast_of_nat_u32: "l < 2 ^ 32 \<Longrightarrow> ucast (of_nat l :: u32) = (of_nat l :: u64)"
  by (simp add: word_eq_iff_unsigned [where ?'a = nat] unsigned_ucast_eq unsigned_of_nat take_bit_nat_eq_self)

lemma task_namespaces_level:
  assumes "probe_read_resident (probe_read_kernel K) mem" "task_namespaces K mem task ns"
  shows "ns_level K task = of_nat (length ns - 1)"
  using assms(2) BPF_CORE_READ_resident [OF assms(1), of task
      "[task_group_leader K, task_nsproxy K, nsproxy_pid_ns_for_children K]"]
  by (auto simp: task_namespaces_def ns_level_def)

lemma task_namespaces_inum:
  assumes mem: "probe_read_resident (probe_read_kernel K) mem"
    and ns: "task_namespaces K mem task ns" and l: "l < length ns" "l < 2 ^ 32"
  shows "ns_inum_at K task (of_nat l) = fst (ns ! l)"
proof -
  from ns l obtain q nsp where q: "mem_path mem task [task_group_leader K, task_thread_pid K] = Some q"
    and nsp: "mem_word mem (q + (pid_numbers K + of_nat l * upid_size K + upid_ns K)) = Some nsp"
    and v: "mem_word mem (nsp + pid_namespace_ns_inum K) = Some (fst (ns ! l))"
    unfolding task_namespaces_def by blast
  have "mem_path mem task ([task_group_leader K, task_thread_pid K] @
      [pid_numbers K + of_nat l * upid_size K + upid_ns K]) = Some nsp"
    unfolding mem_path_append q by (simp add: nsp)
  from BPF_CORE_READ_resident [OF mem this v] show ?thesis
    using l(2) by (simp add: ns_inum_at_def ucast_of_nat_u32)
qed

lemma task_namespaces_nr:
  assumes mem: "probe_read_resident (probe_read_kernel K) mem"
    and ns: "task_namespaces K mem task ns" and l: "l < length ns" "l < 2 ^ 32"
  shows "ns_nr_at K task (of_nat l) = snd (ns ! l)"
proof -
  from ns l obtain q where q: "mem_path mem task [task_group_leader K, task_thread_pid K] = Some q"
    and v: "mem_word mem (q + (pid_numbers K + of_nat l * upid_size K + upid_nr K)) = Some (snd (ns ! l))"
    unfolding task_namespaces_def by blast
  from BPF_CORE_READ_resident [OF mem q v] show ?thesis
    using l(2) by (simp add: ns_nr_at_def ucast_of_nat_u32)
qed

text \<open>
  The contract: the innermost of the four innermost levels whose inode is the configured one
  decides.
\<close>

lemma ns_scan_hit:
  assumes mem: "probe_read_resident (probe_read_kernel K) mem"
    and ns: "task_namespaces K mem task ns" "length ns \<le> 32"
    and i: "i < length ns" "i < 4" "ucast (fst (ns ! (length ns - 1 - i))) = ino"
    and before: "\<And>j. j < i \<Longrightarrow> ucast (fst (ns ! (length ns - 1 - j))) \<noteq> ino"
  shows "ns_scan K ino task (of_nat (length ns - 1)) [0..<4] pid = snd (ns ! (length ns - 1 - i))"
proof -
  have idx: "of_nat (length ns - 1) - of_nat j = (of_nat (length ns - 1 - j) :: u32)"
    if "j \<le> i" for j
    using that i(1) by (subst of_nat_diff) auto
  have inum: "ns_inum_at K task (of_nat (length ns - 1) - of_nat j) = fst (ns ! (length ns - 1 - j))"
    if "j \<le> i" for j
    unfolding idx [OF that] using i(1) ns(2) by (intro task_namespaces_inum [OF mem ns(1)]) simp_all
  have nr: "ns_nr_at K task (of_nat (length ns - 1) - of_nat i) = snd (ns ! (length ns - 1 - i))"
    unfolding idx [OF order_refl] using i(1) ns(2)
    by (intro task_namespaces_nr [OF mem ns(1)]) simp_all
  have "find (\<lambda>j. ucast (ns_inum_at K task (of_nat (length ns - 1) - of_nat j)) = ino) [0..<4] = Some i"
    using i before inum by (auto simp: find_Some_iff)
  then show ?thesis by (simp only: ns_scan_find option.case nr)
qed

lemma unat_u32_sub_wrap:
  assumes "unat (a :: u32) < b" "b < 2 ^ 32"
  shows "unat (a - of_nat b) = 2 ^ 32 + unat a - b"
proof -
  have b: "unat (of_nat b :: u32) = b" using assms(2) by (simp add: unsigned_of_nat take_bit_nat_eq_self)
  with assms(1) show ?thesis by (simp add: unat_sub_if')
qed

section \<open>Properties\<close>

text \<open>C25: With a pid namespace configured (\<open>ns_pid_ino \<noteq> 0\<close>) and the task's namespace table
  readable, \<open>current_pid\<close> returns the process id at the innermost of the four innermost
  namespace levels whose inode number is the configured one.\<close>

theorem current_pid_namespace:
  assumes "probe_read_resident (probe_read_kernel K) mem"
    and "task_namespaces K mem (get_current_task K) ns" "length ns \<le> 32"
    and "ino \<noteq> 0" "i < length ns" "i < 4"
    and "ucast (fst (ns ! (length ns - 1 - i))) = ino"
    and "\<And>j. j < i \<Longrightarrow> ucast (fst (ns ! (length ns - 1 - j))) \<noteq> ino"
  shows "current_pid K ino pid = snd (ns ! (length ns - 1 - i))"
  using assms ns_scan_hit [OF assms(1,2,3,5,6,7,8)] task_namespaces_level [OF assms(1,2)]
  by (simp add: current_pid_def PID_NESTED_NAMESPACES_MAX_def)



text \<open>When none of the four innermost levels carries the configured inode,
  \<open>current_pid\<close> does not store to its out parameter, so the caller sees the value it
  passed in.\<close>

lemma current_pid_no_match:
  assumes "ino \<noteq> 0"
    and "\<forall>i < 4. ucast (ns_inum_at K (get_current_task K)
           (ns_level K (get_current_task K) - of_nat i)) \<noteq> ino"
  shows "current_pid K ino pid = pid"
proof -
  have "find (\<lambda>i. ucast (ns_inum_at K (get_current_task K)
      (ns_level K (get_current_task K) - of_nat i)) = ino) [0..<4] = None"
    using assms(2) by (auto simp: find_None_iff)
  with assms(1) show ?thesis
    by (simp only: current_pid_def PID_NESTED_NAMESPACES_MAX_def Let_def ns_scan_find option.case if_False)
qed

end
