(* ===== verification/Stacks.thy ===== *)
theory Stacks
  imports Bpf_Env
begin

text \<open>
  \<open>ebpf/bpf/stacks.h\<close>: the sample key, its flags, the stack-id flags, and the map
  \<open>counts\<close> that accumulates samples. The sequence both programs use to count a sample, a
  lookup followed by an increment in place or an insertion, is \<open>count_sample\<close>.

  The map's update is a field of the extended kernel record. The locale \<open>sample_counts\<close>
  collects what counting a sample promises its callers; it is interpreted on
  \<open>count_sample\<close> for every update function that satisfies the hash map law.
\<close>

definition PERF_MAX_STACK_DEPTH :: nat where "PERF_MAX_STACK_DEPTH = 127"
definition PROFILE_MAPS_SIZE :: nat where "PROFILE_MAPS_SIZE = 16384"

definition BPF_F_USER_STACK :: u64 where "BPF_F_USER_STACK = 256"
definition BPF_F_FAST_STACK_CMP :: u64 where "BPF_F_FAST_STACK_CMP = 512"

definition KERN_STACKID_FLAGS :: u64 where
  "KERN_STACKID_FLAGS = 0 OR BPF_F_FAST_STACK_CMP"

definition USER_STACKID_FLAGS :: u64 where
  "USER_STACKID_FLAGS = 0 OR BPF_F_FAST_STACK_CMP OR BPF_F_USER_STACK"

definition SAMPLE_KEY_FLAG_PYTHON_STACK :: u32 where "SAMPLE_KEY_FLAG_PYTHON_STACK = 1"
definition SAMPLE_KEY_FLAG_STACK_TRUNCATED :: u32 where "SAMPLE_KEY_FLAG_STACK_TRUNCATED = 2"

lemmas stack_consts = PERF_MAX_STACK_DEPTH_def PROFILE_MAPS_SIZE_def BPF_F_USER_STACK_def
  BPF_F_FAST_STACK_CMP_def KERN_STACKID_FLAGS_def USER_STACKID_FLAGS_def
  SAMPLE_KEY_FLAG_PYTHON_STACK_def SAMPLE_KEY_FLAG_STACK_TRUNCATED_def

record sample_key =
  k_pid :: u32
  k_flags :: u32
  kern_stack :: s64
  user_stack :: s64

text \<open>The kernel seen by a program that counts samples, and the maps it owns.\<close>

record stacks_kernel = kernel +
  update_counts :: "(sample_key, u32) map_update"

record stacks_maps =
  counts :: "sample_key \<rightharpoonup> u32"

text \<open>
  \<open>val = lookup(counts, key); if (val) (*val)++; else update(counts, key, &one, BPF_NOEXIST)\<close>;
  the result code of the insertion is not looked at.
\<close>

definition count_sample :: "(sample_key, u32) map_update \<Rightarrow> (sample_key \<rightharpoonup> u32) \<Rightarrow> sample_key \<Rightarrow> (sample_key \<rightharpoonup> u32)" where
  "count_sample upd m key =
     (case m key of
        Some val \<Rightarrow> m(key \<mapsto> val + 1)
      | None \<Rightarrow> snd (upd m key 1 BPF_NOEXIST))"

section \<open>The contract of counting a sample\<close>

text \<open>The number of samples a map holds.\<close>

definition samples :: "('k \<rightharpoonup> u32) \<Rightarrow> nat" where
  "samples m = (\<Sum>k \<in> dom m. unat (the (m k)))"

lemma samples_upd:
  assumes "finite (dom m)"
  shows "samples (m(k \<mapsto> n)) + (case m k of None \<Rightarrow> 0 | Some v \<Rightarrow> unat v) = samples m + unat n"
proof -
  let ?rest = "\<Sum>x \<in> dom m - {k}. unat (the (m x))"
  have d: "dom (m(k \<mapsto> n)) = insert k (dom m - {k})" by auto
  have s: "(\<Sum>x \<in> dom m - {k}. unat (the ((m(k \<mapsto> n)) x))) = ?rest"
    by (intro sum.cong) auto
  have "samples (m(k \<mapsto> n)) = unat n + ?rest"
    unfolding samples_def d using assms s by (subst sum.insert) simp_all
  moreover have "samples m = (case m k of None \<Rightarrow> 0 | Some v \<Rightarrow> unat v) + ?rest"
  proof (cases "m k")
    case None
    then have "dom m - {k} = dom m" by auto
    with None show ?thesis by (simp add: samples_def)
  next
    case (Some v)
    then have "k \<in> dom m" by auto
    with Some assms show ?thesis by (simp add: samples_def sum.remove)
  qed
  ultimately show ?thesis by simp
qed

locale sample_counts =
  fixes count :: "('k \<rightharpoonup> u32) \<Rightarrow> 'k \<Rightarrow> ('k \<rightharpoonup> u32)"
    and room :: "('k \<rightharpoonup> u32) \<Rightarrow> 'k \<Rightarrow> bool"
  assumes count_hit: "m k = Some n \<Longrightarrow> count m k = m(k \<mapsto> n + 1)"
    and count_new: "m k = None \<Longrightarrow> room m k \<Longrightarrow> count m k = m(k \<mapsto> 1)"
    and count_full: "m k = None \<Longrightarrow> \<not> room m k \<Longrightarrow> count m k = m"
begin

lemma count_other: "k' \<noteq> k \<Longrightarrow> count m k k' = m k'"
  using count_hit count_new count_full by (cases "m k"; cases "room m k") auto

lemma count_dom: "dom m \<subseteq> dom (count m k)"
  using count_hit count_new count_full by (cases "m k"; cases "room m k") auto

lemma samples_count:
  assumes fin: "finite (dom m)" and stored: "m k \<noteq> None \<or> room m k"
    and wrap: "\<And>n. m k = Some n \<Longrightarrow> unat n + 1 < 2 ^ 32"
  shows "samples (count m k) = samples m + 1"
proof (cases "m k")
  case None
  with stored have "count m k = m(k \<mapsto> 1)" using count_new by simp
  with samples_upd [OF fin, of k 1] None show ?thesis by simp
next
  case (Some n)
  have "unat (n + 1) = unat n + 1"
    using wrap [OF Some] by (simp add: unat_word_ariths)
  with samples_upd [OF fin, of k "n + 1"] Some count_hit [of m k n] show ?thesis by simp
qed

lemma samples_lost: "m k = None \<Longrightarrow> \<not> room m k \<Longrightarrow> samples (count m k) = samples m"
  by (simp add: count_full)

end

text \<open>The insertion has room exactly when the update reports success.\<close>

definition counts_room :: "(sample_key, u32) map_update \<Rightarrow> (sample_key \<rightharpoonup> u32) \<Rightarrow> sample_key \<Rightarrow> bool" where
  "counts_room upd m k \<longleftrightarrow> fst (upd m k 1 BPF_NOEXIST) = 0"

lemma count_sample_contract:
  assumes "bpf_hash_map upd n"
  shows "sample_counts (count_sample upd) (counts_room upd)"
proof unfold_locales
  fix m :: "sample_key \<rightharpoonup> u32" and k
  assume "m k = None" "counts_room upd m k"
  then show "count_sample upd m k = m(k \<mapsto> 1)"
    using bpf_hash_map.update_cases [OF assms, of m k 1 BPF_NOEXIST]
    by (fastforce simp: count_sample_def counts_room_def)
next
  fix m :: "sample_key \<rightharpoonup> u32" and k
  assume "m k = None" "\<not> counts_room upd m k"
  then show "count_sample upd m k = m"
    using bpf_hash_map.update_cases [OF assms, of m k 1 BPF_NOEXIST]
    by (fastforce simp: count_sample_def counts_room_def)
qed (simp add: count_sample_def)

interpretation ref_counts: sample_counts "count_sample (ref_update n)" "counts_room (ref_update n)" for n
  by (rule count_sample_contract) (rule ref_map.bpf_hash_map_axioms)

end
