(* ===== verification/Hash.thy ===== *)
theory Hash
  imports Prelude "HOL-Library.Monad_Syntax"
begin

text \<open>
  The stack hash of \<open>ebpf/bpf/hash.h\<close>: MurmurHash64A restricted to lengths that are a
  multiple of four and to at most \<open>HASH_LIMIT\<close> bytes of full blocks.

  The key is the memory the pointer argument points to, a list of bytes; a load outside
  that memory is \<open>None\<close>, so a result \<open>Some h\<close> also says that every load was in bounds.
  The loop is \<open>murmur_loop\<close>; it is shown equal to a fold over the 8-byte blocks
  (\<open>murmur_ref\<close>), and every step of the fold to be injective, so that keys differing in
  one block never collide.
\<close>

section \<open>The code\<close>

definition HASH_LIMIT :: nat where
  "HASH_LIMIT = 32 * 3 * 4"

definition hash_m :: u64 where
  "hash_m = 0xc6a4a7935bd1e995"

definition hash_r :: nat where
  "hash_r = 47"

text \<open>Loads through \<open>const uint64_t *data\<close> and through \<open>(uint32_t *)data2\<close>.\<close>

definition load64 :: "u8 list \<Rightarrow> nat \<Rightarrow> u64 option" where
  "load64 bs off = (if off + 8 \<le> length bs then Some (le_word (take 8 (drop off bs))) else None)"

definition load32 :: "u8 list \<Rightarrow> nat \<Rightarrow> u32 option" where
  "load32 bs off = (if off + 4 \<le> length bs then Some (le_word (take 4 (drop off bs))) else None)"

definition murmur_mix :: "u64 \<Rightarrow> u64 \<Rightarrow> u64" where
  "murmur_mix h k =
     (let k = k * hash_m;
          k = k XOR drop_bit hash_r k;
          k = k * hash_m;
          h = h XOR k
      in h * hash_m)"

function murmur_loop :: "u8 list \<Rightarrow> u64 \<Rightarrow> nat \<Rightarrow> u64 \<Rightarrow> (nat \<times> u64) option" where
  "murmur_loop data len i h =
     (if i < unat len div 8 \<and> i < HASH_LIMIT div 8
      then do { k \<leftarrow> load64 data (8 * i); murmur_loop data len (Suc i) (murmur_mix h k) }
      else Some (i, h))"
  by pat_completeness auto
termination
  by (relation "measure (\<lambda>(data, len, i, h). HASH_LIMIT div 8 - i)") auto

declare murmur_loop.simps [simp del]

definition murmur_final :: "u64 \<Rightarrow> u64" where
  "murmur_final h =
     (let h = h XOR drop_bit hash_r h;
          h = h * hash_m
      in h XOR drop_bit hash_r h)"

definition MurmurHash64A :: "u8 list \<Rightarrow> u64 \<Rightarrow> u64 \<Rightarrow> u64 option" where
  "MurmurHash64A key len seed = do {
     let h = seed XOR (len * hash_m);
     (i, h) \<leftarrow> murmur_loop key len 0 h;
     h \<leftarrow> (if len AND 7 \<noteq> 0
            then do { w \<leftarrow> load32 key (8 * i); Some ((h XOR ucast w) * hash_m) }
            else Some h);
     Some (murmur_final h)
   }"

section \<open>The hash as a fold over blocks\<close>

definition blocks64 :: "u8 list \<Rightarrow> nat \<Rightarrow> u64 list" where
  "blocks64 bs n = map (\<lambda>i. le_word (take 8 (drop (8 * i) bs))) [0..<n]"

definition murmur_tail :: "u64 \<Rightarrow> u32 option \<Rightarrow> u64" where
  "murmur_tail h t = (case t of None \<Rightarrow> h | Some w \<Rightarrow> (h XOR ucast w) * hash_m)"

definition murmur_ref :: "u64 list \<Rightarrow> u32 option \<Rightarrow> u64 \<Rightarrow> u64 \<Rightarrow> u64" where
  "murmur_ref ks t len seed =
     murmur_final (murmur_tail (foldl murmur_mix (seed XOR (len * hash_m)) ks) t)"

definition tail_word :: "u8 list \<Rightarrow> nat \<Rightarrow> u32 option" where
  "tail_word bs len = (if len mod 8 = 0 then None else load32 bs (8 * (len div 8)))"

lemma HASH_LIMIT_blocks [simp]: "HASH_LIMIT div 8 = 48"
  by (simp add: HASH_LIMIT_def)

lemma murmur_loop_fold:
  assumes "8 * (unat len div 8) \<le> length data" "unat len div 8 \<le> 48" "i \<le> unat len div 8"
  shows "murmur_loop data len i h =
     Some (unat len div 8, foldl murmur_mix h
       (map (\<lambda>i. le_word (take 8 (drop (8 * i) data))) [i..<unat len div 8]))"
  using assms
proof (induction data len i h rule: murmur_loop.induct)
  case (1 data len i h)
  show ?case
  proof (cases "i < unat len div 8")
    case True
    with 1(2,3) have g: "i < unat len div 8 \<and> i < HASH_LIMIT div 8" by simp
    from True 1(2) have l: "8 * i + 8 \<le> length data" by linarith
    let ?k = "le_word (take 8 (drop (8 * i) data)) :: u64"
    have "murmur_loop data len i h = murmur_loop data len (Suc i) (murmur_mix h ?k)"
      using g l by (subst murmur_loop.simps) (simp add: load64_def)
    also have "\<dots> = Some (unat len div 8, foldl murmur_mix (murmur_mix h ?k)
       (map (\<lambda>i. le_word (take 8 (drop (8 * i) data))) [Suc i..<unat len div 8]))"
      using 1(1) [OF g, of ?k] 1(2,3) True l by (simp add: load64_def)
    also have "\<dots> = Some (unat len div 8, foldl murmur_mix h
       (map (\<lambda>i. le_word (take 8 (drop (8 * i) data))) [i..<unat len div 8]))"
      using True by (simp add: upt_conv_Cons)
    finally show ?thesis .
  next
    case False
    with 1(4) have "i = unat len div 8" by simp
    then show ?thesis by (subst murmur_loop.simps) simp
  qed
qed

lemma and_7_zero: "(len :: u64) AND 7 = 0 \<longleftrightarrow> unat len mod 8 = 0"
proof -
  have "len AND 7 = take_bit 3 len"
    by (simp add: take_bit_eq_mask mask_numeral)
  then have "unat (len AND 7) = unat len mod 8"
    by (simp add: unsigned_take_bit_eq take_bit_eq_mod unat_mod_distrib)
  then show ?thesis by (metis unat_eq_zero)
qed

lemma murmur_eq_ref:
  assumes "unat len mod 4 = 0" "unat len \<le> HASH_LIMIT" "unat len \<le> length key"
  shows "MurmurHash64A key len seed =
    Some (murmur_ref (blocks64 key (unat len div 8)) (tail_word key (unat len)) len seed)"
proof -
  have b: "8 * (unat len div 8) \<le> length key" "unat len div 8 \<le> 48"
    using assms by (auto simp: HASH_LIMIT_def)
  note loop = murmur_loop_fold [OF b, of 0]
  show ?thesis
  proof (cases "unat len mod 8 = 0")
    case True
    then show ?thesis
      by (simp add: MurmurHash64A_def loop and_7_zero murmur_ref_def blocks64_def
          tail_word_def murmur_tail_def)
  next
    case False
    have "8 * (unat len div 8) + 4 \<le> unat len" using assms(1) False by presburger
    then have "8 * (unat len div 8) + 4 \<le> length key" using assms(3) by simp
    with False show ?thesis
      by (simp add: MurmurHash64A_def loop and_7_zero murmur_ref_def blocks64_def
          tail_word_def murmur_tail_def load32_def)
  qed
qed

section \<open>Injectivity of the mixing steps\<close>

definition hash_m_inv :: u64 where
  "hash_m_inv = 6879827495036328381"

lemma hash_m_inv: "hash_m * hash_m_inv = 1"
  by (simp add: hash_m_def hash_m_inv_def)

lemmas mult_m_inj = mult_right_cancel_word [OF hash_m_inv]

lemma murmur_mix_inj_h: "murmur_mix h k = murmur_mix h' k \<Longrightarrow> h = h'"
  by (auto simp: murmur_mix_def Let_def dest!: mult_m_inj)

lemma murmur_mix_inj_k:
  assumes "murmur_mix h k = murmur_mix h k'"
  shows "k = k'"
proof -
  let ?f = "\<lambda>k. k * hash_m XOR drop_bit hash_r (k * hash_m)"
  from assms have "h XOR ?f k * hash_m = h XOR ?f k' * hash_m"
    by (auto simp: murmur_mix_def Let_def dest!: mult_m_inj)
  then have "?f k * hash_m = ?f k' * hash_m" by simp
  then have "?f k = ?f k'" by (rule mult_m_inj)
  then have "k * hash_m = k' * hash_m"
    by (rule xorshift_inj) (simp add: hash_r_def)
  then show ?thesis by (rule mult_m_inj)
qed

lemma murmur_final_inj:
  assumes "murmur_final h = murmur_final h'"
  shows "h = h'"
proof -
  let ?f = "\<lambda>h :: u64. h XOR drop_bit hash_r h"
  have r: "0 < hash_r" by (simp add: hash_r_def)
  from assms have "?f (?f h * hash_m) = ?f (?f h' * hash_m)"
    by (simp add: murmur_final_def Let_def)
  then have "?f h * hash_m = ?f h' * hash_m" by (rule xorshift_inj) (rule r)
  then have "?f h = ?f h'" by (rule mult_m_inj)
  then show ?thesis by (rule xorshift_inj) (rule r)
qed

lemma foldl_mix_inj: "foldl murmur_mix h ks = foldl murmur_mix h' ks \<Longrightarrow> h = h'"
  by (induction ks arbitrary: h h') (auto dest: murmur_mix_inj_h)

lemma murmur_tail_inj_h: "murmur_tail h t = murmur_tail h' t \<Longrightarrow> h = h'"
  by (auto simp: murmur_tail_def dest!: mult_m_inj split: option.splits)

lemma murmur_tail_inj_t:
  assumes "murmur_tail h (Some w) = murmur_tail h (Some w')"
  shows "w = w'"
proof -
  from assms have "h XOR ucast w = h XOR (ucast w' :: u64)"
    by (auto simp: murmur_tail_def dest!: mult_m_inj)
  then have "(ucast w :: u64) = ucast w'" by simp
  then show ?thesis by (rule ucast_up_inj) simp
qed

lemma murmur_ref_block_inj:
  assumes "murmur_ref (xs @ k # ys) t len seed = murmur_ref (xs @ k' # ys) t len seed"
  shows "k = k'"
  using assms unfolding murmur_ref_def
  by (auto dest!: murmur_final_inj murmur_tail_inj_h foldl_mix_inj murmur_mix_inj_k)

text \<open>
  Two keys of one length that differ in a single aligned 8-byte block: the blocks before and
  after it and the tail are the same.
\<close>

lemma blocks64_split:
  assumes "j < n"
  shows "blocks64 bs n =
     map (\<lambda>i. le_word (take 8 (drop (8 * i) bs))) [0..<j] @
     le_word (take 8 (drop (8 * j) bs)) #
     map (\<lambda>i. le_word (take 8 (drop (8 * i) bs))) [Suc j..<n]"
proof -
  have "[0..<n] = [0..<j] @ j # [Suc j..<n]"
    using assms upt_add_eq_append [of 0 j "n - j"] by (simp add: upt_conv_Cons)
  then show ?thesis by (simp add: blocks64_def)
qed

lemma drop_suffix_eq:
  "drop a xs = drop a ys \<Longrightarrow> a \<le> b \<Longrightarrow> drop b xs = drop b ys"
  by (metis drop_drop le_add_diff_inverse2)

lemma take_prefix_block:
  assumes "take a xs = take a ys" "b + n \<le> a"
  shows "take n (drop b xs) = take n (drop b ys)"
proof -
  have "take n (drop b zs) = drop b (take (b + n) (take a zs))" for zs :: "'a list"
    using assms(2) by (simp add: drop_take min_absorb2)
  with assms(1) show ?thesis by metis
qed

lemma murmur_one_block:
  assumes len: "unat len mod 4 = 0" "unat len \<le> HASH_LIMIT" "unat len \<le> length key"
    and same: "length key' = length key"
    and j: "8 * j + 8 \<le> unat len"
    and pre: "take (8 * j) key' = take (8 * j) key"
    and post: "drop (8 * j + 8) key' = drop (8 * j + 8) key"
    and neq: "key' \<noteq> key"
  shows "MurmurHash64A key' len seed \<noteq> MurmurHash64A key len seed"
proof
  assume eq: "MurmurHash64A key' len seed = MurmurHash64A key len seed"
  let ?f = "\<lambda>bs i. le_word (take 8 (drop (8 * i) bs)) :: u64"
  let ?n = "unat len div 8"
  have jn: "j < ?n" using j by simp
  have before: "map (?f key') [0..<j] = map (?f key) [0..<j]"
    using take_prefix_block [OF pre] by simp
  have after: "map (?f key') [Suc j..<?n] = map (?f key) [Suc j..<?n]"
    using drop_suffix_eq [OF post] by simp
  have tail: "tail_word key' (unat len) = tail_word key (unat len)"
    using drop_suffix_eq [OF post, of "8 * ?n"] jn same by (simp add: tail_word_def load32_def)
  have len': "unat len \<le> length key'" using len(3) same by simp
  from eq have "?f key' j = ?f key j"
    unfolding murmur_eq_ref [OF len] murmur_eq_ref [OF len(1,2) len']
    by (auto simp: blocks64_split [OF jn] before after tail dest!: murmur_ref_block_inj)
  then have blk: "take 8 (drop (8 * j) key') = take 8 (drop (8 * j) key)"
    using j len(3) same by (subst (asm) le_word_inject) simp_all
  have "key' = take (8 * j) key' @ take 8 (drop (8 * j) key') @ drop (8 * j + 8) key'"
    by (metis add.commute append_take_drop_id drop_drop)
  also have "\<dots> = take (8 * j) key @ take 8 (drop (8 * j) key) @ drop (8 * j + 8) key"
    by (simp only: pre blk post)
  also have "\<dots> = key"
    by (metis add.commute append_take_drop_id drop_drop)
  finally show False using neq by simp
qed

section \<open>Properties\<close>

text \<open>C21: For every length that is a multiple of four and at most 384 bytes,
  \<open>MurmurHash64A\<close> loads only bytes of the key, at most the first \<open>len\<close> of them, and returns
  the fold of the mixing function over the 8-byte blocks, followed by the 4-byte tail and the
  final mixing.\<close>

theorem MurmurHash64A_correct:
  assumes "unat len mod 4 = 0" "unat len \<le> HASH_LIMIT" "unat len \<le> length key"
  shows "MurmurHash64A key len seed =
    Some (murmur_ref (blocks64 key (unat len div 8)) (tail_word key (unat len)) len seed)"
  by (rule murmur_eq_ref [OF assms])

text \<open>Two stacks of one length that differ in a single aligned pair of ids never share a
  hash.\<close>

lemma MurmurHash64A_one_block:
  assumes "unat len mod 4 = 0" "unat len \<le> HASH_LIMIT" "unat len \<le> length key"
    and "length key' = length key" "8 * j + 8 \<le> unat len"
    and "take (8 * j) key' = take (8 * j) key" "drop (8 * j + 8) key' = drop (8 * j + 8) key"
    and "key' \<noteq> key"
  shows "MurmurHash64A key' len seed \<noteq> MurmurHash64A key len seed"
  by (rule murmur_one_block [OF assms])

end
