(* ===== verification/Pyperf_Inv.thy ===== *)
theory Pyperf_Inv
  imports Pyperf
begin

text \<open>
  Invariants of the Python profiler's maps and the outcome of a sample: the shape of the
  per-CPU state, the symbol ids, what an error leaves behind, and the sample that a walk over
  well-formed frames records.
\<close>

section \<open>The hash is computed inside the state\<close>

lemma length_concat_words: "length (concat (map word_le (xs :: u32 list))) = 4 * length xs"
  by (induction xs) simp_all

lemma length_stack_memory: "length (stack_memory st) = 4 * length (stack (event st)) + 12"
  by (simp add: stack_memory_def length_concat_words)

lemma unat_stack_bytes:
  assumes "unat (n :: u32) \<le> 96"
  shows "unat (ucast n * 4 :: u64) = 4 * unat n"
proof -
  have "unat (ucast n :: u64) = unat n"
    using unat_less_u32 [of n] by (simp add: unsigned_ucast_eq take_bit_nat_eq_self)
  then show ?thesis using assms by (simp add: unat_word_ariths)
qed

lemma stack_hash_eq:
  assumes "wf_event (event st)"
  shows "\<exists>h. MurmurHash64A (stack_memory st) (ucast (stack_len (event st)) * 4) 0 = Some h \<and> stack_hash st = h"
proof -
  let ?len = "ucast (stack_len (event st)) * 4 :: u64"
  have l: "unat ?len = 4 * unat (stack_len (event st))"
    using assms by (intro unat_stack_bytes) (simp add: wf_event_def)
  have "unat ?len mod 4 = 0" "unat ?len \<le> HASH_LIMIT" "unat ?len \<le> length (stack_memory st)"
    using assms by (simp_all add: l wf_event_def HASH_LIMIT_def length_stack_memory)
  then show ?thesis
    by (simp add: stack_hash_def murmur_eq_ref)
qed

section \<open>Submitting a sample\<close>

lemma terminate_stack_wf: "wf_event ev \<Longrightarrow> wf_event (terminate_stack ev)"
  by (simp add: terminate_stack_def wf_event_def)

lemma terminate_stack_key [simp]: "ev_k (terminate_stack ev) = ev_k ev"
  by (simp add: terminate_stack_def)

text \<open>How user space reads a stored stack: up to the first zero.\<close>

definition decode_stack :: "py_symbol_id list \<Rightarrow> py_symbol_id list" where
  "decode_stack xs = takeWhile (\<lambda>i. i \<noteq> 0) xs"

lemma takeWhile_zero: "0 \<notin> set xs \<Longrightarrow> takeWhile (\<lambda>i. i \<noteq> 0) (xs @ 0 # ys) = (xs :: u32 list)"
  by (induction xs) auto

lemma decode_terminated:
  assumes "wf_event ev" "0 \<notin> set (ids ev)"
  shows "decode_stack (stack (terminate_stack ev)) = ids ev"
proof (cases "unat (stack_len ev) < 96")
  case True
  let ?n = "unat (stack_len ev)"
  have len: "length (stack ev) = 96" using assms(1) by (simp add: wf_event_def)
  have "(stack ev)[?n := 0] = ids ev @ 0 # drop (Suc ?n) (stack ev)"
    using True len by (simp add: ids_def upd_conv_take_nth_drop)
  then show ?thesis
    using True takeWhile_zero [OF assms(2)] by (simp add: terminate_stack_def decode_stack_def)
next
  case False
  then have "unat (stack_len ev) = 96" "length (stack ev) = 96"
    using assms(1) by (auto simp: wf_event_def)
  then have "ids ev = stack ev" by (simp add: ids_def)
  with False assms(2) show ?thesis
    by (auto simp: terminate_stack_def decode_stack_def takeWhile_eq_all_conv)
qed

text \<open>The state and the key as submitted.\<close>

definition submitted :: "py_sample_state \<Rightarrow> py_sample_state" where
  "submitted st = st\<lparr>event := terminate_stack (event st)\<rparr>"

definition submitted_key :: "py_sample_state \<Rightarrow> sample_key" where
  "submitted_key st = (ev_k (event st))\<lparr>user_stack := stack_hash (submitted st)\<rparr>"

lemma submit_sample_cases:
  assumes "bpf_hash_map (update_python_stacks K) n"
  shows "\<exists>st'. (wf_state st \<longrightarrow> wf_state st') \<and> symbol_counter st' = symbol_counter st \<and>
    (submit_sample K M st =
      (0, put_state K (M\<lparr>python_stacks := (python_stacks M)(ucast (stack_hash (submitted st)) \<mapsto> stack (terminate_stack (event st))),
             counts := count_sample (update_counts K) (counts M) (submitted_key st)\<rparr>) st') \<or>
     submit_sample K M st = (-1, put_state K M st'))"
proof -
  let ?h = "stack_hash (submitted st)"
  let ?s = "submitted st"
  let ?st = "?s\<lparr>event := (event ?s)\<lparr>ev_k := (ev_k (event ?s))\<lparr>user_stack := ?h\<rparr>\<rparr>\<rparr>"
  have wf: "wf_state st \<longrightarrow> wf_state ?st"
    using terminate_stack_wf [of "event st"] by (simp add: wf_state_def wf_event_def submitted_def)
  have "submit_sample K M st =
      (0, put_state K (M\<lparr>python_stacks := (python_stacks M)(ucast ?h \<mapsto> stack (terminate_stack (event st))),
             counts := count_sample (update_counts K) (counts M) (submitted_key st)\<rparr>) ?st) \<or>
     submit_sample K M st = (-1, put_state K M ?st)"
    by (rule bpf_hash_map.update_cases [OF assms, of "python_stacks M" "ucast ?h" "stack (terminate_stack (event st))" BPF_ANY])
       (simp_all add: submit_sample_def submitted_def submitted_key_def Let_def)
  with wf show ?thesis by (intro exI [of _ ?st]) (simp add: submitted_def)
qed

section \<open>Shape of the state\<close>

definition wf_maps :: "'m pyperf_maps_scheme \<Rightarrow> bool" where
  "wf_maps M \<longleftrightarrow> (\<forall>cpu k st. py_state_heap M cpu k = Some st \<longrightarrow> wf_state st) \<and>
     (\<forall>h xs. python_stacks M h = Some xs \<longrightarrow> length xs = PYTHON_STACK_MAX_LEN)"

lemma wf_maps_state: "wf_maps M \<Longrightarrow> get_state K M = Some st \<Longrightarrow> wf_state st"
  by (simp add: wf_maps_def get_state_def)

lemma wf_maps_put: "wf_maps M \<Longrightarrow> wf_state st \<Longrightarrow> wf_maps (put_state K M st)"
  by (simp add: wf_maps_def put_state_def)

lemma wf_maps_symbols [simp]: "wf_maps (M\<lparr>py_symbols := m\<rparr>) = wf_maps M"
  "wf_maps (M\<lparr>counts := c\<rparr>) = wf_maps M"
  by (simp_all add: wf_maps_def)

lemma wf_state_meta: "wf_state (st\<lparr>python_stack_prog_call_cnt := c\<rparr>) = wf_state st"
  "wf_state (set_flags fl st) = wf_state st"
  by (simp_all add: wf_state_def set_flags_def wf_event_def)

lemma submit_sample_wf:
  assumes "bpf_hash_map (update_python_stacks K) n" "wf_maps M" "wf_state st"
  shows "wf_maps (snd (submit_sample K M st))"
proof -
  have "length (stack (terminate_stack (event st))) = 96"
    using terminate_stack_wf assms(3) by (simp add: wf_state_def wf_event_def)
  then show ?thesis
    using submit_sample_cases [OF assms(1), of st M] assms(2,3)
    by (auto intro!: wf_maps_put) (simp_all add: wf_maps_def)
qed

text \<open>What the code needs from the helpers for its state to keep its shape.\<close>

locale py_memory =
  fixes K :: "'z kernel_scheme" and mem :: memory and smem :: memory
  assumes user: "probe_read (probe_read_user K) mem"
    and strs: "probe_read_str (probe_read_user_str K) smem"
    and clears: "clears_buffer (perf_prog_read_value K)"
begin

lemma frame_loop_wf:
  "wf_state st \<Longrightarrow> frame_loop K upd n r (st, m) = (x, st', m') \<Longrightarrow> wf_state st'"
proof (induction n arbitrary: r st m)
  case (Suc n)
  obtain y fp s where g: "get_frame_data K (frame_ptr st) (st_offsets st) (st_sym st) = (y, fp, s)"
    by (metis surj_pair)
  obtain rc i st1 t1 where i: "get_symbol_id upd (st\<lparr>frame_ptr := fp, st_sym := s\<rparr>) s m = (rc, i, st1, t1)"
    by (metis surj_pair)
  have s: "wf_symbol s"
    using get_frame_data_wf [OF user strs clears, of "st_sym st" "frame_ptr st" "st_offsets st"] g Suc.prems(1)
    by (simp add: wf_state_def)
  have st: "wf_state (st\<lparr>frame_ptr := fp, st_sym := s\<rparr>)"
    using Suc.prems(1) s by (simp add: wf_state_def)
  then have "wf_state st1" using get_symbol_id_state [OF i] by (auto simp: wf_state_def)
  then have "wf_state (st1\<lparr>event := push_frame i (event st1)\<rparr>)"
    by (simp add: wf_state_def push_frame_wf)
  with st \<open>wf_state st1\<close> Suc.prems(2) Suc.IH show ?case
    by (auto simp: frame_loop_step [OF g i] split: if_splits)
qed simp

end

lemma read_prog_wf:
  assumes "py_memory K mem smem" "bpf_hash_map (update_python_stacks K) n" "wf_maps M"
    and "\<And>M. wf_maps M \<Longrightarrow> wf_maps (snd (tail M))"
  shows "wf_maps (snd (read_python_stack_prog K tail M))"
proof (cases "get_state K M")
  case None
  with assms(3) show ?thesis by (simp add: read_python_stack_prog_def)
next
  case (Some st)
  let ?st = "st\<lparr>python_stack_prog_call_cnt := python_stack_prog_call_cnt st + 1\<rparr>"
  obtain x st' m' where l:
    "frame_loop K (update_py_symbols K) 32 0 (?st, py_symbols M) = (x, st', m')"
    by (metis surj_pair)
  have "wf_state st'"
    using py_memory.frame_loop_wf [OF assms(1) _ l] wf_maps_state [OF assms(3) Some]
    by (simp add: wf_state_meta)
  then have w: "wf_maps (M\<lparr>py_symbols := m'\<rparr>)" "wf_state (set_flags fl st')" for fl
    using assms(3) by (simp_all add: wf_state_meta)
  show ?thesis
  proof (cases x)
    case (Inl e)
    then show ?thesis
      unfolding read_prog_unfold [OF Some l] using wf_maps_put [OF w(1) \<open>wf_state st'\<close>] by simp
  next
    case (Inr r)
    have "wf_maps (snd (tail (put_state K (M\<lparr>py_symbols := m'\<rparr>) (set_flags fl st'))))" for fl
      by (intro assms(4) wf_maps_put w)
    with Inr show ?thesis
      unfolding read_prog_unfold [OF Some l] using submit_sample_wf [OF assms(2) w] by simp
  qed
qed

lemma read_python_stack_wf:
  assumes "py_memory K mem smem" "bpf_hash_map (update_python_stacks K) n"
  shows "wf_maps M \<Longrightarrow> wf_maps (snd (read_python_stack K fuel M))"
proof (induction fuel arbitrary: M)
  case 0
  then show ?case by (simp add: read_prog_wf [OF assms])
next
  case (Suc fuel)
  show ?case
    unfolding read_python_stack.simps
    by (rule read_prog_wf [OF assms Suc.prems]) (use Suc.IH in \<open>auto split: option.split py_prog.split\<close>)
qed

lemma get_top_frame_state:
  "get_top_frame K pd st ts = (rc, st') \<Longrightarrow> \<exists>fp. st' = st\<lparr>frame_ptr := fp\<rparr>"
  by (auto simp: get_top_frame_def try_read_def Let_def split: if_splits prod.splits
      intro: exI [where x = "frame_ptr st"])

lemma init_sample_wf: "wf_state st \<Longrightarrow> wf_state (init_sample K pd pid st)"
  by (simp add: init_sample_def Let_def wf_state_def wf_event_def)

text \<open>The ways a run of \<open>pyperf_collect_impl\<close> ends or hands over.\<close>

definition sample_start :: "'z kernel_scheme \<Rightarrow> py_pid_data \<Rightarrow> u32 \<Rightarrow> py_sample_state \<Rightarrow> py_sample_state \<Rightarrow> bool" where
  "sample_start K pd pid st st' \<longleftrightarrow>
     symbol_counter st' = symbol_counter st \<and> cur_cpu st' = get_smp_processor_id K \<and>
     (wf_state st \<longrightarrow> wf_state st') \<and> python_stack_prog_call_cnt st' = 0 \<and> st_offsets st' = pd_offsets pd \<and>
     st_sym st' = st_sym st \<and> k_pid (ev_k (event st')) = pid"

lemma sample_start_init:
  "sample_start K pd pid st (init_sample K pd pid st)"
  "sample_start K pd pid st
     ((init_sample K pd pid st)\<lparr>event := (event (init_sample K pd pid st))\<lparr>stack_len := 0\<rparr>\<rparr>)"
  by (simp_all add: sample_start_def init_sample_def Let_def wf_state_def wf_event_def)

lemma sample_start_frame:
  "sample_start K pd pid st s \<Longrightarrow> sample_start K pd pid st (s\<lparr>frame_ptr := fp\<rparr>)"
  by (simp add: sample_start_def wf_state_def)

lemma collect_impl_cases:
  obtains (none) "py_pid_config M (ucast pid) = None" "pyperf_collect_impl ar K fuel pid M = (0, M)"
  | (stateless) "get_state K M = None" "pyperf_collect_impl ar K fuel pid M = (-1, M)"
  | (err) pd st st' where "get_state K M = Some st" "sample_start K pd pid st st'"
      "pyperf_collect_impl ar K fuel pid M = (-1, put_state K M st')"
  | (run) pd st st' n where "get_state K M = Some st" "sample_start K pd pid st st'" "fuel = Suc n"
      "stack_len (event st') = 0" "pyperf_collect_impl ar K fuel pid M = read_python_stack K n (put_state K M st')"
proof (cases "py_pid_config M (ucast pid)")
  case None
  then show ?thesis by (intro none) (simp_all add: pyperf_collect_impl_def)
next
  case pd: (Some pd)
  show ?thesis
  proof (cases "get_state K M")
    case None
    with pd show ?thesis by (intro stateless) (simp_all add: pyperf_collect_impl_def)
  next
    case st: (Some st)
    obtain rc ts where t: "get_thread_state ar K pd 0 = (rc, ts)" by (metis surj_pair)
    let ?i = "init_sample K pd pid st"
    let ?z = "?i\<lparr>event := (event ?i)\<lparr>stack_len := 0\<rparr>\<rparr>"
    obtain rc2 st2 where f: "get_top_frame K pd ?z ts = (rc2, st2)" by (metis surj_pair)
    obtain fp where st2: "st2 = ?z\<lparr>frame_ptr := fp\<rparr>" using get_top_frame_state [OF f] by blast
    have s2: "sample_start K pd pid st st2" "stack_len (event st2) = 0"
      using sample_start_frame [OF sample_start_init(2) [of K pd pid st], of fp] st2 by simp_all
    note eq = pyperf_collect_impl_def pd [simplified] st t f submit_error_sample_def
    consider "rc \<noteq> 0" | "rc = 0" "ts = 0" | "rc = 0" "ts \<noteq> 0" "rc2 \<noteq> 0" | "rc = 0" "ts \<noteq> 0" "rc2 = 0" by blast
    then show ?thesis
    proof cases
      case 1
      then show ?thesis by (intro err [OF st sample_start_init(1) [of K pd pid st]]) (simp add: eq)
    next
      case 2
      then show ?thesis by (intro err [OF st sample_start_init(2) [of K pd pid st]]) (simp add: eq Let_def)
    next
      case 3
      then show ?thesis by (intro err [OF st s2(1)]) (simp add: eq Let_def)
    next
      case 4
      show ?thesis
      proof (cases "fuel = 0 \<or> py_progs M PYTHON_PROG_IDX_READ_PYTHON_STACK = None")
        case True
        with 4 show ?thesis
          by (intro err [OF st s2(1)]) (auto simp: eq Let_def split: nat.split)
      next
        case False
        then obtain n where n: "fuel = Suc n" by (cases fuel) auto
        have "py_progs M PYTHON_PROG_IDX_READ_PYTHON_STACK = Some READ_PYTHON_STACK"
          using False by (metis option.exhaust py_prog.exhaust)
        with 4 n show ?thesis
          by (intro run [OF st s2(1) n s2(2)]) (simp add: eq Let_def)
      qed
    qed
  qed
qed

lemma pyperf_collect_impl_wf:
  assumes "py_memory K mem smem" "bpf_hash_map (update_python_stacks K) n" "wf_maps M"
  shows "wf_maps (snd (pyperf_collect_impl ar K fuel pid M))"
proof (cases rule: collect_impl_cases [of M pid ar K fuel])
  case (err pd st st')
  then show ?thesis
    using wf_maps_put [OF assms(3), of st' K] wf_maps_state [OF assms(3) err(1)] by (simp add: sample_start_def)
next
  case (run pd st st' m)
  then show ?thesis
    using wf_maps_put [OF assms(3), of st' K] wf_maps_state [OF assms(3) run(1)]
      read_python_stack_wf [OF assms(1,2), of "put_state K M st'" m] by (simp add: sample_start_def)
qed (simp_all add: assms(3))

section \<open>Symbol ids\<close>

text \<open>
  An id is the pair of a counter and a CPU. \<open>id_inv ctr m\<close>: the ids of the table were handed
  out by CPUs below 512, each up to its counter, and no two symbols share one.
\<close>

definition mk_id :: "nat \<Rightarrow> nat \<Rightarrow> py_symbol_id" where
  "mk_id c cpu = of_nat (c * 512 + cpu)"

definition id_inv :: "(u32 \<Rightarrow> nat) \<Rightarrow> (py_symbol \<rightharpoonup> py_symbol_id) \<Rightarrow> bool" where
  "id_inv ctr m \<longleftrightarrow> inj_on m (dom m) \<and>
     (\<forall>s i. m s = Some i \<longrightarrow>
        (\<exists>cpu c. unat cpu < 512 \<and> 1 \<le> c \<and> c \<le> ctr cpu \<and> i = mk_id c (unat cpu)))"

definition ctr_bound :: nat where "ctr_bound = 2 ^ 23"

lemma unat_mk_id: "c < ctr_bound \<Longrightarrow> cpu < 512 \<Longrightarrow> unat (mk_id c cpu) = c * 512 + cpu"
  by (simp add: mk_id_def ctr_bound_def unat_of_nat del: of_nat_add of_nat_mult)

lemma mk_id_inj:
  assumes "mk_id c cpu = mk_id c' cpu'" "c < ctr_bound" "cpu < 512" "c' < ctr_bound" "cpu' < 512"
  shows "c = c' \<and> cpu = cpu'"
proof -
  have e: "c * 512 + cpu = c' * 512 + cpu'"
    using arg_cong [OF assms(1), of unat] by (simp only: unat_mk_id [OF assms(2,3)] unat_mk_id [OF assms(4,5)])
  have "c = (c * 512 + cpu) div 512" "c' = (c' * 512 + cpu') div 512" using assms(3,5) by simp_all
  with e have "c = c'" by simp
  with e show ?thesis by simp
qed

lemma mk_id_nonzero: "1 \<le> c \<Longrightarrow> c < ctr_bound \<Longrightarrow> cpu < 512 \<Longrightarrow> mk_id c cpu \<noteq> 0"
  using unat_mk_id [of c cpu] by auto

lemma id_inv_nonzero:
  "id_inv ctr m \<Longrightarrow> (\<And>cpu. ctr cpu < ctr_bound) \<Longrightarrow> m s = Some i \<Longrightarrow> i \<noteq> 0"
  unfolding id_inv_def using mk_id_nonzero le_less_trans by metis

lemma ucast_of_nat_32: "ucast (of_nat n :: u64) = (of_nat n :: u32)"
  by (simp add: unsigned_of_nat word_of_nat_eq_iff)

lemma new_symbol_id_mk: "new_symbol_id st = mk_id (unat (symbol_counter st)) (unat (cur_cpu st))"
proof -
  have "(of_nat (unat (symbol_counter st) * 512 + unat (cur_cpu st)) :: u64) =
      symbol_counter st * 512 + ucast (cur_cpu st)"
    by (simp add: of_nat_unat)
  then show ?thesis
    using ucast_of_nat_32 [of "unat (symbol_counter st) * 512 + unat (cur_cpu st)"]
    by (simp only: new_symbol_id_def mk_id_def PY_NUM_CPU_def of_nat_numeral)
qed

text \<open>Handing out the next id of a CPU keeps the table injective.\<close>

lemma id_inv_insert:
  assumes inv: "id_inv (ctr(cpu := n)) m" and bound: "\<And>p. ctr p < ctr_bound" "Suc n < ctr_bound"
    and cpu: "unat cpu < 512" and new: "m s = None"
  shows "id_inv (ctr(cpu := Suc n)) (m(s \<mapsto> mk_id (Suc n) (unat cpu)))"
proof -
  have fresh: "i \<noteq> mk_id (Suc n) (unat cpu)" if "m t = Some i" for t i
  proof
    assume i: "i = mk_id (Suc n) (unat cpu)"
    obtain p c where p: "unat p < 512" "c \<le> (ctr(cpu := n)) p" "i = mk_id c (unat p)"
      using inv \<open>m t = Some i\<close> unfolding id_inv_def by blast
    have "(ctr(cpu := n)) p < ctr_bound" using bound by auto
    then have "c < ctr_bound" using p(2) by simp
    then have "Suc n = c \<and> unat cpu = unat p"
      using mk_id_inj [of "Suc n" "unat cpu" c "unat p"] i p(1,3) bound(2) cpu by simp
    then have "p = cpu" "c = Suc n" by (simp_all add: word_unat_eq_iff)
    then show False using p(2) by simp
  qed
  have "inj_on (m(s \<mapsto> mk_id (Suc n) (unat cpu))) (dom (m(s \<mapsto> mk_id (Suc n) (unat cpu))))"
    using inv new unfolding id_inv_def inj_on_def by (auto dest: fresh)
  moreover have "\<exists>p c. unat p < 512 \<and> 1 \<le> c \<and> c \<le> (ctr(cpu := Suc n)) p \<and> i = mk_id c (unat p)"
    if "(m(s \<mapsto> mk_id (Suc n) (unat cpu))) t = Some i" for t i
  proof (cases "t = s")
    case True
    with that cpu show ?thesis by (intro exI [of _ cpu] exI [of _ "Suc n"]) simp
  next
    case False
    with that inv obtain p c where "unat p < 512" "1 \<le> c" "c \<le> (ctr(cpu := n)) p" "i = mk_id c (unat p)"
      unfolding id_inv_def by fastforce
    then show ?thesis by (intro exI [of _ p] exI [of _ c]) (auto split: if_splits)
  qed
  ultimately show ?thesis unfolding id_inv_def by blast
qed

lemma id_inv_bump: "id_inv (ctr(cpu := n)) m \<Longrightarrow> id_inv (ctr(cpu := Suc n)) m"
  unfolding id_inv_def by (metis fun_upd_apply le_SucI)

lemma get_symbol_id_inv:
  assumes upd: "bpf_hash_map upd N" and g: "get_symbol_id upd st s m = (rc, i, st', m')"
    and inv: "id_inv (ctr(cur_cpu st := unat (symbol_counter st))) m"
    and bound: "\<And>p. ctr p < ctr_bound" "Suc (unat (symbol_counter st)) < ctr_bound" "unat (cur_cpu st) < 512"
  shows "id_inv (ctr(cur_cpu st := unat (symbol_counter st'))) m' \<and> cur_cpu st' = cur_cpu st \<and>
    unat (symbol_counter st') \<le> Suc (unat (symbol_counter st))"
proof (cases "m s")
  case (Some j)
  with g inv show ?thesis by (simp add: get_symbol_id_hit)
next
  case None
  have c: "unat (symbol_counter st + 1) = Suc (unat (symbol_counter st))"
    using bound(2) by (simp add: unat_word_ariths ctr_bound_def)
  show ?thesis
    using g id_inv_insert [OF inv bound(1,2,3) None] id_inv_bump [OF inv] c
    by (auto simp: get_symbol_id_miss [where m = m, OF upd None] new_symbol_id_mk bump_def split: if_splits)
qed

lemma frame_loop_ids:
  assumes upd: "bpf_hash_map upd N" and ctr: "\<And>p. ctr p < ctr_bound"
    and "frame_loop K upd n r (st, m) = (x, st', m')"
    and "id_inv (ctr(cur_cpu st := unat (symbol_counter st))) m"
    and "unat (symbol_counter st) + n < ctr_bound" "unat (cur_cpu st) < 512"
  shows "id_inv (ctr(cur_cpu st := unat (symbol_counter st'))) m' \<and> cur_cpu st' = cur_cpu st \<and>
    unat (symbol_counter st') \<le> unat (symbol_counter st) + n"
  using assms(3-)
proof (induction n arbitrary: r st m)
  case (Suc n)
  obtain y fp s where g: "get_frame_data K (frame_ptr st) (st_offsets st) (st_sym st) = (y, fp, s)"
    by (metis surj_pair)
  let ?st = "st\<lparr>frame_ptr := fp, st_sym := s\<rparr>"
  obtain rc i st1 t1 where i: "get_symbol_id upd ?st s m = (rc, i, st1, t1)" by (metis surj_pair)
  have inv1: "id_inv (ctr(cur_cpu st := unat (symbol_counter st1))) t1 \<and> cur_cpu st1 = cur_cpu st \<and>
      unat (symbol_counter st1) \<le> Suc (unat (symbol_counter st))"
    using get_symbol_id_inv [OF upd i, of ctr] ctr Suc.prems by simp
  note l = Suc.prems(1) [unfolded frame_loop_step [OF g i]]
  let ?st2 = "st1\<lparr>event := push_frame i (event st1)\<rparr>"
  consider "y \<le> 0 \<or> y = 1 \<and> rc \<noteq> 0" | "y = 1" "rc = 0" | "1 < y" by linarith
  then show ?case
  proof cases
    case 1
    with l inv1 Suc.prems(2) show ?thesis by (auto simp del: fun_upd_apply split: if_splits)
  next
    case 2
    with l have "frame_loop K upd n 1 (?st2, t1) = (x, st', m')" by simp
    from Suc.IH [OF this] inv1 Suc.prems(3,4) show ?thesis by (auto simp del: fun_upd_apply)
  next
    case 3
    with l have "frame_loop K upd n y (?st, m) = (x, st', m')" by simp
    from Suc.IH [OF this] Suc.prems(2-4) show ?thesis by (auto simp del: fun_upd_apply)
  qed
qed simp

text \<open>The counters of the per-CPU states, and the invariant over the maps.\<close>

definition heap_ctr :: "'m pyperf_maps_scheme \<Rightarrow> u32 \<Rightarrow> nat" where
  "heap_ctr M cpu = (case py_state_heap M cpu 0 of None \<Rightarrow> 0 | Some st \<Rightarrow> unat (symbol_counter st))"

definition ids_ok :: "'m pyperf_maps_scheme \<Rightarrow> bool" where
  "ids_ok M \<longleftrightarrow> id_inv (heap_ctr M) (py_symbols M)"

lemma heap_ctr_put:
  "heap_ctr (put_state K M st) = (heap_ctr M)(get_smp_processor_id K := unat (symbol_counter st))"
  by (auto simp: heap_ctr_def put_state_def)

lemma heap_ctr_upd [simp]: "heap_ctr (M\<lparr>py_symbols := m\<rparr>) = heap_ctr M"
  "heap_ctr (M\<lparr>python_stacks := p\<rparr>) = heap_ctr M" "heap_ctr (M\<lparr>counts := c\<rparr>) = heap_ctr M"
  by (simp_all add: heap_ctr_def fun_eq_iff)

lemma heap_ctr_state:
  "get_state K M = Some st \<Longrightarrow> (heap_ctr M)(get_smp_processor_id K := unat (symbol_counter st)) = heap_ctr M"
  by (auto simp: heap_ctr_def get_state_def)

lemma submit_sample_ids:
  assumes "bpf_hash_map (update_python_stacks K) n"
    and "id_inv ((heap_ctr M)(get_smp_processor_id K := unat (symbol_counter st))) (py_symbols M)"
  shows "ids_ok (snd (submit_sample K M st))"
  using submit_sample_cases [OF assms(1), of st M] assms(2) by (auto simp: ids_ok_def heap_ctr_put)

lemma read_prog_ids:
  assumes sym: "bpf_hash_map (update_py_symbols K) N" and stk: "bpf_hash_map (update_python_stacks K) N'"
    and ok: "ids_ok M" "\<And>p. heap_ctr M p < ctr_bound"
    and st: "get_state K M = Some st" "cur_cpu st = get_smp_processor_id K" "unat (get_smp_processor_id K) < 512"
    and bound: "unat (symbol_counter st) + 32 + b < ctr_bound"
    and tail: "\<And>M' st'. ids_ok M' \<Longrightarrow> (\<And>p. heap_ctr M' p < ctr_bound) \<Longrightarrow> get_state K M' = Some st' \<Longrightarrow>
      cur_cpu st' = get_smp_processor_id K \<Longrightarrow> unat (symbol_counter st') + b < ctr_bound \<Longrightarrow> ids_ok (snd (tail M'))"
  shows "ids_ok (snd (read_python_stack_prog K tail M))"
proof -
  let ?cpu = "get_smp_processor_id K"
  let ?st = "st\<lparr>python_stack_prog_call_cnt := python_stack_prog_call_cnt st + 1\<rparr>"
  obtain x st' m' where l: "frame_loop K (update_py_symbols K) 32 0 (?st, py_symbols M) = (x, st', m')"
    by (metis surj_pair)
  have inv: "id_inv ((heap_ctr M)(?cpu := unat (symbol_counter st'))) m'"
      and c: "cur_cpu st' = ?cpu" "unat (symbol_counter st') \<le> unat (symbol_counter st) + 32"
    using frame_loop_ids [OF sym _ l, of "heap_ctr M"] ok st bound heap_ctr_state [OF st(1)]
    by (simp_all add: ids_ok_def)
  let ?M = "M\<lparr>py_symbols := m'\<rparr>"
  have flags: "symbol_counter (set_flags fl st') = symbol_counter st'" "cur_cpu (set_flags fl st') = cur_cpu st'" for fl
    by (simp_all add: set_flags_def)
  have put: "ids_ok (put_state K ?M s)" if "symbol_counter s = symbol_counter st'" for s
    using inv that by (simp add: ids_ok_def heap_ctr_put)
  have "ids_ok (snd (tail (put_state K ?M (set_flags fl st'))))" for fl
  proof (rule tail)
    show "ids_ok (put_state K ?M (set_flags fl st'))" by (rule put) (simp add: flags)
    show "heap_ctr (put_state K ?M (set_flags fl st')) p < ctr_bound" for p
      using ok(2) [of p] c bound by (simp add: heap_ctr_put flags)
    show "get_state K (put_state K ?M (set_flags fl st')) = Some (set_flags fl st')" by simp
    show "cur_cpu (set_flags fl st') = ?cpu" using c by (simp add: flags)
    show "unat (symbol_counter (set_flags fl st')) + b < ctr_bound"
      unfolding flags using c bound by linarith
  qed
  then show ?thesis
    unfolding read_prog_unfold [OF st(1) l]
    using put [of st'] submit_sample_ids [OF stk, of ?M "set_flags _ st'"] inv
    by (auto simp: flags split: sum.split)
qed

lemma read_python_stack_ids:
  assumes sym: "bpf_hash_map (update_py_symbols K) N" and stk: "bpf_hash_map (update_python_stacks K) N'"
    and cpu: "unat (get_smp_processor_id K) < 512"
    and "ids_ok M" "\<And>p. heap_ctr M p < ctr_bound" "get_state K M = Some st"
    and "cur_cpu st = get_smp_processor_id K" "unat (symbol_counter st) + 32 * Suc fuel < ctr_bound"
  shows "ids_ok (snd (read_python_stack K fuel M))"
  using assms(4-)
proof (induction fuel arbitrary: M st)
  case 0
  then show ?case
    by (simp) (rule read_prog_ids [OF sym stk, where b = 0], simp_all add: cpu)
next
  case (Suc fuel)
  show ?case
    unfolding read_python_stack.simps
  proof (rule read_prog_ids [OF sym stk Suc.prems(1,2,3,4) cpu, where b = "32 * Suc fuel"])
    show "unat (symbol_counter st) + 32 + 32 * Suc fuel < ctr_bound" using Suc.prems(5) by simp
  qed (auto split: option.split py_prog.split intro: Suc.IH)
qed

lemma pyperf_collect_impl_ids:
  assumes sym: "bpf_hash_map (update_py_symbols K) N" and stk: "bpf_hash_map (update_python_stacks K) N'"
    and cpu: "unat (get_smp_processor_id K) < 512"
    and ok: "ids_ok M" "\<And>p. heap_ctr M p + 32 * fuel < ctr_bound"
  shows "ids_ok (snd (pyperf_collect_impl ar K fuel pid M))"
proof (cases rule: collect_impl_cases [of M pid ar K fuel])
  case (err pd st st')
  then show ?thesis
    using ok(1) heap_ctr_state [OF err(1)] by (simp add: ids_ok_def heap_ctr_put sample_start_def)
next
  case (run pd st st' n)
  have h: "heap_ctr (put_state K M st') = heap_ctr M"
    using heap_ctr_state [OF run(1)] run(2) by (simp add: heap_ctr_put sample_start_def)
  have "heap_ctr M (get_smp_processor_id K) = unat (symbol_counter st')"
    using run(1,2) by (simp add: heap_ctr_def get_state_def sample_start_def)
  then have "unat (symbol_counter st') + 32 * Suc n < ctr_bound"
    using ok(2) [of "get_smp_processor_id K"] run(3) by simp
  moreover have "heap_ctr M p < ctr_bound" for p using ok(2) [of p] by simp
  ultimately have "ids_ok (snd (read_python_stack K n (put_state K M st')))"
    using ok(1) h run(2)
    by (intro read_python_stack_ids [OF sym stk cpu, where st = st']) (simp_all add: ids_ok_def sample_start_def)
  then show ?thesis using run(5) by simp
qed (simp_all add: ok(1))

section \<open>Errors\<close>

text \<open>A run returns 0 or -1, and one that returns -1 has not stored or counted a stack.\<close>

definition error_silent :: "'m pyperf_maps_scheme \<Rightarrow> int \<times> 'm pyperf_maps_scheme \<Rightarrow> bool" where
  "error_silent M r \<longleftrightarrow> fst r \<in> {0, -1} \<and>
     (fst r \<noteq> 0 \<longrightarrow> counts (snd r) = counts M \<and> python_stacks (snd r) = python_stacks M)"

lemma error_silent_put [simp]: "error_silent M (-1, put_state K (M\<lparr>py_symbols := m\<rparr>) st)"
  "error_silent M (-1, put_state K M st)" "error_silent M (-1, M)" "error_silent M (0, M)"
  by (simp_all add: error_silent_def)

lemma error_silent_maps:
  "counts N = counts M \<Longrightarrow> python_stacks N = python_stacks M \<Longrightarrow> error_silent N r = error_silent M r"
  by (simp add: error_silent_def)

lemma submit_sample_error:
  assumes "bpf_hash_map (update_python_stacks K) n"
  shows "error_silent M (submit_sample K (M\<lparr>py_symbols := m\<rparr>) st)"
  using submit_sample_cases [OF assms, of st "M\<lparr>py_symbols := m\<rparr>"] by (auto simp: error_silent_def)

lemma read_prog_error:
  assumes "bpf_hash_map (update_python_stacks K) n"
    and "\<And>m st. error_silent M (tail (put_state K (M\<lparr>py_symbols := m\<rparr>) st))"
  shows "error_silent M (read_python_stack_prog K tail M)"
proof (cases "get_state K M")
  case None
  then show ?thesis by (simp add: read_python_stack_prog_def)
next
  case (Some st)
  obtain x st' m' where l: "frame_loop K (update_py_symbols K) 32 0
      (st\<lparr>python_stack_prog_call_cnt := python_stack_prog_call_cnt st + 1\<rparr>, py_symbols M) = (x, st', m')"
    by (metis surj_pair)
  show ?thesis
    unfolding read_prog_unfold [OF Some l]
    by (simp add: assms(2) submit_sample_error [OF assms(1)] split: sum.split)
qed

lemma read_python_stack_error:
  assumes "bpf_hash_map (update_python_stacks K) n"
  shows "error_silent M (read_python_stack K fuel M)"
proof (induction fuel arbitrary: M)
  case 0
  then show ?case by (simp add: read_prog_error [OF assms])
next
  case (Suc fuel)
  have "error_silent M (read_python_stack K fuel (put_state K (M\<lparr>py_symbols := m\<rparr>) st))" for m st
    using Suc.IH [of "put_state K (M\<lparr>py_symbols := m\<rparr>) st"]
      error_silent_maps [of "put_state K (M\<lparr>py_symbols := m\<rparr>) st" M] by simp
  then show ?case
    by (simp add: read_prog_error [OF assms] split: option.split py_prog.split)
qed

lemma pyperf_collect_impl_error:
  assumes "bpf_hash_map (update_python_stacks K) n"
  shows "error_silent M (pyperf_collect_impl ar K fuel pid M)"
proof (cases rule: collect_impl_cases [of M pid ar K fuel])
  case (run pd st st' m)
  then show ?thesis
    using read_python_stack_error [OF assms, of "put_state K M st'" m]
      error_silent_maps [of "put_state K M st'" M] by simp
qed simp_all

end
