(* ===== verification/Pyperf_Props.thy ===== *)
theory Pyperf_Props
  imports Pyperf_Inv
begin

text \<open>
  The properties of the Python profiler: the chain of programs refines one walk over the
  frames, a sample of a well-formed interpreter is recorded completely, and the invariants and
  error behaviour of \<open>pyperf_collect\<close>.
\<close>

section \<open>The sample of a well-formed interpreter\<close>

text \<open>The helpers of a kernel whose user memory is resident and whose maps have room.\<close>

locale py_kernel =
  fixes K :: "('z) pyperf_kernel_scheme" and mem :: memory and nsym nstk :: nat
  assumes user: "probe_read_resident (probe_read_user K) mem"
    and strs: "probe_read_str (probe_read_user_str K) mem"
    and clears: "clears_buffer (perf_prog_read_value K)"
    and syms: "bpf_hash_map_room (update_py_symbols K) nsym"
    and stks: "bpf_hash_map_room (update_python_stacks K) nstk"
begin

lemmas reader = frame_reader_get_frame_data [OF user strs clears]
lemmas syms_map = bpf_hash_map_room.axioms(1) [OF syms]
lemmas stks_map = bpf_hash_map_room.axioms(1) [OF stks]
lemmas table = get_symbol_id_contract [OF syms_map]
lemmas table_room = get_symbol_id_room [OF syms]

lemma memory: "py_memory K mem mem"
  by (intro py_memory.intro resident_read [OF user] strs clears)

lemma submit_room:
  assumes "card (dom (python_stacks M)) < nstk"
  shows "\<exists>st'. submit_sample K M st =
    (0, put_state K (M\<lparr>python_stacks := (python_stacks M)(ucast (stack_hash (submitted st)) \<mapsto> stack (terminate_stack (event st))),
             counts := count_sample (update_counts K) (counts M) (submitted_key st)\<rparr>) st')"
  using bpf_hash_map_room.update_room [OF stks, of _ "python_stacks M"] assms
  by (simp add: submit_sample_def submitted_def submitted_key_def Let_def) blast

lemma walk_recorded:
  assumes st: "wf_state st" "stack_len (event st) = 0"
    and walk: "py_walk (frame_at K (st_offsets st)) 96 (frame_ptr st) = (ss, e)" "\<And>b. e \<noteq> Broken b"
    and room: "finite (dom (py_symbols M))" "card (dom (py_symbols M) \<union> set ss) \<le> nsym"
      "card (dom (python_stacks M)) < nstk"
    and ids: "id_inv (ctr(cur_cpu st := unat (symbol_counter st))) (py_symbols M)" "\<And>p. ctr p < ctr_bound"
      "unat (symbol_counter st) + 96 < ctr_bound" "unat (cur_cpu st) < 512"
  shows "\<exists>M' h xs. read_python_stack_once K M st = (0, M') \<and>
    py_symbols M \<subseteq>\<^sub>m py_symbols M' \<and> set ss \<subseteq> dom (py_symbols M') \<and>
    python_stacks M' = (python_stacks M)(ucast h \<mapsto> xs) \<and>
    decode_stack xs = map (\<lambda>s. the (py_symbols M' s)) ss \<and>
    counts M' = count_sample (update_counts K) (counts M)
      ((ev_k (event st))\<lparr>k_flags := stack_flags (if e = Complete then 0 else 1), user_stack := h\<rparr>)"
proof -
  obtain x st' m' where l: "frame_loop K (update_py_symbols K) 96 0 (st, py_symbols M) = (x, st', m')"
    by (metis surj_pair)
  have "wf_symbol (st_sym st)" using st(1) by (simp add: wf_state_def)
  from frame_loop_room [OF reader table_room this room(1) walk(1) room(2), of 0] l walk(2)
  have x: "x = Inr (if e = Complete then 0 else 1)"
    by (cases e) (auto simp: loop_result_def)
  have post: "loop_post st (py_symbols M) ss st' m'"
    using frame_loop_refines [OF reader table st(1) _ l [unfolded x] walk(1)] st(2) by simp
  have i0: "ids (event st) = []" using st(2) by (simp add: ids_def)
  with post have ids': "ids (event st') = map (\<lambda>s. the (m' s)) ss" and wf': "wf_event (event st')"
    and key: "ev_k (event st') = ev_k (event st)"
    using i0 by (simp_all add: loop_post_def wf_state_def)
  have inv: "id_inv (ctr(cur_cpu st := unat (symbol_counter st'))) m'"
    and c: "unat (symbol_counter st') \<le> unat (symbol_counter st) + 96"
    using frame_loop_ids [OF syms_map _ l, of ctr] ids by simp_all
  have bound: "(ctr(cur_cpu st := unat (symbol_counter st'))) p < ctr_bound" for p
    using ids(2) [of p] ids(3) c by simp
  have z: "0 \<notin> set (ids (event st'))"
  proof
    assume "0 \<in> set (ids (event st'))"
    then obtain s where "s \<in> set ss" "the (m' s) = 0" using ids' by auto
    with post have "m' s = Some 0" by (auto simp: loop_post_def)
    then show False using id_inv_nonzero [OF inv bound, of s 0] by simp
  qed
  let ?st = "set_flags (stack_flags (if e = Complete then 0 else 1)) st'"
  have ev: "stack (terminate_stack (event ?st)) = stack (terminate_stack (event st'))"
    by (simp add: set_flags_def terminate_stack_def)
  have k: "submitted_key ?st = (ev_k (event st))\<lparr>k_flags := stack_flags (if e = Complete then 0 else 1),
      user_stack := stack_hash (submitted ?st)\<rparr>"
    by (simp add: submitted_key_def set_flags_def key)
  have once: "read_python_stack_once K M st = submit_sample K (M\<lparr>py_symbols := m'\<rparr>) ?st"
    by (simp add: read_python_stack_once_def l x finish_walk_def)
  let ?h = "stack_hash (submitted ?st)" and ?xs = "stack (terminate_stack (event st'))"
  let ?M = "M\<lparr>py_symbols := m', python_stacks := (python_stacks M)(ucast ?h \<mapsto> ?xs),
     counts := count_sample (update_counts K) (counts M) (submitted_key ?st)\<rparr>"
  obtain st'' where sub: "submit_sample K (M\<lparr>py_symbols := m'\<rparr>) ?st = (0, put_state K ?M st'')"
    using submit_room [of "M\<lparr>py_symbols := m'\<rparr>" ?st] room(3) unfolding ev by auto
  have "decode_stack ?xs = map (\<lambda>s. the (m' s)) ss"
    using decode_terminated [OF wf' z] ids' by simp
  with post show ?thesis
    by (intro exI [of _ "put_state K ?M st''"] exI [of _ ?h] exI [of _ ?xs])
       (simp add: once sub k loop_post_def)
qed

end

text \<open>The reference helpers satisfy these laws, for every memory.\<close>

definition ref_pyperf_kernel :: "('z) pyperf_kernel_scheme \<Rightarrow> memory \<Rightarrow> memory \<Rightarrow> ('z) pyperf_kernel_scheme" where
  "ref_pyperf_kernel K kmem mem =
     (ref_py_kernel K kmem mem)\<lparr>update_counts := ref_update PROFILE_MAPS_SIZE,
        update_python_stacks := ref_update PROFILE_MAPS_SIZE, update_py_symbols := ref_update 16384\<rparr>"

lemma ref_pyperf_kernel_sel [simp]:
  "probe_read_user (ref_pyperf_kernel K kmem mem) = ref_probe_read mem"
  "probe_read_user_str (ref_pyperf_kernel K kmem mem) = ref_read_str mem"
  "probe_read_kernel (ref_pyperf_kernel K kmem mem) = ref_probe_read kmem"
  "perf_prog_read_value (ref_pyperf_kernel K kmem mem) = ref_perf_prog_read_value"
  "update_counts (ref_pyperf_kernel K kmem mem) = ref_update PROFILE_MAPS_SIZE"
  "update_python_stacks (ref_pyperf_kernel K kmem mem) = ref_update PROFILE_MAPS_SIZE"
  "update_py_symbols (ref_pyperf_kernel K kmem mem) = ref_update 16384"
  by (simp_all add: ref_pyperf_kernel_def ref_py_kernel_def ref_kernel_def)

interpretation ref_pyk: py_kernel "ref_pyperf_kernel K kmem mem" mem 16384 PROFILE_MAPS_SIZE for K kmem mem
  by (rule py_kernel.intro)
     (simp_all only: ref_pyperf_kernel_sel ref_read.probe_read_resident_axioms
        ref_str.probe_read_str_axioms ref_clear.clears_buffer_axioms ref_map.bpf_hash_map_room_axioms)

interpretation ref_pym: py_memory "ref_pyperf_kernel K kmem mem" mem mem for K kmem mem
  by (rule ref_pyk.memory)

section \<open>From the thread to the sample\<close>

definition top_frame :: "memory \<Rightarrow> py_offset_config \<Rightarrow> addr \<Rightarrow> addr option" where
  "top_frame mem offsets ts =
     (if PyThreadState_frame offsets = -1
      then Option.bind (mem_word mem (ptr_off ts (PyThreadState_cframe offsets)))
             (\<lambda>cframe. if cframe = (0 :: u64) then None else mem_word mem (ptr_off cframe (PyCFrame_current_frame offsets)))
      else mem_word mem (ptr_off ts (PyThreadState_frame offsets)))"

lemma get_top_frame_resident:
  assumes "probe_read_resident (probe_read_user K) mem" "top_frame mem (pd_offsets pd) ts = Some fp"
  shows "get_top_frame K pd st ts = (0, st\<lparr>frame_ptr := fp\<rparr>)"
  using assms(2)
  by (auto simp: top_frame_def get_top_frame_def try_read_resident [OF assms(1)] read_user_resident [OF assms(1)]
      bind_eq_Some_conv split: if_splits)

text \<open>A process that is profiled: its configuration, its thread state, its frames.\<close>

definition first_state :: "'z kernel_scheme \<Rightarrow> py_pid_data \<Rightarrow> u32 \<Rightarrow> addr \<Rightarrow> py_sample_state \<Rightarrow> py_sample_state" where
  "first_state K pd pid fp st =
     (let i = init_sample K pd pid st in i\<lparr>event := (event i)\<lparr>stack_len := 0\<rparr>, frame_ptr := fp\<rparr>)"

lemma collect_impl_run:
  assumes "probe_read_resident (probe_read_user K) mem"
    and "py_pid_config M (ucast pid) = Some pd" "get_state K M = Some st"
    and "get_thread_state ar K pd 0 = (0, ts)" "ts \<noteq> 0" "top_frame mem (pd_offsets pd) ts = Some fp"
    and "py_progs M PYTHON_PROG_IDX_READ_PYTHON_STACK = Some READ_PYTHON_STACK"
  shows "pyperf_collect_impl ar K (Suc n) pid M =
    read_python_stack K n (put_state K M (first_state K pd pid fp st))"
  using assms
  by (simp add: pyperf_collect_impl_def first_state_def get_top_frame_resident [OF assms(1,6)] Let_def)

lemma first_state_sel [simp]:
  "stack_len (event (first_state K pd pid fp st)) = 0" "frame_ptr (first_state K pd pid fp st) = fp"
  "st_offsets (first_state K pd pid fp st) = pd_offsets pd"
  "cur_cpu (first_state K pd pid fp st) = get_smp_processor_id K"
  "symbol_counter (first_state K pd pid fp st) = symbol_counter st"
  "python_stack_prog_call_cnt (first_state K pd pid fp st) = 0"
  by (simp_all add: first_state_def init_sample_def Let_def)

lemma first_state_wf: "wf_state st \<Longrightarrow> wf_state (first_state K pd pid fp st)"
  by (simp add: first_state_def init_sample_def Let_def wf_state_def wf_event_def)

lemma first_state_key:
  "(ev_k (event (first_state K pd pid fp st)))\<lparr>k_flags := fl, user_stack := h\<rparr> =
     \<lparr>k_pid = pid, k_flags = fl,
      kern_stack = (if collect_kernel pd \<noteq> 0 then get_stackid K KERN_STACKID_FLAGS else -1), user_stack = h\<rparr>"
  by (cases "ev_k (event st)") (simp add: first_state_def init_sample_def Let_def)

lemma chain_once:
  assumes "get_state K M = Some st" "python_stack_prog_call_cnt st = 0" "2 \<le> fuel"
    and "py_progs M PYTHON_PROG_IDX_READ_PYTHON_STACK = Some READ_PYTHON_STACK"
  shows "outcome (read_python_stack K fuel M) = outcome (read_python_stack_once K M st)"
proof -
  have st: "get_state K M = Some (set_meta 0 id st)" using assms(1,2) set_meta_id [of st] by metis
  have "outcome (read_python_stack K fuel M) =
      outcome (finish_walk K M (frame_loop K (update_py_symbols K) (32 + 32 * 2) 0 (st, py_symbols M)))"
    by (rule chain_walk [OF st]) (use assms(3,4) in simp_all)
  then show ?thesis by (simp add: read_python_stack_once_def)
qed

lemma outcome_once_put:
  "outcome (read_python_stack_once K (put_state K M st') st) = outcome (read_python_stack_once K M st)"
  by (simp add: read_python_stack_once_def finish_maps [of "put_state K M st'" M])

text \<open>The whole run on a thread whose frames are readable.\<close>

lemma collect_records:
  assumes laws: "py_kernel K mem nsym nstk"
    and pid: "current_pid K (py_ns_pid_ino (py_config K)) (ucast (uninit K ''pid'')) = pid" "pid \<noteq> 0"
    and config: "py_pid_config M (ucast pid) = Some pd"
    and state: "get_state K M = Some st" "wf_state st"
    and thread: "get_thread_state ar K pd 0 = (0, ts)" "ts \<noteq> 0" "top_frame mem (pd_offsets pd) ts = Some fp"
    and walk: "py_walk (frame_at K (pd_offsets pd)) 96 fp = (ss, e)" "e = Complete \<or> (\<exists>q. e = More q)"
    and room: "finite (dom (py_symbols M))" "card (dom (py_symbols M) \<union> set ss) \<le> nsym"
      "card (dom (python_stacks M)) < nstk"
    and ids: "ids_ok M" "\<forall>cpu. heap_ctr M cpu + 96 < ctr_bound" "unat (get_smp_processor_id K) < 512"
    and progs: "py_progs M PYTHON_PROG_IDX_READ_PYTHON_STACK = Some READ_PYTHON_STACK" "3 \<le> fuel"
  shows "\<exists>M' h xs. pyperf_collect ar K fuel M = (0, M') \<and>
    py_symbols M \<subseteq>\<^sub>m py_symbols M' \<and> set ss \<subseteq> dom (py_symbols M') \<and>
    python_stacks M' (ucast h) = Some xs \<and> decode_stack xs = map (\<lambda>s. the (py_symbols M' s)) ss \<and>
    counts M' = count_sample (update_counts K) (counts M)
      \<lparr>k_pid = pid, k_flags = (if e = Complete then 1 else 3),
       kern_stack = (if collect_kernel pd \<noteq> 0 then get_stackid K KERN_STACKID_FLAGS else -1), user_stack = h\<rparr>"
proof -
  let ?st = "first_state K pd pid fp st"
  obtain n where n: "fuel = Suc n" "2 \<le> n" using progs(2) by (cases fuel) auto
  have run: "pyperf_collect ar K fuel M = read_python_stack K n (put_state K M ?st)"
    using pid collect_impl_run [OF py_kernel.user [OF laws] config state(1) thread progs(1)] n(1)
    by (simp add: pyperf_collect_def)
  have out: "outcome (pyperf_collect ar K fuel M) = outcome (read_python_stack_once K M ?st)"
    unfolding run using chain_once [of K "put_state K M ?st" ?st n] n(2) progs(1) by (simp add: outcome_once_put)
  have cpu: "heap_ctr M (get_smp_processor_id K) = unat (symbol_counter st)"
    using state(1) by (simp add: heap_ctr_def get_state_def)
  have inv: "id_inv ((heap_ctr M)(cur_cpu ?st := unat (symbol_counter ?st))) (py_symbols M)"
    using ids(1) heap_ctr_state [OF state(1)] by (simp add: ids_ok_def)
  have w: "py_walk (frame_at K (st_offsets ?st)) 96 (frame_ptr ?st) = (ss, e)" using walk(1) by simp
  have ctr: "heap_ctr M p < ctr_bound" for p using ids(2) add_lessD1 by blast
  have b: "unat (symbol_counter ?st) + 96 < ctr_bound" using ids(2) by (simp flip: cpu)
  have "\<exists>M' h xs. read_python_stack_once K M ?st = (0, M') \<and>
    py_symbols M \<subseteq>\<^sub>m py_symbols M' \<and> set ss \<subseteq> dom (py_symbols M') \<and>
    python_stacks M' = (python_stacks M)(ucast h \<mapsto> xs) \<and>
    decode_stack xs = map (\<lambda>s. the (py_symbols M' s)) ss \<and>
    counts M' = count_sample (update_counts K) (counts M)
      ((ev_k (event ?st))\<lparr>k_flags := stack_flags (if e = Complete then 0 else 1), user_stack := h\<rparr>)"
    by (rule py_kernel.walk_recorded [OF laws first_state_wf [OF state(2)] first_state_sel(1) w _ room inv])
       (use walk(2) ids(3) ctr b in auto)
  then obtain M' h xs where r: "read_python_stack_once K M ?st = (0, M')"
    "py_symbols M \<subseteq>\<^sub>m py_symbols M'" "set ss \<subseteq> dom (py_symbols M')"
    "python_stacks M' = (python_stacks M)(ucast h \<mapsto> xs)"
    "decode_stack xs = map (\<lambda>s. the (py_symbols M' s)) ss"
    "counts M' = count_sample (update_counts K) (counts M)
      ((ev_k (event ?st))\<lparr>k_flags := stack_flags (if e = Complete then 0 else 1), user_stack := h\<rparr>)"
    by blast
  obtain rc N where N: "pyperf_collect ar K fuel M = (rc, N)" by (metis surj_pair)
  have same: "rc = 0" "counts N = counts M'" "python_stacks N = python_stacks M'" "py_symbols N = py_symbols M'"
    using out r(1) N by (simp_all add: outcome_def)
  have fl: "stack_flags (if e = Complete then 0 else 1) = (if e = Complete then 1 else 3)"
    by (simp add: stack_flags_def stack_consts)
  show ?thesis
    unfolding N by (intro exI [of _ N] exI [of _ h] exI [of _ xs]) (use r same in \<open>simp add: first_state_key fl\<close>)
qed

section \<open>Properties\<close>

text \<open>C3: The three chained runs of \<open>read_python_stack\<close>, 32 frames each, return, store and
  count exactly what a single program with a loop over 96 frames would, as soon as the kernel
  grants two tail calls; further tail calls are never taken.\<close>

theorem read_python_stack_chain:
  assumes "get_state K M = Some st" "python_stack_prog_call_cnt st = 0" "2 \<le> fuel"
    and "py_progs M PYTHON_PROG_IDX_READ_PYTHON_STACK = Some READ_PYTHON_STACK"
  shows "outcome (read_python_stack K fuel M) =
    outcome (finish_walk K M (frame_loop K (update_py_symbols K) PYTHON_STACK_MAX_LEN 0 (st, py_symbols M)))"
  using chain_once [OF assms] by (simp add: read_python_stack_once_def)

text \<open>C2: Profiling a thread whose frames are readable records its stack: \<open>pyperf_collect\<close>
  returns 0, the stored stack decodes to the ids of the symbols of its first 96 frames in order
  (innermost first), no symbol loses its id, and one sample is counted under the process, the
  kernel stack, the hash of the stack and the truncation flag.\<close>

theorem pyperf_collect_records:
  assumes laws: "py_kernel K mem nsym nstk"
    and pid: "current_pid K (py_ns_pid_ino (py_config K)) (ucast (uninit K ''pid'')) = pid" "pid \<noteq> 0"
    and config: "py_pid_config M (ucast pid) = Some pd"
    and state: "get_state K M = Some st" "wf_state st"
    and thread: "get_thread_state ar K pd 0 = (0, ts)" "ts \<noteq> 0" "top_frame mem (pd_offsets pd) ts = Some fp"
    and walk: "py_walk (frame_at K (pd_offsets pd)) 96 fp = (ss, e)" "e = Complete \<or> (\<exists>q. e = More q)"
    and room: "finite (dom (py_symbols M))" "card (dom (py_symbols M) \<union> set ss) \<le> nsym"
      "card (dom (python_stacks M)) < nstk"
    and ids: "ids_ok M" "\<forall>cpu. heap_ctr M cpu + 96 < ctr_bound" "unat (get_smp_processor_id K) < 512"
    and progs: "py_progs M PYTHON_PROG_IDX_READ_PYTHON_STACK = Some READ_PYTHON_STACK" "3 \<le> fuel"
  shows "\<exists>M' h xs. pyperf_collect ar K fuel M = (0, M') \<and>
    py_symbols M \<subseteq>\<^sub>m py_symbols M' \<and> set ss \<subseteq> dom (py_symbols M') \<and>
    python_stacks M' (ucast h) = Some xs \<and> decode_stack xs = map (\<lambda>s. the (py_symbols M' s)) ss \<and>
    counts M' = count_sample (update_counts K) (counts M)
      \<lparr>k_pid = pid, k_flags = (if e = Complete then 1 else 3),
       kern_stack = (if collect_kernel pd \<noteq> 0 then get_stackid K KERN_STACKID_FLAGS else -1), user_stack = h\<rparr>"
  by (rule collect_records [OF assms])

text \<open>C18: Every run of \<open>pyperf_collect\<close> keeps the shape of the maps: the per-CPU state holds a
  stack array of 96 ids of which at most 96 are in use and a symbol whose three names have
  their declared sizes, and every stored stack has 96 ids.\<close>

theorem pyperf_collect_wf:
  assumes "py_memory K mem smem" "bpf_hash_map (update_python_stacks K) n" "wf_maps M"
  shows "wf_maps (snd (pyperf_collect ar K fuel M))"
  using pyperf_collect_impl_wf [OF assms] assms(3) by (simp add: pyperf_collect_def Let_def)

text \<open>C4: As long as fewer than 2^23 ids have been handed out per CPU and there are at most 512
  CPUs, every run keeps the symbol ids pairwise distinct, each made of a positive counter and
  the CPU that handed it out, and therefore non-zero.\<close>

theorem pyperf_collect_ids_unique:
  assumes "bpf_hash_map (update_py_symbols K) N" "bpf_hash_map (update_python_stacks K) N'"
    and "unat (get_smp_processor_id K) < 512"
    and "ids_ok M" "\<forall>cpu. heap_ctr M cpu + 32 * fuel < ctr_bound"
  shows "ids_ok (snd (pyperf_collect ar K fuel M))"
  using pyperf_collect_impl_ids [OF assms(1-4), of fuel] assms(4,5) by (simp add: pyperf_collect_def Let_def)

text \<open>C26: \<open>pyperf_collect\<close> returns 0 or -1, and a run that reports an error has neither stored
  a stack nor counted a sample.\<close>

theorem pyperf_collect_errors:
  assumes "bpf_hash_map (update_python_stacks K) n" "pyperf_collect ar K fuel M = (rc, M')"
  shows "(rc = 0 \<or> rc = -1) \<and> (rc = -1 \<longrightarrow> counts M' = counts M \<and> python_stacks M' = python_stacks M)"
proof -
  have "error_silent M (pyperf_collect ar K fuel M)"
    by (simp add: pyperf_collect_def Let_def pyperf_collect_impl_error [OF assms(1)])
  then show ?thesis using assms(2) by (auto simp: error_silent_def)
qed

text \<open>The symbol table: interning a symbol that is present returns its id and changes
  nothing; a successful interning of a new symbol adds exactly that symbol, under the id
  returned; a failing one leaves the table alone.\<close>

lemma get_symbol_id_correct:
  assumes "bpf_hash_map upd n" "get_symbol_id upd st sy m = (rc, i, st', m')"
  shows "(\<forall>j. m sy = Some j \<longrightarrow> rc = 0 \<and> i = j \<and> st' = st \<and> m' = m) \<and>
    (m sy = None \<longrightarrow> (rc = 0 \<and> m' = m(sy \<mapsto> i) \<or> rc = -1 \<and> i = 0 \<and> m' = m) \<and>
       symbol_counter st' = symbol_counter st + 1)"
  using assms(2) get_symbol_id_hit [of m sy _ upd st] get_symbol_id_miss [OF assms(1), of m sy st]
  by (cases "m sy") (auto simp: bump_def split: if_splits)

text \<open>The hash of a stack never loads outside the state, whatever the ids.\<close>

lemma stack_hash_in_bounds:
  assumes "wf_state st"
  shows "MurmurHash64A (stack_memory st) (ucast (stack_len (event st)) * 4) 0 = Some (stack_hash st)"
  using stack_hash_eq [of st] assms by (auto simp: wf_state_def)

text \<open>Reading a submitted stack back up to its first zero gives the ids that were pushed,
  also when all 96 entries are used and there is no terminator.\<close>

lemma submitted_stack_decodes:
  assumes "wf_event ev" "0 \<notin> set (ids ev)"
  shows "decode_stack (stack (terminate_stack ev)) = ids ev"
  by (rule decode_terminated [OF assms])

text \<open>Pushing a frame never writes outside the array of 96 ids: below the limit the id is
  appended, at the limit the event is unchanged.\<close>

lemma push_frame_correct:
  assumes "wf_event ev"
  shows "if unat (stack_len ev) < 96
    then ids (push_frame i ev) = ids ev @ [i] \<and> wf_event (push_frame i ev)
    else push_frame i ev = ev"
  using push_frame_ids [OF assms, of i] push_frame_wf [OF assms, of i] by (auto simp: push_frame_def Let_def)

text \<open>Stacks are stored under the low half of their hash: of two stacks whose hashes agree
  there, the one submitted last is what the first one's key finds.\<close>

lemma python_stacks_collide:
  assumes "bpf_hash_map (update_python_stacks K) n"
    and "submit_sample K M st = (0, M1)" "submit_sample K M1 st' = (0, M2)"
    and "(ucast (stack_hash (submitted st)) :: u32) = ucast (stack_hash (submitted st'))"
  shows "python_stacks M2 (ucast (stack_hash (submitted st))) = Some (stack (terminate_stack (event st')))"
  using submit_sample_cases [OF assms(1), of st' M1] assms(3,4) by auto

text \<open>Two CPUs whose numbers differ by 512 hand out the same id, the higher one a step
  earlier.\<close>

lemma symbol_id_cpu_wraps:
  assumes "cur_cpu st = cpu + 512" "unat cpu + 512 < 2 ^ 32" "cur_cpu st' = cpu"
    and "symbol_counter st' = symbol_counter st + 1"
  shows "new_symbol_id st = new_symbol_id st'"
proof -
  have "unat (cpu + 512) = unat cpu + 512" using assms(2) by (simp add: unat_word_ariths)
  then have "(ucast (cpu + 512) :: u64) = ucast cpu + 512"
    by (simp add: word_unat_eq_iff unsigned_ucast_eq unat_word_ariths take_bit_eq_mod)
  then show ?thesis
    using assms by (simp add: new_symbol_id_def PY_NUM_CPU_def algebra_simps)
qed

end
