(* ===== verification/Profile.thy ===== *)
theory Profile
  imports Pyperf_Inv
begin

text \<open>
  \<open>ebpf/bpf/profile.bpf.c\<close> and \<open>profile.bpf.h\<close>: the perf event program
  \<open>do_perf_event\<close>, which counts a sample for a process user space has classified and
  announces a process it has not, and the two kprobes that announce process exit and
  \<open>exec\<close>. With them \<open>pyro_bpf_core_read\<close> of \<open>ume.h\<close>.

  The maps extend those of the Python profiler, whose program is reached by a tail call and
  which shares \<open>counts\<close>. \<open>events\<close> is the sequence of records the perf buffer has accepted.
  The step relation \<open>step\<close> interleaves the three programs, on any CPU and with any outcome of
  the helpers, with user space, which configures processes.
\<close>

definition PF_KTHREAD :: s32 where "PF_KTHREAD = 0x00200000"

definition PROFILING_TYPE_UNKNOWN :: u8 where "PROFILING_TYPE_UNKNOWN = 1"
definition PROFILING_TYPE_FRAMEPOINTERS :: u8 where "PROFILING_TYPE_FRAMEPOINTERS = 2"
definition PROFILING_TYPE_PYTHON :: u8 where "PROFILING_TYPE_PYTHON = 3"
definition PROFILING_TYPE_ERROR :: u8 where "PROFILING_TYPE_ERROR = 4"

lemmas profiling_types = PROFILING_TYPE_UNKNOWN_def PROFILING_TYPE_FRAMEPOINTERS_def
  PROFILING_TYPE_PYTHON_def PROFILING_TYPE_ERROR_def

record pid_config =
  pc_type :: u8
  collect_user :: u8
  pc_collect_kernel :: u8
  padding_ :: u8

definition OP_REQUEST_UNKNOWN_PROCESS_INFO :: u32 where "OP_REQUEST_UNKNOWN_PROCESS_INFO = 1"
definition OP_PID_DEAD :: u32 where "OP_PID_DEAD = 2"
definition OP_REQUEST_EXEC_PROCESS_INFO :: u32 where "OP_REQUEST_EXEC_PROCESS_INFO = 3"

lemmas ops = OP_REQUEST_UNKNOWN_PROCESS_INFO_def OP_PID_DEAD_def OP_REQUEST_EXEC_PROCESS_INFO_def

record pid_event =
  ev_op :: u32
  ev_pid :: u32

record profile_global_config =
  pr_ns_pid_ino :: u64

datatype profile_prog = PYPERF_COLLECT

definition PROG_IDX_PYTHON :: u32 where "PROG_IDX_PYTHON = 0"

type_synonym event_output = "pid_event list \<Rightarrow> pid_event \<Rightarrow> int \<times> pid_event list"

record profile_kernel = pyperf_kernel +
  update_pids :: "(u32, pid_config) map_update"
  delete_pids :: "(u32, pid_config) map_delete"
  perf_event_output :: event_output
  pr_config :: profile_global_config

record profile_maps = pyperf_maps +
  pids :: "u32 \<rightharpoonup> pid_config"
  events :: "pid_event list"
  progs :: "u32 \<rightharpoonup> profile_prog"

section \<open>Operations\<close>

definition pyro_bpf_core_read :: "'z kernel_scheme \<Rightarrow> 'w::len word \<Rightarrow> addr \<Rightarrow> int \<times> 'w word" where
  "pyro_bpf_core_read K dst src = read_kernel K dst src"

definition output_event :: "('z) profile_kernel_scheme \<Rightarrow> 'm profile_maps_scheme \<Rightarrow> pid_event \<Rightarrow> 'm profile_maps_scheme" where
  "output_event K M ev = M\<lparr>events := snd (perf_event_output K (events M) ev)\<rparr>"

definition unknown_config :: pid_config where
  "unknown_config = \<lparr>pc_type = PROFILING_TYPE_UNKNOWN, collect_user = 0, pc_collect_kernel = 0, padding_ = 0\<rparr>"

definition fp_key :: "'z kernel_scheme \<Rightarrow> pid_config \<Rightarrow> u32 \<Rightarrow> sample_key" where
  "fp_key K config tgid =
     \<lparr>k_pid = tgid, k_flags = 0,
      kern_stack = (if pc_collect_kernel config \<noteq> 0 then get_stackid K KERN_STACKID_FLAGS else -1),
      user_stack = (if collect_user config \<noteq> 0 then get_stackid K USER_STACKID_FLAGS else -1)\<rparr>"

text \<open>The part of \<open>do_perf_event\<close> after the thread was found to be one of user space.\<close>

definition profile_process ::
  "arch \<Rightarrow> ('z) profile_kernel_scheme \<Rightarrow> nat \<Rightarrow> u32 \<Rightarrow> 'm profile_maps_scheme \<Rightarrow> int \<times> 'm profile_maps_scheme" where
  "profile_process ar K fuel tgid M =
     (case pids M tgid of
        None \<Rightarrow>
          let (rc, ps) = update_pids K (pids M) tgid unknown_config BPF_NOEXIST;
              M = M\<lparr>pids := ps\<rparr>
          in if rc \<noteq> 0 then (0, M)
             else (0, output_event K M \<lparr>ev_op = OP_REQUEST_UNKNOWN_PROCESS_INFO, ev_pid = tgid\<rparr>)
      | Some config \<Rightarrow>
          if pc_type config = PROFILING_TYPE_ERROR \<or> pc_type config = PROFILING_TYPE_UNKNOWN then (0, M)
          else if pc_type config = PROFILING_TYPE_PYTHON
          then (case (fuel, progs M PROG_IDX_PYTHON) of
                  (Suc fuel, Some PYPERF_COLLECT) \<Rightarrow> pyperf_collect ar K fuel M
                | _ \<Rightarrow> (0, M))
          else if pc_type config = PROFILING_TYPE_FRAMEPOINTERS
          then (0, M\<lparr>counts := count_sample (update_counts K) (counts M) (fp_key K config tgid)\<rparr>)
          else (0, M))"

definition do_perf_event ::
  "arch \<Rightarrow> ('z) profile_kernel_scheme \<Rightarrow> nat \<Rightarrow> 'm profile_maps_scheme \<Rightarrow> int \<times> 'm profile_maps_scheme" where
  "do_perf_event ar K fuel M =
     (let tgid = current_pid K (pr_ns_pid_ino (pr_config K)) 0;
          task = get_current_task K
      in if tgid = 0 \<or> task = 0 then (0, M)
      else
        let (rc, flags) = pyro_bpf_core_read K (0 :: s32) (task + task_flags K)
        in if rc \<noteq> 0 then (0, M)
        else if flags AND PF_KTHREAD \<noteq> 0 then (0, M)
        else profile_process ar K fuel tgid M)"

definition disassociate_ctty :: "('z) profile_kernel_scheme \<Rightarrow> s32 \<Rightarrow> 'm profile_maps_scheme \<Rightarrow> int \<times> 'm profile_maps_scheme" where
  "disassociate_ctty K on_exit M =
     (if on_exit = 0 then (0, M)
      else
        let pid = current_pid K (pr_ns_pid_ino (pr_config K)) 0
        in if pid = 0 then (0, M)
        else
          let M = M\<lparr>pids := snd (delete_pids K (pids M) pid)\<rparr>
          in (0, output_event K M \<lparr>ev_op = OP_PID_DEAD, ev_pid = pid\<rparr>))"

definition exec :: "('z) profile_kernel_scheme \<Rightarrow> 'm profile_maps_scheme \<Rightarrow> int \<times> 'm profile_maps_scheme" where
  "exec K M =
     (let pid = current_pid K (pr_ns_pid_ino (pr_config K)) 0
      in if pid = 0 then (0, M)
      else (0, output_event K M \<lparr>ev_op = OP_REQUEST_EXEC_PROCESS_INFO, ev_pid = pid\<rparr>))"

section \<open>The Python programs leave the other maps alone\<close>

definition other_maps where
  "other_maps M = (py_pid_config M, py_progs M, pyperf_maps.more M)"

lemma other_upd [simp]:
  "other_maps (M\<lparr>py_symbols := m\<rparr>) = other_maps M"
  "other_maps (M\<lparr>python_stacks := ps\<rparr>) = other_maps M"
  "other_maps (M\<lparr>counts := c\<rparr>) = other_maps M"
  "other_maps (put_state K M st) = other_maps M"
  by (cases M; simp add: put_state_def other_maps_def)+

lemma submit_sample_other: "other_maps (snd (submit_sample K M st)) = other_maps M"
  by (simp add: submit_sample_def Let_def split: prod.split)

lemma read_prog_other:
  assumes "\<And>N. other_maps (snd (tail N)) = other_maps N"
  shows "other_maps (snd (read_python_stack_prog K tail M)) = other_maps M"
  unfolding read_python_stack_prog_def Let_def
  by (simp add: assms submit_sample_other split: option.split prod.split sum.split)

lemma read_python_stack_other: "other_maps (snd (read_python_stack K fuel M)) = other_maps M"
proof (induction fuel arbitrary: M)
  case (Suc fuel)
  then show ?case by (simp add: read_prog_other split: option.split py_prog.split)
qed (simp add: read_prog_other)

lemma pyperf_collect_other: "other_maps (snd (pyperf_collect ar K fuel M)) = other_maps M"
proof -
  have "other_maps (snd (pyperf_collect_impl ar K fuel pid M)) = other_maps M" for pid
    by (cases rule: collect_impl_cases [of M pid ar K fuel]) (simp_all add: read_python_stack_other)
  then show ?thesis by (simp add: pyperf_collect_def Let_def)
qed

lemma more_sel:
  "other_maps N = other_maps M \<Longrightarrow> pids N = pids M \<and> events N = events M \<and> progs N = progs M \<and>
     py_pid_config N = py_pid_config M"
  by (cases N; cases M) (simp add: other_maps_def)

lemma pyperf_collect_sel [simp]:
  "pids (snd (pyperf_collect ar K fuel M)) = pids M" "events (snd (pyperf_collect ar K fuel M)) = events M"
  "py_pid_config (snd (pyperf_collect ar K fuel M)) = py_pid_config M"
  using more_sel [OF pyperf_collect_other] by blast+

text \<open>None of the programs writes the configuration of the Python processes.\<close>

lemma do_perf_event_py_config: "py_pid_config (snd (do_perf_event ar K fuel M)) = py_pid_config M"
  by (simp add: do_perf_event_def profile_process_def output_event_def Let_def
      split: prod.split option.split nat.split profile_prog.split)

section \<open>The laws of the helpers\<close>

text \<open>A record is accepted whole, at the end, or not at all.\<close>

locale perf_buffer =
  fixes out :: event_output
  assumes out_ok: "out es e = (0, es') \<Longrightarrow> es' = es @ [e]"
    and out_fail: "out es e = (rc, es') \<Longrightarrow> rc \<noteq> 0 \<Longrightarrow> rc < 0 \<and> es' = es"
begin

lemma out_cases: "snd (out es e) \<in> {es @ [e], es}"
  using out_ok [of es e] out_fail [of es e] by (cases "out es e") fastforce

end

definition ref_output :: "nat \<Rightarrow> event_output" where
  "ref_output n es e = (if length es < n then (0, es @ [e]) else (-28, es))"

interpretation ref_buf: perf_buffer "ref_output n" for n
  by unfold_locales (auto simp: ref_output_def split: if_splits)

locale profile_helpers =
  fixes K :: "('z) profile_kernel_scheme"
  assumes buf: "perf_buffer (perf_event_output K)"
    and upd: "bpf_hash_map (update_pids K) 2048"
    and del: "bpf_map_delete (delete_pids K)"
    and cnt: "bpf_hash_map (update_counts K) PROFILE_MAPS_SIZE"
begin

lemma output_event_sel [simp]:
  "pids (output_event K M ev) = pids M" "counts (output_event K M ev) = counts M"
  by (simp_all add: output_event_def)

lemma output_event_events: "events (output_event K M ev) \<in> {events M @ [ev], events M}"
  using perf_buffer.out_cases [OF buf, of "events M" ev] by (simp add: output_event_def)

end

definition ref_profile_kernel :: "('z) profile_kernel_scheme \<Rightarrow> nat \<Rightarrow> memory \<Rightarrow> ('z) profile_kernel_scheme" where
  "ref_profile_kernel K n kmem =
     K\<lparr>probe_read_kernel := ref_probe_read kmem, perf_event_output := ref_output n, update_pids := ref_update 2048,
       delete_pids := ref_delete, update_counts := ref_update PROFILE_MAPS_SIZE\<rparr>"

interpretation ref_profile: profile_helpers "ref_profile_kernel K n kmem" for K n kmem
  by (rule profile_helpers.intro)
     (simp_all add: ref_profile_kernel_def ref_buf.perf_buffer_axioms ref_map.bpf_hash_map_axioms
        ref_del.bpf_map_delete_axioms)

section \<open>Which threads are profiled\<close>

definition user_thread :: "('z) profile_kernel_scheme \<Rightarrow> u32 \<Rightarrow> bool" where
  "user_thread K pid \<longleftrightarrow> current_pid K (pr_ns_pid_ino (pr_config K)) 0 = pid \<and> pid \<noteq> 0 \<and> get_current_task K \<noteq> 0 \<and>
     fst (read_kernel K (0 :: s32) (get_current_task K + task_flags K)) = 0 \<and>
     snd (read_kernel K (0 :: s32) (get_current_task K + task_flags K)) AND PF_KTHREAD = 0"

lemma do_perf_event_user: "user_thread K pid \<Longrightarrow> do_perf_event ar K fuel M = profile_process ar K fuel pid M"
  by (auto simp: do_perf_event_def user_thread_def pyro_bpf_core_read_def Let_def split: prod.split)

lemma do_perf_event_skip: "\<not> user_thread K (current_pid K (pr_ns_pid_ino (pr_config K)) 0) \<Longrightarrow> do_perf_event ar K fuel M = (0, M)"
  by (auto simp: do_perf_event_def user_thread_def pyro_bpf_core_read_def Let_def split: prod.split)

section \<open>Runs\<close>

datatype label = Sample u32 | Exit u32 | Exec u32 | Configure u32 pid_config

inductive step :: "label \<Rightarrow> profile_maps \<Rightarrow> profile_maps \<Rightarrow> bool" where
  sample: "profile_helpers (K :: profile_kernel) \<Longrightarrow> pid = current_pid K (pr_ns_pid_ino (pr_config K)) 0 \<Longrightarrow>
    M' = snd (do_perf_event ar K fuel M) \<Longrightarrow> step (Sample pid) M M'"
| exit: "profile_helpers (K :: profile_kernel) \<Longrightarrow> pid = current_pid K (pr_ns_pid_ino (pr_config K)) 0 \<Longrightarrow>
    M' = snd (disassociate_ctty K on_exit M) \<Longrightarrow> step (Exit pid) M M'"
| exec: "profile_helpers (K :: profile_kernel) \<Longrightarrow> pid = current_pid K (pr_ns_pid_ino (pr_config K)) 0 \<Longrightarrow>
    M' = snd (exec K M) \<Longrightarrow> step (Exec pid) M M'"
| configure: "M' = M\<lparr>pids := (pids M)(pid \<mapsto> c)\<rparr> \<Longrightarrow> step (Configure pid c) M M'"

inductive_simps step_Configure [simp]: "step (Configure pid c) M M'"

inductive run :: "label list \<Rightarrow> profile_maps \<Rightarrow> profile_maps \<Rightarrow> bool" where
  nil: "run [] M M"
| cons: "step l M N \<Longrightarrow> run ls N M' \<Longrightarrow> run (l # ls) M M'"

inductive_simps run_Nil [simp]: "run [] M M'"
inductive_simps run_Cons: "run (l # ls) M M'"

text \<open>The requests for information on a process in the perf buffer.\<close>

definition requests :: "u32 \<Rightarrow> pid_event list \<Rightarrow> nat" where
  "requests p es = length (filter (\<lambda>e. ev_op e = OP_REQUEST_UNKNOWN_PROCESS_INFO \<and> ev_pid e = p) es)"

lemma requests_append [simp]:
  "requests p (es @ [\<lparr>ev_op = op', ev_pid = q\<rparr>]) =
     requests p es + (if op' = OP_REQUEST_UNKNOWN_PROCESS_INFO \<and> q = p then 1 else 0)"
  by (simp add: requests_def)

context profile_helpers
begin

text \<open>Announcing an unknown process.\<close>

lemma profile_unknown:
  assumes "pids M tgid = None"
  shows "pids (snd (profile_process ar K fuel tgid M)) = (pids M)(tgid \<mapsto> unknown_config) \<and>
      events (snd (profile_process ar K fuel tgid M)) \<in>
        {events M @ [\<lparr>ev_op = OP_REQUEST_UNKNOWN_PROCESS_INFO, ev_pid = tgid\<rparr>], events M} \<or>
    snd (profile_process ar K fuel tgid M) = M"
proof (rule bpf_hash_map.update_cases [OF upd, of "pids M" tgid unknown_config BPF_NOEXIST])
  assume u: "update_pids K (pids M) tgid unknown_config BPF_NOEXIST = (0, (pids M)(tgid \<mapsto> unknown_config))"
  show ?thesis
    using output_event_events [of "M\<lparr>pids := (pids M)(tgid \<mapsto> unknown_config)\<rparr>"
        "\<lparr>ev_op = OP_REQUEST_UNKNOWN_PROCESS_INFO, ev_pid = tgid\<rparr>"]
    by (simp add: profile_process_def assms u)
next
  fix rc
  assume "update_pids K (pids M) tgid unknown_config BPF_NOEXIST = (rc, pids M)" "rc < 0"
  then show ?thesis by (simp add: profile_process_def assms)
qed

lemma profile_known:
  assumes "pids M tgid = Some c"
  shows "pids (snd (profile_process ar K fuel tgid M)) = pids M \<and>
    events (snd (profile_process ar K fuel tgid M)) = events M"
  using assms by (simp add: profile_process_def split: nat.split option.split profile_prog.split)

lemma sample_effect:
  "(pids (snd (do_perf_event ar K fuel M)) = pids M \<and> events (snd (do_perf_event ar K fuel M)) = events M) \<or>
   (\<exists>p. pids M p = None \<and> pids (snd (do_perf_event ar K fuel M)) = (pids M)(p \<mapsto> unknown_config) \<and>
      events (snd (do_perf_event ar K fuel M)) \<in>
        {events M @ [\<lparr>ev_op = OP_REQUEST_UNKNOWN_PROCESS_INFO, ev_pid = p\<rparr>], events M})"
proof (cases "user_thread K (current_pid K (pr_ns_pid_ino (pr_config K)) 0)")
  case False
  then show ?thesis by (simp add: do_perf_event_skip)
next
  case True
  let ?p = "current_pid K (pr_ns_pid_ino (pr_config K)) 0"
  show ?thesis
    unfolding do_perf_event_user [OF True]
    using profile_unknown [of M ?p ar fuel] profile_known [of M ?p _ ar fuel] by (cases "pids M ?p") auto
qed

lemma exit_effect:
  assumes "pid = current_pid K (pr_ns_pid_ino (pr_config K)) 0" "q \<noteq> pid"
  shows "pids (snd (disassociate_ctty K on_exit M)) q = pids M q"
  using assms bpf_map_delete.delete_other [OF del, of "pids M" pid "fst (delete_pids K (pids M) pid)"
      "snd (delete_pids K (pids M) pid)" q]
  by (simp add: disassociate_ctty_def Let_def)

lemma exit_requests: "requests q (events (snd (disassociate_ctty K on_exit M))) = requests q (events M)"
  using output_event_events [of "M\<lparr>pids := snd (delete_pids K (pids M) (current_pid K (pr_ns_pid_ino (pr_config K)) 0))\<rparr>"
      "\<lparr>ev_op = OP_PID_DEAD, ev_pid = current_pid K (pr_ns_pid_ino (pr_config K)) 0\<rparr>"]
  by (auto simp: disassociate_ctty_def Let_def ops)

lemma exec_effect:
  "pids (snd (exec K M)) = pids M" "requests q (events (snd (exec K M))) = requests q (events M)"
  using output_event_events [of M "\<lparr>ev_op = OP_REQUEST_EXEC_PROCESS_INFO, ev_pid = current_pid K (pr_ns_pid_ino (pr_config K)) 0\<rparr>"]
  by (auto simp: exec_def Let_def ops)

end

text \<open>What one step does to the entry of a process that is not exiting.\<close>

lemma step_other:
  assumes "step l M M'" "l \<noteq> Exit p"
  obtains (same) "pids M' p = pids M p" "requests p (events M') = requests p (events M)"
  | (announced) "pids M p = None" "pids M' p = Some unknown_config"
      "requests p (events M') \<le> requests p (events M) + 1"
  | (configured) c where "l = Configure p c" "pids M' p = Some c" "requests p (events M') = requests p (events M)"
  using assms(1)
proof (cases rule: step.cases)
  case (sample K pid ar fuel)
  then have "pids M' p = pids M p \<and> requests p (events M') = requests p (events M) \<or>
      pids M p = None \<and> pids M' p = Some unknown_config \<and> requests p (events M') \<le> requests p (events M) + 1"
    using profile_helpers.sample_effect [OF sample(2), of ar fuel M] by auto
  then show ?thesis using same announced by blast
next
  case (exit K pid on_exit)
  then have "p \<noteq> pid" using assms(2) by auto
  with exit show ?thesis
    by (intro same) (simp_all add: profile_helpers.exit_effect [OF exit(2,3)] profile_helpers.exit_requests [OF exit(2)])
next
  case (exec K pid)
  then show ?thesis by (intro same) (simp_all add: profile_helpers.exec_effect [OF exec(2)])
next
  case (configure pid c)
  then show ?thesis using same configured by (cases "pid = p") auto
qed

lemma run_other:
  assumes "run ls M M'" "Exit p \<notin> set ls"
  shows "requests p (events M') \<le> requests p (events M) + (if pids M p = None then 1 else 0) \<and>
    (pids M p \<noteq> None \<longrightarrow> pids M' p \<noteq> None) \<and>
    ((\<forall>c. Configure p c \<notin> set ls) \<longrightarrow> pids M p \<noteq> None \<longrightarrow>
       pids M' p = pids M p \<and> requests p (events M') = requests p (events M))"
  using assms
proof (induction rule: run.induct)
  case (cons l M N ls M')
  have l: "l \<noteq> Exit p" using cons.prems by auto
  note IH = cons.IH [rule_format]
  have "Exit p \<notin> set ls" using cons.prems by simp
  from cons.hyps(1) l show ?case
  proof (cases rule: step_other)
    case same
    then show ?thesis using IH [OF \<open>Exit p \<notin> set ls\<close>] by auto
  next
    case announced
    then show ?thesis using IH [OF \<open>Exit p \<notin> set ls\<close>] by auto
  next
    case (configured c)
    then show ?thesis using IH [OF \<open>Exit p \<notin> set ls\<close>] by auto
  qed
qed simp

section \<open>Properties\<close>




text \<open>Threads without a process id, kernel threads, and threads whose flags cannot be read
  are skipped, and so are processes user space has marked as unknown or failed: the program
  returns 0 and no map changes.\<close>

lemma skipped_sample:
  assumes "\<not> user_thread K (current_pid K (pr_ns_pid_ino (pr_config K)) 0) \<or>
    (\<exists>c. pids M (current_pid K (pr_ns_pid_ino (pr_config K)) 0) = Some c \<and>
       pc_type c \<in> {PROFILING_TYPE_UNKNOWN, PROFILING_TYPE_ERROR})"
  shows "do_perf_event ar K fuel M = (0, M)"
  using assms do_perf_event_skip [of K ar fuel M]
    do_perf_event_user [of K "current_pid K (pr_ns_pid_ino (pr_config K)) 0" ar fuel M]
  by (cases "user_thread K (current_pid K (pr_ns_pid_ino (pr_config K)) 0)") (auto simp: profile_process_def)

text \<open>When a process exits its entry is removed, whether or not it had one, the entries of
  other processes are kept, and a record of its death is offered to user space; a call that
  is not an exit does nothing.\<close>

lemma disassociate_ctty_correct:
  assumes "profile_helpers K" "current_pid K (pr_ns_pid_ino (pr_config K)) 0 = p" "p \<noteq> 0"
    and "pids M p = None \<or> fst (delete_pids K (pids M) p) = 0"
  shows "pids (snd (disassociate_ctty K on_exit M)) = (if on_exit = 0 then pids M else (pids M)(p := None)) \<and>
    events (snd (disassociate_ctty K on_exit M)) \<in>
      (if on_exit = 0 then {events M} else {events M @ [\<lparr>ev_op = OP_PID_DEAD, ev_pid = p\<rparr>], events M}) \<and>
    counts (snd (disassociate_ctty K on_exit M)) = counts M"
proof -
  note del = profile_helpers.del [OF assms(1)]
  have d: "snd (delete_pids K (pids M) p) = (pids M)(p := None)"
  proof (cases "fst (delete_pids K (pids M) p) = 0")
    case True
    then show ?thesis by (metis bpf_map_delete.delete_ok [OF del] prod.collapse)
  next
    case False
    then have "snd (delete_pids K (pids M) p) = pids M" by (metis bpf_map_delete.delete_fail [OF del] prod.collapse)
    then show ?thesis using assms(4) False by (simp add: fun_upd_idem)
  qed
  show ?thesis
    using profile_helpers.output_event_events [OF assms(1), of "M\<lparr>pids := (pids M)(p := None)\<rparr>" "\<lparr>ev_op = OP_PID_DEAD, ev_pid = p\<rparr>"]
    by (simp add: disassociate_ctty_def assms(2,3) d profile_helpers.output_event_sel [OF assms(1)])
qed

text \<open>A sample of a Python process hands over to \<open>pyperf_collect\<close> with one tail call less
  to spend; when the program is not installed or no tail call is left, the sample is dropped
  and no map changes.\<close>

lemma python_sample:
  assumes "user_thread K p" "pids M p = Some c" "pc_type c = PROFILING_TYPE_PYTHON"
  shows "do_perf_event ar K fuel M =
    (if 0 < fuel \<and> progs M PROG_IDX_PYTHON = Some PYPERF_COLLECT
     then pyperf_collect ar K (fuel - 1) M else (0, M))"
  using assms(2,3)
  by (cases fuel; cases "progs M PROG_IDX_PYTHON")
     (auto simp: do_perf_event_user [OF assms(1)] profile_process_def profiling_types split: profile_prog.splits)

end
