(* ===== verification/Interleave.thy ===== *)
theory Interleave
  imports Pyperf_Inv
begin

text \<open>
  The two places where programs on different CPUs meet in a shared map, split into the steps
  that are atomic: interning a symbol (\<open>get_symbol_id\<close> of \<open>pyperf.bpf.c\<close>: lookup, insertion,
  second lookup) and counting a sample (lookup, then load and store of the counter, or
  insertion). A schedule is a list of CPUs, each with the symbol or key of the call that it
  starts when it is idle; a CPU in the middle of a call takes the next step of that call.

  Run without interruption, the steps are the functions of \<open>Pyperf\<close> and \<open>Stacks\<close>. Under every
  schedule interning gives equal symbols equal ids and different symbols different ids, and a
  counter never exceeds the number of samples; it can fall short of it.
\<close>

section \<open>Interning\<close>

datatype intern_pc = Idle | Insert py_symbol py_symbol_id | Retry py_symbol

record intern_sys =
  is_state :: "u32 \<Rightarrow> py_sample_state"
  is_pc :: "u32 \<Rightarrow> intern_pc"
  is_symbols :: "py_symbol \<rightharpoonup> py_symbol_id"
  is_done :: "(py_symbol \<times> py_symbol_id) list"

text \<open>The first lookup; a miss bumps the CPU's own counter.\<close>

definition intern_lookup ::
  "py_symbol \<Rightarrow> (py_symbol \<rightharpoonup> py_symbol_id) \<Rightarrow> py_sample_state \<Rightarrow> py_sample_state \<times> (int \<times> py_symbol_id + intern_pc)" where
  "intern_lookup sy m st =
     (case m sy of
        Some i \<Rightarrow> (st, Inl (0, i))
      | None \<Rightarrow>
          let st = st\<lparr>symbol_counter := symbol_counter st + 1\<rparr>
          in (st, Inr (Insert sy (new_symbol_id st))))"

definition intern_insert ::
  "(py_symbol, py_symbol_id) map_update \<Rightarrow> py_symbol \<Rightarrow> py_symbol_id \<Rightarrow> (py_symbol \<rightharpoonup> py_symbol_id)
     \<Rightarrow> (py_symbol \<rightharpoonup> py_symbol_id) \<times> (int \<times> py_symbol_id + intern_pc)" where
  "intern_insert upd sy i m =
     (case upd m sy i BPF_NOEXIST of (rc, m') \<Rightarrow> (m', if rc = 0 then Inl (0, i) else Inr (Retry sy)))"

definition intern_retry :: "py_symbol \<Rightarrow> (py_symbol \<rightharpoonup> py_symbol_id) \<Rightarrow> int \<times> py_symbol_id" where
  "intern_retry sy m = (case m sy of Some i \<Rightarrow> (0, i) | None \<Rightarrow> (-1, 0))"

text \<open>A finished call is recorded if it succeeded.\<close>

definition finish :: "u32 \<Rightarrow> py_symbol \<Rightarrow> int \<times> py_symbol_id \<Rightarrow> intern_sys \<Rightarrow> intern_sys" where
  "finish p sy r S =
     S\<lparr>is_pc := (is_pc S)(p := Idle),
       is_done := (if fst r = 0 then (sy, snd r) # is_done S else is_done S)\<rparr>"

definition intern_step ::
  "(py_symbol, py_symbol_id) map_update \<Rightarrow> u32 \<times> py_symbol \<Rightarrow> intern_sys \<Rightarrow> intern_sys" where
  "intern_step upd a S =
     (case a of (p, sy) \<Rightarrow>
        (case is_pc S p of
           Idle \<Rightarrow>
             (case intern_lookup sy (is_symbols S) (is_state S p) of
                (st, Inl r) \<Rightarrow> finish p sy r (S\<lparr>is_state := (is_state S)(p := st)\<rparr>)
              | (st, Inr c) \<Rightarrow> S\<lparr>is_state := (is_state S)(p := st), is_pc := (is_pc S)(p := c)\<rparr>)
         | Insert sy' i \<Rightarrow>
             (case intern_insert upd sy' i (is_symbols S) of
                (m, Inl r) \<Rightarrow> finish p sy' r (S\<lparr>is_symbols := m\<rparr>)
              | (m, Inr c) \<Rightarrow> S\<lparr>is_symbols := m, is_pc := (is_pc S)(p := c)\<rparr>)
         | Retry sy' \<Rightarrow> finish p sy' (intern_retry sy' (is_symbols S)) S))"

text \<open>Before the first event: an empty table, and states whose counters are zero.\<close>

definition intern_init :: "(u32 \<Rightarrow> py_sample_state) \<Rightarrow> intern_sys" where
  "intern_init sts = \<lparr>is_state = sts, is_pc = (\<lambda>_. Idle), is_symbols = Map.empty, is_done = []\<rparr>"

section \<open>Counting\<close>

datatype count_pc = CIdle | CHit sample_key | CLoaded sample_key u32 | CMiss sample_key

record count_sys =
  cs_pc :: "u32 \<Rightarrow> count_pc"
  cs_counts :: "sample_key \<rightharpoonup> u32"
  cs_done :: "sample_key \<Rightarrow> nat"

definition count_finish :: "u32 \<Rightarrow> sample_key \<Rightarrow> count_sys \<Rightarrow> count_sys" where
  "count_finish p k S = S\<lparr>cs_pc := (cs_pc S)(p := CIdle), cs_done := (cs_done S)(k := cs_done S k + 1)\<rparr>"

definition count_step :: "(sample_key, u32) map_update \<Rightarrow> u32 \<times> sample_key \<Rightarrow> count_sys \<Rightarrow> count_sys" where
  "count_step upd a S =
     (case a of (p, key) \<Rightarrow>
        (case cs_pc S p of
           CIdle \<Rightarrow>
             S\<lparr>cs_pc := (cs_pc S)(p := (case cs_counts S key of Some _ \<Rightarrow> CHit key | None \<Rightarrow> CMiss key))\<rparr>
         | CHit k \<Rightarrow>
             (case cs_counts S k of
                Some v \<Rightarrow> S\<lparr>cs_pc := (cs_pc S)(p := CLoaded k v)\<rparr>
              | None \<Rightarrow> S)
         | CLoaded k v \<Rightarrow> count_finish p k (S\<lparr>cs_counts := (cs_counts S)(k \<mapsto> v + 1)\<rparr>)
         | CMiss k \<Rightarrow> count_finish p k (S\<lparr>cs_counts := snd (upd (cs_counts S) k 1 BPF_NOEXIST)\<rparr>)))"

definition count_init :: count_sys where
  "count_init = \<lparr>cs_pc = (\<lambda>_. CIdle), cs_counts = Map.empty, cs_done = (\<lambda>_. 0)\<rparr>"

section \<open>The steps of one call are the call\<close>

lemma intern_sequential:
  "get_symbol_id upd st sy m =
     (case intern_lookup sy m st of
        (st', Inl (rc, i)) \<Rightarrow> (rc, i, st', m)
      | (st', Inr (Insert sy' i)) \<Rightarrow>
          (case intern_insert upd sy' i m of
             (m', Inl (rc, j)) \<Rightarrow> (rc, j, st', m')
           | (m', Inr _) \<Rightarrow> (case intern_retry sy' m' of (rc, j) \<Rightarrow> (rc, j, st', m')))
      | (st', Inr _) \<Rightarrow> undefined)"
  by (simp add: get_symbol_id_def intern_lookup_def intern_insert_def intern_retry_def Let_def
      split: option.split prod.split)

lemma count_sequential:
  assumes "cs_pc S p = CIdle"
  shows "\<exists>n. cs_counts (fold (count_step upd) (replicate n (p, k)) S) = count_sample upd (cs_counts S) k \<and>
    cs_pc (fold (count_step upd) (replicate n (p, k)) S) p = CIdle \<and>
    cs_done (fold (count_step upd) (replicate n (p, k)) S) = (cs_done S)(k := cs_done S k + 1)"
proof (cases "cs_counts S k")
  case None
  with assms show ?thesis
    by (intro exI [of _ 2]) (simp add: count_step_def count_finish_def count_sample_def numeral_eq_Suc)
next
  case (Some v)
  with assms show ?thesis
    by (intro exI [of _ 3]) (simp add: count_step_def count_finish_def count_sample_def numeral_eq_Suc)
qed

section \<open>Ids agree under every schedule\<close>

text \<open>
  The part of a CPU's counter that the table may show: a CPU about to insert has a counter value
  that no entry uses yet.
\<close>

fun shown :: "intern_pc \<Rightarrow> nat \<Rightarrow> nat" where
  "shown (Insert sy i) c = c - 1"
| "shown _ c = c"

fun pending_ok :: "intern_pc \<Rightarrow> u32 \<Rightarrow> nat \<Rightarrow> bool" where
  "pending_ok (Insert sy i) p c \<longleftrightarrow> 0 < c \<and> unat p < 512 \<and> i = mk_id c (unat p)"
| "pending_ok _ p c \<longleftrightarrow> True"

abbreviation ctr_of :: "intern_sys \<Rightarrow> u32 \<Rightarrow> nat" where
  "ctr_of S p \<equiv> unat (symbol_counter (is_state S p))"

definition table_ctr :: "intern_sys \<Rightarrow> u32 \<Rightarrow> nat" where
  "table_ctr S = (\<lambda>p. shown (is_pc S p) (ctr_of S p))"

definition conc_inv :: "nat \<Rightarrow> intern_sys \<Rightarrow> bool" where
  "conc_inv n S \<longleftrightarrow>
     (\<forall>p. cur_cpu (is_state S p) = p \<and> ctr_of S p \<le> n \<and> pending_ok (is_pc S p) p (ctr_of S p)) \<and>
     id_inv (table_ctr S) (is_symbols S) \<and>
     (\<forall>(s, i) \<in> set (is_done S). is_symbols S s = Some i)"

lemma conc_invD:
  assumes "conc_inv n S"
  shows "cur_cpu (is_state S p) = p" "ctr_of S p \<le> n" "pending_ok (is_pc S p) p (ctr_of S p)"
    "id_inv (table_ctr S) (is_symbols S)" "(s, i) \<in> set (is_done S) \<Longrightarrow> is_symbols S s = Some i"
  using assms by (auto simp: conc_inv_def)

lemma shown_le: "shown c n \<le> n"
  by (cases c) simp_all

lemma table_ctr_less: "conc_inv n S \<Longrightarrow> n < ctr_bound \<Longrightarrow> table_ctr S p < ctr_bound"
  using conc_invD(2) [of n S p] shown_le [of "is_pc S p" "ctr_of S p"] by (simp add: table_ctr_def)

lemmas intern_step_defs = intern_step_def intern_lookup_def intern_insert_def intern_retry_def finish_def Let_def

text \<open>A step of CPU \<open>p\<close> changes nothing that the invariant says of the other CPUs.\<close>

lemma conc_inv_step:
  assumes inv: "conc_inv n S"
    and other: "\<And>q. q \<noteq> p \<Longrightarrow> is_state S' q = is_state S q \<and> is_pc S' q = is_pc S q"
    and own: "cur_cpu (is_state S' p) = p" "ctr_of S' p \<le> Suc n" "pending_ok (is_pc S' p) p (ctr_of S' p)"
    and table: "id_inv ((table_ctr S)(p := shown (is_pc S' p) (ctr_of S' p))) (is_symbols S')"
    and fin: "\<And>s i. (s, i) \<in> set (is_done S') \<Longrightarrow> is_symbols S' s = Some i"
  shows "conc_inv (Suc n) S'"
proof -
  have "table_ctr S' = (table_ctr S)(p := shown (is_pc S' p) (ctr_of S' p))"
    using other by (auto simp: table_ctr_def fun_eq_iff)
  moreover have "cur_cpu (is_state S' q) = q \<and> ctr_of S' q \<le> Suc n \<and> pending_ok (is_pc S' q) q (ctr_of S' q)" for q
    using other [of q] own conc_invD(1-3) [OF inv, of q] by (cases "q = p") auto
  ultimately show ?thesis using table fin by (auto simp: conc_inv_def)
qed

lemma table_same:
  assumes "conc_inv n S" "shown (is_pc S p) (ctr_of S p) = ctr_of S p"
  shows "id_inv ((table_ctr S)(p := ctr_of S p)) (is_symbols S)"
proof -
  have "(table_ctr S)(p := ctr_of S p) = table_ctr S" using assms(2) by (auto simp: table_ctr_def)
  then show ?thesis using conc_invD(4) [OF assms(1)] by simp
qed

lemma intern_step_Idle:
  assumes inv: "conc_inv n S" and pc: "is_pc S p = Idle" and n: "Suc n < ctr_bound" and p: "unat p < 512"
  shows "conc_inv (Suc n) (intern_step upd (p, sy) S)"
proof (cases "is_symbols S sy")
  case (Some i)
  show ?thesis
    by (rule conc_inv_step [OF inv, of p])
      (use Some pc conc_invD [OF inv] table_same [OF inv, of p] in \<open>auto simp: intern_step_defs le_SucI\<close>)
next
  case None
  let ?c = "symbol_counter (is_state S p)"
  have c: "unat (?c + 1) = Suc (unat ?c)"
    using conc_invD(2) [OF inv, of p] n by (simp add: unat_word_ariths ctr_bound_def)
  have i: "new_symbol_id (is_state S p\<lparr>symbol_counter := ?c + 1\<rparr>) = mk_id (Suc (unat ?c)) (unat p)"
    using conc_invD(1) [OF inv, of p] c by (simp add: new_symbol_id_mk)
  show ?thesis
    by (rule conc_inv_step [OF inv, of p])
      (use None pc c i p conc_invD [OF inv] table_same [OF inv, of p] in \<open>auto simp: intern_step_defs\<close>)
qed

lemma intern_step_Retry:
  assumes inv: "conc_inv n S" and pc: "is_pc S p = Retry sy'"
  shows "conc_inv (Suc n) (intern_step upd (p, sy) S)"
  by (rule conc_inv_step [OF inv, of p])
    (use pc conc_invD [OF inv] table_same [OF inv, of p] in
      \<open>auto simp: intern_step_defs le_SucI split: option.splits if_splits\<close>)

lemma intern_step_Insert:
  assumes inv: "conc_inv n S" and pc: "is_pc S p = Insert sy' i" and n: "n < ctr_bound"
    and upd: "bpf_hash_map upd N"
  shows "conc_inv (Suc n) (intern_step upd (p, sy) S)"
proof -
  note D = conc_invD [OF inv]
  from D(3) [of p] pc have c: "0 < ctr_of S p" "unat p < 512" "i = mk_id (ctr_of S p) (unat p)" by simp_all
  have t: "table_ctr S p = ctr_of S p - 1" using pc by (simp add: table_ctr_def)
  have self: "id_inv ((table_ctr S)(p := table_ctr S p)) (is_symbols S)" using D(4) by simp
  have Suc: "Suc (table_ctr S p) = ctr_of S p" "Suc (table_ctr S p) < ctr_bound"
    using c t D(2) [of p] n by simp_all
  show ?thesis
  proof (rule bpf_hash_map.update_cases [OF upd, of "is_symbols S" sy' i BPF_NOEXIST])
    assume u: "upd (is_symbols S) sy' i BPF_NOEXIST = (0, (is_symbols S)(sy' \<mapsto> i))"
    then have new: "is_symbols S sy' = None" by (rule bpf_hash_map.noexist_ok_new [OF upd])
    have tab: "id_inv ((table_ctr S)(p := ctr_of S p)) ((is_symbols S)(sy' \<mapsto> i))"
      using id_inv_insert [OF self table_ctr_less [OF inv n] Suc(2) c(2) new] Suc(1) c(3) by simp
    show ?thesis
      by (rule conc_inv_step [OF inv, of p])
        (use pc u new tab D in \<open>auto simp: intern_step_defs le_SucI\<close>)
  next
    fix rc
    assume u: "upd (is_symbols S) sy' i BPF_NOEXIST = (rc, is_symbols S)" "rc < 0"
    have tab: "id_inv ((table_ctr S)(p := ctr_of S p)) (is_symbols S)"
      using id_inv_bump [OF self] Suc(1) by simp
    show ?thesis
      by (rule conc_inv_step [OF inv, of p])
        (use pc u tab D in \<open>auto simp: intern_step_defs le_SucI\<close>)
  qed
qed

lemma intern_step_inv:
  assumes "bpf_hash_map upd N" "conc_inv n S" "Suc n < ctr_bound" "unat (fst a) < 512"
  shows "conc_inv (Suc n) (intern_step upd a S)"
  using assms intern_step_Idle intern_step_Insert intern_step_Retry
  by (cases a; cases "is_pc S (fst a)") auto

lemma intern_run_inv:
  assumes "bpf_hash_map upd N" "conc_inv n S" "n + length xs < ctr_bound" "\<forall>a \<in> set xs. unat (fst a) < 512"
  shows "conc_inv (n + length xs) (fold (intern_step upd) xs S)"
  using assms(2-)
proof (induction xs arbitrary: n S)
  case (Cons a xs)
  then have "conc_inv (Suc n) (intern_step upd a S)"
    by (intro intern_step_inv [OF assms(1)]) auto
  from Cons.IH [OF this] Cons.prems show ?case by simp
qed simp

lemma conc_inv_init:
  assumes "\<forall>p. cur_cpu (sts p) = p \<and> symbol_counter (sts p) = 0"
  shows "conc_inv 0 (intern_init sts)"
  using assms by (simp add: conc_inv_def intern_init_def id_inv_def)

text \<open>
  C13: However calls of \<open>get_symbol_id\<close> on up to 512 CPUs interleave, the ids they return are not
  zero, calls for the same symbol return the same id and calls for different symbols different
  ids. (The bound on the length keeps every counter below its limit.)
\<close>

theorem interned_ids_agree:
  assumes "bpf_hash_map upd N" "\<forall>p. cur_cpu (sts p) = p \<and> symbol_counter (sts p) = 0"
    and "\<forall>a \<in> set xs. unat (fst a) < 512" "length xs < ctr_bound"
    and "S = fold (intern_step upd) xs (intern_init sts)"
    and "(s, i) \<in> set (is_done S)" "(t, j) \<in> set (is_done S)"
  shows "i \<noteq> 0 \<and> (i = j \<longleftrightarrow> s = t)"
proof -
  have inv: "conc_inv (length xs) S"
    using intern_run_inv [OF assms(1) conc_inv_init [OF assms(2)], of xs] assms(3-5) by simp
  note D = conc_invD [OF inv]
  have ij: "is_symbols S s = Some i" "is_symbols S t = Some j" using D(5) assms(6,7) by auto
  then have "i \<noteq> 0" using id_inv_nonzero [OF D(4) table_ctr_less [OF inv assms(4)]] by blast
  moreover have "i = j \<longleftrightarrow> s = t"
    using D(4) ij by (auto simp: id_inv_def inj_on_def dom_def)
  ultimately show ?thesis by blast
qed

section \<open>Calls finish\<close>

text \<open>The steps a call still needs at most.\<close>

fun steps_left :: "intern_pc \<Rightarrow> nat" where
  "steps_left Idle = 0"
| "steps_left (Insert sy i) = 2"
| "steps_left (Retry sy) = 1"

lemma steps_left_own:
  "is_pc S p \<noteq> Idle \<Longrightarrow> steps_left (is_pc (intern_step upd (p, sy) S) p) < steps_left (is_pc S p)"
  by (cases "is_pc S p") (auto simp: intern_step_defs split: prod.splits)

lemma steps_left_other: "q \<noteq> p \<Longrightarrow> is_pc (intern_step upd (q, sy) S) p = is_pc S p"
  by (auto simp: intern_step_defs split: prod.splits sum.splits option.splits intern_pc.splits)


section \<open>Counters under every schedule\<close>

fun loaded_ok :: "(sample_key \<Rightarrow> nat) \<Rightarrow> count_pc \<Rightarrow> bool" where
  "loaded_ok d (CLoaded k v) \<longleftrightarrow> unat v \<le> d k"
| "loaded_ok d _ \<longleftrightarrow> True"

definition count_inv :: "count_sys \<Rightarrow> bool" where
  "count_inv S \<longleftrightarrow>
     (\<forall>k v. cs_counts S k = Some v \<longrightarrow> unat v \<le> cs_done S k) \<and> (\<forall>p. loaded_ok (cs_done S) (cs_pc S p))"

lemma loaded_ok_mono: "loaded_ok d c \<Longrightarrow> loaded_ok (d(k := Suc (d k))) c"
  by (cases c) auto

lemma unat_inc_le: "unat (v + 1 :: u32) \<le> Suc (unat v)"
  by (simp add: unat_word_ariths)

lemma count_step_inv:
  assumes upd: "bpf_hash_map upd N" and inv: "count_inv S"
  shows "count_inv (count_step upd a S)"
proof (cases a)
  case (Pair p key)
  show ?thesis
  proof (cases "cs_pc S p")
    case (CLoaded k v)
    have "unat (v + 1) \<le> Suc (cs_done S k)"
      using inv CLoaded unat_inc_le [of v] unfolding count_inv_def by (metis loaded_ok.simps(1) Suc_le_mono le_trans)
    with inv CLoaded Pair show ?thesis
      by (auto simp: count_inv_def count_step_def count_finish_def le_SucI loaded_ok_mono)
  next
    case (CMiss k)
    show ?thesis
      by (rule bpf_hash_map.update_cases [OF upd, of "cs_counts S" k 1 BPF_NOEXIST])
        (use inv CMiss Pair in \<open>auto simp: count_inv_def count_step_def count_finish_def le_SucI
          loaded_ok_mono\<close>)
  qed (use inv Pair in \<open>auto simp: count_inv_def count_step_def split: option.splits\<close>)
qed

lemma count_run_inv: "bpf_hash_map upd N \<Longrightarrow> count_inv S \<Longrightarrow> count_inv (fold (count_step upd) xs S)"
  by (induction xs arbitrary: S) (auto intro: count_step_inv)

text \<open>
  However the counting of samples interleaves on any number of CPUs, the counter of a key
  never exceeds the number of samples counted under it.
\<close>

lemma counts_never_exceed:
  assumes "bpf_hash_map upd N" "S = fold (count_step upd) xs count_init"
  shows "(case cs_counts S k of Some v \<Rightarrow> unat v | None \<Rightarrow> 0) \<le> cs_done S k"
proof -
  have "count_inv count_init" by (simp add: count_inv_def count_init_def)
  from count_run_inv [OF assms(1) this, of xs] show ?thesis
    by (auto simp: assms(2) count_inv_def split: option.split)
qed

text \<open>
  Two CPUs that count the same key at the same time can lose a sample: both calls finish and
  the counter has grown by one.
\<close>

lemma counts_lost_update:
  assumes "p \<noteq> q" "cs_pc S p = CIdle" "cs_pc S q = CIdle" "cs_counts S k = Some v"
    and "S' = fold (count_step upd) [(p, k), (q, k), (p, k), (q, k), (p, k), (q, k)] S"
  shows "cs_done S' k = cs_done S k + 2 \<and> cs_counts S' k = Some (v + 1)"
  using assms by (simp add: count_step_def count_finish_def)

end
