(* ===== verification/Witness.thy ===== *)
theory Witness
  imports Pyperf_Props Profile Interleave
begin

text \<open>
  A concrete kernel and a concrete Python process, on which the hypotheses of the properties
  are evaluated: one interpreter frame whose code object has no arguments, a file name and a
  function name.
\<close>

section \<open>Memory\<close>

fun seg_mem :: "(addr \<times> u8 list) list \<Rightarrow> memory" where
  "seg_mem [] a = None"
| "seg_mem ((b, bs) # ss) a = (if a - b < of_nat (length bs) then Some (bs ! unat (a - b)) else seg_mem ss a)"

definition w64 :: "u64 \<Rightarrow> u8 list" where "w64 x = word_le x"

text \<open>A string object: reference count, type, length, hash, state (compact, ASCII, one byte), data.\<close>

definition str_obj :: "u8 list \<Rightarrow> u8 list" where
  "str_obj cs = w64 1 @ w64 0 @ w64 (of_nat (length cs)) @ w64 0 @ w64 0x64 @ cs"

definition w_offsets :: py_offset_config where
  "w_offsets = \<lparr>PyThreadState_frame = 0, PyThreadState_cframe = -1, PyCFrame_current_frame = -1,
     PyCodeObject_co_filename = 0, PyCodeObject_co_name = 8, PyCodeObject_co_varnames = 16,
     PyCodeObject_co_localsplusnames = -1, PyCodeObject__co_cell2arg = -1, PyCodeObject__co_cellvars = -1,
     PyCodeObject__co_nlocals = -1, PyTupleObject_ob_item = 24, PyVarObject_ob_size = 16, PyObject_ob_type = 8,
     PyTypeObject_tp_name = 24, VFrame_code = 0, VFrame_previous = 8, VFrame_localsplus = 16,
     PyInterpreterFrame_owner = -1, PyASCIIObject_size = 40, PyCompactUnicodeObject_size = 56,
     PyCellObject_ob_ref = 16, off_base = 0, PyCell_Type = 0x9000\<rparr>"

definition file_chars :: "u8 list" where "file_chars = [0x61, 0x2e, 0x70, 0x79]"
definition name_chars :: "u8 list" where "name_chars = [0x66]"

definition w_mem :: memory where
  "w_mem = seg_mem
     [(0x1000, w64 0x2000), (0x1100, w64 0 @ w64 0x1000),
      (0x2000, w64 0x3000 @ w64 0 @ w64 0x7000),
      (0x3000, w64 0x4000 @ w64 0x5000 @ w64 0),
      (0x4000, str_obj file_chars),
      (0x5000, str_obj name_chars)]"

text \<open>
  Kernel memory: a task that is its own group leader, in one pid namespace, with the thread
  pointer at offset 32.
\<close>

definition w_kmem :: memory where
  "w_kmem = seg_mem
     [(0x8000, w64 0 @ w64 0x8000 @ w64 0x8200 @ w64 0x8400 @ w64 0x1100),
      (0x8200, w64 0x8300), (0x8300, w64 0 @ w64 0x77), (0x8400, w64 7 @ w64 0x8300)]"

definition w_base :: profile_kernel where
  "w_base = \<lparr>probe_read_user = ref_probe_read w_mem, probe_read_user_str = ref_read_str w_mem,
     probe_read_kernel = ref_probe_read w_kmem, probe_read_kernel_str = ref_read_str w_kmem,
     probe_read_any = ref_probe_read w_mem, probe_read_any_str = ref_read_str w_mem,
     perf_prog_read_value = ref_perf_prog_read_value,
     get_current_pid_tgid = 0x700000007, get_current_task = 0x8000, get_smp_processor_id = 3, get_stackid = (\<lambda>_. 5),
     task_flags = 0, task_group_leader = 8, task_nsproxy = 16, task_thread_pid = 24, task_thread_fsbase = 32,
     task_thread_uw_tp_value = 32, nsproxy_pid_ns_for_children = 0, pid_namespace_level = 0, pid_namespace_ns_inum = 8,
     pid_numbers = 0, upid_size = 16, upid_nr = 0, upid_ns = 8, uninit = (\<lambda>_. 0),
     update_counts = ref_update PROFILE_MAPS_SIZE, update_python_stacks = ref_update PROFILE_MAPS_SIZE,
     update_py_symbols = ref_update 16384,
     py_config = \<lparr>bpf_log_err = 0, bpf_log_debug = 0, py_ns_pid_ino = 0\<rparr>,
     update_pids = ref_update 2048, delete_pids = ref_delete, perf_event_output = ref_output 8,
     pr_config = \<lparr>pr_ns_pid_ino = 0\<rparr>\<rparr>"

section \<open>Evaluating the memory\<close>

lemma length_w64 [simp]: "length (w64 x) = 8"
  by (simp add: w64_def)

lemma le_word_w64 [simp]: "le_word (w64 x) = x"
  by (simp add: w64_def)

lemma unat_next: "unat (a - b) + 1 < 2 ^ 64 \<Longrightarrow> unat (a + 1 - b :: u64) = Suc (unat (a - b))"
proof -
  assume "unat (a - b) + 1 < 2 ^ 64"
  then have "unat (a - b + 1) = Suc (unat (a - b))" by (subst unat_word_ariths) simp
  then show ?thesis by (simp only: diff_add_eq [symmetric])
qed

lemma seg_mem_hit:
  assumes "unat (a - b) + n \<le> length bs" "length bs < 2 ^ 64"
  shows "mem_bytes (seg_mem ((b, bs) # ss)) a n = Some (take n (drop (unat (a - b)) bs))"
  using assms
proof (induction n arbitrary: a)
  case (Suc n)
  have i: "unat (a - b) < length bs" using Suc.prems by simp
  have lt: "a - b < of_nat (length bs)"
    using i Suc.prems(2) by (simp add: word_less_nat_alt unat_of_nat)
  have s: "unat (a + 1 - b) = Suc (unat (a - b))"
    using i Suc.prems(2) by (intro unat_next) simp
  show ?case
    using Suc.IH [of "a + 1"] Suc.prems lt i by (simp add: s Cons_nth_drop_Suc [symmetric])
qed simp

lemma seg_mem_skip:
  assumes "length bs \<le> unat (a - b)" "unat (a - b) + n \<le> 2 ^ 64" "length bs < 2 ^ 64"
  shows "mem_bytes (seg_mem ((b, bs) # ss)) a n = mem_bytes (seg_mem ss) a n"
  using assms
proof (induction n arbitrary: a)
  case (Suc n)
  have lt: "\<not> a - b < of_nat (length bs)"
    using Suc.prems by (simp add: word_less_nat_alt unat_of_nat)
  show ?case
  proof (cases n)
    case (Suc k)
    have "unat (a + 1 - b) = Suc (unat (a - b))"
      using Suc \<open>unat (a - b) + Suc n \<le> 2 ^ 64\<close> by (intro unat_next) simp
    with Suc.IH [of "a + 1"] Suc.prems lt show ?thesis by (simp split: option.split)
  qed (use lt in \<open>simp split: option.split\<close>)
qed simp

lemmas seg_simps = seg_mem_hit seg_mem_skip

lemma nat_le_numeral [simp]:
  "nat_le (numeral k) x = of_nat (x mod 256) # nat_le (pred_numeral k) (x div 256)"
  by (simp only: numeral_eq_Suc nat_le.simps)

lemmas w_mem_simps = mem_word_def w_mem_def w_kmem_def seg_simps str_obj_def file_chars_def name_chars_def

lemma w_mem_words:
  "mem_word w_mem 0x1108 = Some (0x1000 :: u64)" "mem_word w_mem 0x1000 = Some (0x2000 :: u64)"
  "mem_word w_mem 0x2000 = Some (0x3000 :: u64)" "mem_word w_mem 0x2008 = Some (0 :: u64)"
  "mem_word w_mem 0x3000 = Some (0x4000 :: u64)" "mem_word w_mem 0x3008 = Some (0x5000 :: u64)"
  "mem_word w_mem 0x3010 = Some (0 :: u64)"
  by (simp_all add: w_mem_simps)

lemma w_kmem_words:
  "mem_word w_kmem 0x8008 = Some (0x8000 :: u64)" "mem_word w_kmem 0x8010 = Some (0x8200 :: u64)"
  "mem_word w_kmem 0x8018 = Some (0x8400 :: u64)" "mem_word w_kmem 0x8020 = Some (0x1100 :: u64)"
  "mem_word w_kmem 0x8200 = Some (0x8300 :: u64)" "mem_word w_kmem 0x8408 = Some (0x8300 :: u64)"
  by (simp_all add: w_mem_simps)

lemma w_kmem_words32:
  "mem_word w_kmem 0x8000 = Some (0 :: u32)" "mem_word w_kmem 0x8300 = Some (0 :: u32)"
  "mem_word w_kmem 0x8308 = Some (0x77 :: u32)" "mem_word w_kmem 0x8400 = Some (7 :: u32)"
  by (simp_all add: w_mem_simps) (simp_all add: w64_def word_le_def le_word_def)

definition file_ob :: py_ascii_object where
  "file_ob = \<lparr>ao_length = 4, ao_kind = 1, ao_compact = True, ao_ascii = True\<rparr>"
definition name_ob :: py_ascii_object where
  "name_ob = \<lparr>ao_length = 1, ao_kind = 1, ao_compact = True, ao_ascii = True\<rparr>"

lemma w_header:
  "ascii_object (w64 1 @ w64 0 @ w64 4 @ w64 0 @ w64 0x64) = file_ob"
  "ascii_object (w64 1 @ w64 0 @ w64 1 @ w64 0 @ w64 0x64) = name_ob"
  by (simp_all add: ascii_object_def file_ob_def name_ob_def)
     (simp_all add: w64_def word_le_def le_word_def)

lemma w_file: "compact_str w_mem w_offsets 0x4000 file_ob file_chars"
  unfolding compact_str_def py_str_at_def
  by (simp add: w_mem_simps sizeof_PyASCIIObject_def w_header pystr_data_def w_offsets_def)
     (simp add: file_ob_def nth_append)

lemma w_name: "compact_str w_mem w_offsets 0x5000 name_ob name_chars"
  unfolding compact_str_def py_str_at_def
  by (simp add: w_mem_simps sizeof_PyASCIIObject_def w_header pystr_data_def w_offsets_def)
     (simp add: name_ob_def nth_append)

section \<open>The laws hold\<close>

lemma w_sel [simp]:
  "probe_read_user w_base = ref_probe_read w_mem" "probe_read_user_str w_base = ref_read_str w_mem"
  "probe_read_kernel w_base = ref_probe_read w_kmem" "perf_prog_read_value w_base = ref_perf_prog_read_value"
  "update_counts w_base = ref_update PROFILE_MAPS_SIZE" "update_python_stacks w_base = ref_update PROFILE_MAPS_SIZE"
  "update_py_symbols w_base = ref_update 16384" "update_pids w_base = ref_update 2048"
  "delete_pids w_base = ref_delete" "perf_event_output w_base = ref_output 8"
  "get_current_task w_base = 0x8000" "get_smp_processor_id w_base = 3" "get_stackid w_base = (\<lambda>_. 5)"
  "py_config w_base = \<lparr>bpf_log_err = 0, bpf_log_debug = 0, py_ns_pid_ino = 0\<rparr>"
  "pr_config w_base = \<lparr>pr_ns_pid_ino = 0\<rparr>" "task_flags w_base = 0" "uninit w_base = (\<lambda>_. 0)"
  "task_thread_fsbase w_base = 32"
  by (simp_all add: w_base_def)

lemma w_user: "probe_read_resident (probe_read_user w_base) w_mem"
  by (simp add: ref_read.probe_read_resident_axioms)

lemma w_kernel: "probe_read_resident (probe_read_kernel w_base) w_kmem"
  by (simp add: ref_read.probe_read_resident_axioms)

lemma w_strs: "probe_read_str_resident (probe_read_user_str w_base) w_mem"
  by (simp add: ref_str.probe_read_str_resident_axioms)

lemma w_clears: "clears_buffer (perf_prog_read_value w_base)"
  by (simp add: ref_clear.clears_buffer_axioms)

lemmas w_strs' = probe_read_str_resident.axioms(1) [OF w_strs]

lemma w_py_kernel: "py_kernel w_base w_mem 16384 PROFILE_MAPS_SIZE"
  using w_user w_strs' w_clears
  by (intro py_kernel.intro) (simp_all add: ref_map.bpf_hash_map_room_axioms)

lemma w_py_memory: "py_memory w_base w_mem w_mem"
  using resident_read [OF w_user] w_strs' w_clears by (rule py_memory.intro)

lemma w_profile: "profile_helpers w_base"
  by (rule profile_helpers.intro)
     (simp_all add: ref_buf.perf_buffer_axioms ref_map.bpf_hash_map_axioms ref_del.bpf_map_delete_axioms)

lemma w_hash:
  "bpf_hash_map (update_python_stacks w_base) PROFILE_MAPS_SIZE" "bpf_hash_map (update_py_symbols w_base) 16384"
  by (simp_all add: ref_map.bpf_hash_map_axioms)

lemma w_pid [simp]: "current_pid w_base 0 p = 7"
  by (simp add: current_pid_def w_base_def)

section \<open>The process\<close>

definition w_pd :: py_pid_data where
  "w_pd = \<lparr>pd_offsets = w_offsets, version = \<lparr>major = 3, minor = 10, patch = 0\<rparr>,
     pd_libc = \<lparr>musl = False, pthread_size = 0, pthread_specific1stblock = 0\<rparr>, tssKey = 0, collect_kernel = 1\<rparr>"

definition w_event :: py_event where
  "w_event = \<lparr>ev_k = \<lparr>k_pid = 0, k_flags = 0, kern_stack = 0, user_stack = 0\<rparr>, stack_len = 0,
     stack = replicate 96 0, ev_tail = 0\<rparr>"

definition w_state :: py_sample_state where
  "w_state = \<lparr>symbol_counter = 0, st_offsets = w_offsets, cur_cpu = 0, frame_ptr = 0,
     python_stack_prog_call_cnt = 0, st_sym = zero_symbol, event = w_event, st_padding = 0\<rparr>"

definition w_maps :: profile_maps where
  "w_maps = \<lparr>counts = Map.empty, python_stacks = Map.empty, py_symbols = Map.empty, py_pid_config = [7 \<mapsto> w_pd],
     py_state_heap = (\<lambda>cpu k. if k = 0 then Some w_state else None), py_progs = init_py_progs,
     pids = Map.empty, events = [], progs = [0 \<mapsto> PYPERF_COLLECT]\<rparr>"

lemma w_maps_sel [simp]:
  "py_pid_config w_maps = [7 \<mapsto> w_pd]" "get_state K w_maps = Some w_state" "py_symbols w_maps = Map.empty"
  "python_stacks w_maps = Map.empty" "counts w_maps = Map.empty" "pids w_maps = Map.empty" "events w_maps = []"
  "py_progs w_maps PYTHON_PROG_IDX_READ_PYTHON_STACK = Some READ_PYTHON_STACK"
  by (simp_all add: w_maps_def get_state_def init_py_progs_def)

lemma w_state_wf: "wf_state w_state"
  by (simp add: wf_state_def wf_event_def w_state_def w_event_def)

lemma w_maps_wf: "wf_maps w_maps"
  using w_state_wf by (simp add: wf_maps_def w_maps_def)

lemma w_ids: "ids_ok w_maps" "heap_ctr w_maps cpu = 0"
  by (simp_all add: ids_ok_def id_inv_def heap_ctr_def w_maps_def w_state_def)

lemma w_thread: "get_thread_state X86 w_base w_pd 0 = (0, 0x1000)"
  using read_user_resident [OF w_user w_mem_words(1)] w_kmem_words(4)
    probe_read_resident.rd_mapped [OF w_kernel, of "0x8020" "word_le (0 :: u64)"]
  by (auto simp: get_thread_state_def w_pd_def pyro_pthread_getspecific_def pthread_amd64_defs read_kernel_def mem_word_def)

lemma w_top: "top_frame w_mem w_offsets 0x1000 = Some 0x2000"
  using w_mem_words(2) by (simp add: top_frame_def w_offsets_def)

definition w_sym :: py_symbol where
  "w_sym = names_symbol zero_symbol file_ob file_chars name_ob name_chars"

lemma w_code:
  "no_args w_mem w_offsets 0x3000"
  "code_str w_mem w_offsets 0x3000 (PyCodeObject_co_filename w_offsets) file_ob file_chars"
  "code_str w_mem w_offsets 0x3000 (PyCodeObject_co_name w_offsets) name_ob name_chars"
  using w_mem_words w_file w_name
  by (auto simp: no_args_def code_str_def varnames_ptr_def w_offsets_def)

lemma w_frame: "wf_symbol s \<Longrightarrow> get_frame_data w_base 0x2000 w_offsets s = (1, 0, w_sym)"
  using w_mem_words
  by (intro get_frame_data_resident [OF w_user, where code = "0x3000"])
     (simp_all add: get_names_plain [OF w_user w_clears _ w_code] w_sym_def, simp_all add: w_offsets_def)

lemma w_walk: "py_walk (frame_at w_base w_offsets) 96 0x2000 = ([w_sym], Complete)"
proof -
  have "frame_at w_base w_offsets 0x2000 = Frame w_sym 0"
    by (simp add: frame_at_def w_frame view_frame_def)
  moreover have "frame_at w_base w_offsets 0 = NoFrame"
    by (simp add: frame_at_def view_frame_def get_frame_data_def)
  ultimately show ?thesis by (simp add: numeral_eq_Suc)
qed

section \<open>Witnesses\<close>

theorem MurmurHash64A_correct_witness:
  "MurmurHash64A (replicate 16 1) 12 0 =
    Some (murmur_ref (blocks64 (replicate 16 1) 1) (tail_word (replicate 16 1) 12) 12 0)"
  using MurmurHash64A_correct [of 12 "replicate 16 1" 0] by (simp add: HASH_LIMIT_def)

theorem current_pid_namespace_witness: "current_pid w_base 0x77 0 = 7"
proof -
  have "task_namespaces w_base w_kmem (get_current_task w_base) [(0x77, 7)]"
    using w_kmem_words w_kmem_words32 by (simp add: task_namespaces_def w_base_def)
  from current_pid_namespace [OF w_kernel this, of "0x77" 0 0] show ?thesis by simp
qed

definition w_blind :: profile_kernel where
  "w_blind = w_base\<lparr>probe_read_kernel := (\<lambda>dst a. (-14, replicate (length dst) 0))\<rparr>"

theorem pystr_read_correct_witness:
  "\<exists>ty'. pystr_read w_base 0x4000 w_offsets (replicate 5 0) 5 \<lparr>str_type = 0, size_codepoints = 0\<rparr> =
       (0, overwrite (take 5 file_chars) (replicate 5 0), ty') \<and>
     str_type ty' = pystr_type_byte file_ob \<and> unat (size_codepoints ty') = length file_chars"
  using pystr_read_correct [OF w_user w_file, of 5 "replicate 5 0" "\<lparr>str_type = 0, size_codepoints = 0\<rparr>"]
  by (simp add: file_ob_def file_chars_def)

theorem symbol_dedup_witness:
  "snd (get_frame_data w_base 0x2000 w_offsets (zero_symbol\<lparr>sname := replicate 64 0x41\<rparr>)) =
   snd (get_frame_data w_base 0x2000 w_offsets zero_symbol)"
proof -
  let ?s = "zero_symbol\<lparr>sname := replicate 64 0x41\<rparr>"
  have wf: "wf_symbol ?s" by (simp add: wf_symbol_def name_lens)
  from symbol_dedup [OF resident_read [OF w_user] w_clears wf_zero_symbol wf
      w_frame [OF wf_zero_symbol] w_frame [OF wf]]
  show ?thesis using w_frame [OF wf_zero_symbol] w_frame [OF wf] by simp
qed


theorem read_python_stack_chain_witness:
  "outcome (read_python_stack w_base 2 w_maps) =
    outcome (finish_walk w_base w_maps (frame_loop w_base (update_py_symbols w_base) PYTHON_STACK_MAX_LEN 0 (w_state, py_symbols w_maps)))"
  by (rule read_python_stack_chain) (simp_all add: w_state_def)

theorem pyperf_collect_records_witness:
  "\<exists>M' h xs. pyperf_collect X86 w_base 3 w_maps = (0, M') \<and>
    py_symbols w_maps \<subseteq>\<^sub>m py_symbols M' \<and> set [w_sym] \<subseteq> dom (py_symbols M') \<and>
    python_stacks M' (ucast h) = Some xs \<and> decode_stack xs = map (\<lambda>s. the (py_symbols M' s)) [w_sym] \<and>
    counts M' = count_sample (update_counts w_base) (counts w_maps)
      \<lparr>k_pid = 7, k_flags = (if Complete = Complete then 1 else 3),
       kern_stack = (if collect_kernel w_pd \<noteq> 0 then get_stackid w_base KERN_STACKID_FLAGS else -1), user_stack = h\<rparr>"
  using w_top w_walk w_ids
  by (intro pyperf_collect_records [OF w_py_kernel _ _ _ _ w_state_wf w_thread, where fp = "0x2000"])
     (simp_all add: w_pd_def ctr_bound_def PROFILE_MAPS_SIZE_def)

theorem pyperf_collect_wf_witness: "wf_maps (snd (pyperf_collect X86 w_base 3 w_maps))"
  by (rule pyperf_collect_wf [OF w_py_memory w_hash(1) w_maps_wf])

theorem pyperf_collect_ids_unique_witness: "ids_ok (snd (pyperf_collect X86 w_base 3 w_maps))"
  using w_ids by (intro pyperf_collect_ids_unique [OF w_hash(2,1)]) (simp_all add: ctr_bound_def)

theorem pyperf_collect_errors_witness:
  "\<exists>rc M'. pyperf_collect ARM64 w_base 0 w_maps = (rc, M') \<and> (rc = 0 \<or> rc = -1) \<and>
    (rc = -1 \<longrightarrow> counts M' = counts w_maps \<and> python_stacks M' = python_stacks w_maps)"
proof -
  obtain rc M' where p: "pyperf_collect ARM64 w_base 0 w_maps = (rc, M')" by (metis surj_pair)
  from pyperf_collect_errors [OF w_hash(1) p] p show ?thesis by blast
qed

definition w_full :: py_event where
  "w_full = w_event\<lparr>stack_len := 96, stack := replicate 96 5\<rparr>"

text \<open>A second process, in a method of an instance of the class \<open>A\<close>.\<close>

definition w_mem2 :: memory where
  "w_mem2 = seg_mem
     [(0x2000, w64 0x3000 @ w64 0 @ w64 0x7000),
      (0x3000, w64 0x4000 @ w64 0x5000 @ w64 0x6000),
      (0x4000, str_obj file_chars), (0x5000, str_obj name_chars),
      (0x6000, w64 1 @ w64 0 @ w64 1 @ w64 0x6100), (0x6100, str_obj self_str),
      (0x7000, w64 1 @ w64 0x7100), (0x7100, w64 0 @ w64 0 @ w64 0 @ w64 0x7200), (0x7200, [0x41, 0])]"

definition w_base2 :: profile_kernel where
  "w_base2 = w_base\<lparr>probe_read_user := ref_probe_read w_mem2, probe_read_user_str := ref_read_str w_mem2\<rparr>"

lemmas w_mem2_simps = mem_word_def w_mem2_def seg_simps str_obj_def file_chars_def name_chars_def self_str_def

lemma w_mem2_words:
  "mem_word w_mem2 0x3000 = Some (0x4000 :: u64)" "mem_word w_mem2 0x3008 = Some (0x5000 :: u64)"
  "mem_word w_mem2 0x3010 = Some (0x6000 :: u64)" "mem_word w_mem2 0x6010 = Some (1 :: u64)"
  "mem_word w_mem2 0x6018 = Some (0x6100 :: u64)" "mem_word w_mem2 0x2010 = Some (0x7000 :: u64)"
  "mem_word w_mem2 0x7008 = Some (0x7100 :: u64)" "mem_word w_mem2 0x7118 = Some (0x7200 :: u64)"
  by (simp_all add: w_mem2_simps)

lemma w_mem2_strs:
  "compact_str w_mem2 w_offsets 0x4000 file_ob file_chars" "compact_str w_mem2 w_offsets 0x5000 name_ob name_chars"
  "compact_str w_mem2 w_offsets 0x6100 file_ob self_str"
  unfolding compact_str_def py_str_at_def
  by (simp_all add: w_mem2_simps sizeof_PyASCIIObject_def w_header pystr_data_def w_offsets_def)
     (simp_all add: file_ob_def name_ob_def nth_append)

lemma w_mem2_class: "cstr w_mem2 0x7200 31 = Some [0x41]"
  by (rule cstr_unique) (simp_all add: w_mem2_simps)

lemma w_base2_laws:
  "probe_read_resident (probe_read_user w_base2) w_mem2" "probe_read_str_resident (probe_read_user_str w_base2) w_mem2"
  "clears_buffer (perf_prog_read_value w_base2)" "wf_symbol zero_symbol"
  by (simp_all add: w_base2_def ref_read.probe_read_resident_axioms ref_str.probe_read_str_resident_axioms
      ref_clear.clears_buffer_axioms)

lemma w_method:
  "first_arg_at w_mem2 w_offsets 0x3000 file_ob (self_str @ [])"
  "self_class_at w_mem2 w_offsets 0x2000 [0x41]"
  "code_str w_mem2 w_offsets 0x3000 (PyCodeObject_co_filename w_offsets) file_ob file_chars"
  "code_str w_mem2 w_offsets 0x3000 (PyCodeObject_co_name w_offsets) name_ob name_chars"
proof -
  show "first_arg_at w_mem2 w_offsets 0x3000 file_ob (self_str @ [])"
    using w_mem2_words w_mem2_strs by (simp add: first_arg_at_def varnames_ptr_def) (simp add: w_offsets_def)
  show "self_class_at w_mem2 w_offsets 0x2000 [0x41]"
    using w_mem2_words w_mem2_class by (simp add: self_class_at_def w_offsets_def)
  show "code_str w_mem2 w_offsets 0x3000 (PyCodeObject_co_filename w_offsets) file_ob file_chars"
    "code_str w_mem2 w_offsets 0x3000 (PyCodeObject_co_name w_offsets) name_ob name_chars"
    using w_mem2_words w_mem2_strs by (auto simp: code_str_def w_offsets_def)
qed

theorem get_names_method_witness:
  "get_names w_base2 0x2000 0x3000 w_offsets zero_symbol =
    (0, names_symbol (class_symbol zero_symbol [0x41]) file_ob file_chars name_ob name_chars)"
  by (rule get_names_method [OF w_base2_laws w_method])

section \<open>The process profiler\<close>

definition fp_config :: pid_config where
  "fp_config = \<lparr>pc_type = PROFILING_TYPE_FRAMEPOINTERS, collect_user = 1, pc_collect_kernel = 0, padding_ = 0\<rparr>"

definition py_config7 :: pid_config where
  "py_config7 = fp_config\<lparr>pc_type := PROFILING_TYPE_PYTHON\<rparr>"

definition w_maps_with :: "pid_config \<Rightarrow> profile_maps" where
  "w_maps_with c = w_maps\<lparr>pids := [7 \<mapsto> c]\<rparr>"

lemma w_user_thread: "user_thread w_base 7"
proof -
  have "read_kernel w_base (0 :: s32) 0x8000 = (0, 0)"
    using w_kmem_words32(1) probe_read_resident.rd_mapped [OF w_kernel, of "0x8000" "word_le (0 :: s32)"]
    by (auto simp: read_kernel_def mem_word_def)
  then show ?thesis by (simp add: user_thread_def)
qed


lemma w_sample_step: "step (Sample 7) M (snd (do_perf_event X86 w_base 33 M))"
  by (rule step.sample [OF w_profile _ refl]) simp


definition w_lossy :: profile_kernel where
  "w_lossy = w_base\<lparr>perf_event_output := ref_output 0\<rparr>"


section \<open>Interleaved CPUs\<close>

definition w_sts :: "u32 \<Rightarrow> py_sample_state" where
  "w_sts p = w_state\<lparr>cur_cpu := p, symbol_counter := 0\<rparr>"

definition w_schedule :: "(u32 \<times> py_symbol) list" where
  "w_schedule = [(0, w_sym), (1, w_sym), (0, w_sym), (1, w_sym), (1, w_sym)]"

definition w_interned :: intern_sys where
  "w_interned = fold (intern_step (ref_update 16384)) w_schedule (intern_init w_sts)"

lemma w_interned_done: "is_done w_interned = [(w_sym, 512), (w_sym, 512)]"
  by (simp add: w_interned_def w_schedule_def intern_init_def intern_step_defs w_sts_def
      ref_update_def BPF_NOEXIST_def BPF_EXIST_def new_symbol_id_def PY_NUM_CPU_def)

text \<open>Both CPUs miss the symbol; the second one's insertion fails and it adopts the first one's id.\<close>

theorem interned_ids_agree_witness:
  "is_done w_interned = [(w_sym, 512), (w_sym, 512)] \<and>
   ((512 :: py_symbol_id) \<noteq> 0 \<and> ((512 :: py_symbol_id) = 512 \<longleftrightarrow> w_sym = w_sym))"
proof (rule conjI [OF w_interned_done], rule interned_ids_agree [OF ref_map.bpf_hash_map_axioms _ _ _ w_interned_def])
  show "\<forall>p. cur_cpu (w_sts p) = p \<and> symbol_counter (w_sts p) = 0" by (simp add: w_sts_def)
  show "\<forall>a \<in> set w_schedule. unat (fst a) < 512" by (simp add: w_schedule_def)
  show "length w_schedule < ctr_bound" by (simp add: w_schedule_def ctr_bound_def)
qed (simp_all add: w_interned_done)


definition w_key :: sample_key where
  "w_key = \<lparr>k_pid = 7, k_flags = 0, kern_stack = 1, user_stack = 2\<rparr>"

end
