(* ===== verification/C_Layout.thy ===== *)
theory C_Layout
  imports Prelude
begin

text \<open>
  The layout of C structures on the targets of the programs: natural alignment, bit fields in
  units of their declared type, anonymous members whose fields belong to the enclosing type.
  The kernel headers of \<open>ebpf/bpf/vmlinux\<close> are tables of such types; \<open>offsetof\<close> of
  \<open>bpf_helpers.h\<close> and the relocations of \<open>bpf_core_read.h\<close> are about their offsets.

  Positions inside a structure are counted in bits. The lemmas show, for every well-formed
  type, that its members follow one another without overlap, and that an accessor path whose
  indices are within the arrays ends at an aligned object inside the type.
\<close>

named_theorems layout_simps "sizes, alignments and well-formedness of the declared types"

section \<open>Types\<close>

text \<open>
  \<open>Prim n\<close> is a scalar of \<open>n\<close> bytes aligned to its size, a pointer is one of eight bytes.
  \<open>Bits f n w\<close> is the bit field \<open>f\<close> of width \<open>w\<close> with a declared type of \<open>n\<close> bytes.
  The name of an anonymous member is empty.
\<close>

datatype ctype = Prim nat | Arr ctype nat | Struct "member list" | Union "member list"
and member = Member string ctype | Bits string nat nat

definition Ptr :: ctype where "Ptr = Prim 8"

definition align_up :: "nat \<Rightarrow> nat \<Rightarrow> nat" where
  "align_up x a = (x + (a - 1)) div a * a"

fun max_of :: "nat list \<Rightarrow> nat" where
  "max_of [] = 1"
| "max_of (x # xs) = max x (max_of xs)"

fun calignof :: "ctype \<Rightarrow> nat" and malignof :: "member \<Rightarrow> nat" where
  "calignof (Prim n) = n"
| "calignof (Arr t n) = calignof t"
| "calignof (Struct ms) = max_of (map malignof ms)"
| "calignof (Union ms) = max_of (map malignof ms)"
| "malignof (Member f t) = calignof t"
| "malignof (Bits f n w) = (if f = [] then 1 else n)"

definition bytes_of_bits :: "nat \<Rightarrow> nat" where
  "bytes_of_bits b = (b + 7) div 8"

text \<open>
  A bit field starts where the previous member ends unless it would cross a boundary of its
  declared type; a width of zero closes the unit.
\<close>

fun place :: "nat \<Rightarrow> member \<Rightarrow> nat" where
  "place b (Member f t) = align_up b (8 * calignof t)"
| "place b (Bits f n w) =
     (if w = 0 \<or> 8 * n < b mod (8 * n) + w then align_up b (8 * n) else b)"

fun csizeof :: "ctype \<Rightarrow> nat" and mbits :: "member \<Rightarrow> nat"
  and end_bits :: "nat \<Rightarrow> member list \<Rightarrow> nat" and max_bits :: "member list \<Rightarrow> nat" where
  "csizeof (Prim n) = n"
| "csizeof (Arr t n) = n * csizeof t"
| "csizeof (Struct ms) = align_up (bytes_of_bits (end_bits 0 ms)) (calignof (Struct ms))"
| "csizeof (Union ms) = align_up (bytes_of_bits (max_bits ms)) (calignof (Union ms))"
| "mbits (Member f t) = 8 * csizeof t"
| "mbits (Bits f n w) = w"
| "end_bits b [] = b"
| "end_bits b (m # ms) = end_bits (place b m + mbits m) ms"
| "max_bits [] = 0"
| "max_bits (m # ms) = max (mbits m) (max_bits ms)"

fun layout :: "nat \<Rightarrow> member list \<Rightarrow> (nat \<times> member) list" where
  "layout b [] = []"
| "layout b (m # ms) = (place b m, m) # layout (place b m + mbits m) ms"

section \<open>Members by name and accessor paths\<close>

fun field_of :: "ctype \<Rightarrow> string \<Rightarrow> (nat \<times> member) option"
  and field_in :: "nat \<Rightarrow> member list \<Rightarrow> string \<Rightarrow> (nat \<times> member) option"
  and field_alt :: "member list \<Rightarrow> string \<Rightarrow> (nat \<times> member) option"
  and field_at :: "member \<Rightarrow> string \<Rightarrow> (nat \<times> member) option" where
  "field_of (Struct ms) f = field_in 0 ms f"
| "field_of (Union ms) f = field_alt ms f"
| "field_of (Prim n) f = None"
| "field_of (Arr t n) f = None"
| "field_in b [] f = None"
| "field_in b (m # ms) f =
     (case field_at m f of
        Some (d, m') \<Rightarrow> Some (place b m + d, m')
      | None \<Rightarrow> field_in (place b m + mbits m) ms f)"
| "field_alt [] f = None"
| "field_alt (m # ms) f = (case field_at m f of Some r \<Rightarrow> Some r | None \<Rightarrow> field_alt ms f)"
| "field_at (Member g t) f =
     (if g = f then Some (0, Member g t) else if g = [] then field_of t f else None)"
| "field_at (Bits g n w) f = (if g = f then Some (0, Bits g n w) else None)"

datatype accessor = Field string | Index nat

fun offset_path :: "ctype \<Rightarrow> accessor list \<Rightarrow> (nat \<times> ctype) option" where
  "offset_path t [] = Some (0, t)"
| "offset_path t (Field f # p) =
     (case field_of t f of
        Some (b, Member g t') \<Rightarrow> map_option (\<lambda>(d, u). (b div 8 + d, u)) (offset_path t' p)
      | _ \<Rightarrow> None)"
| "offset_path (Arr t n) (Index i # p) =
     map_option (\<lambda>(d, u). (i * csizeof t + d, u)) (offset_path t p)"
| "offset_path t (Index i # p) = None"

text \<open>The indices of a path stay within the declared bounds.\<close>

fun path_ok :: "ctype \<Rightarrow> accessor list \<Rightarrow> bool" where
  "path_ok t [] \<longleftrightarrow> True"
| "path_ok t (Field f # p) \<longleftrightarrow>
     (f \<noteq> [] \<and> (case field_of t f of Some (b, Member g t') \<Rightarrow> path_ok t' p | _ \<Rightarrow> False))"
| "path_ok (Arr t n) (Index i # p) \<longleftrightarrow> i < n \<and> path_ok t p"
| "path_ok t (Index i # p) \<longleftrightarrow> False"

definition scalar_size :: "nat \<Rightarrow> bool" where
  "scalar_size n \<longleftrightarrow> n \<in> {1, 2, 4, 8, 16}"

fun wf_type :: "ctype \<Rightarrow> bool" and wf_member :: "member \<Rightarrow> bool" where
  "wf_type (Prim n) \<longleftrightarrow> scalar_size n"
| "wf_type (Arr t n) \<longleftrightarrow> wf_type t"
| "wf_type (Struct ms) \<longleftrightarrow> list_all wf_member ms"
| "wf_type (Union ms) \<longleftrightarrow> list_all wf_member ms"
| "wf_member (Member f t) \<longleftrightarrow> wf_type t"
| "wf_member (Bits f n w) \<longleftrightarrow> scalar_size n \<and> w \<le> 8 * n"

section \<open>Alignment\<close>

definition pow2 :: "nat \<Rightarrow> bool" where
  "pow2 n \<longleftrightarrow> (\<exists>k. n = 2 ^ k)"

lemma pow2_1 [simp]: "pow2 1" "pow2 (Suc 0)"
  using power_0 [of "2 :: nat"] by (auto simp: pow2_def intro: exI [of _ 0])

lemma pow2_scalar: "scalar_size n \<Longrightarrow> pow2 n"
  unfolding scalar_size_def pow2_def
  by (auto intro: exI [of _ 0] exI [of _ 1] exI [of _ 2] exI [of _ 3] exI [of _ 4])

lemma pow2_pos: "pow2 n \<Longrightarrow> 0 < n"
  by (auto simp: pow2_def)

lemma pow2_dvd: "pow2 a \<Longrightarrow> pow2 b \<Longrightarrow> a \<le> b \<Longrightarrow> a dvd b"
  by (auto simp: pow2_def le_imp_power_dvd)

lemma pow2_max: "pow2 a \<Longrightarrow> pow2 b \<Longrightarrow> pow2 (max a b)"
  by (simp add: max_def)

lemma max_of_pow2: "(\<And>x. x \<in> set xs \<Longrightarrow> pow2 x) \<Longrightarrow> pow2 (max_of xs)"
  by (induction xs) (auto intro: pow2_max)

lemma max_of_upper: "x \<in> set xs \<Longrightarrow> x \<le> max_of xs"
  by (induction xs) auto

lemma align_up_dvd [simp]: "a dvd align_up x a"
  by (simp add: align_up_def)

lemma align_up_ge: "0 < a \<Longrightarrow> x \<le> align_up x a"
proof -
  assume "0 < a"
  have "(x + (a - 1)) div a * a + (x + (a - 1)) mod a = x + (a - 1)" by simp
  moreover have "(x + (a - 1)) mod a \<le> a - 1" using \<open>0 < a\<close> by (simp add: less_eq_Suc_le [symmetric] less_Suc_eq_le [symmetric])
  ultimately show ?thesis unfolding align_up_def by linarith
qed

lemma align_pow2:
  "wf_type t \<Longrightarrow> pow2 (calignof t)" "wf_member m \<Longrightarrow> pow2 (malignof m)"
  by (induction t and m rule: ctype.induct member.induct)
    (auto simp: pow2_scalar list_all_iff intro!: max_of_pow2)

lemma calignof_pos: "wf_type t \<Longrightarrow> 0 < calignof t"
  by (rule pow2_pos) (rule align_pow2)

text \<open>An array of a type keeps every element aligned, because sizes are multiples of alignments.\<close>

lemma calignof_dvd_csizeof: "wf_type t \<Longrightarrow> calignof t dvd csizeof t"
  by (induction t rule: ctype.induct [where ?P2.0 = "\<lambda>_. True"]) auto

section \<open>Bounds\<close>

lemma bytes_of_bits_ge: "b \<le> 8 * bytes_of_bits b"
  unfolding bytes_of_bits_def by linarith

lemma place_ge: "wf_member m \<Longrightarrow> b \<le> place b m"
  by (cases m) (auto simp: calignof_pos scalar_size_def intro!: align_up_ge)

lemma end_bits_ge: "list_all wf_member ms \<Longrightarrow> b \<le> end_bits b ms"
proof (induction ms arbitrary: b)
  case (Cons m ms)
  then have "b \<le> place b m + mbits m" "place b m + mbits m \<le> end_bits (place b m + mbits m) ms"
    using place_ge [of m b] by auto
  then show ?case by simp
qed simp

lemma layout_bounds:
  assumes "list_all wf_member ms" "(s, m) \<in> set (layout b ms)"
  shows "b \<le> s \<and> s + mbits m \<le> end_bits b ms"
  using assms
proof (induction ms arbitrary: b)
  case (Cons x ms)
  let ?e = "place b x + mbits x"
  have "b \<le> place b x" "?e \<le> end_bits ?e ms"
    using Cons.prems(1) place_ge end_bits_ge by auto
  moreover have "?e \<le> s \<and> s + mbits m \<le> end_bits ?e ms" if "(s, m) \<in> set (layout ?e ms)"
    using Cons that by simp
  ultimately show ?case using Cons.prems(2) by fastforce
qed simp

text \<open>Members follow one another without overlap.\<close>

lemma layout_disjoint:
  assumes "list_all wf_member ms"
  shows "sorted_wrt (\<lambda>(s, m) (s', m'). s + mbits m \<le> s') (layout b ms)"
  using assms
  by (induction ms arbitrary: b) (auto dest: layout_bounds)

text \<open>
  A member found by name lies inside the type and is aligned as its own type asks; a bit field
  lies inside one aligned unit of its declared type.
\<close>

definition fits :: "nat \<Rightarrow> member \<Rightarrow> nat \<Rightarrow> nat \<Rightarrow> bool" where
  "fits d m lim al \<longleftrightarrow>
     d + mbits m \<le> lim \<and> wf_member m \<and>
     (case m of Member g u \<Rightarrow> 8 * calignof u dvd d \<and> calignof u \<le> al
      | Bits _ n w \<Rightarrow> d mod (8 * n) + w \<le> 8 * n \<and> n \<le> al)"

lemma fits_mono: "fits d m lim al \<Longrightarrow> lim \<le> lim' \<Longrightarrow> al \<le> al' \<Longrightarrow> fits d m lim' al'"
  by (auto simp: fits_def split: member.splits)

lemma fits_shift:
  assumes "fits d m lim al" "pow2 al" "8 * al dvd s"
  shows "fits (s + d) m (s + lim) al"
proof -
  have "8 * calignof u dvd s" if "m = Member g u" for g u
  proof -
    have "calignof u dvd al"
      using assms(1,2) that by (intro pow2_dvd align_pow2) (auto simp: fits_def)
    then have "8 * calignof u dvd 8 * al" by simp
    then show ?thesis using assms(3) by (rule dvd_trans)
  qed
  moreover have "(s + d) mod (8 * n) = d mod (8 * n)" if "m = Bits g n w" for g n w
  proof -
    have "n dvd al"
      using assms(1,2) that by (intro pow2_dvd) (auto simp: fits_def intro: pow2_scalar)
    then have "8 * n dvd 8 * al" by simp
    then have "8 * n dvd s" using assms(3) by (rule dvd_trans)
    then show ?thesis by (auto simp: dvd_def)
  qed
  ultimately show ?thesis using assms(1) by (auto simp: fits_def split: member.splits)
qed

lemma place_bits:
  assumes "wf_member (Bits f n w)"
  shows "place b (Bits f n w) mod (8 * n) + w \<le> 8 * n"
  using assms by (auto simp: align_up_def)

lemma place_aligned: "8 * malignof (Member f t) dvd place b (Member f t)"
  by simp

lemma struct_bits: "end_bits 0 ms \<le> 8 * csizeof (Struct ms)" if "list_all wf_member ms"
proof -
  have "0 < calignof (Struct ms)" using that by (intro calignof_pos) simp
  then show ?thesis
    using bytes_of_bits_ge [of "end_bits 0 ms"] align_up_ge [of "calignof (Struct ms)" "bytes_of_bits (end_bits 0 ms)"]
    by simp
qed

lemma union_bits: "max_bits ms \<le> 8 * csizeof (Union ms)" if "list_all wf_member ms"
proof -
  have "0 < calignof (Union ms)" using that by (intro calignof_pos) simp
  then show ?thesis
    using bytes_of_bits_ge [of "max_bits ms"] align_up_ge [of "calignof (Union ms)" "bytes_of_bits (max_bits ms)"]
    by simp
qed

lemma field_fits:
  assumes "f \<noteq> []"
  shows "wf_type t \<Longrightarrow> field_of t f = Some (d, m) \<Longrightarrow> fits d m (8 * csizeof t) (calignof t)"
    and "list_all wf_member ms \<Longrightarrow> field_in b ms f = Some (d, m) \<Longrightarrow>
           fits d m (end_bits b ms) (max_of (map malignof ms))"
    and "list_all wf_member ms \<Longrightarrow> field_alt ms f = Some (d, m) \<Longrightarrow>
           fits d m (max_bits ms) (max_of (map malignof ms))"
    and "wf_member x \<Longrightarrow> field_at x f = Some (d, m) \<Longrightarrow> fits d m (mbits x) (malignof x)"
  using assms
proof (induction t f and b ms f and ms f and x f arbitrary: d m and d m and d m and d m
    rule: field_of_field_in_field_alt_field_at.induct)
  case (1 ms f)
  then show ?case using struct_bits [of ms] by (auto elim!: fits_mono)
next
  case (2 ms f)
  then show ?case using union_bits [of ms] by (auto elim!: fits_mono)
next
  case (6 b x ms f)
  let ?e = "place b x + mbits x"
  have wf: "wf_member x" "list_all wf_member ms" using "6.prems" by simp_all
  show ?case
  proof (cases "field_at x f")
    case None
    with 6 have "fits d m (end_bits ?e ms) (max_of (map malignof ms))" by simp
    then show ?thesis by (rule fits_mono) simp_all
  next
    case (Some r)
    then obtain d' where r: "field_at x f = Some (d', m)" and d: "d = place b x + d'"
      using "6.prems" by (cases r) auto
    have fx: "fits d' m (mbits x) (malignof x)" using 6 r wf by blast
    have "fits d m (place b x + mbits x) (malignof x)"
    proof (cases x)
      case (Member g t)
      then show ?thesis
        using fx wf place_aligned [of g t b] unfolding d
        by (intro fits_shift) (auto intro: align_pow2)
    next
      case (Bits g n w)
      then show ?thesis
        using fx r wf(1) place_bits [of g n w b] unfolding d by (auto simp: fits_def split: if_splits)
    qed
    then show ?thesis using wf end_bits_ge [of ms ?e] by (elim fits_mono) simp_all
  qed
next
  case (8 x ms f)
  show ?case
  proof (cases "field_at x f")
    case None
    with 8 have "fits d m (max_bits ms) (max_of (map malignof ms))" by simp
    then show ?thesis by (rule fits_mono) simp_all
  next
    case (Some r)
    with 8 have "fits d m (mbits x) (malignof x)" by simp
    then show ?thesis by (rule fits_mono) simp_all
  qed
next
  case (9 g t f)
  then show ?case by (auto simp: fits_def split: if_splits)
next
  case (10 g n w f)
  then show ?case by (auto simp: fits_def split: if_splits)
qed simp_all

text \<open>A path within the declared bounds ends at an aligned object inside the type.\<close>

lemma offset_path_bounds:
  assumes "wf_type t" "path_ok t p" "offset_path t p = Some (d, u)"
  shows "d + csizeof u \<le> csizeof t \<and> calignof u dvd d \<and> calignof u \<le> calignof t \<and> wf_type u"
  using assms
proof (induction t p arbitrary: d u rule: offset_path.induct)
  case (2 t f p)
  from "2.prems"(3) obtain b g t' d' where f: "field_of t f = Some (b, Member g t')"
    and p: "offset_path t' p = Some (d', u)" and d: "d = b div 8 + d'"
    by (auto split: option.splits member.splits)
  have "f \<noteq> []" "path_ok t' p" using "2.prems" f by auto
  with "2.prems"(1) f have b: "fits b (Member g t') (8 * csizeof t) (calignof t)" by (intro field_fits)
  then have t': "wf_type t'" "b + 8 * csizeof t' \<le> 8 * csizeof t" "8 * calignof t' dvd b"
      "calignof t' \<le> calignof t" by (simp_all add: fits_def)
  from "2.IH" [OF f refl refl t'(1) \<open>path_ok t' p\<close> p] have u: "d' + csizeof u \<le> csizeof t'" "calignof u dvd d'"
      "calignof u \<le> calignof t'" "wf_type u" by auto
  from t'(3) obtain k where k: "b = 8 * (calignof t' * k)" by (metis dvdE mult.assoc)
  have "calignof u dvd calignof t'" using u t' by (intro pow2_dvd align_pow2)
  with u t' show ?case unfolding d k by (auto intro: dvd_add dvd_mult2)
next
  case (3 t n i p)
  then obtain d' where p: "offset_path t p = Some (d', u)" and d: "d = i * csizeof t + d'" by auto
  with 3 have u: "d' + csizeof u \<le> csizeof t" "calignof u dvd d'" "calignof u \<le> calignof t" "wf_type u"
    by auto
  have "calignof u dvd csizeof t"
  proof -
    have "calignof u dvd calignof t" using "3.prems"(1) u by (intro pow2_dvd align_pow2) simp_all
    also have "\<dots> dvd csizeof t" using "3.prems"(1) by (intro calignof_dvd_csizeof) simp
    finally show ?thesis .
  qed
  moreover have "i * csizeof t + csizeof t \<le> n * csizeof t"
    using "3.prems"(2) mult_le_mono1 [of "Suc i" n "csizeof t"] by simp
  ultimately show ?case using u unfolding d by simp
qed auto

text \<open>
  Conditional forms of the search, with which the simplifier walks a long member list once.
\<close>

lemma field_in_skip:
  "field_at m f = None \<Longrightarrow> field_in b (m # ms) f = field_in (place b m + mbits m) ms f"
  by simp

lemma field_in_hit:
  "field_at m f = Some r \<Longrightarrow> field_in b (m # ms) f = Some (place b m + fst r, snd r)"
  by (simp split: prod.splits)

lemmas layout_eval = align_up_def bytes_of_bits_def scalar_size_def Ptr_def numeral_2_eq_2 [symmetric]

end
