(* ===== verification/Bpf_Helpers.thy ===== *)
theory Bpf_Helpers
  imports Bpf_Core_Read C_Layout
begin

text \<open>
  \<open>ebpf/bpf/libbpf/bpf_helpers.h\<close>: the version number and \<open>container_of\<close> macros, the static
  tail call, the map definition record and its enumerations, and the printing macros that pack
  a variable number of arguments into an array.

  A macro that expands to a helper call is modelled by the call it makes; an argument count for
  which no case of a macro is defined does not compile and gives \<open>None\<close>. The lemmas show that
  the packed array holds exactly the arguments, that \<open>bpf_printk\<close> stays within the five
  arguments of a helper call for every supported count, and that the inline assembly of the
  tail call puts its operands into the argument registers.
\<close>

section \<open>Versions and enclosing structures\<close>

definition KERNEL_VERSION :: "int \<Rightarrow> int \<Rightarrow> int \<Rightarrow> int" where
  "KERNEL_VERSION a b c = push_bit 16 a + push_bit 8 b + (if c > 255 then 255 else c)"

definition offsetof :: "ctype \<Rightarrow> accessor list \<Rightarrow> u64 option" where
  "offsetof t p = map_option (\<lambda>(d, u). of_nat d) (offset_path t p)"

definition container_of :: "addr \<Rightarrow> ctype \<Rightarrow> accessor list \<Rightarrow> addr option" where
  "container_of ptr t p = map_option (\<lambda>d. ptr - d) (offsetof t p)"

section \<open>The static tail call\<close>

datatype bpf_reg = R0 | R1 | R2 | R3 | R4 | R5 | R6 | R7 | R8 | R9 | R10

datatype operand = Reg bpf_reg | Imm u64

datatype asm_insn = Mov bpf_reg operand | Call nat

definition tail_call_clobbers :: "bpf_reg list" where
  "tail_call_clobbers = [R0, R1, R2, R3, R4, R5]"

text \<open>
  \<open>ctx\<close> and \<open>map\<close> are the registers the compiler chose for the operands; a slot that is not a
  compile-time constant reaches \<open>__bpf_unreachable\<close> and does not build.
\<close>

definition bpf_tail_call_static :: "bpf_reg \<Rightarrow> bpf_reg \<Rightarrow> bool \<Rightarrow> u32 \<Rightarrow> asm_insn list option" where
  "bpf_tail_call_static ctx mp constant slot =
     (if \<not> constant then None
      else Some [Mov R1 (Reg ctx), Mov R2 (Reg mp), Mov R3 (Imm (ucast slot)), Call 12])"

fun operand_val :: "(bpf_reg \<Rightarrow> u64) \<Rightarrow> operand \<Rightarrow> u64" where
  "operand_val rs (Reg r) = rs r"
| "operand_val rs (Imm v) = v"

text \<open>Runs up to the first call: the helper's number and the registers it is entered with.\<close>

fun run_to_call :: "(bpf_reg \<Rightarrow> u64) \<Rightarrow> asm_insn list \<Rightarrow> (nat \<times> (bpf_reg \<Rightarrow> u64)) option" where
  "run_to_call rs [] = None"
| "run_to_call rs (Mov r v # is) = run_to_call (rs(r := operand_val rs v)) is"
| "run_to_call rs (Call n # is) = Some (n, rs)"

section \<open>Map definitions\<close>

record bpf_map_def =
  map_type :: u32
  map_key_size :: u32
  map_value_size :: u32
  map_max_entries :: u32
  map_map_flags :: u32

datatype libbpf_pin_type = LIBBPF_PIN_NONE | LIBBPF_PIN_BY_NAME

datatype libbpf_tristate = TRI_NO | TRI_YES | TRI_MODULE

fun tristate_val :: "libbpf_tristate \<Rightarrow> nat" where
  "tristate_val TRI_NO = 0"
| "tristate_val TRI_YES = 1"
| "tristate_val TRI_MODULE = 2"

section \<open>Variable argument lists\<close>

text \<open>\<open>___bpf_nth\<close> selects the argument after its first thirteen.\<close>

definition bpf_nth :: "'a list \<Rightarrow> 'a option" where
  "bpf_nth ts = (if 13 < length ts then Some (ts ! 13) else None)"

definition bpf_narg :: "'a list \<Rightarrow> 'a pp_tok option" where
  "bpf_narg args = bpf_nth (Nsym # map Arg args @ map Num [12, 11, 10, 9, 8, 7, 6, 5, 4, 3, 2, 1, 0])"

fun bpf_fill_n :: "nat \<Rightarrow> u64 list \<Rightarrow> nat \<Rightarrow> u64 list \<Rightarrow> u64 list" where
  "bpf_fill_n (Suc 0) arr p (x # args) = arr[p := x]"
| "bpf_fill_n (Suc (Suc n)) arr p (x # args) = bpf_fill_n (Suc n) (arr[p := x]) (p + 1) args"
| "bpf_fill_n _ arr p _ = arr"

text \<open>\<open>___bpf_apply(___bpf_fill, n)\<close>: the cases 0 to 12 exist.\<close>

definition bpf_fill :: "u64 list \<Rightarrow> u64 list \<Rightarrow> u64 list option" where
  "bpf_fill arr args =
     (case bpf_narg args of
        Some (Num n) \<Rightarrow> (if n \<le> 12 then Some (bpf_fill_n n arr 0 args) else None)
      | _ \<Rightarrow> None)"

text \<open>
  The array \<open>___param\<close> has one element per argument and no initialiser; \<open>junk\<close> is what it
  holds before it is filled.
\<close>

definition bpf_param :: "(nat \<Rightarrow> u64) \<Rightarrow> u64 list \<Rightarrow> u64 list option" where
  "bpf_param junk args =
     (case bpf_narg args of
        Some (Num n) \<Rightarrow> bpf_fill (map junk [0..<n]) args
      | _ \<Rightarrow> None)"

section \<open>Printing\<close>

text \<open>
  The helper calls. Sizes are those of the C arrays: a format occupies its characters and the
  terminating null, a parameter eight bytes.
\<close>

datatype print_call =
  Seq_printf addr string nat "u64 list" nat
| Snprintf addr u32 string "u64 list" nat
| Trace_printk string nat "u64 list"
| Trace_vprintk string nat "u64 list" nat

definition sizeof_str :: "string \<Rightarrow> nat" where
  "sizeof_str fmt = length fmt + 1"

definition BPF_SEQ_PRINTF :: "(nat \<Rightarrow> u64) \<Rightarrow> addr \<Rightarrow> string \<Rightarrow> u64 list \<Rightarrow> print_call option" where
  "BPF_SEQ_PRINTF junk seq fmt args =
     map_option (\<lambda>ps. Seq_printf seq fmt (sizeof_str fmt) ps (8 * length ps)) (bpf_param junk args)"

definition BPF_SNPRINTF ::
  "(nat \<Rightarrow> u64) \<Rightarrow> addr \<Rightarrow> u32 \<Rightarrow> string \<Rightarrow> u64 list \<Rightarrow> print_call option" where
  "BPF_SNPRINTF junk out out_size fmt args =
     map_option (\<lambda>ps. Snprintf out out_size fmt ps (8 * length ps)) (bpf_param junk args)"

definition bpf_printk_direct :: "string \<Rightarrow> u64 list \<Rightarrow> print_call option" where
  "bpf_printk_direct fmt args = Some (Trace_printk fmt (sizeof_str fmt) args)"

definition bpf_vprintk :: "(nat \<Rightarrow> u64) \<Rightarrow> string \<Rightarrow> u64 list \<Rightarrow> print_call option" where
  "bpf_vprintk junk fmt args =
     map_option (\<lambda>ps. Trace_vprintk fmt (sizeof_str fmt) ps (8 * length ps)) (bpf_param junk args)"

text \<open>
  \<open>___bpf_pick_printk\<close>: the macro that the argument count selects; with more than twelve
  arguments it is one of the arguments, which is not a macro.
\<close>

datatype printk_macro = Use_printk | Use_vprintk

definition bpf_pick_printk :: "u64 list \<Rightarrow> printk_macro option" where
  "bpf_pick_printk args =
     (case bpf_nth (None # map (\<lambda>_. None) args @
        [Some Use_vprintk, Some Use_vprintk, Some Use_vprintk,
         Some Use_vprintk, Some Use_vprintk, Some Use_vprintk, Some Use_vprintk,
         Some Use_vprintk, Some Use_vprintk, Some Use_printk, Some Use_printk,
         Some Use_printk, Some Use_printk]) of
        Some r \<Rightarrow> r
      | None \<Rightarrow> None)"

definition bpf_printk :: "(nat \<Rightarrow> u64) \<Rightarrow> string \<Rightarrow> u64 list \<Rightarrow> print_call option" where
  "bpf_printk junk fmt args =
     (case bpf_pick_printk args of
        Some Use_printk \<Rightarrow> bpf_printk_direct fmt args
      | Some Use_vprintk \<Rightarrow> bpf_vprintk junk fmt args
      | None \<Rightarrow> None)"

text \<open>The number of arguments that a call passes to its helper.\<close>

fun call_arity :: "print_call \<Rightarrow> nat" where
  "call_arity (Seq_printf _ _ _ _ _) = 5"
| "call_arity (Snprintf _ _ _ _ _) = 5"
| "call_arity (Trace_printk _ _ args) = 2 + length args"
| "call_arity (Trace_vprintk _ _ _ _) = 4"

section \<open>Lemmas\<close>

lemma upt_13: "map Num [12, 11, 10, 9, 8, 7, 6, 5, 4, 3, 2, 1, 0] = map Num (rev [0..<13])"
  by (simp add: upt_rec)

lemma bpf_nth_pad: "length args \<le> 12 \<Longrightarrow> length ts = 13 \<Longrightarrow>
    bpf_nth (t # args @ ts) = Some (ts ! (12 - length args))"
  by (simp add: bpf_nth_def nth_append nth_Cons')

lemma bpf_narg_length:
  assumes "length args \<le> 12"
  shows "bpf_narg args = Some (Num (length args))"
proof -
  have "bpf_narg args = Some (map Num (rev [0..<13]) ! (12 - length args))"
    unfolding bpf_narg_def upt_13 using assms by (subst bpf_nth_pad) simp_all
  also have "\<dots> = Some (Num (rev [0..<13] ! (12 - length args)))" by (subst nth_map) simp_all
  also have "rev [0..<13] ! (12 - length args) = length args"
    using assms by (subst rev_nth) (simp_all del: upt_rec_numeral)
  finally show ?thesis .
qed

lemma bpf_narg_too_many:
  assumes "12 < length args"
  shows "bpf_narg args = Some (Arg (args ! 12))"
  using assms by (simp add: bpf_narg_def bpf_nth_def nth_append nth_Cons')

lemma bpf_fill_n_exact:
  "n = length args \<Longrightarrow> p + length args \<le> length arr \<Longrightarrow>
   bpf_fill_n n arr p args = take p arr @ args @ drop (p + length args) arr"
proof (induction n arr p args rule: bpf_fill_n.induct)
  case (2 n arr p x args)
  then have "bpf_fill_n (Suc n) (arr[p := x]) (p + 1) args =
      take (p + 1) (arr[p := x]) @ args @ drop (p + 1 + length args) (arr[p := x])" by simp
  moreover have "length args = Suc n" "p < length arr" using "2.prems" by simp_all
  ultimately show ?case by (simp add: take_Suc_conv_app_nth)
qed (auto simp: upd_conv_take_nth_drop)

lemma bpf_param_args:
  assumes "length args \<le> 12"
  shows "bpf_param junk args = Some args"
  using assms bpf_fill_n_exact [of "length args" args 0 "map junk [0..<length args]"]
  by (simp add: bpf_param_def bpf_fill_def bpf_narg_length)

lemma bpf_param_too_many: "12 < length args \<Longrightarrow> bpf_param junk args = None"
  by (simp add: bpf_param_def bpf_narg_too_many)

lemma bpf_pick_printk_cases:
  "bpf_pick_printk args =
     (if length args \<le> 3 then Some Use_printk else if length args \<le> 12 then Some Use_vprintk else None)"
proof (cases "length args \<le> 12")
  case True
  then have "12 - length args \<in> {0..12}" by simp
  with True show ?thesis
    unfolding bpf_pick_printk_def by (subst bpf_nth_pad) (auto simp: nth_Cons')
next
  case False
  then show ?thesis by (simp add: bpf_pick_printk_def bpf_nth_def nth_append nth_Cons')
qed

text \<open>
  The operands reach the argument registers of the helper call, because the compiler keeps them
  out of the clobbered registers.
\<close>

lemma tail_call_static_regs:
  assumes "ctx \<notin> set tail_call_clobbers" "mp \<notin> set tail_call_clobbers"
  shows "\<exists>is rs'. bpf_tail_call_static ctx mp True slot = Some is \<and> run_to_call rs is = Some (12, rs') \<and>
           rs' R1 = rs ctx \<and> rs' R2 = rs mp \<and> rs' R3 = ucast slot"
  using assms by (auto simp: bpf_tail_call_static_def tail_call_clobbers_def)

text \<open>
  \<open>bpf_printk\<close> makes one helper call that receives exactly its arguments: directly with up
  to three of them, as an array of eight-byte values with up to twelve; more do not compile. The
  call has at most the five arguments that the calling convention has registers for.
\<close>

lemma bpf_printk_call:
  "bpf_printk junk fmt args =
     (if length args \<le> 3 then Some (Trace_printk fmt (sizeof_str fmt) args)
      else if length args \<le> 12
      then Some (Trace_vprintk fmt (sizeof_str fmt) args (8 * length args))
      else None) \<and>
   (case bpf_printk junk fmt args of Some c \<Rightarrow> call_arity c \<le> 5 | None \<Rightarrow> 12 < length args)"
  by (simp add: bpf_printk_def bpf_pick_printk_cases bpf_printk_direct_def bpf_vprintk_def bpf_param_args)

lemma seq_printf_call:
  assumes "length args \<le> 12"
  shows "BPF_SEQ_PRINTF junk seq fmt args = Some (Seq_printf seq fmt (sizeof_str fmt) args (8 * length args))"
    and "BPF_SNPRINTF junk out sz fmt args = Some (Snprintf out sz fmt args (8 * length args))"
  using assms by (simp_all add: BPF_SEQ_PRINTF_def BPF_SNPRINTF_def bpf_param_args)

text \<open>Version numbers compare as the triples they encode, with the sublevel clamped at 255.\<close>

lemma kernel_version_less:
  assumes "0 \<le> b" "b < 256" "0 \<le> b'" "b' < 256" "0 \<le> c" "0 \<le> c'"
  shows "KERNEL_VERSION a b c < KERNEL_VERSION a' b' c' \<longleftrightarrow>
    a < a' \<or> a = a' \<and> (b < b' \<or> b = b' \<and> min c 255 < min c' 255)"
  using assms by (auto simp: KERNEL_VERSION_def push_bit_eq_mult min_def)

lemma container_of_field:
  assumes "offsetof t p = Some d"
  shows "container_of (ptr + d) t p = Some ptr"
  using assms by (simp add: container_of_def)

end
