(* ===== verification/Vmlinux_X86.thy ===== *)
theory Vmlinux_X86
  imports C_Layout
begin

text \<open>
  The types of \<open>ebpf/bpf/vmlinux/vmlinux-x86.h\<close> that the programs reach: \<open>task_struct\<close> with
  every type it contains by value, \<open>nsproxy\<close>, \<open>pid_namespace\<close>, \<open>pid\<close> and \<open>upid\<close>, and the
  register file \<open>pt_regs\<close> with the context of a perf event. One definition per declaration,
  members in the order of the header; pointers and enumerations are scalars of eight and four
  bytes, type names that abbreviate scalars are replaced by their size.

  The lemmas compute the size and alignment of every type and the offsets of the fields that
  the programs read.
\<close>

definition thread_info_x86 :: ctype where
  "thread_info_x86 = Struct [
    Member ''flags'' (Prim 8), Member ''syscall_work'' (Prim 8), Member ''status'' (Prim 4)]"

definition atomic_t_x86 :: ctype where
  "atomic_t_x86 = Struct [Member ''counter'' (Prim 4)]"

definition refcount_struct_x86 :: ctype where
  "refcount_struct_x86 = Struct [Member ''refs'' atomic_t_x86]"

definition llist_node_x86 :: ctype where
  "llist_node_x86 = Struct [Member ''next'' (Prim 8)]"

definition call_single_node_x86 :: ctype where
  "call_single_node_x86 = Struct [
    Member ''llist'' llist_node_x86,
    Member '''' (Union [Member ''u_flags'' (Prim 4), Member ''a_flags'' atomic_t_x86]),
    Member ''src'' (Prim 2), Member ''dst'' (Prim 2)]"

definition load_weight_x86 :: ctype where
  "load_weight_x86 = Struct [Member ''weight'' (Prim 8), Member ''inv_weight'' (Prim 4)]"

definition rb_node_x86 :: ctype where
  "rb_node_x86 = Struct [
    Member ''__rb_parent_color'' (Prim 8), Member ''rb_right'' (Prim 8),
    Member ''rb_left'' (Prim 8)]"

definition list_head_x86 :: ctype where
  "list_head_x86 = Struct [Member ''next'' (Prim 8), Member ''prev'' (Prim 8)]"

definition sched_statistics_x86 :: ctype where
  "sched_statistics_x86 = Struct [
    Member ''wait_start'' (Prim 8), Member ''wait_max'' (Prim 8), Member ''wait_count'' (Prim 8),
    Member ''wait_sum'' (Prim 8), Member ''iowait_count'' (Prim 8),
    Member ''iowait_sum'' (Prim 8), Member ''sleep_start'' (Prim 8),
    Member ''sleep_max'' (Prim 8), Member ''sum_sleep_runtime'' (Prim 8),
    Member ''block_start'' (Prim 8), Member ''block_max'' (Prim 8), Member ''exec_max'' (Prim 8),
    Member ''slice_max'' (Prim 8), Member ''nr_migrations_cold'' (Prim 8),
    Member ''nr_failed_migrations_affine'' (Prim 8),
    Member ''nr_failed_migrations_running'' (Prim 8),
    Member ''nr_failed_migrations_hot'' (Prim 8), Member ''nr_forced_migrations'' (Prim 8),
    Member ''nr_wakeups'' (Prim 8), Member ''nr_wakeups_sync'' (Prim 8),
    Member ''nr_wakeups_migrate'' (Prim 8), Member ''nr_wakeups_local'' (Prim 8),
    Member ''nr_wakeups_remote'' (Prim 8), Member ''nr_wakeups_affine'' (Prim 8),
    Member ''nr_wakeups_affine_attempts'' (Prim 8), Member ''nr_wakeups_passive'' (Prim 8),
    Member ''nr_wakeups_idle'' (Prim 8)]"

definition util_est_x86 :: ctype where
  "util_est_x86 = Struct [Member ''enqueued'' (Prim 4), Member ''ewma'' (Prim 4)]"

definition sched_avg_x86 :: ctype where
  "sched_avg_x86 = Struct [
    Member ''last_update_time'' (Prim 8), Member ''load_sum'' (Prim 8),
    Member ''runnable_sum'' (Prim 8), Member ''util_sum'' (Prim 4),
    Member ''period_contrib'' (Prim 4), Member ''load_avg'' (Prim 8),
    Member ''runnable_avg'' (Prim 8), Member ''util_avg'' (Prim 8),
    Member ''util_est'' util_est_x86]"

definition sched_entity_x86 :: ctype where
  "sched_entity_x86 = Struct [
    Member ''load'' load_weight_x86, Member ''run_node'' rb_node_x86,
    Member ''group_node'' list_head_x86, Member ''on_rq'' (Prim 4),
    Member ''exec_start'' (Prim 8), Member ''sum_exec_runtime'' (Prim 8),
    Member ''vruntime'' (Prim 8), Member ''prev_sum_exec_runtime'' (Prim 8),
    Member ''nr_migrations'' (Prim 8), Member ''statistics'' sched_statistics_x86,
    Member ''depth'' (Prim 4), Member ''parent'' (Prim 8), Member ''cfs_rq'' (Prim 8),
    Member ''my_q'' (Prim 8), Member ''runnable_weight'' (Prim 8), Bits '''' 8 64,
    Bits '''' 8 64, Bits '''' 8 64, Member ''avg'' sched_avg_x86]"

definition sched_rt_entity_x86 :: ctype where
  "sched_rt_entity_x86 = Struct [
    Member ''run_list'' list_head_x86, Member ''timeout'' (Prim 8),
    Member ''watchdog_stamp'' (Prim 8), Member ''time_slice'' (Prim 4),
    Member ''on_rq'' (Prim 2), Member ''on_list'' (Prim 2), Member ''back'' (Prim 8)]"

definition timerqueue_node_x86 :: ctype where
  "timerqueue_node_x86 = Struct [Member ''node'' rb_node_x86, Member ''expires'' (Prim 8)]"

definition hrtimer_x86 :: ctype where
  "hrtimer_x86 = Struct [
    Member ''node'' timerqueue_node_x86, Member ''_softexpires'' (Prim 8),
    Member ''function'' (Prim 8), Member ''base'' (Prim 8), Member ''state'' (Prim 1),
    Member ''is_rel'' (Prim 1), Member ''is_soft'' (Prim 1), Member ''is_hard'' (Prim 1)]"

definition sched_dl_entity_x86 :: ctype where
  "sched_dl_entity_x86 = Struct [
    Member ''rb_node'' rb_node_x86, Member ''dl_runtime'' (Prim 8),
    Member ''dl_deadline'' (Prim 8), Member ''dl_period'' (Prim 8), Member ''dl_bw'' (Prim 8),
    Member ''dl_density'' (Prim 8), Member ''runtime'' (Prim 8), Member ''deadline'' (Prim 8),
    Member ''flags'' (Prim 4), Bits ''dl_throttled'' 4 1, Bits ''dl_yielded'' 4 1,
    Bits ''dl_non_contending'' 4 1, Bits ''dl_overrun'' 4 1, Member ''dl_timer'' hrtimer_x86,
    Member ''inactive_timer'' hrtimer_x86, Member ''pi_se'' (Prim 8)]"

definition uclamp_se_x86 :: ctype where
  "uclamp_se_x86 = Struct [
    Bits ''value'' 4 11, Bits ''bucket_id'' 4 3, Bits ''active'' 4 1, Bits ''user_defined'' 4 1]"

definition hlist_head_x86 :: ctype where
  "hlist_head_x86 = Struct [Member ''first'' (Prim 8)]"

definition cpumask_x86 :: ctype where
  "cpumask_x86 = Struct [Member ''bits'' (Arr (Prim 8) 5)]"

definition rcu_special_x86 :: ctype where
  "rcu_special_x86 = Union [
    Member ''b'' (Struct [Member ''blocked'' (Prim 1), Member ''need_qs'' (Prim 1), Member ''exp_hint'' (Prim 1), Member ''need_mb'' (Prim 1)]),
    Member ''s'' (Prim 4)]"

definition sched_info_x86 :: ctype where
  "sched_info_x86 = Struct [
    Member ''pcount'' (Prim 8), Member ''run_delay'' (Prim 8), Member ''last_arrival'' (Prim 8),
    Member ''last_queued'' (Prim 8)]"

definition plist_node_x86 :: ctype where
  "plist_node_x86 = Struct [
    Member ''prio'' (Prim 4), Member ''prio_list'' list_head_x86,
    Member ''node_list'' list_head_x86]"

definition vmacache_x86 :: ctype where
  "vmacache_x86 = Struct [Member ''seqnum'' (Prim 8), Member ''vmas'' (Arr (Prim 8) 4)]"

definition task_rss_stat_x86 :: ctype where
  "task_rss_stat_x86 = Struct [Member ''events'' (Prim 4), Member ''count'' (Arr (Prim 4) 4)]"

definition restart_block_x86 :: ctype where
  "restart_block_x86 = Struct [
    Member ''arch_data'' (Prim 8), Member ''fn'' (Prim 8),
    Member '''' (Union [Member ''futex'' (Struct [Member ''uaddr'' (Prim 8), Member ''val'' (Prim 4), Member ''flags'' (Prim 4), Member ''bitset'' (Prim 4), Member ''time'' (Prim 8), Member ''uaddr2'' (Prim 8)]), Member ''nanosleep'' (Struct [Member ''clockid'' (Prim 4), Member ''type'' (Prim 4), Member '''' (Union [Member ''rmtp'' (Prim 8), Member ''compat_rmtp'' (Prim 8)]), Member ''expires'' (Prim 8)]), Member ''poll'' (Struct [Member ''ufds'' (Prim 8), Member ''nfds'' (Prim 4), Member ''has_timeout'' (Prim 4), Member ''tv_sec'' (Prim 8), Member ''tv_nsec'' (Prim 8)])])]"

definition hlist_node_x86 :: ctype where
  "hlist_node_x86 = Struct [Member ''next'' (Prim 8), Member ''pprev'' (Prim 8)]"

definition qspinlock_x86 :: ctype where
  "qspinlock_x86 = Struct [
    Member '''' (Union [Member ''val'' atomic_t_x86, Member '''' (Struct [Member ''locked'' (Prim 1), Member ''pending'' (Prim 1)]), Member '''' (Struct [Member ''locked_pending'' (Prim 2), Member ''tail'' (Prim 2)])])]"

definition raw_spinlock_x86 :: ctype where
  "raw_spinlock_x86 = Struct [Member ''raw_lock'' qspinlock_x86]"

definition prev_cputime_x86 :: ctype where
  "prev_cputime_x86 = Struct [
    Member ''utime'' (Prim 8), Member ''stime'' (Prim 8), Member ''lock'' raw_spinlock_x86]"

definition rb_root_x86 :: ctype where
  "rb_root_x86 = Struct [Member ''rb_node'' (Prim 8)]"

definition rb_root_cached_x86 :: ctype where
  "rb_root_cached_x86 = Struct [
    Member ''rb_root'' rb_root_x86, Member ''rb_leftmost'' (Prim 8)]"

definition timerqueue_head_x86 :: ctype where
  "timerqueue_head_x86 = Struct [Member ''rb_root'' rb_root_cached_x86]"

definition posix_cputimer_base_x86 :: ctype where
  "posix_cputimer_base_x86 = Struct [
    Member ''nextevt'' (Prim 8), Member ''tqhead'' timerqueue_head_x86]"

definition posix_cputimers_x86 :: ctype where
  "posix_cputimers_x86 = Struct [
    Member ''bases'' (Arr posix_cputimer_base_x86 3), Member ''timers_active'' (Prim 4),
    Member ''expiry_active'' (Prim 4)]"

definition callback_head_x86 :: ctype where
  "callback_head_x86 = Struct [Member ''next'' (Prim 8), Member ''func'' (Prim 8)]"

definition posix_cputimers_work_x86 :: ctype where
  "posix_cputimers_work_x86 = Struct [
    Member ''work'' callback_head_x86, Member ''scheduled'' (Prim 4)]"

definition sysv_sem_x86 :: ctype where
  "sysv_sem_x86 = Struct [Member ''undo_list'' (Prim 8)]"

definition sysv_shm_x86 :: ctype where
  "sysv_shm_x86 = Struct [Member ''shm_clist'' list_head_x86]"

definition sigset_t_x86 :: ctype where
  "sigset_t_x86 = Struct [Member ''sig'' (Arr (Prim 8) 1)]"

definition sigpending_x86 :: ctype where
  "sigpending_x86 = Struct [Member ''list'' list_head_x86, Member ''signal'' sigset_t_x86]"

definition kuid_t_x86 :: ctype where
  "kuid_t_x86 = Struct [Member ''val'' (Prim 4)]"

definition seccomp_x86 :: ctype where
  "seccomp_x86 = Struct [
    Member ''mode'' (Prim 4), Member ''filter_count'' atomic_t_x86, Member ''filter'' (Prim 8)]"

definition syscall_user_dispatch_x86 :: ctype where
  "syscall_user_dispatch_x86 = Struct [
    Member ''selector'' (Prim 8), Member ''offset'' (Prim 8), Member ''len'' (Prim 8),
    Member ''on_dispatch'' (Prim 1)]"

definition spinlock_x86 :: ctype where
  "spinlock_x86 = Struct [Member '''' (Union [Member ''rlock'' raw_spinlock_x86])]"

definition wake_q_node_x86 :: ctype where
  "wake_q_node_x86 = Struct [Member ''next'' (Prim 8)]"

definition task_io_accounting_x86 :: ctype where
  "task_io_accounting_x86 = Struct [
    Member ''rchar'' (Prim 8), Member ''wchar'' (Prim 8), Member ''syscr'' (Prim 8),
    Member ''syscw'' (Prim 8), Member ''read_bytes'' (Prim 8), Member ''write_bytes'' (Prim 8),
    Member ''cancelled_write_bytes'' (Prim 8)]"

definition nodemask_t_x86 :: ctype where
  "nodemask_t_x86 = Struct [Member ''bits'' (Arr (Prim 8) 1)]"

definition seqcount_x86 :: ctype where
  "seqcount_x86 = Struct [Member ''sequence'' (Prim 4)]"

definition seqcount_spinlock_x86 :: ctype where
  "seqcount_spinlock_x86 = Struct [Member ''seqcount'' seqcount_x86]"

definition atomic64_t_x86 :: ctype where
  "atomic64_t_x86 = Struct [Member ''counter'' (Prim 8)]"

definition optimistic_spin_queue_x86 :: ctype where
  "optimistic_spin_queue_x86 = Struct [Member ''tail'' atomic_t_x86]"

definition mutex_x86 :: ctype where
  "mutex_x86 = Struct [
    Member ''owner'' atomic64_t_x86, Member ''wait_lock'' spinlock_x86,
    Member ''osq'' optimistic_spin_queue_x86, Member ''wait_list'' list_head_x86]"

definition arch_tlbflush_unmap_batch_x86 :: ctype where
  "arch_tlbflush_unmap_batch_x86 = Struct [Member ''cpumask'' cpumask_x86]"

definition tlbflush_unmap_batch_x86 :: ctype where
  "tlbflush_unmap_batch_x86 = Struct [
    Member ''arch'' arch_tlbflush_unmap_batch_x86, Member ''flush_required'' (Prim 1),
    Member ''writable'' (Prim 1)]"

definition page_frag_x86 :: ctype where
  "page_frag_x86 = Struct [
    Member ''page'' (Prim 8), Member ''offset'' (Prim 4), Member ''size'' (Prim 4)]"

definition latency_record_x86 :: ctype where
  "latency_record_x86 = Struct [
    Member ''backtrace'' (Arr (Prim 8) 12), Member ''count'' (Prim 4), Member ''time'' (Prim 8),
    Member ''max'' (Prim 8)]"

definition kmap_ctrl_x86 :: ctype where
  "kmap_ctrl_x86 = Struct []"

definition llist_head_x86 :: ctype where
  "llist_head_x86 = Struct [Member ''first'' (Prim 8)]"

definition desc_struct_x86 :: ctype where
  "desc_struct_x86 = Struct [
    Member ''limit0'' (Prim 2), Member ''base0'' (Prim 2), Bits ''base1'' 2 8, Bits ''type'' 2 4,
    Bits ''s'' 2 1, Bits ''dpl'' 2 2, Bits ''p'' 2 1, Bits ''limit1'' 2 4, Bits ''avl'' 2 1,
    Bits ''l'' 2 1, Bits ''d'' 2 1, Bits ''g'' 2 1, Bits ''base2'' 2 8]"

definition fregs_state_x86 :: ctype where
  "fregs_state_x86 = Struct [
    Member ''cwd'' (Prim 4), Member ''swd'' (Prim 4), Member ''twd'' (Prim 4),
    Member ''fip'' (Prim 4), Member ''fcs'' (Prim 4), Member ''foo'' (Prim 4),
    Member ''fos'' (Prim 4), Member ''st_space'' (Arr (Prim 4) 20), Member ''status'' (Prim 4)]"

definition fxregs_state_x86 :: ctype where
  "fxregs_state_x86 = Struct [
    Member ''cwd'' (Prim 2), Member ''swd'' (Prim 2), Member ''twd'' (Prim 2),
    Member ''fop'' (Prim 2),
    Member '''' (Union [Member '''' (Struct [Member ''rip'' (Prim 8), Member ''rdp'' (Prim 8)]), Member '''' (Struct [Member ''fip'' (Prim 4), Member ''fcs'' (Prim 4), Member ''foo'' (Prim 4), Member ''fos'' (Prim 4)])]),
    Member ''mxcsr'' (Prim 4), Member ''mxcsr_mask'' (Prim 4),
    Member ''st_space'' (Arr (Prim 4) 32), Member ''xmm_space'' (Arr (Prim 4) 64),
    Member ''padding'' (Arr (Prim 4) 12),
    Member '''' (Union [Member ''padding1'' (Arr (Prim 4) 12), Member ''sw_reserved'' (Arr (Prim 4) 12)])]"

definition swregs_state_x86 :: ctype where
  "swregs_state_x86 = Struct [
    Member ''cwd'' (Prim 4), Member ''swd'' (Prim 4), Member ''twd'' (Prim 4),
    Member ''fip'' (Prim 4), Member ''fcs'' (Prim 4), Member ''foo'' (Prim 4),
    Member ''fos'' (Prim 4), Member ''st_space'' (Arr (Prim 4) 20), Member ''ftop'' (Prim 1),
    Member ''changed'' (Prim 1), Member ''lookahead'' (Prim 1), Member ''no_update'' (Prim 1),
    Member ''rm'' (Prim 1), Member ''alimit'' (Prim 1), Member ''info'' (Prim 8),
    Member ''entry_eip'' (Prim 4)]"

definition xstate_header_x86 :: ctype where
  "xstate_header_x86 = Struct [
    Member ''xfeatures'' (Prim 8), Member ''xcomp_bv'' (Prim 8),
    Member ''reserved'' (Arr (Prim 8) 6)]"

definition xregs_state_x86 :: ctype where
  "xregs_state_x86 = Struct [
    Member ''i387'' fxregs_state_x86, Member ''header'' xstate_header_x86,
    Member ''extended_state_area'' (Arr (Prim 1) 0)]"

definition fpregs_state_x86 :: ctype where
  "fpregs_state_x86 = Union [
    Member ''fsave'' fregs_state_x86, Member ''fxsave'' fxregs_state_x86,
    Member ''soft'' swregs_state_x86, Member ''xsave'' xregs_state_x86,
    Member ''__padding'' (Arr (Prim 1) 4096)]"

definition fpu_x86 :: ctype where
  "fpu_x86 = Struct [
    Member ''last_cpu'' (Prim 4), Member ''avx512_timestamp'' (Prim 8), Bits '''' 8 64,
    Bits '''' 8 64, Bits '''' 8 64, Bits '''' 8 64, Bits '''' 8 64, Bits '''' 8 64,
    Member ''state'' fpregs_state_x86]"

definition thread_struct_x86 :: ctype where
  "thread_struct_x86 = Struct [
    Member ''tls_array'' (Arr desc_struct_x86 3), Member ''sp'' (Prim 8), Member ''es'' (Prim 2),
    Member ''ds'' (Prim 2), Member ''fsindex'' (Prim 2), Member ''gsindex'' (Prim 2),
    Member ''fsbase'' (Prim 8), Member ''gsbase'' (Prim 8),
    Member ''ptrace_bps'' (Arr (Prim 8) 4), Member ''virtual_dr6'' (Prim 8),
    Member ''ptrace_dr7'' (Prim 8), Member ''cr2'' (Prim 8), Member ''trap_nr'' (Prim 8),
    Member ''error_code'' (Prim 8), Member ''io_bitmap'' (Prim 8), Member ''iopl_emul'' (Prim 8),
    Bits ''sig_on_uaccess_err'' 4 1, Member ''pkru'' (Prim 4), Bits '''' 8 64, Bits '''' 8 64,
    Bits '''' 8 64, Bits '''' 8 64, Bits '''' 8 64, Member ''fpu'' fpu_x86]"

definition task_struct_x86 :: ctype where
  "task_struct_x86 = Struct [
    Member ''thread_info'' thread_info_x86, Member ''__state'' (Prim 4),
    Member ''stack'' (Prim 8), Member ''usage'' refcount_struct_x86, Member ''flags'' (Prim 4),
    Member ''ptrace'' (Prim 4), Member ''on_cpu'' (Prim 4),
    Member ''wake_entry'' call_single_node_x86, Member ''cpu'' (Prim 4),
    Member ''wakee_flips'' (Prim 4), Member ''wakee_flip_decay_ts'' (Prim 8),
    Member ''last_wakee'' (Prim 8), Member ''recent_used_cpu'' (Prim 4),
    Member ''wake_cpu'' (Prim 4), Member ''on_rq'' (Prim 4), Member ''prio'' (Prim 4),
    Member ''static_prio'' (Prim 4), Member ''normal_prio'' (Prim 4),
    Member ''rt_priority'' (Prim 4), Member ''sched_class'' (Prim 8), Bits '''' 8 64,
    Bits '''' 8 64, Bits '''' 8 64, Bits '''' 8 64, Bits '''' 8 64, Bits '''' 8 64,
    Bits '''' 8 64, Member ''se'' sched_entity_x86, Member ''rt'' sched_rt_entity_x86,
    Member ''dl'' sched_dl_entity_x86, Member ''core_node'' rb_node_x86,
    Member ''core_cookie'' (Prim 8), Member ''core_occupation'' (Prim 4),
    Member ''sched_task_group'' (Prim 8), Member ''uclamp_req'' (Arr uclamp_se_x86 2),
    Member ''uclamp'' (Arr uclamp_se_x86 2), Member ''preempt_notifiers'' hlist_head_x86,
    Member ''btrace_seq'' (Prim 4), Member ''policy'' (Prim 4),
    Member ''nr_cpus_allowed'' (Prim 4), Member ''cpus_ptr'' (Prim 8),
    Member ''cpus_mask'' cpumask_x86, Member ''migration_pending'' (Prim 8),
    Member ''migration_disabled'' (Prim 2), Member ''migration_flags'' (Prim 2),
    Member ''rcu_read_lock_nesting'' (Prim 4),
    Member ''rcu_read_unlock_special'' rcu_special_x86, Member ''rcu_node_entry'' list_head_x86,
    Member ''rcu_blocked_node'' (Prim 8), Member ''rcu_tasks_nvcsw'' (Prim 8),
    Member ''rcu_tasks_holdout'' (Prim 1), Member ''rcu_tasks_idx'' (Prim 1),
    Member ''rcu_tasks_idle_cpu'' (Prim 4), Member ''rcu_tasks_holdout_list'' list_head_x86,
    Member ''trc_reader_nesting'' (Prim 4), Member ''trc_ipi_to_cpu'' (Prim 4),
    Member ''trc_reader_special'' rcu_special_x86, Member ''trc_reader_checked'' (Prim 1),
    Member ''trc_holdout_list'' list_head_x86, Member ''sched_info'' sched_info_x86,
    Member ''tasks'' list_head_x86, Member ''pushable_tasks'' plist_node_x86,
    Member ''pushable_dl_tasks'' rb_node_x86, Member ''mm'' (Prim 8),
    Member ''active_mm'' (Prim 8), Member ''vmacache'' vmacache_x86,
    Member ''rss_stat'' task_rss_stat_x86, Member ''exit_state'' (Prim 4),
    Member ''exit_code'' (Prim 4), Member ''exit_signal'' (Prim 4),
    Member ''pdeath_signal'' (Prim 4), Member ''jobctl'' (Prim 8),
    Member ''personality'' (Prim 4), Bits ''sched_reset_on_fork'' 4 1,
    Bits ''sched_contributes_to_load'' 4 1, Bits ''sched_migrated'' 4 1,
    Bits ''sched_psi_wake_requeue'' 4 1, Bits '''' 4 28, Bits ''sched_remote_wakeup'' 4 1,
    Bits ''in_execve'' 4 1, Bits ''in_iowait'' 4 1, Bits ''restore_sigmask'' 4 1,
    Bits ''in_user_fault'' 4 1, Bits ''no_cgroup_migration'' 4 1, Bits ''frozen'' 4 1,
    Bits ''use_memdelay'' 4 1, Bits ''in_memstall'' 4 1, Member ''atomic_flags'' (Prim 8),
    Member ''restart_block'' restart_block_x86, Member ''pid'' (Prim 4),
    Member ''tgid'' (Prim 4), Member ''stack_canary'' (Prim 8), Member ''real_parent'' (Prim 8),
    Member ''parent'' (Prim 8), Member ''children'' list_head_x86,
    Member ''sibling'' list_head_x86, Member ''group_leader'' (Prim 8),
    Member ''ptraced'' list_head_x86, Member ''ptrace_entry'' list_head_x86,
    Member ''thread_pid'' (Prim 8), Member ''pid_links'' (Arr hlist_node_x86 4),
    Member ''thread_group'' list_head_x86, Member ''thread_node'' list_head_x86,
    Member ''vfork_done'' (Prim 8), Member ''set_child_tid'' (Prim 8),
    Member ''clear_child_tid'' (Prim 8), Member ''pf_io_worker'' (Prim 8),
    Member ''utime'' (Prim 8), Member ''stime'' (Prim 8), Member ''gtime'' (Prim 8),
    Member ''prev_cputime'' prev_cputime_x86, Member ''nvcsw'' (Prim 8),
    Member ''nivcsw'' (Prim 8), Member ''start_time'' (Prim 8),
    Member ''start_boottime'' (Prim 8), Member ''min_flt'' (Prim 8), Member ''maj_flt'' (Prim 8),
    Member ''posix_cputimers'' posix_cputimers_x86,
    Member ''posix_cputimers_work'' posix_cputimers_work_x86, Member ''ptracer_cred'' (Prim 8),
    Member ''real_cred'' (Prim 8), Member ''cred'' (Prim 8),
    Member ''cached_requested_key'' (Prim 8), Member ''comm'' (Arr (Prim 1) 16),
    Member ''nameidata'' (Prim 8), Member ''sysvsem'' sysv_sem_x86,
    Member ''sysvshm'' sysv_shm_x86, Member ''last_switch_count'' (Prim 8),
    Member ''last_switch_time'' (Prim 8), Member ''fs'' (Prim 8), Member ''files'' (Prim 8),
    Member ''io_uring'' (Prim 8), Member ''nsproxy'' (Prim 8), Member ''signal'' (Prim 8),
    Member ''sighand'' (Prim 8), Member ''blocked'' sigset_t_x86,
    Member ''real_blocked'' sigset_t_x86, Member ''saved_sigmask'' sigset_t_x86,
    Member ''pending'' sigpending_x86, Member ''sas_ss_sp'' (Prim 8),
    Member ''sas_ss_size'' (Prim 8), Member ''sas_ss_flags'' (Prim 4),
    Member ''task_works'' (Prim 8), Member ''audit_context'' (Prim 8),
    Member ''loginuid'' kuid_t_x86, Member ''sessionid'' (Prim 4),
    Member ''seccomp'' seccomp_x86, Member ''syscall_dispatch'' syscall_user_dispatch_x86,
    Member ''parent_exec_id'' (Prim 8), Member ''self_exec_id'' (Prim 8),
    Member ''alloc_lock'' spinlock_x86, Member ''pi_lock'' raw_spinlock_x86,
    Member ''wake_q'' wake_q_node_x86, Member ''pi_waiters'' rb_root_cached_x86,
    Member ''pi_top_task'' (Prim 8), Member ''pi_blocked_on'' (Prim 8),
    Member ''journal_info'' (Prim 8), Member ''bio_list'' (Prim 8), Member ''plug'' (Prim 8),
    Member ''reclaim_state'' (Prim 8), Member ''backing_dev_info'' (Prim 8),
    Member ''io_context'' (Prim 8), Member ''capture_control'' (Prim 8),
    Member ''ptrace_message'' (Prim 8), Member ''last_siginfo'' (Prim 8),
    Member ''ioac'' task_io_accounting_x86, Member ''psi_flags'' (Prim 4),
    Member ''acct_rss_mem1'' (Prim 8), Member ''acct_vm_mem1'' (Prim 8),
    Member ''acct_timexpd'' (Prim 8), Member ''mems_allowed'' nodemask_t_x86,
    Member ''mems_allowed_seq'' seqcount_spinlock_x86,
    Member ''cpuset_mem_spread_rotor'' (Prim 4), Member ''cpuset_slab_spread_rotor'' (Prim 4),
    Member ''cgroups'' (Prim 8), Member ''cg_list'' list_head_x86, Member ''closid'' (Prim 4),
    Member ''rmid'' (Prim 4), Member ''robust_list'' (Prim 8),
    Member ''compat_robust_list'' (Prim 8), Member ''pi_state_list'' list_head_x86,
    Member ''pi_state_cache'' (Prim 8), Member ''futex_exit_mutex'' mutex_x86,
    Member ''futex_state'' (Prim 4), Member ''perf_event_ctxp'' (Arr (Prim 8) 2),
    Member ''perf_event_mutex'' mutex_x86, Member ''perf_event_list'' list_head_x86,
    Member ''mempolicy'' (Prim 8), Member ''il_prev'' (Prim 2),
    Member ''pref_node_fork'' (Prim 2), Member ''numa_scan_seq'' (Prim 4),
    Member ''numa_scan_period'' (Prim 4), Member ''numa_scan_period_max'' (Prim 4),
    Member ''numa_preferred_nid'' (Prim 4), Member ''numa_migrate_retry'' (Prim 8),
    Member ''node_stamp'' (Prim 8), Member ''last_task_numa_placement'' (Prim 8),
    Member ''last_sum_exec_runtime'' (Prim 8), Member ''numa_work'' callback_head_x86,
    Member ''numa_group'' (Prim 8), Member ''numa_faults'' (Prim 8),
    Member ''total_numa_faults'' (Prim 8), Member ''numa_faults_locality'' (Arr (Prim 8) 3),
    Member ''numa_pages_migrated'' (Prim 8), Member ''rseq'' (Prim 8),
    Member ''rseq_sig'' (Prim 4), Member ''rseq_event_mask'' (Prim 8),
    Member ''tlb_ubc'' tlbflush_unmap_batch_x86,
    Member '''' (Union [Member ''rcu_users'' refcount_struct_x86, Member ''rcu'' callback_head_x86]),
    Member ''splice_pipe'' (Prim 8), Member ''task_frag'' page_frag_x86,
    Member ''delays'' (Prim 8), Member ''nr_dirtied'' (Prim 4),
    Member ''nr_dirtied_pause'' (Prim 4), Member ''dirty_paused_when'' (Prim 8),
    Member ''latency_record_count'' (Prim 4),
    Member ''latency_record'' (Arr latency_record_x86 32), Member ''timer_slack_ns'' (Prim 8),
    Member ''default_timer_slack_ns'' (Prim 8), Member ''curr_ret_stack'' (Prim 4),
    Member ''curr_ret_depth'' (Prim 4), Member ''ret_stack'' (Prim 8),
    Member ''ftrace_timestamp'' (Prim 8), Member ''trace_overrun'' atomic_t_x86,
    Member ''tracing_graph_pause'' atomic_t_x86, Member ''trace'' (Prim 8),
    Member ''trace_recursion'' (Prim 8), Member ''memcg_in_oom'' (Prim 8),
    Member ''memcg_oom_gfp_mask'' (Prim 4), Member ''memcg_oom_order'' (Prim 4),
    Member ''memcg_nr_pages_over_high'' (Prim 4), Member ''active_memcg'' (Prim 8),
    Member ''throttle_queue'' (Prim 8), Member ''utask'' (Prim 8),
    Member ''sequential_io'' (Prim 4), Member ''sequential_io_avg'' (Prim 4),
    Member ''kmap_ctrl'' kmap_ctrl_x86, Member ''pagefault_disabled'' (Prim 4),
    Member ''oom_reaper_list'' (Prim 8), Member ''stack_vm_area'' (Prim 8),
    Member ''stack_refcount'' refcount_struct_x86, Member ''security'' (Prim 8),
    Member ''bpf_storage'' (Prim 8), Member ''mce_vaddr'' (Prim 8),
    Member ''mce_kflags'' (Prim 8), Member ''mce_addr'' (Prim 8), Bits ''mce_ripv'' 8 1,
    Bits ''mce_whole_page'' 8 1, Bits ''__mce_reserved'' 8 62,
    Member ''mce_kill_me'' callback_head_x86, Member ''kretprobe_instances'' llist_head_x86,
    Bits '''' 8 64, Bits '''' 8 64, Bits '''' 8 64, Member ''thread'' thread_struct_x86]"

definition nsproxy_x86 :: ctype where
  "nsproxy_x86 = Struct [
    Member ''count'' atomic_t_x86, Member ''uts_ns'' (Prim 8), Member ''ipc_ns'' (Prim 8),
    Member ''mnt_ns'' (Prim 8), Member ''pid_ns_for_children'' (Prim 8),
    Member ''net_ns'' (Prim 8), Member ''time_ns'' (Prim 8),
    Member ''time_ns_for_children'' (Prim 8), Member ''cgroup_ns'' (Prim 8)]"

definition upid_x86 :: ctype where
  "upid_x86 = Struct [Member ''nr'' (Prim 4), Member ''ns'' (Prim 8)]"

definition wait_queue_head_x86 :: ctype where
  "wait_queue_head_x86 = Struct [Member ''lock'' spinlock_x86, Member ''head'' list_head_x86]"

definition pid_x86 :: ctype where
  "pid_x86 = Struct [
    Member ''count'' refcount_struct_x86, Member ''level'' (Prim 4),
    Member ''lock'' spinlock_x86, Member ''tasks'' (Arr hlist_head_x86 4),
    Member ''inodes'' hlist_head_x86, Member ''wait_pidfd'' wait_queue_head_x86,
    Member ''rcu'' callback_head_x86, Member ''numbers'' (Arr upid_x86 1)]"

definition xarray_x86 :: ctype where
  "xarray_x86 = Struct [
    Member ''xa_lock'' spinlock_x86, Member ''xa_flags'' (Prim 4), Member ''xa_head'' (Prim 8)]"

definition idr_x86 :: ctype where
  "idr_x86 = Struct [
    Member ''idr_rt'' xarray_x86, Member ''idr_base'' (Prim 4), Member ''idr_next'' (Prim 4)]"

definition ns_common_x86 :: ctype where
  "ns_common_x86 = Struct [
    Member ''stashed'' atomic64_t_x86, Member ''ops'' (Prim 8), Member ''inum'' (Prim 4),
    Member ''count'' refcount_struct_x86]"

definition pid_namespace_x86 :: ctype where
  "pid_namespace_x86 = Struct [
    Member ''idr'' idr_x86, Member ''rcu'' callback_head_x86, Member ''pid_allocated'' (Prim 4),
    Member ''child_reaper'' (Prim 8), Member ''pid_cachep'' (Prim 8), Member ''level'' (Prim 4),
    Member ''parent'' (Prim 8), Member ''bacct'' (Prim 8), Member ''user_ns'' (Prim 8),
    Member ''ucounts'' (Prim 8), Member ''reboot'' (Prim 4), Member ''ns'' ns_common_x86]"

definition pt_regs_x86 :: ctype where
  "pt_regs_x86 = Struct [
    Member ''r15'' (Prim 8), Member ''r14'' (Prim 8), Member ''r13'' (Prim 8),
    Member ''r12'' (Prim 8), Member ''bp'' (Prim 8), Member ''bx'' (Prim 8),
    Member ''r11'' (Prim 8), Member ''r10'' (Prim 8), Member ''r9'' (Prim 8),
    Member ''r8'' (Prim 8), Member ''ax'' (Prim 8), Member ''cx'' (Prim 8),
    Member ''dx'' (Prim 8), Member ''si'' (Prim 8), Member ''di'' (Prim 8),
    Member ''orig_ax'' (Prim 8), Member ''ip'' (Prim 8), Member ''cs'' (Prim 8),
    Member ''flags'' (Prim 8), Member ''sp'' (Prim 8), Member ''ss'' (Prim 8)]"

definition bpf_perf_event_data_x86 :: ctype where
  "bpf_perf_event_data_x86 = Struct [
    Member ''regs'' pt_regs_x86, Member ''sample_period'' (Prim 8), Member ''addr'' (Prim 8)]"

definition bpf_perf_event_value_x86 :: ctype where
  "bpf_perf_event_value_x86 = Struct [
    Member ''counter'' (Prim 8), Member ''enabled'' (Prim 8), Member ''running'' (Prim 8)]"

section \<open>Sizes and alignments\<close>

lemma thread_info_x86_layout [layout_simps]:
  "csizeof thread_info_x86 = 24" "calignof thread_info_x86 = 8" "wf_type thread_info_x86"
  by (simp_all add: thread_info_x86_def layout_simps layout_eval)

lemma atomic_t_x86_layout [layout_simps]:
  "csizeof atomic_t_x86 = 4" "calignof atomic_t_x86 = 4" "wf_type atomic_t_x86"
  by (simp_all add: atomic_t_x86_def layout_simps layout_eval)

lemma refcount_struct_x86_layout [layout_simps]:
  "csizeof refcount_struct_x86 = 4" "calignof refcount_struct_x86 = 4" "wf_type refcount_struct_x86"
  by (simp_all add: refcount_struct_x86_def layout_simps layout_eval)

lemma llist_node_x86_layout [layout_simps]:
  "csizeof llist_node_x86 = 8" "calignof llist_node_x86 = 8" "wf_type llist_node_x86"
  by (simp_all add: llist_node_x86_def layout_simps layout_eval)

lemma call_single_node_x86_layout [layout_simps]:
  "csizeof call_single_node_x86 = 16" "calignof call_single_node_x86 = 8" "wf_type call_single_node_x86"
  by (simp_all add: call_single_node_x86_def layout_simps layout_eval)

lemma load_weight_x86_layout [layout_simps]:
  "csizeof load_weight_x86 = 16" "calignof load_weight_x86 = 8" "wf_type load_weight_x86"
  by (simp_all add: load_weight_x86_def layout_simps layout_eval)

lemma rb_node_x86_layout [layout_simps]:
  "csizeof rb_node_x86 = 24" "calignof rb_node_x86 = 8" "wf_type rb_node_x86"
  by (simp_all add: rb_node_x86_def layout_simps layout_eval)

lemma list_head_x86_layout [layout_simps]:
  "csizeof list_head_x86 = 16" "calignof list_head_x86 = 8" "wf_type list_head_x86"
  by (simp_all add: list_head_x86_def layout_simps layout_eval)

lemma sched_statistics_x86_layout [layout_simps]:
  "csizeof sched_statistics_x86 = 216" "calignof sched_statistics_x86 = 8" "wf_type sched_statistics_x86"
  by (simp_all add: sched_statistics_x86_def layout_simps layout_eval)

lemma util_est_x86_layout [layout_simps]:
  "csizeof util_est_x86 = 8" "calignof util_est_x86 = 4" "wf_type util_est_x86"
  by (simp_all add: util_est_x86_def layout_simps layout_eval)

lemma sched_avg_x86_layout [layout_simps]:
  "csizeof sched_avg_x86 = 64" "calignof sched_avg_x86 = 8" "wf_type sched_avg_x86"
  by (simp_all add: sched_avg_x86_def layout_simps layout_eval)

lemma sched_entity_x86_layout [layout_simps]:
  "csizeof sched_entity_x86 = 448" "calignof sched_entity_x86 = 8" "wf_type sched_entity_x86"
  by (simp_all add: sched_entity_x86_def layout_simps layout_eval)

lemma sched_rt_entity_x86_layout [layout_simps]:
  "csizeof sched_rt_entity_x86 = 48" "calignof sched_rt_entity_x86 = 8" "wf_type sched_rt_entity_x86"
  by (simp_all add: sched_rt_entity_x86_def layout_simps layout_eval)

lemma timerqueue_node_x86_layout [layout_simps]:
  "csizeof timerqueue_node_x86 = 32" "calignof timerqueue_node_x86 = 8" "wf_type timerqueue_node_x86"
  by (simp_all add: timerqueue_node_x86_def layout_simps layout_eval)

lemma hrtimer_x86_layout [layout_simps]:
  "csizeof hrtimer_x86 = 64" "calignof hrtimer_x86 = 8" "wf_type hrtimer_x86"
  by (simp_all add: hrtimer_x86_def layout_simps layout_eval)

lemma sched_dl_entity_x86_layout [layout_simps]:
  "csizeof sched_dl_entity_x86 = 224" "calignof sched_dl_entity_x86 = 8" "wf_type sched_dl_entity_x86"
  by (simp_all add: sched_dl_entity_x86_def layout_simps layout_eval)

lemma uclamp_se_x86_layout [layout_simps]:
  "csizeof uclamp_se_x86 = 4" "calignof uclamp_se_x86 = 4" "wf_type uclamp_se_x86"
  by (simp_all add: uclamp_se_x86_def layout_simps layout_eval)

lemma hlist_head_x86_layout [layout_simps]:
  "csizeof hlist_head_x86 = 8" "calignof hlist_head_x86 = 8" "wf_type hlist_head_x86"
  by (simp_all add: hlist_head_x86_def layout_simps layout_eval)

lemma cpumask_x86_layout [layout_simps]:
  "csizeof cpumask_x86 = 40" "calignof cpumask_x86 = 8" "wf_type cpumask_x86"
  by (simp_all add: cpumask_x86_def layout_simps layout_eval)

lemma rcu_special_x86_layout [layout_simps]:
  "csizeof rcu_special_x86 = 4" "calignof rcu_special_x86 = 4" "wf_type rcu_special_x86"
  by (simp_all add: rcu_special_x86_def layout_simps layout_eval)

lemma sched_info_x86_layout [layout_simps]:
  "csizeof sched_info_x86 = 32" "calignof sched_info_x86 = 8" "wf_type sched_info_x86"
  by (simp_all add: sched_info_x86_def layout_simps layout_eval)

lemma plist_node_x86_layout [layout_simps]:
  "csizeof plist_node_x86 = 40" "calignof plist_node_x86 = 8" "wf_type plist_node_x86"
  by (simp_all add: plist_node_x86_def layout_simps layout_eval)

lemma vmacache_x86_layout [layout_simps]:
  "csizeof vmacache_x86 = 40" "calignof vmacache_x86 = 8" "wf_type vmacache_x86"
  by (simp_all add: vmacache_x86_def layout_simps layout_eval)

lemma task_rss_stat_x86_layout [layout_simps]:
  "csizeof task_rss_stat_x86 = 20" "calignof task_rss_stat_x86 = 4" "wf_type task_rss_stat_x86"
  by (simp_all add: task_rss_stat_x86_def layout_simps layout_eval)

lemma restart_block_x86_layout [layout_simps]:
  "csizeof restart_block_x86 = 56" "calignof restart_block_x86 = 8" "wf_type restart_block_x86"
  by (simp_all add: restart_block_x86_def layout_simps layout_eval)

lemma hlist_node_x86_layout [layout_simps]:
  "csizeof hlist_node_x86 = 16" "calignof hlist_node_x86 = 8" "wf_type hlist_node_x86"
  by (simp_all add: hlist_node_x86_def layout_simps layout_eval)

lemma qspinlock_x86_layout [layout_simps]:
  "csizeof qspinlock_x86 = 4" "calignof qspinlock_x86 = 4" "wf_type qspinlock_x86"
  by (simp_all add: qspinlock_x86_def layout_simps layout_eval)

lemma raw_spinlock_x86_layout [layout_simps]:
  "csizeof raw_spinlock_x86 = 4" "calignof raw_spinlock_x86 = 4" "wf_type raw_spinlock_x86"
  by (simp_all add: raw_spinlock_x86_def layout_simps layout_eval)

lemma prev_cputime_x86_layout [layout_simps]:
  "csizeof prev_cputime_x86 = 24" "calignof prev_cputime_x86 = 8" "wf_type prev_cputime_x86"
  by (simp_all add: prev_cputime_x86_def layout_simps layout_eval)

lemma rb_root_x86_layout [layout_simps]:
  "csizeof rb_root_x86 = 8" "calignof rb_root_x86 = 8" "wf_type rb_root_x86"
  by (simp_all add: rb_root_x86_def layout_simps layout_eval)

lemma rb_root_cached_x86_layout [layout_simps]:
  "csizeof rb_root_cached_x86 = 16" "calignof rb_root_cached_x86 = 8" "wf_type rb_root_cached_x86"
  by (simp_all add: rb_root_cached_x86_def layout_simps layout_eval)

lemma timerqueue_head_x86_layout [layout_simps]:
  "csizeof timerqueue_head_x86 = 16" "calignof timerqueue_head_x86 = 8" "wf_type timerqueue_head_x86"
  by (simp_all add: timerqueue_head_x86_def layout_simps layout_eval)

lemma posix_cputimer_base_x86_layout [layout_simps]:
  "csizeof posix_cputimer_base_x86 = 24" "calignof posix_cputimer_base_x86 = 8" "wf_type posix_cputimer_base_x86"
  by (simp_all add: posix_cputimer_base_x86_def layout_simps layout_eval)

lemma posix_cputimers_x86_layout [layout_simps]:
  "csizeof posix_cputimers_x86 = 80" "calignof posix_cputimers_x86 = 8" "wf_type posix_cputimers_x86"
  by (simp_all add: posix_cputimers_x86_def layout_simps layout_eval)

lemma callback_head_x86_layout [layout_simps]:
  "csizeof callback_head_x86 = 16" "calignof callback_head_x86 = 8" "wf_type callback_head_x86"
  by (simp_all add: callback_head_x86_def layout_simps layout_eval)

lemma posix_cputimers_work_x86_layout [layout_simps]:
  "csizeof posix_cputimers_work_x86 = 24" "calignof posix_cputimers_work_x86 = 8" "wf_type posix_cputimers_work_x86"
  by (simp_all add: posix_cputimers_work_x86_def layout_simps layout_eval)

lemma sysv_sem_x86_layout [layout_simps]:
  "csizeof sysv_sem_x86 = 8" "calignof sysv_sem_x86 = 8" "wf_type sysv_sem_x86"
  by (simp_all add: sysv_sem_x86_def layout_simps layout_eval)

lemma sysv_shm_x86_layout [layout_simps]:
  "csizeof sysv_shm_x86 = 16" "calignof sysv_shm_x86 = 8" "wf_type sysv_shm_x86"
  by (simp_all add: sysv_shm_x86_def layout_simps layout_eval)

lemma sigset_t_x86_layout [layout_simps]:
  "csizeof sigset_t_x86 = 8" "calignof sigset_t_x86 = 8" "wf_type sigset_t_x86"
  by (simp_all add: sigset_t_x86_def layout_simps layout_eval)

lemma sigpending_x86_layout [layout_simps]:
  "csizeof sigpending_x86 = 24" "calignof sigpending_x86 = 8" "wf_type sigpending_x86"
  by (simp_all add: sigpending_x86_def layout_simps layout_eval)

lemma kuid_t_x86_layout [layout_simps]:
  "csizeof kuid_t_x86 = 4" "calignof kuid_t_x86 = 4" "wf_type kuid_t_x86"
  by (simp_all add: kuid_t_x86_def layout_simps layout_eval)

lemma seccomp_x86_layout [layout_simps]:
  "csizeof seccomp_x86 = 16" "calignof seccomp_x86 = 8" "wf_type seccomp_x86"
  by (simp_all add: seccomp_x86_def layout_simps layout_eval)

lemma syscall_user_dispatch_x86_layout [layout_simps]:
  "csizeof syscall_user_dispatch_x86 = 32" "calignof syscall_user_dispatch_x86 = 8" "wf_type syscall_user_dispatch_x86"
  by (simp_all add: syscall_user_dispatch_x86_def layout_simps layout_eval)

lemma spinlock_x86_layout [layout_simps]:
  "csizeof spinlock_x86 = 4" "calignof spinlock_x86 = 4" "wf_type spinlock_x86"
  by (simp_all add: spinlock_x86_def layout_simps layout_eval)

lemma wake_q_node_x86_layout [layout_simps]:
  "csizeof wake_q_node_x86 = 8" "calignof wake_q_node_x86 = 8" "wf_type wake_q_node_x86"
  by (simp_all add: wake_q_node_x86_def layout_simps layout_eval)

lemma task_io_accounting_x86_layout [layout_simps]:
  "csizeof task_io_accounting_x86 = 56" "calignof task_io_accounting_x86 = 8" "wf_type task_io_accounting_x86"
  by (simp_all add: task_io_accounting_x86_def layout_simps layout_eval)

lemma nodemask_t_x86_layout [layout_simps]:
  "csizeof nodemask_t_x86 = 8" "calignof nodemask_t_x86 = 8" "wf_type nodemask_t_x86"
  by (simp_all add: nodemask_t_x86_def layout_simps layout_eval)

lemma seqcount_x86_layout [layout_simps]:
  "csizeof seqcount_x86 = 4" "calignof seqcount_x86 = 4" "wf_type seqcount_x86"
  by (simp_all add: seqcount_x86_def layout_simps layout_eval)

lemma seqcount_spinlock_x86_layout [layout_simps]:
  "csizeof seqcount_spinlock_x86 = 4" "calignof seqcount_spinlock_x86 = 4" "wf_type seqcount_spinlock_x86"
  by (simp_all add: seqcount_spinlock_x86_def layout_simps layout_eval)

lemma atomic64_t_x86_layout [layout_simps]:
  "csizeof atomic64_t_x86 = 8" "calignof atomic64_t_x86 = 8" "wf_type atomic64_t_x86"
  by (simp_all add: atomic64_t_x86_def layout_simps layout_eval)

lemma optimistic_spin_queue_x86_layout [layout_simps]:
  "csizeof optimistic_spin_queue_x86 = 4" "calignof optimistic_spin_queue_x86 = 4" "wf_type optimistic_spin_queue_x86"
  by (simp_all add: optimistic_spin_queue_x86_def layout_simps layout_eval)

lemma mutex_x86_layout [layout_simps]:
  "csizeof mutex_x86 = 32" "calignof mutex_x86 = 8" "wf_type mutex_x86"
  by (simp_all add: mutex_x86_def layout_simps layout_eval)

lemma arch_tlbflush_unmap_batch_x86_layout [layout_simps]:
  "csizeof arch_tlbflush_unmap_batch_x86 = 40" "calignof arch_tlbflush_unmap_batch_x86 = 8" "wf_type arch_tlbflush_unmap_batch_x86"
  by (simp_all add: arch_tlbflush_unmap_batch_x86_def layout_simps layout_eval)

lemma tlbflush_unmap_batch_x86_layout [layout_simps]:
  "csizeof tlbflush_unmap_batch_x86 = 48" "calignof tlbflush_unmap_batch_x86 = 8" "wf_type tlbflush_unmap_batch_x86"
  by (simp_all add: tlbflush_unmap_batch_x86_def layout_simps layout_eval)

lemma page_frag_x86_layout [layout_simps]:
  "csizeof page_frag_x86 = 16" "calignof page_frag_x86 = 8" "wf_type page_frag_x86"
  by (simp_all add: page_frag_x86_def layout_simps layout_eval)

lemma latency_record_x86_layout [layout_simps]:
  "csizeof latency_record_x86 = 120" "calignof latency_record_x86 = 8" "wf_type latency_record_x86"
  by (simp_all add: latency_record_x86_def layout_simps layout_eval)

lemma kmap_ctrl_x86_layout [layout_simps]:
  "csizeof kmap_ctrl_x86 = 0" "calignof kmap_ctrl_x86 = 1" "wf_type kmap_ctrl_x86"
  by (simp_all add: kmap_ctrl_x86_def layout_simps layout_eval)

lemma llist_head_x86_layout [layout_simps]:
  "csizeof llist_head_x86 = 8" "calignof llist_head_x86 = 8" "wf_type llist_head_x86"
  by (simp_all add: llist_head_x86_def layout_simps layout_eval)

lemma desc_struct_x86_layout [layout_simps]:
  "csizeof desc_struct_x86 = 8" "calignof desc_struct_x86 = 2" "wf_type desc_struct_x86"
  by (simp_all add: desc_struct_x86_def layout_simps layout_eval)

lemma fregs_state_x86_layout [layout_simps]:
  "csizeof fregs_state_x86 = 112" "calignof fregs_state_x86 = 4" "wf_type fregs_state_x86"
  by (simp_all add: fregs_state_x86_def layout_simps layout_eval)

lemma fxregs_state_x86_layout [layout_simps]:
  "csizeof fxregs_state_x86 = 512" "calignof fxregs_state_x86 = 8" "wf_type fxregs_state_x86"
  by (simp_all add: fxregs_state_x86_def layout_simps layout_eval)

lemma swregs_state_x86_layout [layout_simps]:
  "csizeof swregs_state_x86 = 136" "calignof swregs_state_x86 = 8" "wf_type swregs_state_x86"
  by (simp_all add: swregs_state_x86_def layout_simps layout_eval)

lemma xstate_header_x86_layout [layout_simps]:
  "csizeof xstate_header_x86 = 64" "calignof xstate_header_x86 = 8" "wf_type xstate_header_x86"
  by (simp_all add: xstate_header_x86_def layout_simps layout_eval)

lemma xregs_state_x86_layout [layout_simps]:
  "csizeof xregs_state_x86 = 576" "calignof xregs_state_x86 = 8" "wf_type xregs_state_x86"
  by (simp_all add: xregs_state_x86_def layout_simps layout_eval)

lemma fpregs_state_x86_layout [layout_simps]:
  "csizeof fpregs_state_x86 = 4096" "calignof fpregs_state_x86 = 8" "wf_type fpregs_state_x86"
  by (simp_all add: fpregs_state_x86_def layout_simps layout_eval)

lemma fpu_x86_layout [layout_simps]:
  "csizeof fpu_x86 = 4160" "calignof fpu_x86 = 8" "wf_type fpu_x86"
  by (simp_all add: fpu_x86_def layout_simps layout_eval)

lemma thread_struct_x86_layout [layout_simps]:
  "csizeof thread_struct_x86 = 4352" "calignof thread_struct_x86 = 8" "wf_type thread_struct_x86"
  by (simp_all add: thread_struct_x86_def layout_simps layout_eval)

lemma task_struct_x86_layout [layout_simps]:
  "csizeof task_struct_x86 = 11328" "calignof task_struct_x86 = 8" "wf_type task_struct_x86"
  by (simp_all add: task_struct_x86_def layout_simps layout_eval)

lemma nsproxy_x86_layout [layout_simps]:
  "csizeof nsproxy_x86 = 72" "calignof nsproxy_x86 = 8" "wf_type nsproxy_x86"
  by (simp_all add: nsproxy_x86_def layout_simps layout_eval)

lemma upid_x86_layout [layout_simps]:
  "csizeof upid_x86 = 16" "calignof upid_x86 = 8" "wf_type upid_x86"
  by (simp_all add: upid_x86_def layout_simps layout_eval)

lemma wait_queue_head_x86_layout [layout_simps]:
  "csizeof wait_queue_head_x86 = 24" "calignof wait_queue_head_x86 = 8" "wf_type wait_queue_head_x86"
  by (simp_all add: wait_queue_head_x86_def layout_simps layout_eval)

lemma pid_x86_layout [layout_simps]:
  "csizeof pid_x86 = 112" "calignof pid_x86 = 8" "wf_type pid_x86"
  by (simp_all add: pid_x86_def layout_simps layout_eval)

lemma xarray_x86_layout [layout_simps]:
  "csizeof xarray_x86 = 16" "calignof xarray_x86 = 8" "wf_type xarray_x86"
  by (simp_all add: xarray_x86_def layout_simps layout_eval)

lemma idr_x86_layout [layout_simps]:
  "csizeof idr_x86 = 24" "calignof idr_x86 = 8" "wf_type idr_x86"
  by (simp_all add: idr_x86_def layout_simps layout_eval)

lemma ns_common_x86_layout [layout_simps]:
  "csizeof ns_common_x86 = 24" "calignof ns_common_x86 = 8" "wf_type ns_common_x86"
  by (simp_all add: ns_common_x86_def layout_simps layout_eval)

lemma pid_namespace_x86_layout [layout_simps]:
  "csizeof pid_namespace_x86 = 136" "calignof pid_namespace_x86 = 8" "wf_type pid_namespace_x86"
  by (simp_all add: pid_namespace_x86_def layout_simps layout_eval)

lemma pt_regs_x86_layout [layout_simps]:
  "csizeof pt_regs_x86 = 168" "calignof pt_regs_x86 = 8" "wf_type pt_regs_x86"
  by (simp_all add: pt_regs_x86_def layout_simps layout_eval)

lemma bpf_perf_event_data_x86_layout [layout_simps]:
  "csizeof bpf_perf_event_data_x86 = 184" "calignof bpf_perf_event_data_x86 = 8" "wf_type bpf_perf_event_data_x86"
  by (simp_all add: bpf_perf_event_data_x86_def layout_simps layout_eval)

lemma bpf_perf_event_value_x86_layout [layout_simps]:
  "csizeof bpf_perf_event_value_x86 = 24" "calignof bpf_perf_event_value_x86 = 8" "wf_type bpf_perf_event_value_x86"
  by (simp_all add: bpf_perf_event_value_x86_def layout_simps layout_eval)

end
