(* ===== verification/Vmlinux_Arm64.thy ===== *)
theory Vmlinux_Arm64
  imports C_Layout
begin

text \<open>
  The types of \<open>ebpf/bpf/vmlinux/vmlinux-arm64.h\<close> that the programs reach, as in the theory
  for x86: \<open>task_struct\<close> with every type it contains by value, the namespace types, and
  \<open>pt_regs\<close> and \<open>user_pt_regs\<close> with the context of a perf event.

  The lemmas compute the size and alignment of every type and the offsets of the fields that
  the programs read.
\<close>

definition thread_info_arm64 :: ctype where
  "thread_info_arm64 = Struct [
    Member ''flags'' (Prim 8), Member ''addr_limit'' (Prim 8),
    Member '''' (Union [Member ''preempt_count'' (Prim 8), Member ''preempt'' (Struct [Member ''count'' (Prim 4), Member ''need_resched'' (Prim 4)])])]"

definition atomic_t_arm64 :: ctype where
  "atomic_t_arm64 = Struct [Member ''counter'' (Prim 4)]"

definition refcount_struct_arm64 :: ctype where
  "refcount_struct_arm64 = Struct [Member ''refs'' atomic_t_arm64]"

definition llist_node_arm64 :: ctype where
  "llist_node_arm64 = Struct [Member ''next'' (Prim 8)]"

definition call_single_node_arm64 :: ctype where
  "call_single_node_arm64 = Struct [
    Member ''llist'' llist_node_arm64,
    Member '''' (Union [Member ''u_flags'' (Prim 4), Member ''a_flags'' atomic_t_arm64]),
    Member ''src'' (Prim 2), Member ''dst'' (Prim 2)]"

definition load_weight_arm64 :: ctype where
  "load_weight_arm64 = Struct [Member ''weight'' (Prim 8), Member ''inv_weight'' (Prim 4)]"

definition rb_node_arm64 :: ctype where
  "rb_node_arm64 = Struct [
    Member ''__rb_parent_color'' (Prim 8), Member ''rb_right'' (Prim 8),
    Member ''rb_left'' (Prim 8)]"

definition list_head_arm64 :: ctype where
  "list_head_arm64 = Struct [Member ''next'' (Prim 8), Member ''prev'' (Prim 8)]"

definition sched_statistics_arm64 :: ctype where
  "sched_statistics_arm64 = Struct [
    Member ''wait_start'' (Prim 8), Member ''wait_max'' (Prim 8), Member ''wait_count'' (Prim 8),
    Member ''wait_sum'' (Prim 8), Member ''iowait_count'' (Prim 8),
    Member ''iowait_sum'' (Prim 8), Member ''sleep_start'' (Prim 8),
    Member ''sleep_max'' (Prim 8), Member ''sum_sleep_runtime'' (Prim 8),
    Member ''block_start'' (Prim 8), Member ''block_max'' (Prim 8), Member ''exec_max'' (Prim 8),
    Member ''slice_max'' (Prim 8), Member ''nr_migrations_cold'' (Prim 8),
    Member ''nr_failed_migrations_affine'' (Prim 8),
    Member ''nr_failed_migrations_running'' (Prim 8),
    Member ''nr_failed_migrations_hot'' (Prim 8), Member ''nr_forced_migrations'' (Prim 8),
    Member ''nr_wakeups'' (Prim 8), Member ''nr_wakeups_sync'' (Prim 8),
    Member ''nr_wakeups_migrate'' (Prim 8), Member ''nr_wakeups_local'' (Prim 8),
    Member ''nr_wakeups_remote'' (Prim 8), Member ''nr_wakeups_affine'' (Prim 8),
    Member ''nr_wakeups_affine_attempts'' (Prim 8), Member ''nr_wakeups_passive'' (Prim 8),
    Member ''nr_wakeups_idle'' (Prim 8)]"

definition util_est_arm64 :: ctype where
  "util_est_arm64 = Struct [Member ''enqueued'' (Prim 4), Member ''ewma'' (Prim 4)]"

definition sched_avg_arm64 :: ctype where
  "sched_avg_arm64 = Struct [
    Member ''last_update_time'' (Prim 8), Member ''load_sum'' (Prim 8),
    Member ''runnable_sum'' (Prim 8), Member ''util_sum'' (Prim 4),
    Member ''period_contrib'' (Prim 4), Member ''load_avg'' (Prim 8),
    Member ''runnable_avg'' (Prim 8), Member ''util_avg'' (Prim 8),
    Member ''util_est'' util_est_arm64]"

definition sched_entity_arm64 :: ctype where
  "sched_entity_arm64 = Struct [
    Member ''load'' load_weight_arm64, Member ''run_node'' rb_node_arm64,
    Member ''group_node'' list_head_arm64, Member ''on_rq'' (Prim 4),
    Member ''exec_start'' (Prim 8), Member ''sum_exec_runtime'' (Prim 8),
    Member ''vruntime'' (Prim 8), Member ''prev_sum_exec_runtime'' (Prim 8),
    Member ''nr_migrations'' (Prim 8), Member ''statistics'' sched_statistics_arm64,
    Member ''depth'' (Prim 4), Member ''parent'' (Prim 8), Member ''cfs_rq'' (Prim 8),
    Member ''my_q'' (Prim 8), Member ''runnable_weight'' (Prim 8), Bits '''' 8 64,
    Bits '''' 8 64, Bits '''' 8 64, Member ''avg'' sched_avg_arm64]"

definition sched_rt_entity_arm64 :: ctype where
  "sched_rt_entity_arm64 = Struct [
    Member ''run_list'' list_head_arm64, Member ''timeout'' (Prim 8),
    Member ''watchdog_stamp'' (Prim 8), Member ''time_slice'' (Prim 4),
    Member ''on_rq'' (Prim 2), Member ''on_list'' (Prim 2), Member ''back'' (Prim 8)]"

definition timerqueue_node_arm64 :: ctype where
  "timerqueue_node_arm64 = Struct [Member ''node'' rb_node_arm64, Member ''expires'' (Prim 8)]"

definition hrtimer_arm64 :: ctype where
  "hrtimer_arm64 = Struct [
    Member ''node'' timerqueue_node_arm64, Member ''_softexpires'' (Prim 8),
    Member ''function'' (Prim 8), Member ''base'' (Prim 8), Member ''state'' (Prim 1),
    Member ''is_rel'' (Prim 1), Member ''is_soft'' (Prim 1), Member ''is_hard'' (Prim 1)]"

definition sched_dl_entity_arm64 :: ctype where
  "sched_dl_entity_arm64 = Struct [
    Member ''rb_node'' rb_node_arm64, Member ''dl_runtime'' (Prim 8),
    Member ''dl_deadline'' (Prim 8), Member ''dl_period'' (Prim 8), Member ''dl_bw'' (Prim 8),
    Member ''dl_density'' (Prim 8), Member ''runtime'' (Prim 8), Member ''deadline'' (Prim 8),
    Member ''flags'' (Prim 4), Bits ''dl_throttled'' 4 1, Bits ''dl_yielded'' 4 1,
    Bits ''dl_non_contending'' 4 1, Bits ''dl_overrun'' 4 1, Member ''dl_timer'' hrtimer_arm64,
    Member ''inactive_timer'' hrtimer_arm64, Member ''pi_se'' (Prim 8)]"

definition hlist_head_arm64 :: ctype where
  "hlist_head_arm64 = Struct [Member ''first'' (Prim 8)]"

definition cpumask_arm64 :: ctype where
  "cpumask_arm64 = Struct [Member ''bits'' (Arr (Prim 8) 4)]"

definition rcu_special_arm64 :: ctype where
  "rcu_special_arm64 = Union [
    Member ''b'' (Struct [Member ''blocked'' (Prim 1), Member ''need_qs'' (Prim 1), Member ''exp_hint'' (Prim 1), Member ''need_mb'' (Prim 1)]),
    Member ''s'' (Prim 4)]"

definition sched_info_arm64 :: ctype where
  "sched_info_arm64 = Struct [
    Member ''pcount'' (Prim 8), Member ''run_delay'' (Prim 8), Member ''last_arrival'' (Prim 8),
    Member ''last_queued'' (Prim 8)]"

definition plist_node_arm64 :: ctype where
  "plist_node_arm64 = Struct [
    Member ''prio'' (Prim 4), Member ''prio_list'' list_head_arm64,
    Member ''node_list'' list_head_arm64]"

definition vmacache_arm64 :: ctype where
  "vmacache_arm64 = Struct [Member ''seqnum'' (Prim 8), Member ''vmas'' (Arr (Prim 8) 4)]"

definition task_rss_stat_arm64 :: ctype where
  "task_rss_stat_arm64 = Struct [Member ''events'' (Prim 4), Member ''count'' (Arr (Prim 4) 4)]"

definition restart_block_arm64 :: ctype where
  "restart_block_arm64 = Struct [
    Member ''fn'' (Prim 8),
    Member '''' (Union [Member ''futex'' (Struct [Member ''uaddr'' (Prim 8), Member ''val'' (Prim 4), Member ''flags'' (Prim 4), Member ''bitset'' (Prim 4), Member ''time'' (Prim 8), Member ''uaddr2'' (Prim 8)]), Member ''nanosleep'' (Struct [Member ''clockid'' (Prim 4), Member ''type'' (Prim 4), Member '''' (Union [Member ''rmtp'' (Prim 8), Member ''compat_rmtp'' (Prim 8)]), Member ''expires'' (Prim 8)]), Member ''poll'' (Struct [Member ''ufds'' (Prim 8), Member ''nfds'' (Prim 4), Member ''has_timeout'' (Prim 4), Member ''tv_sec'' (Prim 8), Member ''tv_nsec'' (Prim 8)])])]"

definition hlist_node_arm64 :: ctype where
  "hlist_node_arm64 = Struct [Member ''next'' (Prim 8), Member ''pprev'' (Prim 8)]"

definition qspinlock_arm64 :: ctype where
  "qspinlock_arm64 = Struct [
    Member '''' (Union [Member ''val'' atomic_t_arm64, Member '''' (Struct [Member ''locked'' (Prim 1), Member ''pending'' (Prim 1)]), Member '''' (Struct [Member ''locked_pending'' (Prim 2), Member ''tail'' (Prim 2)])])]"

definition raw_spinlock_arm64 :: ctype where
  "raw_spinlock_arm64 = Struct [Member ''raw_lock'' qspinlock_arm64]"

definition prev_cputime_arm64 :: ctype where
  "prev_cputime_arm64 = Struct [
    Member ''utime'' (Prim 8), Member ''stime'' (Prim 8), Member ''lock'' raw_spinlock_arm64]"

definition rb_root_arm64 :: ctype where
  "rb_root_arm64 = Struct [Member ''rb_node'' (Prim 8)]"

definition rb_root_cached_arm64 :: ctype where
  "rb_root_cached_arm64 = Struct [
    Member ''rb_root'' rb_root_arm64, Member ''rb_leftmost'' (Prim 8)]"

definition timerqueue_head_arm64 :: ctype where
  "timerqueue_head_arm64 = Struct [Member ''rb_root'' rb_root_cached_arm64]"

definition posix_cputimer_base_arm64 :: ctype where
  "posix_cputimer_base_arm64 = Struct [
    Member ''nextevt'' (Prim 8), Member ''tqhead'' timerqueue_head_arm64]"

definition posix_cputimers_arm64 :: ctype where
  "posix_cputimers_arm64 = Struct [
    Member ''bases'' (Arr posix_cputimer_base_arm64 3), Member ''timers_active'' (Prim 4),
    Member ''expiry_active'' (Prim 4)]"

definition sysv_sem_arm64 :: ctype where
  "sysv_sem_arm64 = Struct [Member ''undo_list'' (Prim 8)]"

definition sysv_shm_arm64 :: ctype where
  "sysv_shm_arm64 = Struct [Member ''shm_clist'' list_head_arm64]"

definition sigset_t_arm64 :: ctype where
  "sigset_t_arm64 = Struct [Member ''sig'' (Arr (Prim 8) 1)]"

definition sigpending_arm64 :: ctype where
  "sigpending_arm64 = Struct [
    Member ''list'' list_head_arm64, Member ''signal'' sigset_t_arm64]"

definition kuid_t_arm64 :: ctype where
  "kuid_t_arm64 = Struct [Member ''val'' (Prim 4)]"

definition seccomp_arm64 :: ctype where
  "seccomp_arm64 = Struct [
    Member ''mode'' (Prim 4), Member ''filter_count'' atomic_t_arm64, Member ''filter'' (Prim 8)]"

definition spinlock_arm64 :: ctype where
  "spinlock_arm64 = Struct [Member '''' (Union [Member ''rlock'' raw_spinlock_arm64])]"

definition wake_q_node_arm64 :: ctype where
  "wake_q_node_arm64 = Struct [Member ''next'' (Prim 8)]"

definition irqtrace_events_arm64 :: ctype where
  "irqtrace_events_arm64 = Struct [
    Member ''irq_events'' (Prim 4), Member ''hardirq_enable_ip'' (Prim 8),
    Member ''hardirq_disable_ip'' (Prim 8), Member ''hardirq_enable_event'' (Prim 4),
    Member ''hardirq_disable_event'' (Prim 4), Member ''softirq_disable_ip'' (Prim 8),
    Member ''softirq_enable_ip'' (Prim 8), Member ''softirq_disable_event'' (Prim 4),
    Member ''softirq_enable_event'' (Prim 4)]"

definition task_io_accounting_arm64 :: ctype where
  "task_io_accounting_arm64 = Struct [
    Member ''rchar'' (Prim 8), Member ''wchar'' (Prim 8), Member ''syscr'' (Prim 8),
    Member ''syscw'' (Prim 8), Member ''read_bytes'' (Prim 8), Member ''write_bytes'' (Prim 8),
    Member ''cancelled_write_bytes'' (Prim 8)]"

definition nodemask_t_arm64 :: ctype where
  "nodemask_t_arm64 = Struct [Member ''bits'' (Arr (Prim 8) 1)]"

definition seqcount_arm64 :: ctype where
  "seqcount_arm64 = Struct [Member ''sequence'' (Prim 4)]"

definition seqcount_spinlock_arm64 :: ctype where
  "seqcount_spinlock_arm64 = Struct [Member ''seqcount'' seqcount_arm64]"

definition atomic64_t_arm64 :: ctype where
  "atomic64_t_arm64 = Struct [Member ''counter'' (Prim 8)]"

definition optimistic_spin_queue_arm64 :: ctype where
  "optimistic_spin_queue_arm64 = Struct [Member ''tail'' atomic_t_arm64]"

definition mutex_arm64 :: ctype where
  "mutex_arm64 = Struct [
    Member ''owner'' atomic64_t_arm64, Member ''wait_lock'' spinlock_arm64,
    Member ''osq'' optimistic_spin_queue_arm64, Member ''wait_list'' list_head_arm64]"

definition tlbflush_unmap_batch_arm64 :: ctype where
  "tlbflush_unmap_batch_arm64 = Struct []"

definition callback_head_arm64 :: ctype where
  "callback_head_arm64 = Struct [Member ''next'' (Prim 8), Member ''func'' (Prim 8)]"

definition page_frag_arm64 :: ctype where
  "page_frag_arm64 = Struct [
    Member ''page'' (Prim 8), Member ''offset'' (Prim 4), Member ''size'' (Prim 4)]"

definition latency_record_arm64 :: ctype where
  "latency_record_arm64 = Struct [
    Member ''backtrace'' (Arr (Prim 8) 12), Member ''count'' (Prim 4), Member ''time'' (Prim 8),
    Member ''max'' (Prim 8)]"

definition cpu_context_arm64 :: ctype where
  "cpu_context_arm64 = Struct [
    Member ''x19'' (Prim 8), Member ''x20'' (Prim 8), Member ''x21'' (Prim 8),
    Member ''x22'' (Prim 8), Member ''x23'' (Prim 8), Member ''x24'' (Prim 8),
    Member ''x25'' (Prim 8), Member ''x26'' (Prim 8), Member ''x27'' (Prim 8),
    Member ''x28'' (Prim 8), Member ''fp'' (Prim 8), Member ''sp'' (Prim 8),
    Member ''pc'' (Prim 8)]"

definition user_fpsimd_state_arm64 :: ctype where
  "user_fpsimd_state_arm64 = Struct [
    Member ''vregs'' (Arr (Prim 16) 32), Member ''fpsr'' (Prim 4), Member ''fpcr'' (Prim 4),
    Member ''__reserved'' (Arr (Prim 4) 2)]"

definition debug_info_arm64 :: ctype where
  "debug_info_arm64 = Struct [
    Member ''suspended_step'' (Prim 4), Member ''bps_disabled'' (Prim 4),
    Member ''wps_disabled'' (Prim 4), Member ''hbp_break'' (Arr (Prim 8) 16),
    Member ''hbp_watch'' (Arr (Prim 8) 16)]"

definition ptrauth_key_arm64 :: ctype where
  "ptrauth_key_arm64 = Struct [Member ''lo'' (Prim 8), Member ''hi'' (Prim 8)]"

definition ptrauth_keys_user_arm64 :: ctype where
  "ptrauth_keys_user_arm64 = Struct [
    Member ''apia'' ptrauth_key_arm64, Member ''apib'' ptrauth_key_arm64,
    Member ''apda'' ptrauth_key_arm64, Member ''apdb'' ptrauth_key_arm64,
    Member ''apga'' ptrauth_key_arm64]"

definition ptrauth_keys_kernel_arm64 :: ctype where
  "ptrauth_keys_kernel_arm64 = Struct [Member ''apia'' ptrauth_key_arm64]"

definition thread_struct_arm64 :: ctype where
  "thread_struct_arm64 = Struct [
    Member ''cpu_context'' cpu_context_arm64, Bits '''' 8 64,
    Member ''uw'' (Struct [Member ''tp_value'' (Prim 8), Member ''tp2_value'' (Prim 8), Member ''fpsimd_state'' user_fpsimd_state_arm64]),
    Member ''fpsimd_cpu'' (Prim 4), Member ''sve_state'' (Prim 8), Member ''sve_vl'' (Prim 4),
    Member ''sve_vl_onexec'' (Prim 4), Member ''fault_address'' (Prim 8),
    Member ''fault_code'' (Prim 8), Member ''debug'' debug_info_arm64,
    Member ''keys_user'' ptrauth_keys_user_arm64,
    Member ''keys_kernel'' ptrauth_keys_kernel_arm64, Member ''sctlr_tcf0'' (Prim 8),
    Member ''gcr_user_incl'' (Prim 8), Bits '''' 8 64]"

definition task_struct_arm64 :: ctype where
  "task_struct_arm64 = Struct [
    Member ''thread_info'' thread_info_arm64, Member ''state'' (Prim 8),
    Member ''stack'' (Prim 8), Member ''usage'' refcount_struct_arm64, Member ''flags'' (Prim 4),
    Member ''ptrace'' (Prim 4), Member ''on_cpu'' (Prim 4),
    Member ''wake_entry'' call_single_node_arm64, Member ''cpu'' (Prim 4),
    Member ''wakee_flips'' (Prim 4), Member ''wakee_flip_decay_ts'' (Prim 8),
    Member ''last_wakee'' (Prim 8), Member ''recent_used_cpu'' (Prim 4),
    Member ''wake_cpu'' (Prim 4), Member ''on_rq'' (Prim 4), Member ''prio'' (Prim 4),
    Member ''static_prio'' (Prim 4), Member ''normal_prio'' (Prim 4),
    Member ''rt_priority'' (Prim 4), Member ''sched_class'' (Prim 8), Bits '''' 8 64,
    Bits '''' 8 64, Bits '''' 8 64, Bits '''' 8 64, Bits '''' 8 64, Bits '''' 8 64,
    Bits '''' 8 64, Member ''se'' sched_entity_arm64, Member ''rt'' sched_rt_entity_arm64,
    Member ''sched_task_group'' (Prim 8), Member ''dl'' sched_dl_entity_arm64,
    Member ''preempt_notifiers'' hlist_head_arm64, Member ''btrace_seq'' (Prim 4),
    Member ''policy'' (Prim 4), Member ''nr_cpus_allowed'' (Prim 4),
    Member ''cpus_ptr'' (Prim 8), Member ''cpus_mask'' cpumask_arm64,
    Member ''rcu_read_lock_nesting'' (Prim 4),
    Member ''rcu_read_unlock_special'' rcu_special_arm64,
    Member ''rcu_node_entry'' list_head_arm64, Member ''rcu_blocked_node'' (Prim 8),
    Member ''rcu_tasks_nvcsw'' (Prim 8), Member ''rcu_tasks_holdout'' (Prim 1),
    Member ''rcu_tasks_idx'' (Prim 1), Member ''rcu_tasks_idle_cpu'' (Prim 4),
    Member ''rcu_tasks_holdout_list'' list_head_arm64, Member ''trc_reader_nesting'' (Prim 4),
    Member ''trc_ipi_to_cpu'' (Prim 4), Member ''trc_reader_special'' rcu_special_arm64,
    Member ''trc_reader_checked'' (Prim 1), Member ''trc_holdout_list'' list_head_arm64,
    Member ''sched_info'' sched_info_arm64, Member ''tasks'' list_head_arm64,
    Member ''pushable_tasks'' plist_node_arm64, Member ''pushable_dl_tasks'' rb_node_arm64,
    Member ''mm'' (Prim 8), Member ''active_mm'' (Prim 8), Member ''vmacache'' vmacache_arm64,
    Member ''rss_stat'' task_rss_stat_arm64, Member ''exit_state'' (Prim 4),
    Member ''exit_code'' (Prim 4), Member ''exit_signal'' (Prim 4),
    Member ''pdeath_signal'' (Prim 4), Member ''jobctl'' (Prim 8),
    Member ''personality'' (Prim 4), Bits ''sched_reset_on_fork'' 4 1,
    Bits ''sched_contributes_to_load'' 4 1, Bits ''sched_migrated'' 4 1, Bits '''' 4 29,
    Bits ''sched_remote_wakeup'' 4 1, Bits ''in_execve'' 4 1, Bits ''in_iowait'' 4 1,
    Bits ''in_user_fault'' 4 1, Bits ''no_cgroup_migration'' 4 1, Bits ''frozen'' 4 1,
    Bits ''use_memdelay'' 4 1, Member ''atomic_flags'' (Prim 8),
    Member ''restart_block'' restart_block_arm64, Member ''pid'' (Prim 4),
    Member ''tgid'' (Prim 4), Member ''stack_canary'' (Prim 8), Member ''real_parent'' (Prim 8),
    Member ''parent'' (Prim 8), Member ''children'' list_head_arm64,
    Member ''sibling'' list_head_arm64, Member ''group_leader'' (Prim 8),
    Member ''ptraced'' list_head_arm64, Member ''ptrace_entry'' list_head_arm64,
    Member ''thread_pid'' (Prim 8), Member ''pid_links'' (Arr hlist_node_arm64 4),
    Member ''thread_group'' list_head_arm64, Member ''thread_node'' list_head_arm64,
    Member ''vfork_done'' (Prim 8), Member ''set_child_tid'' (Prim 8),
    Member ''clear_child_tid'' (Prim 8), Member ''utime'' (Prim 8), Member ''stime'' (Prim 8),
    Member ''gtime'' (Prim 8), Member ''prev_cputime'' prev_cputime_arm64,
    Member ''nvcsw'' (Prim 8), Member ''nivcsw'' (Prim 8), Member ''start_time'' (Prim 8),
    Member ''start_boottime'' (Prim 8), Member ''min_flt'' (Prim 8), Member ''maj_flt'' (Prim 8),
    Member ''posix_cputimers'' posix_cputimers_arm64, Member ''ptracer_cred'' (Prim 8),
    Member ''real_cred'' (Prim 8), Member ''cred'' (Prim 8),
    Member ''cached_requested_key'' (Prim 8), Member ''comm'' (Arr (Prim 1) 16),
    Member ''nameidata'' (Prim 8), Member ''sysvsem'' sysv_sem_arm64,
    Member ''sysvshm'' sysv_shm_arm64, Member ''last_switch_count'' (Prim 8),
    Member ''last_switch_time'' (Prim 8), Member ''fs'' (Prim 8), Member ''files'' (Prim 8),
    Member ''io_uring'' (Prim 8), Member ''nsproxy'' (Prim 8), Member ''signal'' (Prim 8),
    Member ''sighand'' (Prim 8), Member ''blocked'' sigset_t_arm64,
    Member ''real_blocked'' sigset_t_arm64, Member ''saved_sigmask'' sigset_t_arm64,
    Member ''pending'' sigpending_arm64, Member ''sas_ss_sp'' (Prim 8),
    Member ''sas_ss_size'' (Prim 8), Member ''sas_ss_flags'' (Prim 4),
    Member ''task_works'' (Prim 8), Member ''audit_context'' (Prim 8),
    Member ''loginuid'' kuid_t_arm64, Member ''sessionid'' (Prim 4),
    Member ''seccomp'' seccomp_arm64, Member ''parent_exec_id'' (Prim 8),
    Member ''self_exec_id'' (Prim 8), Member ''alloc_lock'' spinlock_arm64,
    Member ''pi_lock'' raw_spinlock_arm64, Member ''wake_q'' wake_q_node_arm64,
    Member ''pi_waiters'' rb_root_cached_arm64, Member ''pi_top_task'' (Prim 8),
    Member ''pi_blocked_on'' (Prim 8), Member ''irqtrace'' irqtrace_events_arm64,
    Member ''hardirq_threaded'' (Prim 4), Member ''hardirq_chain_key'' (Prim 8),
    Member ''softirqs_enabled'' (Prim 4), Member ''softirq_context'' (Prim 4),
    Member ''irq_config'' (Prim 4), Member ''journal_info'' (Prim 8),
    Member ''bio_list'' (Prim 8), Member ''plug'' (Prim 8), Member ''reclaim_state'' (Prim 8),
    Member ''backing_dev_info'' (Prim 8), Member ''io_context'' (Prim 8),
    Member ''capture_control'' (Prim 8), Member ''ptrace_message'' (Prim 8),
    Member ''last_siginfo'' (Prim 8), Member ''ioac'' task_io_accounting_arm64,
    Member ''acct_rss_mem1'' (Prim 8), Member ''acct_vm_mem1'' (Prim 8),
    Member ''acct_timexpd'' (Prim 8), Member ''mems_allowed'' nodemask_t_arm64,
    Member ''mems_allowed_seq'' seqcount_spinlock_arm64,
    Member ''cpuset_mem_spread_rotor'' (Prim 4), Member ''cpuset_slab_spread_rotor'' (Prim 4),
    Member ''cgroups'' (Prim 8), Member ''cg_list'' list_head_arm64,
    Member ''robust_list'' (Prim 8), Member ''compat_robust_list'' (Prim 8),
    Member ''pi_state_list'' list_head_arm64, Member ''pi_state_cache'' (Prim 8),
    Member ''futex_exit_mutex'' mutex_arm64, Member ''futex_state'' (Prim 4),
    Member ''perf_event_ctxp'' (Arr (Prim 8) 2), Member ''perf_event_mutex'' mutex_arm64,
    Member ''perf_event_list'' list_head_arm64, Member ''preempt_disable_ip'' (Prim 8),
    Member ''rseq'' (Prim 8), Member ''rseq_sig'' (Prim 4), Member ''rseq_event_mask'' (Prim 8),
    Member ''tlb_ubc'' tlbflush_unmap_batch_arm64,
    Member '''' (Union [Member ''rcu_users'' refcount_struct_arm64, Member ''rcu'' callback_head_arm64]),
    Member ''splice_pipe'' (Prim 8), Member ''task_frag'' page_frag_arm64,
    Member ''delays'' (Prim 8), Member ''nr_dirtied'' (Prim 4),
    Member ''nr_dirtied_pause'' (Prim 4), Member ''dirty_paused_when'' (Prim 8),
    Member ''latency_record_count'' (Prim 4),
    Member ''latency_record'' (Arr latency_record_arm64 32), Member ''timer_slack_ns'' (Prim 8),
    Member ''default_timer_slack_ns'' (Prim 8), Member ''curr_ret_stack'' (Prim 4),
    Member ''curr_ret_depth'' (Prim 4), Member ''ret_stack'' (Prim 8),
    Member ''ftrace_timestamp'' (Prim 8), Member ''trace_overrun'' atomic_t_arm64,
    Member ''tracing_graph_pause'' atomic_t_arm64, Member ''trace'' (Prim 8),
    Member ''trace_recursion'' (Prim 8), Member ''memcg_in_oom'' (Prim 8),
    Member ''memcg_oom_gfp_mask'' (Prim 4), Member ''memcg_oom_order'' (Prim 4),
    Member ''memcg_nr_pages_over_high'' (Prim 4), Member ''active_memcg'' (Prim 8),
    Member ''throttle_queue'' (Prim 8), Member ''pagefault_disabled'' (Prim 4),
    Member ''oom_reaper_list'' (Prim 8), Member ''stack_vm_area'' (Prim 8),
    Member ''stack_refcount'' refcount_struct_arm64, Member ''security'' (Prim 8),
    Bits '''' 8 64, Member ''thread'' thread_struct_arm64, Bits '''' 8 64, Bits '''' 8 64,
    Bits '''' 8 64, Bits '''' 8 64]"

definition nsproxy_arm64 :: ctype where
  "nsproxy_arm64 = Struct [
    Member ''count'' atomic_t_arm64, Member ''uts_ns'' (Prim 8), Member ''ipc_ns'' (Prim 8),
    Member ''mnt_ns'' (Prim 8), Member ''pid_ns_for_children'' (Prim 8),
    Member ''net_ns'' (Prim 8), Member ''time_ns'' (Prim 8),
    Member ''time_ns_for_children'' (Prim 8), Member ''cgroup_ns'' (Prim 8)]"

definition upid_arm64 :: ctype where
  "upid_arm64 = Struct [Member ''nr'' (Prim 4), Member ''ns'' (Prim 8)]"

definition wait_queue_head_arm64 :: ctype where
  "wait_queue_head_arm64 = Struct [
    Member ''lock'' spinlock_arm64, Member ''head'' list_head_arm64]"

definition pid_arm64 :: ctype where
  "pid_arm64 = Struct [
    Member ''count'' refcount_struct_arm64, Member ''level'' (Prim 4),
    Member ''lock'' spinlock_arm64, Member ''tasks'' (Arr hlist_head_arm64 4),
    Member ''inodes'' hlist_head_arm64, Member ''wait_pidfd'' wait_queue_head_arm64,
    Member ''rcu'' callback_head_arm64, Member ''numbers'' (Arr upid_arm64 1)]"

definition kref_arm64 :: ctype where
  "kref_arm64 = Struct [Member ''refcount'' refcount_struct_arm64]"

definition xarray_arm64 :: ctype where
  "xarray_arm64 = Struct [
    Member ''xa_lock'' spinlock_arm64, Member ''xa_flags'' (Prim 4), Member ''xa_head'' (Prim 8)]"

definition idr_arm64 :: ctype where
  "idr_arm64 = Struct [
    Member ''idr_rt'' xarray_arm64, Member ''idr_base'' (Prim 4), Member ''idr_next'' (Prim 4)]"

definition ns_common_arm64 :: ctype where
  "ns_common_arm64 = Struct [
    Member ''stashed'' atomic64_t_arm64, Member ''ops'' (Prim 8), Member ''inum'' (Prim 4)]"

definition pid_namespace_arm64 :: ctype where
  "pid_namespace_arm64 = Struct [
    Member ''kref'' kref_arm64, Member ''idr'' idr_arm64, Member ''rcu'' callback_head_arm64,
    Member ''pid_allocated'' (Prim 4), Member ''child_reaper'' (Prim 8),
    Member ''pid_cachep'' (Prim 8), Member ''level'' (Prim 4), Member ''parent'' (Prim 8),
    Member ''bacct'' (Prim 8), Member ''user_ns'' (Prim 8), Member ''ucounts'' (Prim 8),
    Member ''reboot'' (Prim 4), Member ''ns'' ns_common_arm64]"

definition user_pt_regs_arm64 :: ctype where
  "user_pt_regs_arm64 = Struct [
    Member ''regs'' (Arr (Prim 8) 31), Member ''sp'' (Prim 8), Member ''pc'' (Prim 8),
    Member ''pstate'' (Prim 8)]"

definition pt_regs_arm64 :: ctype where
  "pt_regs_arm64 = Struct [
    Member '''' (Union [Member ''user_regs'' user_pt_regs_arm64, Member '''' (Struct [Member ''regs'' (Arr (Prim 8) 31), Member ''sp'' (Prim 8), Member ''pc'' (Prim 8), Member ''pstate'' (Prim 8)])]),
    Member ''orig_x0'' (Prim 8), Member ''syscallno'' (Prim 4), Member ''unused2'' (Prim 4),
    Member ''orig_addr_limit'' (Prim 8), Member ''pmr_save'' (Prim 8),
    Member ''stackframe'' (Arr (Prim 8) 2), Member ''lockdep_hardirqs'' (Prim 8),
    Member ''exit_rcu'' (Prim 8)]"

definition bpf_perf_event_data_arm64 :: ctype where
  "bpf_perf_event_data_arm64 = Struct [
    Member ''regs'' user_pt_regs_arm64, Member ''sample_period'' (Prim 8),
    Member ''addr'' (Prim 8)]"

definition bpf_perf_event_value_arm64 :: ctype where
  "bpf_perf_event_value_arm64 = Struct [
    Member ''counter'' (Prim 8), Member ''enabled'' (Prim 8), Member ''running'' (Prim 8)]"

section \<open>Sizes and alignments\<close>

lemma thread_info_arm64_layout [layout_simps]:
  "csizeof thread_info_arm64 = 24" "calignof thread_info_arm64 = 8" "wf_type thread_info_arm64"
  by (simp_all add: thread_info_arm64_def layout_simps layout_eval)

lemma atomic_t_arm64_layout [layout_simps]:
  "csizeof atomic_t_arm64 = 4" "calignof atomic_t_arm64 = 4" "wf_type atomic_t_arm64"
  by (simp_all add: atomic_t_arm64_def layout_simps layout_eval)

lemma refcount_struct_arm64_layout [layout_simps]:
  "csizeof refcount_struct_arm64 = 4" "calignof refcount_struct_arm64 = 4" "wf_type refcount_struct_arm64"
  by (simp_all add: refcount_struct_arm64_def layout_simps layout_eval)

lemma llist_node_arm64_layout [layout_simps]:
  "csizeof llist_node_arm64 = 8" "calignof llist_node_arm64 = 8" "wf_type llist_node_arm64"
  by (simp_all add: llist_node_arm64_def layout_simps layout_eval)

lemma call_single_node_arm64_layout [layout_simps]:
  "csizeof call_single_node_arm64 = 16" "calignof call_single_node_arm64 = 8" "wf_type call_single_node_arm64"
  by (simp_all add: call_single_node_arm64_def layout_simps layout_eval)

lemma load_weight_arm64_layout [layout_simps]:
  "csizeof load_weight_arm64 = 16" "calignof load_weight_arm64 = 8" "wf_type load_weight_arm64"
  by (simp_all add: load_weight_arm64_def layout_simps layout_eval)

lemma rb_node_arm64_layout [layout_simps]:
  "csizeof rb_node_arm64 = 24" "calignof rb_node_arm64 = 8" "wf_type rb_node_arm64"
  by (simp_all add: rb_node_arm64_def layout_simps layout_eval)

lemma list_head_arm64_layout [layout_simps]:
  "csizeof list_head_arm64 = 16" "calignof list_head_arm64 = 8" "wf_type list_head_arm64"
  by (simp_all add: list_head_arm64_def layout_simps layout_eval)

lemma sched_statistics_arm64_layout [layout_simps]:
  "csizeof sched_statistics_arm64 = 216" "calignof sched_statistics_arm64 = 8" "wf_type sched_statistics_arm64"
  by (simp_all add: sched_statistics_arm64_def layout_simps layout_eval)

lemma util_est_arm64_layout [layout_simps]:
  "csizeof util_est_arm64 = 8" "calignof util_est_arm64 = 4" "wf_type util_est_arm64"
  by (simp_all add: util_est_arm64_def layout_simps layout_eval)

lemma sched_avg_arm64_layout [layout_simps]:
  "csizeof sched_avg_arm64 = 64" "calignof sched_avg_arm64 = 8" "wf_type sched_avg_arm64"
  by (simp_all add: sched_avg_arm64_def layout_simps layout_eval)

lemma sched_entity_arm64_layout [layout_simps]:
  "csizeof sched_entity_arm64 = 448" "calignof sched_entity_arm64 = 8" "wf_type sched_entity_arm64"
  by (simp_all add: sched_entity_arm64_def layout_simps layout_eval)

lemma sched_rt_entity_arm64_layout [layout_simps]:
  "csizeof sched_rt_entity_arm64 = 48" "calignof sched_rt_entity_arm64 = 8" "wf_type sched_rt_entity_arm64"
  by (simp_all add: sched_rt_entity_arm64_def layout_simps layout_eval)

lemma timerqueue_node_arm64_layout [layout_simps]:
  "csizeof timerqueue_node_arm64 = 32" "calignof timerqueue_node_arm64 = 8" "wf_type timerqueue_node_arm64"
  by (simp_all add: timerqueue_node_arm64_def layout_simps layout_eval)

lemma hrtimer_arm64_layout [layout_simps]:
  "csizeof hrtimer_arm64 = 64" "calignof hrtimer_arm64 = 8" "wf_type hrtimer_arm64"
  by (simp_all add: hrtimer_arm64_def layout_simps layout_eval)

lemma sched_dl_entity_arm64_layout [layout_simps]:
  "csizeof sched_dl_entity_arm64 = 224" "calignof sched_dl_entity_arm64 = 8" "wf_type sched_dl_entity_arm64"
  by (simp_all add: sched_dl_entity_arm64_def layout_simps layout_eval)

lemma hlist_head_arm64_layout [layout_simps]:
  "csizeof hlist_head_arm64 = 8" "calignof hlist_head_arm64 = 8" "wf_type hlist_head_arm64"
  by (simp_all add: hlist_head_arm64_def layout_simps layout_eval)

lemma cpumask_arm64_layout [layout_simps]:
  "csizeof cpumask_arm64 = 32" "calignof cpumask_arm64 = 8" "wf_type cpumask_arm64"
  by (simp_all add: cpumask_arm64_def layout_simps layout_eval)

lemma rcu_special_arm64_layout [layout_simps]:
  "csizeof rcu_special_arm64 = 4" "calignof rcu_special_arm64 = 4" "wf_type rcu_special_arm64"
  by (simp_all add: rcu_special_arm64_def layout_simps layout_eval)

lemma sched_info_arm64_layout [layout_simps]:
  "csizeof sched_info_arm64 = 32" "calignof sched_info_arm64 = 8" "wf_type sched_info_arm64"
  by (simp_all add: sched_info_arm64_def layout_simps layout_eval)

lemma plist_node_arm64_layout [layout_simps]:
  "csizeof plist_node_arm64 = 40" "calignof plist_node_arm64 = 8" "wf_type plist_node_arm64"
  by (simp_all add: plist_node_arm64_def layout_simps layout_eval)

lemma vmacache_arm64_layout [layout_simps]:
  "csizeof vmacache_arm64 = 40" "calignof vmacache_arm64 = 8" "wf_type vmacache_arm64"
  by (simp_all add: vmacache_arm64_def layout_simps layout_eval)

lemma task_rss_stat_arm64_layout [layout_simps]:
  "csizeof task_rss_stat_arm64 = 20" "calignof task_rss_stat_arm64 = 4" "wf_type task_rss_stat_arm64"
  by (simp_all add: task_rss_stat_arm64_def layout_simps layout_eval)

lemma restart_block_arm64_layout [layout_simps]:
  "csizeof restart_block_arm64 = 48" "calignof restart_block_arm64 = 8" "wf_type restart_block_arm64"
  by (simp_all add: restart_block_arm64_def layout_simps layout_eval)

lemma hlist_node_arm64_layout [layout_simps]:
  "csizeof hlist_node_arm64 = 16" "calignof hlist_node_arm64 = 8" "wf_type hlist_node_arm64"
  by (simp_all add: hlist_node_arm64_def layout_simps layout_eval)

lemma qspinlock_arm64_layout [layout_simps]:
  "csizeof qspinlock_arm64 = 4" "calignof qspinlock_arm64 = 4" "wf_type qspinlock_arm64"
  by (simp_all add: qspinlock_arm64_def layout_simps layout_eval)

lemma raw_spinlock_arm64_layout [layout_simps]:
  "csizeof raw_spinlock_arm64 = 4" "calignof raw_spinlock_arm64 = 4" "wf_type raw_spinlock_arm64"
  by (simp_all add: raw_spinlock_arm64_def layout_simps layout_eval)

lemma prev_cputime_arm64_layout [layout_simps]:
  "csizeof prev_cputime_arm64 = 24" "calignof prev_cputime_arm64 = 8" "wf_type prev_cputime_arm64"
  by (simp_all add: prev_cputime_arm64_def layout_simps layout_eval)

lemma rb_root_arm64_layout [layout_simps]:
  "csizeof rb_root_arm64 = 8" "calignof rb_root_arm64 = 8" "wf_type rb_root_arm64"
  by (simp_all add: rb_root_arm64_def layout_simps layout_eval)

lemma rb_root_cached_arm64_layout [layout_simps]:
  "csizeof rb_root_cached_arm64 = 16" "calignof rb_root_cached_arm64 = 8" "wf_type rb_root_cached_arm64"
  by (simp_all add: rb_root_cached_arm64_def layout_simps layout_eval)

lemma timerqueue_head_arm64_layout [layout_simps]:
  "csizeof timerqueue_head_arm64 = 16" "calignof timerqueue_head_arm64 = 8" "wf_type timerqueue_head_arm64"
  by (simp_all add: timerqueue_head_arm64_def layout_simps layout_eval)

lemma posix_cputimer_base_arm64_layout [layout_simps]:
  "csizeof posix_cputimer_base_arm64 = 24" "calignof posix_cputimer_base_arm64 = 8" "wf_type posix_cputimer_base_arm64"
  by (simp_all add: posix_cputimer_base_arm64_def layout_simps layout_eval)

lemma posix_cputimers_arm64_layout [layout_simps]:
  "csizeof posix_cputimers_arm64 = 80" "calignof posix_cputimers_arm64 = 8" "wf_type posix_cputimers_arm64"
  by (simp_all add: posix_cputimers_arm64_def layout_simps layout_eval)

lemma sysv_sem_arm64_layout [layout_simps]:
  "csizeof sysv_sem_arm64 = 8" "calignof sysv_sem_arm64 = 8" "wf_type sysv_sem_arm64"
  by (simp_all add: sysv_sem_arm64_def layout_simps layout_eval)

lemma sysv_shm_arm64_layout [layout_simps]:
  "csizeof sysv_shm_arm64 = 16" "calignof sysv_shm_arm64 = 8" "wf_type sysv_shm_arm64"
  by (simp_all add: sysv_shm_arm64_def layout_simps layout_eval)

lemma sigset_t_arm64_layout [layout_simps]:
  "csizeof sigset_t_arm64 = 8" "calignof sigset_t_arm64 = 8" "wf_type sigset_t_arm64"
  by (simp_all add: sigset_t_arm64_def layout_simps layout_eval)

lemma sigpending_arm64_layout [layout_simps]:
  "csizeof sigpending_arm64 = 24" "calignof sigpending_arm64 = 8" "wf_type sigpending_arm64"
  by (simp_all add: sigpending_arm64_def layout_simps layout_eval)

lemma kuid_t_arm64_layout [layout_simps]:
  "csizeof kuid_t_arm64 = 4" "calignof kuid_t_arm64 = 4" "wf_type kuid_t_arm64"
  by (simp_all add: kuid_t_arm64_def layout_simps layout_eval)

lemma seccomp_arm64_layout [layout_simps]:
  "csizeof seccomp_arm64 = 16" "calignof seccomp_arm64 = 8" "wf_type seccomp_arm64"
  by (simp_all add: seccomp_arm64_def layout_simps layout_eval)

lemma spinlock_arm64_layout [layout_simps]:
  "csizeof spinlock_arm64 = 4" "calignof spinlock_arm64 = 4" "wf_type spinlock_arm64"
  by (simp_all add: spinlock_arm64_def layout_simps layout_eval)

lemma wake_q_node_arm64_layout [layout_simps]:
  "csizeof wake_q_node_arm64 = 8" "calignof wake_q_node_arm64 = 8" "wf_type wake_q_node_arm64"
  by (simp_all add: wake_q_node_arm64_def layout_simps layout_eval)

lemma irqtrace_events_arm64_layout [layout_simps]:
  "csizeof irqtrace_events_arm64 = 56" "calignof irqtrace_events_arm64 = 8" "wf_type irqtrace_events_arm64"
  by (simp_all add: irqtrace_events_arm64_def layout_simps layout_eval)

lemma task_io_accounting_arm64_layout [layout_simps]:
  "csizeof task_io_accounting_arm64 = 56" "calignof task_io_accounting_arm64 = 8" "wf_type task_io_accounting_arm64"
  by (simp_all add: task_io_accounting_arm64_def layout_simps layout_eval)

lemma nodemask_t_arm64_layout [layout_simps]:
  "csizeof nodemask_t_arm64 = 8" "calignof nodemask_t_arm64 = 8" "wf_type nodemask_t_arm64"
  by (simp_all add: nodemask_t_arm64_def layout_simps layout_eval)

lemma seqcount_arm64_layout [layout_simps]:
  "csizeof seqcount_arm64 = 4" "calignof seqcount_arm64 = 4" "wf_type seqcount_arm64"
  by (simp_all add: seqcount_arm64_def layout_simps layout_eval)

lemma seqcount_spinlock_arm64_layout [layout_simps]:
  "csizeof seqcount_spinlock_arm64 = 4" "calignof seqcount_spinlock_arm64 = 4" "wf_type seqcount_spinlock_arm64"
  by (simp_all add: seqcount_spinlock_arm64_def layout_simps layout_eval)

lemma atomic64_t_arm64_layout [layout_simps]:
  "csizeof atomic64_t_arm64 = 8" "calignof atomic64_t_arm64 = 8" "wf_type atomic64_t_arm64"
  by (simp_all add: atomic64_t_arm64_def layout_simps layout_eval)

lemma optimistic_spin_queue_arm64_layout [layout_simps]:
  "csizeof optimistic_spin_queue_arm64 = 4" "calignof optimistic_spin_queue_arm64 = 4" "wf_type optimistic_spin_queue_arm64"
  by (simp_all add: optimistic_spin_queue_arm64_def layout_simps layout_eval)

lemma mutex_arm64_layout [layout_simps]:
  "csizeof mutex_arm64 = 32" "calignof mutex_arm64 = 8" "wf_type mutex_arm64"
  by (simp_all add: mutex_arm64_def layout_simps layout_eval)

lemma tlbflush_unmap_batch_arm64_layout [layout_simps]:
  "csizeof tlbflush_unmap_batch_arm64 = 0" "calignof tlbflush_unmap_batch_arm64 = 1" "wf_type tlbflush_unmap_batch_arm64"
  by (simp_all add: tlbflush_unmap_batch_arm64_def layout_simps layout_eval)

lemma callback_head_arm64_layout [layout_simps]:
  "csizeof callback_head_arm64 = 16" "calignof callback_head_arm64 = 8" "wf_type callback_head_arm64"
  by (simp_all add: callback_head_arm64_def layout_simps layout_eval)

lemma page_frag_arm64_layout [layout_simps]:
  "csizeof page_frag_arm64 = 16" "calignof page_frag_arm64 = 8" "wf_type page_frag_arm64"
  by (simp_all add: page_frag_arm64_def layout_simps layout_eval)

lemma latency_record_arm64_layout [layout_simps]:
  "csizeof latency_record_arm64 = 120" "calignof latency_record_arm64 = 8" "wf_type latency_record_arm64"
  by (simp_all add: latency_record_arm64_def layout_simps layout_eval)

lemma cpu_context_arm64_layout [layout_simps]:
  "csizeof cpu_context_arm64 = 104" "calignof cpu_context_arm64 = 8" "wf_type cpu_context_arm64"
  by (simp_all add: cpu_context_arm64_def layout_simps layout_eval)

lemma user_fpsimd_state_arm64_layout [layout_simps]:
  "csizeof user_fpsimd_state_arm64 = 528" "calignof user_fpsimd_state_arm64 = 16" "wf_type user_fpsimd_state_arm64"
  by (simp_all add: user_fpsimd_state_arm64_def layout_simps layout_eval)

lemma debug_info_arm64_layout [layout_simps]:
  "csizeof debug_info_arm64 = 272" "calignof debug_info_arm64 = 8" "wf_type debug_info_arm64"
  by (simp_all add: debug_info_arm64_def layout_simps layout_eval)

lemma ptrauth_key_arm64_layout [layout_simps]:
  "csizeof ptrauth_key_arm64 = 16" "calignof ptrauth_key_arm64 = 8" "wf_type ptrauth_key_arm64"
  by (simp_all add: ptrauth_key_arm64_def layout_simps layout_eval)

lemma ptrauth_keys_user_arm64_layout [layout_simps]:
  "csizeof ptrauth_keys_user_arm64 = 80" "calignof ptrauth_keys_user_arm64 = 8" "wf_type ptrauth_keys_user_arm64"
  by (simp_all add: ptrauth_keys_user_arm64_def layout_simps layout_eval)

lemma ptrauth_keys_kernel_arm64_layout [layout_simps]:
  "csizeof ptrauth_keys_kernel_arm64 = 16" "calignof ptrauth_keys_kernel_arm64 = 8" "wf_type ptrauth_keys_kernel_arm64"
  by (simp_all add: ptrauth_keys_kernel_arm64_def layout_simps layout_eval)

lemma thread_struct_arm64_layout [layout_simps]:
  "csizeof thread_struct_arm64 = 1088" "calignof thread_struct_arm64 = 16" "wf_type thread_struct_arm64"
  by (simp_all add: thread_struct_arm64_def layout_simps layout_eval)

lemma task_struct_arm64_layout [layout_simps]:
  "csizeof task_struct_arm64 = 7744" "calignof task_struct_arm64 = 16" "wf_type task_struct_arm64"
  by (simp_all add: task_struct_arm64_def layout_simps layout_eval)

lemma nsproxy_arm64_layout [layout_simps]:
  "csizeof nsproxy_arm64 = 72" "calignof nsproxy_arm64 = 8" "wf_type nsproxy_arm64"
  by (simp_all add: nsproxy_arm64_def layout_simps layout_eval)

lemma upid_arm64_layout [layout_simps]:
  "csizeof upid_arm64 = 16" "calignof upid_arm64 = 8" "wf_type upid_arm64"
  by (simp_all add: upid_arm64_def layout_simps layout_eval)

lemma wait_queue_head_arm64_layout [layout_simps]:
  "csizeof wait_queue_head_arm64 = 24" "calignof wait_queue_head_arm64 = 8" "wf_type wait_queue_head_arm64"
  by (simp_all add: wait_queue_head_arm64_def layout_simps layout_eval)

lemma pid_arm64_layout [layout_simps]:
  "csizeof pid_arm64 = 112" "calignof pid_arm64 = 8" "wf_type pid_arm64"
  by (simp_all add: pid_arm64_def layout_simps layout_eval)

lemma kref_arm64_layout [layout_simps]:
  "csizeof kref_arm64 = 4" "calignof kref_arm64 = 4" "wf_type kref_arm64"
  by (simp_all add: kref_arm64_def layout_simps layout_eval)

lemma xarray_arm64_layout [layout_simps]:
  "csizeof xarray_arm64 = 16" "calignof xarray_arm64 = 8" "wf_type xarray_arm64"
  by (simp_all add: xarray_arm64_def layout_simps layout_eval)

lemma idr_arm64_layout [layout_simps]:
  "csizeof idr_arm64 = 24" "calignof idr_arm64 = 8" "wf_type idr_arm64"
  by (simp_all add: idr_arm64_def layout_simps layout_eval)

lemma ns_common_arm64_layout [layout_simps]:
  "csizeof ns_common_arm64 = 24" "calignof ns_common_arm64 = 8" "wf_type ns_common_arm64"
  by (simp_all add: ns_common_arm64_def layout_simps layout_eval)

lemma pid_namespace_arm64_layout [layout_simps]:
  "csizeof pid_namespace_arm64 = 144" "calignof pid_namespace_arm64 = 8" "wf_type pid_namespace_arm64"
  by (simp_all add: pid_namespace_arm64_def layout_simps layout_eval)

lemma user_pt_regs_arm64_layout [layout_simps]:
  "csizeof user_pt_regs_arm64 = 272" "calignof user_pt_regs_arm64 = 8" "wf_type user_pt_regs_arm64"
  by (simp_all add: user_pt_regs_arm64_def layout_simps layout_eval)

lemma pt_regs_arm64_layout [layout_simps]:
  "csizeof pt_regs_arm64 = 336" "calignof pt_regs_arm64 = 8" "wf_type pt_regs_arm64"
  by (simp_all add: pt_regs_arm64_def layout_simps layout_eval)

lemma bpf_perf_event_data_arm64_layout [layout_simps]:
  "csizeof bpf_perf_event_data_arm64 = 288" "calignof bpf_perf_event_data_arm64 = 8" "wf_type bpf_perf_event_data_arm64"
  by (simp_all add: bpf_perf_event_data_arm64_def layout_simps layout_eval)

lemma bpf_perf_event_value_arm64_layout [layout_simps]:
  "csizeof bpf_perf_event_value_arm64 = 24" "calignof bpf_perf_event_value_arm64 = 8" "wf_type bpf_perf_event_value_arm64"
  by (simp_all add: bpf_perf_event_value_arm64_def layout_simps layout_eval)

end
