(* ===== verification/Bpf_Tracing.thy ===== *)
theory Bpf_Tracing
  imports Bpf_Helpers Vmlinux_X86 Vmlinux_Arm64
begin

text \<open>
  \<open>ebpf/bpf/libbpf/bpf_tracing.h\<close>: the choice of the target architecture from the macros the
  compiler defines, the tables that say which saved register holds which argument, the two
  families of register accessors (direct loads, and relocatable reads with \<open>_CORE\<close>), the reads of
  the return address, and the wrappers that unpack the context of a program into typed arguments.

  A table gives for a register role the path of the field in the saved register file, or the
  constant 0, or nothing where the header defines no macro. The lemmas show that the two families
  read the same field, that the paths exist with eight bytes in the register files of the kernel
  headers, and that the wrappers deliver the arguments in order.
\<close>

section \<open>The target\<close>

datatype bpf_target =
  target_x86 | target_s390 | target_arm | target_arm64
| target_mips | target_powerpc | target_sparc | target_riscv

text \<open>
  \<open>defs\<close> lists the macros that are defined, \<open>xlen\<close> is the value of \<open>__riscv_xlen\<close>. The
  first list comes from the build, the second from the compiler.
\<close>

fun first_defined :: "string list \<Rightarrow> (string \<times> bpf_target) list \<Rightarrow> bpf_target option" where
  "first_defined defs [] = None"
| "first_defined defs ((m, t) # ts) = (if m \<in> set defs then Some t else first_defined defs ts)"

definition build_targets :: "(string \<times> bpf_target) list" where
  "build_targets =
     [(''__TARGET_ARCH_x86'', target_x86), (''__TARGET_ARCH_s390'', target_s390),
      (''__TARGET_ARCH_arm'', target_arm), (''__TARGET_ARCH_arm64'', target_arm64),
      (''__TARGET_ARCH_mips'', target_mips), (''__TARGET_ARCH_powerpc'', target_powerpc),
      (''__TARGET_ARCH_sparc'', target_sparc), (''__TARGET_ARCH_riscv'', target_riscv)]"

definition compiler_targets :: "(string \<times> bpf_target) list" where
  "compiler_targets =
     [(''__x86_64__'', target_x86), (''__s390__'', target_s390), (''__arm__'', target_arm),
      (''__aarch64__'', target_arm64), (''__mips__'', target_mips),
      (''__powerpc__'', target_powerpc), (''__sparc__'', target_sparc)]"

definition select_target :: "string list \<Rightarrow> nat \<Rightarrow> bpf_target option" where
  "select_target defs xlen =
     (case first_defined defs build_targets of
        Some t \<Rightarrow> Some t
      | None \<Rightarrow>
          (case first_defined defs compiler_targets of
             Some t \<Rightarrow> Some t
           | None \<Rightarrow> (if ''__riscv'' \<in> set defs \<and> xlen = 64 then Some target_riscv else None)))"

section \<open>The register tables\<close>

datatype pt_reg = PARM1 | PARM2 | PARM3 | PARM4 | PARM5 | RET | FP | RC | SP | IP

datatype reg_src = Zero | At "accessor list"

text \<open>
  The tables, in the order of the header. The indices of sparc's register windows come from a
  kernel header and are a parameter, \<open>ureg\<close>.
\<close>

fun regs_x86_kernel :: "pt_reg \<Rightarrow> reg_src option" where
  "regs_x86_kernel PARM1 = Some (At [Field ''di''])"
| "regs_x86_kernel PARM2 = Some (At [Field ''si''])"
| "regs_x86_kernel PARM3 = Some (At [Field ''dx''])"
| "regs_x86_kernel PARM4 = Some (At [Field ''cx''])"
| "regs_x86_kernel PARM5 = Some (At [Field ''r8''])"
| "regs_x86_kernel RET = Some (At [Field ''sp''])"
| "regs_x86_kernel FP = Some (At [Field ''bp''])"
| "regs_x86_kernel RC = Some (At [Field ''ax''])"
| "regs_x86_kernel SP = Some (At [Field ''sp''])"
| "regs_x86_kernel IP = Some (At [Field ''ip''])"

fun regs_x86_kernel_core :: "pt_reg \<Rightarrow> reg_src option" where
  "regs_x86_kernel_core PARM1 = Some (At [Field ''di''])"
| "regs_x86_kernel_core PARM2 = Some (At [Field ''si''])"
| "regs_x86_kernel_core PARM3 = Some (At [Field ''dx''])"
| "regs_x86_kernel_core PARM4 = Some (At [Field ''cx''])"
| "regs_x86_kernel_core PARM5 = Some (At [Field ''r8''])"
| "regs_x86_kernel_core RET = Some (At [Field ''sp''])"
| "regs_x86_kernel_core FP = Some (At [Field ''bp''])"
| "regs_x86_kernel_core RC = Some (At [Field ''ax''])"
| "regs_x86_kernel_core SP = Some (At [Field ''sp''])"
| "regs_x86_kernel_core IP = Some (At [Field ''ip''])"

fun regs_i386 :: "pt_reg \<Rightarrow> reg_src option" where
  "regs_i386 PARM1 = Some (At [Field ''eax''])"
| "regs_i386 PARM2 = Some (At [Field ''edx''])"
| "regs_i386 PARM3 = Some (At [Field ''ecx''])"
| "regs_i386 PARM4 = Some Zero"
| "regs_i386 PARM5 = Some Zero"
| "regs_i386 RET = Some (At [Field ''esp''])"
| "regs_i386 FP = Some (At [Field ''ebp''])"
| "regs_i386 RC = Some (At [Field ''eax''])"
| "regs_i386 SP = Some (At [Field ''esp''])"
| "regs_i386 IP = Some (At [Field ''eip''])"

fun regs_i386_core :: "pt_reg \<Rightarrow> reg_src option" where
  "regs_i386_core PARM1 = Some (At [Field ''eax''])"
| "regs_i386_core PARM2 = Some (At [Field ''edx''])"
| "regs_i386_core PARM3 = Some (At [Field ''ecx''])"
| "regs_i386_core PARM4 = Some Zero"
| "regs_i386_core PARM5 = Some Zero"
| "regs_i386_core RET = Some (At [Field ''esp''])"
| "regs_i386_core FP = Some (At [Field ''ebp''])"
| "regs_i386_core RC = Some (At [Field ''eax''])"
| "regs_i386_core SP = Some (At [Field ''esp''])"
| "regs_i386_core IP = Some (At [Field ''eip''])"

fun regs_x86_64 :: "pt_reg \<Rightarrow> reg_src option" where
  "regs_x86_64 PARM1 = Some (At [Field ''rdi''])"
| "regs_x86_64 PARM2 = Some (At [Field ''rsi''])"
| "regs_x86_64 PARM3 = Some (At [Field ''rdx''])"
| "regs_x86_64 PARM4 = Some (At [Field ''rcx''])"
| "regs_x86_64 PARM5 = Some (At [Field ''r8''])"
| "regs_x86_64 RET = Some (At [Field ''rsp''])"
| "regs_x86_64 FP = Some (At [Field ''rbp''])"
| "regs_x86_64 RC = Some (At [Field ''rax''])"
| "regs_x86_64 SP = Some (At [Field ''rsp''])"
| "regs_x86_64 IP = Some (At [Field ''rip''])"

fun regs_x86_64_core :: "pt_reg \<Rightarrow> reg_src option" where
  "regs_x86_64_core PARM1 = Some (At [Field ''rdi''])"
| "regs_x86_64_core PARM2 = Some (At [Field ''rsi''])"
| "regs_x86_64_core PARM3 = Some (At [Field ''rdx''])"
| "regs_x86_64_core PARM4 = Some (At [Field ''rcx''])"
| "regs_x86_64_core PARM5 = Some (At [Field ''r8''])"
| "regs_x86_64_core RET = Some (At [Field ''rsp''])"
| "regs_x86_64_core FP = Some (At [Field ''rbp''])"
| "regs_x86_64_core RC = Some (At [Field ''rax''])"
| "regs_x86_64_core SP = Some (At [Field ''rsp''])"
| "regs_x86_64_core IP = Some (At [Field ''rip''])"

fun regs_s390 :: "pt_reg \<Rightarrow> reg_src option" where
  "regs_s390 PARM1 = Some (At [Field ''gprs'', Index 2])"
| "regs_s390 PARM2 = Some (At [Field ''gprs'', Index 3])"
| "regs_s390 PARM3 = Some (At [Field ''gprs'', Index 4])"
| "regs_s390 PARM4 = Some (At [Field ''gprs'', Index 5])"
| "regs_s390 PARM5 = Some (At [Field ''gprs'', Index 6])"
| "regs_s390 RET = Some (At [Field ''gprs'', Index 14])"
| "regs_s390 FP = Some (At [Field ''gprs'', Index 11])"
| "regs_s390 RC = Some (At [Field ''gprs'', Index 2])"
| "regs_s390 SP = Some (At [Field ''gprs'', Index 15])"
| "regs_s390 IP = Some (At [Field ''psw'', Field ''addr''])"

fun regs_s390_core :: "pt_reg \<Rightarrow> reg_src option" where
  "regs_s390_core PARM1 = Some (At [Field ''gprs'', Index 2])"
| "regs_s390_core PARM2 = Some (At [Field ''gprs'', Index 3])"
| "regs_s390_core PARM3 = Some (At [Field ''gprs'', Index 4])"
| "regs_s390_core PARM4 = Some (At [Field ''gprs'', Index 5])"
| "regs_s390_core PARM5 = Some (At [Field ''gprs'', Index 6])"
| "regs_s390_core RET = Some (At [Field ''gprs'', Index 14])"
| "regs_s390_core FP = Some (At [Field ''gprs'', Index 11])"
| "regs_s390_core RC = Some (At [Field ''gprs'', Index 2])"
| "regs_s390_core SP = Some (At [Field ''gprs'', Index 15])"
| "regs_s390_core IP = Some (At [Field ''psw'', Field ''addr''])"

fun regs_arm :: "pt_reg \<Rightarrow> reg_src option" where
  "regs_arm PARM1 = Some (At [Field ''uregs'', Index 0])"
| "regs_arm PARM2 = Some (At [Field ''uregs'', Index 1])"
| "regs_arm PARM3 = Some (At [Field ''uregs'', Index 2])"
| "regs_arm PARM4 = Some (At [Field ''uregs'', Index 3])"
| "regs_arm PARM5 = Some (At [Field ''uregs'', Index 4])"
| "regs_arm RET = Some (At [Field ''uregs'', Index 14])"
| "regs_arm FP = Some (At [Field ''uregs'', Index 11])"
| "regs_arm RC = Some (At [Field ''uregs'', Index 0])"
| "regs_arm SP = Some (At [Field ''uregs'', Index 13])"
| "regs_arm IP = Some (At [Field ''uregs'', Index 12])"

fun regs_arm_core :: "pt_reg \<Rightarrow> reg_src option" where
  "regs_arm_core PARM1 = Some (At [Field ''uregs'', Index 0])"
| "regs_arm_core PARM2 = Some (At [Field ''uregs'', Index 1])"
| "regs_arm_core PARM3 = Some (At [Field ''uregs'', Index 2])"
| "regs_arm_core PARM4 = Some (At [Field ''uregs'', Index 3])"
| "regs_arm_core PARM5 = Some (At [Field ''uregs'', Index 4])"
| "regs_arm_core RET = Some (At [Field ''uregs'', Index 14])"
| "regs_arm_core FP = Some (At [Field ''uregs'', Index 11])"
| "regs_arm_core RC = Some (At [Field ''uregs'', Index 0])"
| "regs_arm_core SP = Some (At [Field ''uregs'', Index 13])"
| "regs_arm_core IP = Some (At [Field ''uregs'', Index 12])"

fun regs_arm64 :: "pt_reg \<Rightarrow> reg_src option" where
  "regs_arm64 PARM1 = Some (At [Field ''regs'', Index 0])"
| "regs_arm64 PARM2 = Some (At [Field ''regs'', Index 1])"
| "regs_arm64 PARM3 = Some (At [Field ''regs'', Index 2])"
| "regs_arm64 PARM4 = Some (At [Field ''regs'', Index 3])"
| "regs_arm64 PARM5 = Some (At [Field ''regs'', Index 4])"
| "regs_arm64 RET = Some (At [Field ''regs'', Index 30])"
| "regs_arm64 FP = Some (At [Field ''regs'', Index 29])"
| "regs_arm64 RC = Some (At [Field ''regs'', Index 0])"
| "regs_arm64 SP = Some (At [Field ''sp''])"
| "regs_arm64 IP = Some (At [Field ''pc''])"

fun regs_arm64_core :: "pt_reg \<Rightarrow> reg_src option" where
  "regs_arm64_core PARM1 = Some (At [Field ''regs'', Index 0])"
| "regs_arm64_core PARM2 = Some (At [Field ''regs'', Index 1])"
| "regs_arm64_core PARM3 = Some (At [Field ''regs'', Index 2])"
| "regs_arm64_core PARM4 = Some (At [Field ''regs'', Index 3])"
| "regs_arm64_core PARM5 = Some (At [Field ''regs'', Index 4])"
| "regs_arm64_core RET = Some (At [Field ''regs'', Index 30])"
| "regs_arm64_core FP = Some (At [Field ''regs'', Index 29])"
| "regs_arm64_core RC = Some (At [Field ''regs'', Index 0])"
| "regs_arm64_core SP = Some (At [Field ''sp''])"
| "regs_arm64_core IP = Some (At [Field ''pc''])"

fun regs_mips :: "pt_reg \<Rightarrow> reg_src option" where
  "regs_mips PARM1 = Some (At [Field ''regs'', Index 4])"
| "regs_mips PARM2 = Some (At [Field ''regs'', Index 5])"
| "regs_mips PARM3 = Some (At [Field ''regs'', Index 6])"
| "regs_mips PARM4 = Some (At [Field ''regs'', Index 7])"
| "regs_mips PARM5 = Some (At [Field ''regs'', Index 8])"
| "regs_mips RET = Some (At [Field ''regs'', Index 31])"
| "regs_mips FP = Some (At [Field ''regs'', Index 30])"
| "regs_mips RC = Some (At [Field ''regs'', Index 2])"
| "regs_mips SP = Some (At [Field ''regs'', Index 29])"
| "regs_mips IP = Some (At [Field ''cp0_epc''])"

fun regs_mips_core :: "pt_reg \<Rightarrow> reg_src option" where
  "regs_mips_core PARM1 = Some (At [Field ''regs'', Index 4])"
| "regs_mips_core PARM2 = Some (At [Field ''regs'', Index 5])"
| "regs_mips_core PARM3 = Some (At [Field ''regs'', Index 6])"
| "regs_mips_core PARM4 = Some (At [Field ''regs'', Index 7])"
| "regs_mips_core PARM5 = Some (At [Field ''regs'', Index 8])"
| "regs_mips_core RET = Some (At [Field ''regs'', Index 31])"
| "regs_mips_core FP = Some (At [Field ''regs'', Index 30])"
| "regs_mips_core RC = Some (At [Field ''regs'', Index 2])"
| "regs_mips_core SP = Some (At [Field ''regs'', Index 29])"
| "regs_mips_core IP = Some (At [Field ''cp0_epc''])"

fun regs_powerpc :: "pt_reg \<Rightarrow> reg_src option" where
  "regs_powerpc PARM1 = Some (At [Field ''gpr'', Index 3])"
| "regs_powerpc PARM2 = Some (At [Field ''gpr'', Index 4])"
| "regs_powerpc PARM3 = Some (At [Field ''gpr'', Index 5])"
| "regs_powerpc PARM4 = Some (At [Field ''gpr'', Index 6])"
| "regs_powerpc PARM5 = Some (At [Field ''gpr'', Index 7])"
| "regs_powerpc RC = Some (At [Field ''gpr'', Index 3])"
| "regs_powerpc SP = Some (At [Field ''sp''])"
| "regs_powerpc IP = Some (At [Field ''nip''])"
| "regs_powerpc _ = None"

fun regs_powerpc_core :: "pt_reg \<Rightarrow> reg_src option" where
  "regs_powerpc_core PARM1 = Some (At [Field ''gpr'', Index 3])"
| "regs_powerpc_core PARM2 = Some (At [Field ''gpr'', Index 4])"
| "regs_powerpc_core PARM3 = Some (At [Field ''gpr'', Index 5])"
| "regs_powerpc_core PARM4 = Some (At [Field ''gpr'', Index 6])"
| "regs_powerpc_core PARM5 = Some (At [Field ''gpr'', Index 7])"
| "regs_powerpc_core RC = Some (At [Field ''gpr'', Index 3])"
| "regs_powerpc_core SP = Some (At [Field ''sp''])"
| "regs_powerpc_core IP = Some (At [Field ''nip''])"
| "regs_powerpc_core _ = None"

fun regs_sparc :: "(string \<Rightarrow> nat) \<Rightarrow> pt_reg \<Rightarrow> reg_src option" where
  "regs_sparc ureg PARM1 = Some (At [Field ''u_regs'', Index (ureg ''UREG_I0'')])"
| "regs_sparc ureg PARM2 = Some (At [Field ''u_regs'', Index (ureg ''UREG_I1'')])"
| "regs_sparc ureg PARM3 = Some (At [Field ''u_regs'', Index (ureg ''UREG_I2'')])"
| "regs_sparc ureg PARM4 = Some (At [Field ''u_regs'', Index (ureg ''UREG_I3'')])"
| "regs_sparc ureg PARM5 = Some (At [Field ''u_regs'', Index (ureg ''UREG_I4'')])"
| "regs_sparc ureg RET = Some (At [Field ''u_regs'', Index (ureg ''UREG_I7'')])"
| "regs_sparc ureg RC = Some (At [Field ''u_regs'', Index (ureg ''UREG_I0'')])"
| "regs_sparc ureg SP = Some (At [Field ''u_regs'', Index (ureg ''UREG_FP'')])"
| "regs_sparc ureg _ = None"

fun regs_sparc_core :: "(string \<Rightarrow> nat) \<Rightarrow> pt_reg \<Rightarrow> reg_src option" where
  "regs_sparc_core ureg PARM1 = Some (At [Field ''u_regs'', Index (ureg ''UREG_I0'')])"
| "regs_sparc_core ureg PARM2 = Some (At [Field ''u_regs'', Index (ureg ''UREG_I1'')])"
| "regs_sparc_core ureg PARM3 = Some (At [Field ''u_regs'', Index (ureg ''UREG_I2'')])"
| "regs_sparc_core ureg PARM4 = Some (At [Field ''u_regs'', Index (ureg ''UREG_I3'')])"
| "regs_sparc_core ureg PARM5 = Some (At [Field ''u_regs'', Index (ureg ''UREG_I4'')])"
| "regs_sparc_core ureg RET = Some (At [Field ''u_regs'', Index (ureg ''UREG_I7'')])"
| "regs_sparc_core ureg RC = Some (At [Field ''u_regs'', Index (ureg ''UREG_I0'')])"
| "regs_sparc_core ureg SP = Some (At [Field ''u_regs'', Index (ureg ''UREG_FP'')])"
| "regs_sparc_core ureg _ = None"

fun regs_riscv :: "pt_reg \<Rightarrow> reg_src option" where
  "regs_riscv PARM1 = Some (At [Field ''a0''])"
| "regs_riscv PARM2 = Some (At [Field ''a1''])"
| "regs_riscv PARM3 = Some (At [Field ''a2''])"
| "regs_riscv PARM4 = Some (At [Field ''a3''])"
| "regs_riscv PARM5 = Some (At [Field ''a4''])"
| "regs_riscv RET = Some (At [Field ''ra''])"
| "regs_riscv FP = Some (At [Field ''s5''])"
| "regs_riscv RC = Some (At [Field ''a5''])"
| "regs_riscv SP = Some (At [Field ''sp''])"
| "regs_riscv IP = Some (At [Field ''epc''])"

fun regs_riscv_core :: "pt_reg \<Rightarrow> reg_src option" where
  "regs_riscv_core PARM1 = Some (At [Field ''a0''])"
| "regs_riscv_core PARM2 = Some (At [Field ''a1''])"
| "regs_riscv_core PARM3 = Some (At [Field ''a2''])"
| "regs_riscv_core PARM4 = Some (At [Field ''a3''])"
| "regs_riscv_core PARM5 = Some (At [Field ''a4''])"
| "regs_riscv_core RET = Some (At [Field ''ra''])"
| "regs_riscv_core FP = Some (At [Field ''fp''])"
| "regs_riscv_core RC = Some (At [Field ''a5''])"
| "regs_riscv_core SP = Some (At [Field ''sp''])"
| "regs_riscv_core IP = Some (At [Field ''epc''])"

text \<open>The instruction pointer of sparc has a name of its own on 64 bits.\<close>

definition regs_sparc_ip :: "bool \<Rightarrow> reg_src" where
  "regs_sparc_ip arch64 = (if arch64 then At [Field ''tpc''] else At [Field ''pc''])"

text \<open>
  The macros the choice of a table depends on: \<open>__KERNEL__\<close> or \<open>__VMLINUX_H__\<close>,
  \<open>__i386__\<close>, and \<open>__arch64__\<close>.
\<close>

record regs_config =
  in_kernel :: bool
  is_i386 :: bool
  is_arch64 :: bool
  ureg_index :: "string \<Rightarrow> nat"

definition PT_REGS :: "regs_config \<Rightarrow> bpf_target \<Rightarrow> pt_reg \<Rightarrow> reg_src option" where
  "PT_REGS c t r =
     (case t of
        target_x86 \<Rightarrow> (if in_kernel c then regs_x86_kernel r
                       else if is_i386 c then regs_i386 r else regs_x86_64 r)
      | target_s390 \<Rightarrow> regs_s390 r
      | target_arm \<Rightarrow> regs_arm r
      | target_arm64 \<Rightarrow> regs_arm64 r
      | target_mips \<Rightarrow> regs_mips r
      | target_powerpc \<Rightarrow> regs_powerpc r
      | target_sparc \<Rightarrow> (if r = IP then Some (regs_sparc_ip (is_arch64 c)) else regs_sparc (ureg_index c) r)
      | target_riscv \<Rightarrow> regs_riscv r)"

definition PT_REGS_CORE :: "regs_config \<Rightarrow> bpf_target \<Rightarrow> pt_reg \<Rightarrow> reg_src option" where
  "PT_REGS_CORE c t r =
     (case t of
        target_x86 \<Rightarrow> (if in_kernel c then regs_x86_kernel_core r
                       else if is_i386 c then regs_i386_core r else regs_x86_64_core r)
      | target_s390 \<Rightarrow> regs_s390_core r
      | target_arm \<Rightarrow> regs_arm_core r
      | target_arm64 \<Rightarrow> regs_arm64_core r
      | target_mips \<Rightarrow> regs_mips_core r
      | target_powerpc \<Rightarrow> regs_powerpc_core r
      | target_sparc \<Rightarrow> (if r = IP then Some (regs_sparc_ip (is_arch64 c)) else regs_sparc_core (ureg_index c) r)
      | target_riscv \<Rightarrow> regs_riscv_core r)"

text \<open>Without a target every accessor is an error of the compiler.\<close>

definition BPF_TARGET_MISSING :: string where
  "BPF_TARGET_MISSING = ''GCC error \"Must specify a BPF target arch via __TARGET_ARCH_xxx\"''"

definition PT_REGS_checked ::
  "regs_config \<Rightarrow> bpf_target option \<Rightarrow> pt_reg \<Rightarrow> string + (reg_src option \<times> reg_src option)" where
  "PT_REGS_checked c tgt r =
     (case tgt of
        None \<Rightarrow> Inl BPF_TARGET_MISSING
      | Some t \<Rightarrow> Inr (PT_REGS c t r, PT_REGS_CORE c t r))"

text \<open>
  The two ways to read a field of the register file \<open>rt\<close> at \<open>ctx\<close>: a load from the context,
  and \<open>BPF_CORE_READ\<close>.
\<close>

fun reg_load :: "memory \<Rightarrow> ctype \<Rightarrow> addr \<Rightarrow> reg_src \<Rightarrow> u64 option" where
  "reg_load mem rt ctx Zero = Some 0"
| "reg_load mem rt ctx (At p) = (case offsetof rt p of Some d \<Rightarrow> mem_word mem (ctx + d) | None \<Rightarrow> None)"

fun reg_core_read :: "'z kernel_scheme \<Rightarrow> ctype \<Rightarrow> addr \<Rightarrow> reg_src \<Rightarrow> u64 option" where
  "reg_core_read K rt ctx Zero = Some 0"
| "reg_core_read K rt ctx (At p) = map_option (\<lambda>d. BPF_CORE_READ K ctx [d]) (offsetof rt p)"

fun reg_offset :: "ctype \<Rightarrow> reg_src \<Rightarrow> u64 option" where
  "reg_offset rt Zero = None"
| "reg_offset rt (At p) = offsetof rt p"

section \<open>Return addresses\<close>

text \<open>
  \<open>rd\<close> loads a field of the register file. The result is the new value of \<open>ip\<close>; the result
  code of the helper is dropped.
\<close>

definition BPF_KPROBE_READ_RET_IP ::
  "'z kernel_scheme \<Rightarrow> regs_config \<Rightarrow> bpf_target \<Rightarrow> (reg_src \<Rightarrow> u64) \<Rightarrow> u64 \<Rightarrow> u64 option" where
  "BPF_KPROBE_READ_RET_IP K c t rd ip =
     (case t of
        target_powerpc \<Rightarrow> Some (rd (At [Field ''link'']))
      | target_sparc \<Rightarrow> map_option rd (PT_REGS c t RET)
      | _ \<Rightarrow> map_option (\<lambda>s. snd (read_kernel K ip (rd s))) (PT_REGS c t RET))"

definition BPF_KRETPROBE_READ_RET_IP ::
  "'z kernel_scheme \<Rightarrow> regs_config \<Rightarrow> bpf_target \<Rightarrow> (reg_src \<Rightarrow> u64) \<Rightarrow> u64 \<Rightarrow> u64 option" where
  "BPF_KRETPROBE_READ_RET_IP K c t rd ip =
     (case t of
        target_powerpc \<Rightarrow> BPF_KPROBE_READ_RET_IP K c t rd ip
      | target_sparc \<Rightarrow> BPF_KPROBE_READ_RET_IP K c t rd ip
      | _ \<Rightarrow> map_option (\<lambda>s. snd (read_kernel K ip (rd s + 8))) (PT_REGS c t FP))"

section \<open>Unpacking the context\<close>

text \<open>
  The wrappers call the program's body with the context and one value per declared parameter.
  \<open>ctx_cast_n\<close> and \<open>kprobe_args_n\<close> give what the values are: elements of the context array, or
  saved registers. They exist for up to twelve and up to five parameters.
\<close>

fun ctx_cast_n :: "nat \<Rightarrow> 'a list \<Rightarrow> nat list" where
  "ctx_cast_n (Suc n) (x # args) = ctx_cast_n n args @ [n]"
| "ctx_cast_n _ _ = []"

definition bpf_ctx_cast :: "'a list \<Rightarrow> nat list option" where
  "bpf_ctx_cast args =
     (case bpf_narg args of Some (Num n) \<Rightarrow> (if n \<le> 12 then Some (ctx_cast_n n args) else None) | _ \<Rightarrow> None)"

definition BPF_PROG :: "((nat \<Rightarrow> u64) \<Rightarrow> u64 list \<Rightarrow> 'r) \<Rightarrow> 'a list \<Rightarrow> (nat \<Rightarrow> u64) \<Rightarrow> 'r option" where
  "BPF_PROG body args ctx = map_option (\<lambda>is. body ctx (map ctx is)) (bpf_ctx_cast args)"

fun kprobe_args_n :: "nat \<Rightarrow> 'a list \<Rightarrow> pt_reg list option" where
  "kprobe_args_n 0 args = Some []"
| "kprobe_args_n (Suc 0) (x # args) = map_option (\<lambda>rs. rs @ [PARM1]) (kprobe_args_n 0 args)"
| "kprobe_args_n (Suc (Suc 0)) (x # args) = map_option (\<lambda>rs. rs @ [PARM2]) (kprobe_args_n 1 args)"
| "kprobe_args_n (Suc (Suc (Suc 0))) (x # args) = map_option (\<lambda>rs. rs @ [PARM3]) (kprobe_args_n 2 args)"
| "kprobe_args_n (Suc (Suc (Suc (Suc 0)))) (x # args) =
     map_option (\<lambda>rs. rs @ [PARM4]) (kprobe_args_n 3 args)"
| "kprobe_args_n (Suc (Suc (Suc (Suc (Suc 0))))) (x # args) =
     map_option (\<lambda>rs. rs @ [PARM5]) (kprobe_args_n 4 args)"
| "kprobe_args_n _ _ = None"

definition bpf_kprobe_args :: "'a list \<Rightarrow> pt_reg list option" where
  "bpf_kprobe_args args =
     (case bpf_narg args of Some (Num n) \<Rightarrow> kprobe_args_n n args | _ \<Rightarrow> None)"

text \<open>\<open>regs\<close> is the value of \<open>PT_REGS_...(ctx)\<close> for each role.\<close>

definition BPF_KPROBE :: "(addr \<Rightarrow> u64 list \<Rightarrow> 'r) \<Rightarrow> 'a list \<Rightarrow> (pt_reg \<Rightarrow> u64) \<Rightarrow> addr \<Rightarrow> 'r option" where
  "BPF_KPROBE body args regs ctx = map_option (\<lambda>rs. body ctx (map regs rs)) (bpf_kprobe_args args)"

fun kretprobe_args_n :: "nat \<Rightarrow> 'a list \<Rightarrow> pt_reg list option" where
  "kretprobe_args_n 0 args = Some []"
| "kretprobe_args_n (Suc 0) (x # args) = map_option (\<lambda>rs. rs @ [RC]) (kretprobe_args_n 0 args)"
| "kretprobe_args_n _ _ = None"

definition bpf_kretprobe_args :: "'a list \<Rightarrow> pt_reg list option" where
  "bpf_kretprobe_args args =
     (case bpf_narg args of Some (Num n) \<Rightarrow> kretprobe_args_n n args | _ \<Rightarrow> None)"

definition BPF_KRETPROBE :: "(addr \<Rightarrow> u64 list \<Rightarrow> 'r) \<Rightarrow> 'a list \<Rightarrow> (pt_reg \<Rightarrow> u64) \<Rightarrow> addr \<Rightarrow> 'r option" where
  "BPF_KRETPROBE body args regs ctx =
     map_option (\<lambda>rs. body ctx (map regs rs)) (bpf_kretprobe_args args)"

section \<open>The two families read the same registers\<close>

lemma core_tables_agree:
  "regs_x86_kernel_core r = regs_x86_kernel r" "regs_i386_core r = regs_i386 r"
  "regs_x86_64_core r = regs_x86_64 r" "regs_s390_core r = regs_s390 r"
  "regs_arm_core r = regs_arm r" "regs_arm64_core r = regs_arm64 r"
  "regs_mips_core r = regs_mips r" "regs_powerpc_core r = regs_powerpc r"
  "regs_sparc_core u r = regs_sparc u r" "regs_riscv_core r = regs_riscv r \<longleftrightarrow> r \<noteq> FP"
  by (cases r; simp)+

lemma families_agree:
  "PT_REGS_CORE c t r = PT_REGS c t r \<longleftrightarrow> \<not> (t = target_riscv \<and> r = FP)"
  by (cases t) (auto simp: PT_REGS_def PT_REGS_CORE_def core_tables_agree)

text \<open>
  What a register file promises to the accessors: every role names a field of eight bytes, the
  same in both families.
\<close>

locale register_file =
  fixes tab tab_core :: "pt_reg \<Rightarrow> reg_src option" and rt :: ctype
  assumes same: "tab_core r = tab r"
    and role: "\<exists>p d. tab r = Some (At p) \<and> offset_path rt p = Some (d, Prim 8)"
begin

lemma offset: "\<exists>p d. tab r = Some (At p) \<and> offsetof rt p = Some d"
  using role [of r] by (auto simp: offsetof_def)

lemma core_reads_load:
  assumes "probe_read_resident (probe_read_kernel K) mem" "tab r = Some s" "reg_load mem rt ctx s = Some v"
  shows "\<exists>s'. tab_core r = Some s' \<and> reg_core_read K rt ctx s' = Some v"
proof -
  from assms(2) offset [of r] obtain p d where s: "s = At p" "offsetof rt p = Some d" by auto
  with assms(3) have "mem_word mem (ctx + d) = Some v" by simp
  with BPF_CORE_READ_resident [OF assms(1), of ctx "[]" ctx d v] s assms(2) show ?thesis
    by (simp add: same)
qed

end

text \<open>The interpretations on the register files of the two kernel headers.\<close>

interpretation rf_x86: register_file regs_x86_kernel regs_x86_kernel_core pt_regs_x86
proof
  show "\<exists>p d. regs_x86_kernel r = Some (At p) \<and> offset_path pt_regs_x86 p = Some (d, Prim 8)" for r
    by (cases r; simp add: pt_regs_x86_def layout_eval)
qed (rule core_tables_agree)

interpretation rf_arm64: register_file regs_arm64 regs_arm64_core user_pt_regs_arm64
proof
  show "\<exists>p d. regs_arm64 r = Some (At p) \<and> offset_path user_pt_regs_arm64 p = Some (d, Prim 8)" for r
    by (cases r; simp add: user_pt_regs_arm64_def layout_eval)
qed (rule core_tables_agree)

lemma reg_offsets_x86:
  "map (\<lambda>r. map_option (reg_offset pt_regs_x86) (regs_x86_kernel r))
     [PARM1, PARM2, PARM3, PARM4, PARM5, RET, FP, RC, SP, IP] =
   map (Some \<circ> Some) [112, 104, 96, 88, 72, 152, 32, 80, 152, 128]"
  by (simp add: pt_regs_x86_def layout_eval offsetof_def)

text \<open>On arm64 the register file that user space sees is the start of the kernel's own.\<close>

lemma arm64_cast:
  "offset_path user_pt_regs_arm64 p = Some r \<Longrightarrow> regs_arm64 x = Some (At p) \<Longrightarrow>
   offset_path pt_regs_arm64 p = Some r"
  by (cases x; auto simp: user_pt_regs_arm64_def pt_regs_arm64_def layout_eval)

section \<open>The wrappers deliver the arguments in order\<close>

lemma ctx_cast_n_upt: "ctx_cast_n (length args) args = [0..<length args]"
  by (induction args) auto

lemma bpf_ctx_cast_eq: "bpf_ctx_cast args = (if length args \<le> 12 then Some [0..<length args] else None)"
  by (simp add: bpf_ctx_cast_def bpf_narg_length bpf_narg_too_many ctx_cast_n_upt)

lemma kprobe_args_n_take:
  "kprobe_args_n (length args) args =
     (if length args \<le> 5 then Some (take (length args) [PARM1, PARM2, PARM3, PARM4, PARM5]) else None)"
proof (cases "length args \<le> 5")
  case True
  then consider "length args = 0" | "length args = 1" | "length args = 2" | "length args = 3"
    | "length args = 4" | "length args = 5" by linarith
  then show ?thesis by cases (auto simp: numeral_eq_Suc length_Suc_conv)
next
  case False
  then have "length args = Suc (Suc (Suc (Suc (Suc (Suc (length args - 6))))))" by linarith
  then obtain n where "length args = Suc (Suc (Suc (Suc (Suc (Suc n)))))" ..
  then show ?thesis by simp
qed

lemma bpf_kprobe_args_eq:
  "bpf_kprobe_args args =
     (if length args \<le> 5 then Some (take (length args) [PARM1, PARM2, PARM3, PARM4, PARM5]) else None)"
proof (cases "length args \<le> 12")
  case True
  then show ?thesis by (simp add: bpf_kprobe_args_def bpf_narg_length kprobe_args_n_take)
qed (simp add: bpf_kprobe_args_def bpf_narg_too_many)

lemma bpf_kretprobe_args_eq:
  "bpf_kretprobe_args args = (if length args \<le> 1 then Some (take (length args) [RC]) else None)"
proof (cases "length args \<le> 12")
  case True
  then show ?thesis
    by (cases args rule: remdups_adj.cases) (simp_all add: bpf_kretprobe_args_def bpf_narg_length)
qed (simp add: bpf_kretprobe_args_def bpf_narg_too_many)

text \<open>
  The wrappers call the body with the context and, in the order of the declared parameters,
  the elements of the context array (up to twelve), the argument registers (up to five) or the
  result register (up to one); more parameters do not compile.
\<close>

lemma wrapper_arguments:
  "BPF_PROG body args ctx = (if length args \<le> 12 then Some (body ctx (map ctx [0..<length args])) else None) \<and>
   BPF_KPROBE kbody args regs rctx =
     (if length args \<le> 5
      then Some (kbody rctx (map regs (take (length args) [PARM1, PARM2, PARM3, PARM4, PARM5]))) else None) \<and>
   BPF_KRETPROBE kbody args regs rctx =
     (if length args \<le> 1 then Some (kbody rctx (map regs (take (length args) [RC]))) else None)"
  unfolding BPF_PROG_def BPF_KPROBE_def BPF_KRETPROBE_def
    bpf_ctx_cast_eq bpf_kprobe_args_eq bpf_kretprobe_args_eq
  by simp

text \<open>
  The relocatable register accessors name the same saved register as the direct ones, for
  every target and role except the frame pointer of riscv.
\<close>

lemma pt_regs_families_agree:
  "PT_REGS_CORE c t r = PT_REGS c t r \<longleftrightarrow> (t, r) \<noteq> (target_riscv, FP)"
  using families_agree by auto

text \<open>
  C40: On the register files of both kernel headers the relocatable accessor returns what the
  direct load returns, for every role.
\<close>

theorem pt_regs_core_reads:
  assumes mem: "probe_read_resident (probe_read_kernel K) mem" and k: "in_kernel c"
    and t: "t = target_x86 \<and> rt = pt_regs_x86 \<or> t = target_arm64 \<and> rt = user_pt_regs_arm64"
    and s: "PT_REGS c t r = Some s" and v: "reg_load mem rt ctx s = Some v"
  shows "\<exists>s'. PT_REGS_CORE c t r = Some s' \<and> reg_core_read K rt ctx s' = Some v"
  using t
proof
  assume "t = target_x86 \<and> rt = pt_regs_x86"
  with rf_x86.core_reads_load [OF mem, of r s ctx v] k s v show ?thesis
    by (simp add: PT_REGS_def PT_REGS_CORE_def)
next
  assume "t = target_arm64 \<and> rt = user_pt_regs_arm64"
  with rf_arm64.core_reads_load [OF mem, of r s ctx v] s v show ?thesis
    by (simp add: PT_REGS_def PT_REGS_CORE_def)
qed

section \<open>Target selection and return addresses\<close>

text \<open>A target named by the build wins over what the compiler says about itself.\<close>

lemma first_defined_unique:
  assumes "distinct (map fst ts)" "(m, t) \<in> set ts" "m \<in> set defs" "\<forall>m' \<in> fst ` set ts. m' \<in> set defs \<longrightarrow> m' = m"
  shows "first_defined defs ts = Some t"
  using assms
proof (induction ts)
  case (Cons a ts)
  obtain m' t' where a: "a = (m', t')" by (cases a)
  show ?case
  proof (cases "m' \<in> set defs")
    case True
    then have "m' = m" using Cons.prems(4) a by simp
    moreover have "m \<notin> fst ` set ts" using Cons.prems(1) a \<open>m' = m\<close> by simp
    then have "(m, t) \<notin> set ts" by force
    ultimately show ?thesis using Cons.prems(2) True a by simp
  next
    case False
    then have "(m, t) \<in> set ts" using Cons.prems(2,3) a by auto
    with Cons.IH Cons.prems False a show ?thesis by simp
  qed
qed simp

lemma build_target_wins:
  assumes "(m, t) \<in> set build_targets" "m \<in> set defs"
    and "\<forall>m' \<in> fst ` set build_targets. m' \<in> set defs \<longrightarrow> m' = m"
  shows "select_target defs xlen = Some t"
proof -
  have "distinct (map fst build_targets)" by (simp add: build_targets_def)
  from first_defined_unique [OF this assms] show ?thesis by (simp add: select_target_def)
qed

lemma compiler_target:
  assumes "\<forall>(m, t) \<in> set build_targets. m \<notin> set defs"
  shows "''__x86_64__'' \<in> set defs \<Longrightarrow> select_target defs xlen = Some target_x86"
    and "''__aarch64__'' \<in> set defs \<Longrightarrow> \<forall>m \<in> {''__x86_64__'', ''__s390__'', ''__arm__''}. m \<notin> set defs \<Longrightarrow>
      select_target defs xlen = Some target_arm64"
  using assms by (simp_all add: select_target_def build_targets_def compiler_targets_def)

lemma no_target:
  assumes "\<forall>(m, t) \<in> set build_targets \<union> set compiler_targets. m \<notin> set defs"
  shows "select_target defs xlen = (if ''__riscv'' \<in> set defs \<and> xlen = 64 then Some target_riscv else None)"
    and "select_target defs xlen = None \<Longrightarrow> PT_REGS_checked c (select_target defs xlen) r = Inl BPF_TARGET_MISSING"
  using assms by (simp_all add: select_target_def build_targets_def compiler_targets_def PT_REGS_checked_def)

text \<open>
  In a kprobe on x86 the return address is the word at the top of the stack, in a kretprobe the
  word above the saved frame pointer.
\<close>

lemma ret_ip_x86:
  assumes mem: "probe_read_resident (probe_read_kernel K) mem" and c: "in_kernel c"
  shows "mem_word mem (rd (At [Field ''sp''])) = Some v \<Longrightarrow>
      BPF_KPROBE_READ_RET_IP K c target_x86 rd ip = Some v"
    and "mem_word mem (rd (At [Field ''bp'']) + 8) = Some v \<Longrightarrow>
      BPF_KRETPROBE_READ_RET_IP K c target_x86 rd ip = Some v"
  using c probe_read_resident.rd_mapped [OF mem]
  by (fastforce simp: BPF_KPROBE_READ_RET_IP_def BPF_KRETPROBE_READ_RET_IP_def PT_REGS_def
      read_kernel_def mem_word_def)+

end
