(* ===== verification/Core_Queries.thy ===== *)
theory Core_Queries
  imports Bpf_Core_Read C_Layout
begin

text \<open>
  The rest of \<open>libbpf/bpf_core_read.h\<close>: the queries about the target kernel, the relocated reads
  that the pointer-chasing family is built on, and bit fields of structures.

  The compiler's built-ins are arguments: their values are computed by the loader from the type
  information of the target kernel. \<open>core_loader\<close> states what the comments of the header promise
  about them, and is interpreted on a loader that looks types up in a list of declarations.
  For bit fields the values the loader supplies are those of \<open>bitfield_relocs\<close>; with them the
  probed read returns exactly the bits that the layout gives to the field.
\<close>

section \<open>Queries\<close>

fun type_id_kind_val :: "bpf_type_id_kind \<Rightarrow> u32" where
  "type_id_kind_val BPF_TYPE_ID_LOCAL = 0"
| "type_id_kind_val BPF_TYPE_ID_TARGET = 1"

fun type_info_kind_val :: "bpf_type_info_kind \<Rightarrow> u32" where
  "type_info_kind_val BPF_TYPE_EXISTS = 0"
| "type_info_kind_val BPF_TYPE_SIZE = 1"

fun enum_value_kind_val :: "bpf_enum_value_kind \<Rightarrow> u32" where
  "enum_value_kind_val BPF_ENUMVAL_EXISTS = 0"
| "enum_value_kind_val BPF_ENUMVAL_VALUE = 1"

text \<open>Types, fields and enumerators are named; the second argument is the number of the query.\<close>

record core_builtins =
  preserve_field_info :: "string \<times> accessor list \<Rightarrow> u32 \<Rightarrow> u32"
  btf_type_id :: "string \<Rightarrow> u32 \<Rightarrow> u32"
  preserve_type_info :: "string \<Rightarrow> u32 \<Rightarrow> u32"
  preserve_enum_value :: "string \<times> string \<Rightarrow> u32 \<Rightarrow> u64"

definition bpf_core_field_exists :: "core_builtins \<Rightarrow> string \<times> accessor list \<Rightarrow> u32" where
  "bpf_core_field_exists B f = preserve_field_info B f (field_info_kind_val BPF_FIELD_EXISTS)"

definition bpf_core_field_size :: "core_builtins \<Rightarrow> string \<times> accessor list \<Rightarrow> u32" where
  "bpf_core_field_size B f = preserve_field_info B f (field_info_kind_val BPF_FIELD_BYTE_SIZE)"

definition bpf_core_type_id_local :: "core_builtins \<Rightarrow> string \<Rightarrow> u32" where
  "bpf_core_type_id_local B t = btf_type_id B t (type_id_kind_val BPF_TYPE_ID_LOCAL)"

definition bpf_core_type_id_kernel :: "core_builtins \<Rightarrow> string \<Rightarrow> u32" where
  "bpf_core_type_id_kernel B t = btf_type_id B t (type_id_kind_val BPF_TYPE_ID_TARGET)"

definition bpf_core_type_exists :: "core_builtins \<Rightarrow> string \<Rightarrow> u32" where
  "bpf_core_type_exists B t = preserve_type_info B t (type_info_kind_val BPF_TYPE_EXISTS)"

definition bpf_core_type_size :: "core_builtins \<Rightarrow> string \<Rightarrow> u32" where
  "bpf_core_type_size B t = preserve_type_info B t (type_info_kind_val BPF_TYPE_SIZE)"

definition bpf_core_enum_value_exists :: "core_builtins \<Rightarrow> string \<times> string \<Rightarrow> u64" where
  "bpf_core_enum_value_exists B e = preserve_enum_value B e (enum_value_kind_val BPF_ENUMVAL_EXISTS)"

definition bpf_core_enum_value :: "core_builtins \<Rightarrow> string \<times> string \<Rightarrow> u64" where
  "bpf_core_enum_value B e = preserve_enum_value B e (enum_value_kind_val BPF_ENUMVAL_VALUE)"

section \<open>Relocated reads\<close>

text \<open>\<open>src\<close> is the relocated address of the accessed field.\<close>

definition bpf_core_read :: "'z kernel_scheme \<Rightarrow> u8 list \<Rightarrow> addr \<Rightarrow> int \<times> u8 list" where
  "bpf_core_read K dst src = probe_read_kernel K dst src"

definition bpf_core_read_user :: "'z kernel_scheme \<Rightarrow> u8 list \<Rightarrow> addr \<Rightarrow> int \<times> u8 list" where
  "bpf_core_read_user K dst src = probe_read_user K dst src"

definition bpf_core_read_str :: "'z kernel_scheme \<Rightarrow> u8 list \<Rightarrow> addr \<Rightarrow> int \<times> u8 list" where
  "bpf_core_read_str K dst src = probe_read_kernel_str K dst src"

definition bpf_core_read_user_str :: "'z kernel_scheme \<Rightarrow> u8 list \<Rightarrow> addr \<Rightarrow> int \<times> u8 list" where
  "bpf_core_read_user_str K dst src = probe_read_user_str K dst src"

text \<open>The macros that take a path of arrows end in the read of their last accessor.\<close>

lemma core_read_into:
  assumes "mem_path mem src as = Some p"
  shows "probe_read_resident (probe_read_kernel K) mem \<Longrightarrow>
      BPF_CORE_READ_INTO K dst src (as @ [a]) = bpf_core_read K dst (p + a)"
    "probe_read_resident (probe_read_kernel K) mem \<Longrightarrow>
      BPF_CORE_READ_STR_INTO K dst src (as @ [a]) = bpf_core_read_str K dst (p + a)"
    "probe_read_resident (probe_read_user K) mem \<Longrightarrow>
      BPF_CORE_READ_USER_INTO K dst src (as @ [a]) = bpf_core_read_user K dst (p + a)"
    "probe_read_resident (probe_read_user K) mem \<Longrightarrow>
      BPF_CORE_READ_USER_STR_INTO K dst src (as @ [a]) = bpf_core_read_user_str K dst (p + a)"
  using assms
  by (simp_all add: BPF_CORE_READ_INTO_def BPF_CORE_READ_STR_INTO_def BPF_CORE_READ_USER_INTO_def
      BPF_CORE_READ_USER_STR_INTO_def bpf_core_read_def bpf_core_read_str_def bpf_core_read_user_def
      bpf_core_read_user_str_def core_read_def read_ptrs_path)

section \<open>The loader\<close>

record btf =
  btf_types :: "(string \<times> ctype) list"
  btf_enums :: "((string \<times> string) \<times> u64) list"

text \<open>What the comments of the header say the queries return.\<close>

locale core_loader =
  fixes B :: core_builtins and target :: btf
  assumes field_present: "map_of (btf_types target) t = Some c \<Longrightarrow> offset_path c p = Some (d, u) \<Longrightarrow>
      bpf_core_field_exists B (t, p) = 1 \<and> bpf_core_field_size B (t, p) = of_nat (csizeof u)"
    and field_absent: "Option.bind (map_of (btf_types target) t) (\<lambda>c. offset_path c p) = None \<Longrightarrow> bpf_core_field_exists B (t, p) = 0"
    and type_present: "map_of (btf_types target) t = Some c \<Longrightarrow>
      bpf_core_type_exists B t = 1 \<and> bpf_core_type_size B t = of_nat (csizeof c) \<and> bpf_core_type_id_kernel B t \<noteq> 0"
    and type_absent: "map_of (btf_types target) t = None \<Longrightarrow>
      bpf_core_type_exists B t = 0 \<and> bpf_core_type_size B t = 0 \<and> bpf_core_type_id_kernel B t = 0"
    and enum_present: "map_of (btf_enums target) e = Some v \<Longrightarrow>
      bpf_core_enum_value_exists B e = 1 \<and> bpf_core_enum_value B e = v"
    and enum_absent: "map_of (btf_enums target) e = None \<Longrightarrow>
      bpf_core_enum_value_exists B e = 0 \<and> bpf_core_enum_value B e = 0"
begin

text \<open>A field exists only in a type that exists.\<close>

lemma field_needs_type: "bpf_core_field_exists B (t, p) = 1 \<Longrightarrow> bpf_core_type_exists B t = 1"
  using field_absent [of t p] type_present [of t] by (cases "map_of (btf_types target) t") auto

text \<open>The two queries about a type agree, and a positive answer is never a size of an absent type.\<close>

lemma type_queries_agree: "bpf_core_type_exists B t = 1 \<longleftrightarrow> bpf_core_type_id_kernel B t \<noteq> 0"
  using type_present [of t] type_absent [of t] by (cases "map_of (btf_types target) t") auto

end

definition type_position :: "string \<Rightarrow> (string \<times> ctype) list \<Rightarrow> nat" where
  "type_position t ts = (if t \<in> fst ` set ts then Suc (length (takeWhile (\<lambda>x. fst x \<noteq> t) ts)) else 0)"

definition ref_loader :: "btf \<Rightarrow> core_builtins" where
  "ref_loader T =
     \<lparr>preserve_field_info = (\<lambda>(t, p) n.
        case Option.bind (map_of (btf_types T) t) (\<lambda>c. offset_path c p) of
          None \<Rightarrow> 0
        | Some (d, u) \<Rightarrow> if n = 0 then of_nat d else if n = 1 then of_nat (csizeof u) else if n = 2 then 1 else 0),
      btf_type_id = (\<lambda>t n. of_nat (type_position t (btf_types T))),
      preserve_type_info = (\<lambda>t n.
        case map_of (btf_types T) t of None \<Rightarrow> 0 | Some c \<Rightarrow> if n = 0 then 1 else of_nat (csizeof c)),
      preserve_enum_value = (\<lambda>e n.
        case map_of (btf_enums T) e of None \<Rightarrow> 0 | Some v \<Rightarrow> if n = 0 then 1 else v)\<rparr>"

lemmas query_defs = bpf_core_field_exists_def bpf_core_field_size_def bpf_core_type_id_local_def bpf_core_type_id_kernel_def
  bpf_core_type_exists_def bpf_core_type_size_def bpf_core_enum_value_exists_def bpf_core_enum_value_def

lemma ref_core_loader:
  assumes "length (btf_types T) < 2 ^ 32 - 1"
  shows "core_loader (ref_loader T) T"
proof unfold_locales
  fix t c assume c: "map_of (btf_types T) t = Some c"
  have "type_position t (btf_types T) < 2 ^ 32"
    using assms length_takeWhile_le [of "\<lambda>x. fst x \<noteq> t" "btf_types T"] unfolding type_position_def by simp
  moreover have "0 < type_position t (btf_types T)"
    using c by (force simp: type_position_def dest: map_of_SomeD)
  ultimately have "(of_nat (type_position t (btf_types T)) :: u32) \<noteq> 0"
    by (simp add: word_of_nat_eq_0_iff nat_dvd_not_less)
  then show "bpf_core_type_exists (ref_loader T) t = 1 \<and>
      bpf_core_type_size (ref_loader T) t = of_nat (csizeof c) \<and> bpf_core_type_id_kernel (ref_loader T) t \<noteq> 0"
    using c by (simp add: query_defs ref_loader_def)
next
  fix t assume n: "map_of (btf_types T) t = None"
  then have "t \<notin> fst ` set (btf_types T)" by (simp add: map_of_eq_None_iff)
  with n show "bpf_core_type_exists (ref_loader T) t = 0 \<and> bpf_core_type_size (ref_loader T) t = 0 \<and>
      bpf_core_type_id_kernel (ref_loader T) t = 0"
    by (simp add: query_defs ref_loader_def type_position_def)
qed (auto simp: query_defs ref_loader_def)

section \<open>Bit fields of structures\<close>

text \<open>
  The values the loader supplies for a bit field of width \<open>w\<close> at bit \<open>b\<close> of a structure, whose
  declared type has \<open>n\<close> bytes, on a little-endian target: the aligned unit that holds the field,
  and the shifts that move it to the top and back.
\<close>

fun bitfield_relocs :: "nat \<Rightarrow> nat \<Rightarrow> nat \<Rightarrow> bool \<Rightarrow> field_reloc" where
  "bitfield_relocs b n w sg BPF_FIELD_BYTE_OFFSET = of_nat (b div (8 * n) * n)"
| "bitfield_relocs b n w sg BPF_FIELD_BYTE_SIZE = of_nat n"
| "bitfield_relocs b n w sg BPF_FIELD_EXISTS = 1"
| "bitfield_relocs b n w sg BPF_FIELD_SIGNED = (if sg then 1 else 0)"
| "bitfield_relocs b n w sg BPF_FIELD_LSHIFT_U64 = of_nat (64 - (b mod (8 * n) + w))"
| "bitfield_relocs b n w sg BPF_FIELD_RSHIFT_U64 = of_nat (64 - w)"

lemma bits_slice:
  fixes x :: nat
  assumes "r + w \<le> m"
  shows "take_bit w (drop_bit r (take_bit m (drop_bit a x))) = take_bit w (drop_bit (a + r) x)"
  by (rule bit_eqI) (use assms in \<open>auto simp: bit_simps ac_simps\<close>)

lemma drop_bit_of_nat_u64:
  assumes "x < 2 ^ 64"
  shows "drop_bit r (of_nat x :: u64) = of_nat (drop_bit r x)"
proof -
  have "drop_bit r x < 2 ^ 64" using assms by (simp add: drop_bit_eq_div le_less_trans [OF div_le_dividend])
  with assms show ?thesis by (simp add: word_unat_eq_iff unsigned_drop_bit_eq unsigned_of_nat take_bit_nat_eq_self)
qed

lemma bitfield_unit:
  assumes t: "wf_type t" "f \<noteq> []" "field_of t f = Some (b, Bits g n w)" and w: "0 < w"
  shows "b mod (8 * n) + w \<le> 8 * n \<and> b div (8 * n) * n + n \<le> csizeof t"
proof -
  have f: "fits b (Bits g n w) (8 * csizeof t) (calignof t)" using t by (intro field_fits)
  then have n: "scalar_size n" "b + w \<le> 8 * csizeof t" "b mod (8 * n) + w \<le> 8 * n" "n \<le> calignof t"
    by (simp_all add: fits_def)
  have "n dvd calignof t" using n t(1) by (intro pow2_dvd align_pow2 pow2_scalar)
  then have "n dvd csizeof t" using calignof_dvd_csizeof [OF t(1)] by (rule dvd_trans)
  then obtain c where c: "csizeof t = n * c" by (elim dvdE)
  have "0 < n" using n(1) by (auto simp: scalar_size_def)
  have "b < c * (8 * n)" using n(2) w c by (simp add: ac_simps)
  then have "Suc (b div (8 * n)) \<le> c" using \<open>0 < n\<close> by (simp add: Suc_le_eq div_less_iff_less_mult)
  then have "Suc (b div (8 * n)) * n \<le> c * n" by (rule mult_le_mono1)
  then show ?thesis using n(3) c by (simp add: ac_simps)
qed

section \<open>Properties\<close>

text \<open>C24: A probed bit-field read returns the field: for every bit field that a well-formed structure
  declares, with the relocation values of the loader, the macro returns bits \<open>b\<close> to \<open>b + w - 1\<close> of
  the structure's bytes, zero-extended or sign-extended as the field is declared.\<close>

theorem core_bitfield_read:
  assumes t: "wf_type t" "f \<noteq> []" "field_of t f = Some (b, Bits g n w)" "0 < w" "n \<le> 8" "csizeof t < 2 ^ 32"
    and mem: "probe_read_resident (probe_read_kernel K) mem" "mem_bytes mem s (csizeof t) = Some sb"
  shows "BPF_CORE_READ_BITFIELD_PROBED K s (bitfield_relocs b n w False) =
      take_bit w (of_nat (drop_bit b (le_nat sb))) \<and>
    BPF_CORE_READ_BITFIELD_PROBED K s (bitfield_relocs b n w True) =
      signed_take_bit (w - 1) (of_nat (drop_bit b (le_nat sb)))"
proof -
  let ?r = "b mod (8 * n)"
  define off where "off = b div (8 * n) * n"
  have u: "?r + w \<le> 8 * n" "off + n \<le> csizeof t" using bitfield_unit [OF t(1-3) t(4)] by (simp_all add: off_def)
  then have rw: "?r + w \<le> 64" and ofs: "off < 2 ^ 32" using t(5,6) by auto
  let ?bs = "take n (drop off sb)"
  have l: "length sb = csizeof t" using mem(2) by (rule mem_bytes_length)
  have r: "mem_bytes mem (s + of_nat off) n = Some ?bs" using u by (intro mem_bytes_slice [OF mem(2)]) simp
  have c: "(ucast (of_nat off :: u32) :: u64) = of_nat off" "unat (of_nat n :: u32) = n"
    using ofs t(5) by (simp_all add: unsigned_of_nat take_bit_nat_eq_self word_unat_eq_iff)
  let ?V = "of_nat (take_bit (8 * n) (drop_bit (8 * off) (le_nat sb))) :: u64"
  have V: "snd (core_bitfield_probe_read (probe_read_kernel K) 0 s (bitfield_relocs b n w sg)) = ?V" for sg
  proof -
    have "probe_read_kernel K (take n (word_le (0 :: u64))) (s + of_nat off) = (0, ?bs)"
      using probe_read_resident.rd_mapped [OF mem(1), of "s + of_nat off" "take n (word_le (0 :: u64))"] r t(5) by (simp add: min_absorb2)
    moreover have "overwrite ?bs (word_le (0 :: u64)) = ?bs @ replicate (8 - n) 0"
    proof -
      have "word_le (0 :: u64) = replicate 8 0" by (simp add: word_le_def nat_le_zero)
      then show ?thesis using u l by (simp add: overwrite_def)
    qed
    moreover have "le_nat ?bs = take_bit (8 * n) (drop_bit (8 * off) (le_nat sb))"
      using u l by (intro le_nat_slice) simp
    ultimately show ?thesis
      by (simp add: core_bitfield_probe_read_def off_def [symmetric] c le_word_def le_nat_append le_nat_zeros)
  qed
  have small: "unat (of_nat k :: u32) = k" if "k \<le> 64" for k
    using that by (simp add: unsigned_of_nat take_bit_nat_eq_self)
  have reloc: "bitfield_reloc (bitfield_relocs b n w sg) ?r w" for sg
    unfolding bitfield_reloc_def bitfield_relocs.simps by (intro conjI small) simp_all
  have "take_bit (8 * n) (drop_bit (8 * off) (le_nat sb)) < 2 ^ (8 * n)" by simp
  also have "(2 :: nat) ^ (8 * n) \<le> 2 ^ 64" using t(5) by (intro power_increasing) simp_all
  finally have d: "drop_bit ?r ?V = of_nat (drop_bit ?r (take_bit (8 * n) (drop_bit (8 * off) (le_nat sb))))"
    by (rule drop_bit_of_nat_u64)
  have "8 * off + ?r = b" unfolding off_def by (metis mult.assoc mult.commute mult_div_mod_eq)
  then have bits: "take_bit w (drop_bit ?r ?V) = take_bit w (of_nat (drop_bit b (le_nat sb)))"
    using bits_slice [of ?r w "8 * n" "8 * off" "le_nat sb"] u
    by (simp add: d take_bit_of_nat)
  have "take_bit (Suc (w - 1)) (drop_bit ?r ?V) = take_bit (Suc (w - 1)) (of_nat (drop_bit b (le_nat sb)))"
    using bits t(4) by simp
  then have "signed_take_bit (w - 1) (drop_bit ?r ?V) = signed_take_bit (w - 1) (of_nat (drop_bit b (le_nat sb)))"
    by (simp only: signed_take_bit_eq_iff_take_bit_eq)
  then show ?thesis
    using bits bitfield_extract_unsigned [OF reloc [of False] rw] bitfield_extract_signed [OF reloc [of True] rw t(4)]
    by (simp add: BPF_CORE_READ_BITFIELD_PROBED_def V)
qed

end
