(* ===== verification/Core_Relocs.thy ===== *)
theory Core_Relocs
  imports Witness Bpf_Tracing Core_Queries
begin

text \<open>
  The kernel fields that the programs read, resolved against the two kernel headers: the reads of
  \<open>pid.h\<close>, \<open>profile.bpf.c\<close> and \<open>pthread_amd64.h\<close> or \<open>pthread_arm64.h\<close>, each with the structure,
  the accessor path and the size of the variable it goes to. \<open>relocate\<close> gives a kernel of the
  model the offsets of a header, as the loader does when it resolves the relocations.

  The lemmas show that every read exists in both headers with the size of its variable, aligned
  and inside its structure, that members of a structure never overlap, and the resulting offsets.
\<close>

record kernel_types =
  ty_task_struct :: ctype
  ty_nsproxy :: ctype
  ty_pid_namespace :: ctype
  ty_pid :: ctype
  ty_upid :: ctype

definition x86_types :: kernel_types where
  "x86_types = \<lparr>ty_task_struct = task_struct_x86, ty_nsproxy = nsproxy_x86,
     ty_pid_namespace = pid_namespace_x86, ty_pid = pid_x86, ty_upid = upid_x86\<rparr>"

definition arm64_types :: kernel_types where
  "arm64_types = \<lparr>ty_task_struct = task_struct_arm64, ty_nsproxy = nsproxy_arm64,
     ty_pid_namespace = pid_namespace_arm64, ty_pid = pid_arm64, ty_upid = upid_arm64\<rparr>"

type_synonym field_read = "ctype \<times> accessor list \<times> nat"

definition pid_reads :: "kernel_types \<Rightarrow> field_read list" where
  "pid_reads T =
     [(ty_task_struct T, [Field ''group_leader''], 8),
      (ty_task_struct T, [Field ''nsproxy''], 8),
      (ty_nsproxy T, [Field ''pid_ns_for_children''], 8),
      (ty_pid_namespace T, [Field ''level''], 4),
      (ty_task_struct T, [Field ''thread_pid''], 8),
      (ty_pid T, [Field ''numbers'', Index 0, Field ''ns''], 8),
      (ty_pid_namespace T, [Field ''ns'', Field ''inum''], 4),
      (ty_pid T, [Field ''numbers'', Index 0, Field ''nr''], 4)]"

definition flags_read :: "kernel_types \<Rightarrow> field_read" where
  "flags_read T = (ty_task_struct T, [Field ''flags''], 4)"

definition tls_read_amd64 :: "kernel_types \<Rightarrow> field_read" where
  "tls_read_amd64 T = (ty_task_struct T, [Field ''thread'', Field ''fsbase''], 8)"

definition tls_read_arm64 :: "kernel_types \<Rightarrow> field_read" where
  "tls_read_arm64 T = (ty_task_struct T, [Field ''thread'', Field ''uw'', Field ''tp_value''], 8)"

definition tls_read :: "arch \<Rightarrow> kernel_types \<Rightarrow> field_read" where
  "tls_read a T = (case a of X86 \<Rightarrow> tls_read_amd64 T | ARM64 \<Rightarrow> tls_read_arm64 T)"

definition program_reads :: "arch \<Rightarrow> kernel_types \<Rightarrow> field_read list" where
  "program_reads a T = flags_read T # tls_read a T # pid_reads T"

definition header_types :: "arch \<Rightarrow> kernel_types" where
  "header_types a = (case a of X86 \<Rightarrow> x86_types | ARM64 \<Rightarrow> arm64_types)"

text \<open>A read whose field exists, has the size of the variable, is aligned and inside.\<close>

fun read_ok :: "field_read \<Rightarrow> bool" where
  "read_ok (t, p, n) \<longleftrightarrow>
     (\<exists>d. offset_path t p = Some (d, Prim n) \<and> d + n \<le> csizeof t \<and> n dvd d)"

text \<open>The offsets of a header for the model's kernel; a field that is missing keeps its value.\<close>

definition reloc :: "u64 \<Rightarrow> field_read \<Rightarrow> u64" where
  "reloc old r = (case r of (t, p, n) \<Rightarrow> (case offsetof t p of Some d \<Rightarrow> d | None \<Rightarrow> old))"

definition relocate :: "kernel_types \<Rightarrow> 'z kernel_scheme \<Rightarrow> 'z kernel_scheme" where
  "relocate T K =
     K\<lparr>task_flags := reloc (task_flags K) (flags_read T),
       task_group_leader := reloc (task_group_leader K) (pid_reads T ! 0),
       task_nsproxy := reloc (task_nsproxy K) (pid_reads T ! 1),
       task_thread_pid := reloc (task_thread_pid K) (pid_reads T ! 4),
       task_thread_fsbase := reloc (task_thread_fsbase K) (tls_read_amd64 T),
       task_thread_uw_tp_value := reloc (task_thread_uw_tp_value K) (tls_read_arm64 T),
       nsproxy_pid_ns_for_children := reloc (nsproxy_pid_ns_for_children K) (pid_reads T ! 2),
       pid_namespace_level := reloc (pid_namespace_level K) (pid_reads T ! 3),
       pid_namespace_ns_inum := reloc (pid_namespace_ns_inum K) (pid_reads T ! 6),
       pid_numbers := reloc (pid_numbers K) (ty_pid T, [Field ''numbers''], 0),
       upid_size := of_nat (csizeof (ty_upid T)),
       upid_nr := reloc (upid_nr K) (ty_upid T, [Field ''nr''], 4),
       upid_ns := reloc (upid_ns K) (ty_upid T, [Field ''ns''], 8)\<rparr>"

section \<open>The reads resolve\<close>

lemma read_okI:
  assumes "wf_type t" "path_ok t p" "offset_path t p = Some (d, Prim n)"
  shows "read_ok (t, p, n)"
  using offset_path_bounds [OF assms] assms(3) by auto

named_theorems header_fields "the members of the kernel headers that the programs read"

lemma task_struct_x86_fields [header_fields]:
  "field_of task_struct_x86 ''flags'' = Some (352, Member ''flags'' (Prim 4))"
  "field_of task_struct_x86 ''group_leader'' = Some (12160, Member ''group_leader'' (Prim 8))"
  "field_of task_struct_x86 ''thread_pid'' = Some (12480, Member ''thread_pid'' (Prim 8))"
  "field_of task_struct_x86 ''nsproxy'' = Some (16128, Member ''nsproxy'' (Prim 8))"
  "field_of task_struct_x86 ''thread'' = Some (55808, Member ''thread'' thread_struct_x86)"
  by (simp_all add: task_struct_x86_def layout_simps layout_eval field_in_skip field_in_hit del: field_in.simps(2))

lemma nsproxy_x86_fields [header_fields]:
  "field_of nsproxy_x86 ''pid_ns_for_children'' = Some (256, Member ''pid_ns_for_children'' (Prim 8))"
  by (simp_all add: nsproxy_x86_def layout_simps layout_eval field_in_skip field_in_hit del: field_in.simps(2))

lemma pid_namespace_x86_fields [header_fields]:
  "field_of pid_namespace_x86 ''level'' = Some (512, Member ''level'' (Prim 4))"
  "field_of pid_namespace_x86 ''ns'' = Some (896, Member ''ns'' ns_common_x86)"
  by (simp_all add: pid_namespace_x86_def layout_simps layout_eval field_in_skip field_in_hit del: field_in.simps(2))

lemma ns_common_x86_fields [header_fields]:
  "field_of ns_common_x86 ''inum'' = Some (128, Member ''inum'' (Prim 4))"
  by (simp_all add: ns_common_x86_def layout_simps layout_eval field_in_skip field_in_hit del: field_in.simps(2))

lemma pid_x86_fields [header_fields]:
  "field_of pid_x86 ''numbers'' = Some (768, Member ''numbers'' (Arr upid_x86 1))"
  by (simp_all add: pid_x86_def layout_simps layout_eval field_in_skip field_in_hit del: field_in.simps(2))

lemma upid_x86_fields [header_fields]:
  "field_of upid_x86 ''nr'' = Some (0, Member ''nr'' (Prim 4))"
  "field_of upid_x86 ''ns'' = Some (64, Member ''ns'' (Prim 8))"
  by (simp_all add: upid_x86_def layout_simps layout_eval field_in_skip field_in_hit del: field_in.simps(2))

lemma thread_struct_x86_fields [header_fields]:
  "field_of thread_struct_x86 ''uw'' = None"
  "field_of thread_struct_x86 ''fsbase'' = Some (320, Member ''fsbase'' (Prim 8))"
  by (simp_all add: thread_struct_x86_def layout_simps layout_eval field_in_skip field_in_hit del: field_in.simps(2))

lemma task_struct_arm64_fields [header_fields]:
  "field_of task_struct_arm64 ''flags'' = Some (352, Member ''flags'' (Prim 4))"
  "field_of task_struct_arm64 ''group_leader'' = Some (11456, Member ''group_leader'' (Prim 8))"
  "field_of task_struct_arm64 ''thread_pid'' = Some (11776, Member ''thread_pid'' (Prim 8))"
  "field_of task_struct_arm64 ''nsproxy'' = Some (15168, Member ''nsproxy'' (Prim 8))"
  "field_of task_struct_arm64 ''thread'' = Some (52992, Member ''thread'' thread_struct_arm64)"
  by (simp_all add: task_struct_arm64_def layout_simps layout_eval field_in_skip field_in_hit del: field_in.simps(2))

lemma nsproxy_arm64_fields [header_fields]:
  "field_of nsproxy_arm64 ''pid_ns_for_children'' = Some (256, Member ''pid_ns_for_children'' (Prim 8))"
  by (simp_all add: nsproxy_arm64_def layout_simps layout_eval field_in_skip field_in_hit del: field_in.simps(2))

lemma pid_namespace_arm64_fields [header_fields]:
  "field_of pid_namespace_arm64 ''level'' = Some (576, Member ''level'' (Prim 4))"
  "field_of pid_namespace_arm64 ''ns'' = Some (960, Member ''ns'' ns_common_arm64)"
  by (simp_all add: pid_namespace_arm64_def layout_simps layout_eval field_in_skip field_in_hit del: field_in.simps(2))

lemma ns_common_arm64_fields [header_fields]:
  "field_of ns_common_arm64 ''inum'' = Some (128, Member ''inum'' (Prim 4))"
  by (simp_all add: ns_common_arm64_def layout_simps layout_eval field_in_skip field_in_hit del: field_in.simps(2))

lemma pid_arm64_fields [header_fields]:
  "field_of pid_arm64 ''numbers'' = Some (768, Member ''numbers'' (Arr upid_arm64 1))"
  by (simp_all add: pid_arm64_def layout_simps layout_eval field_in_skip field_in_hit del: field_in.simps(2))

lemma upid_arm64_fields [header_fields]:
  "field_of upid_arm64 ''nr'' = Some (0, Member ''nr'' (Prim 4))"
  "field_of upid_arm64 ''ns'' = Some (64, Member ''ns'' (Prim 8))"
  by (simp_all add: upid_arm64_def layout_simps layout_eval field_in_skip field_in_hit del: field_in.simps(2))

lemma thread_struct_arm64_fields [header_fields]:
  "field_of thread_struct_arm64 ''fsbase'' = None"
  "field_of thread_struct_arm64 ''uw'' = Some (896, Member ''uw'' (Struct [Member ''tp_value'' (Prim 8), Member ''tp2_value'' (Prim 8), Member ''fpsimd_state'' user_fpsimd_state_arm64]))"
  by (simp_all add: thread_struct_arm64_def layout_simps layout_eval field_in_skip field_in_hit del: field_in.simps(2))

lemmas types_defs = x86_types_def arm64_types_def header_types_def
lemmas reads_defs = program_reads_def pid_reads_def flags_read_def tls_read_def
  tls_read_amd64_def tls_read_arm64_def types_defs

lemma program_reads_resolve:
  "list_all (\<lambda>(t, p, n). wf_type t \<and> path_ok t p \<and> (\<exists>d. offset_path t p = Some (d, Prim n)))
     (program_reads a (header_types a))"
  by (cases a) (simp_all add: reads_defs header_fields layout_simps)


text \<open>The members of a structure of a header occupy disjoint bits.\<close>

fun members :: "ctype \<Rightarrow> member list" where
  "members (Struct ms) = ms"
| "members _ = []"

lemma wf_members: "wf_type t \<Longrightarrow> list_all wf_member (members t)"
  by (cases t) auto

text \<open>
  In both headers the members of the structures that the programs read follow one another
  without overlap, bit fields and padding included.
\<close>

lemma header_members_disjoint:
  "list_all (\<lambda>t. sorted_wrt (\<lambda>(s, m) (s', m'). s + mbits m \<le> s') (layout 0 (members t)))
     [ty_task_struct (header_types a), ty_nsproxy (header_types a), ty_pid_namespace (header_types a),
      ty_pid (header_types a), ty_upid (header_types a)]"
proof -
  have "list_all wf_type
     [ty_task_struct (header_types a), ty_nsproxy (header_types a), ty_pid_namespace (header_types a),
      ty_pid (header_types a), ty_upid (header_types a)]"
    by (cases a) (simp_all add: types_defs layout_simps)
  then show ?thesis
    unfolding list_all_iff by (blast intro: layout_disjoint wf_members)
qed

section \<open>The offsets\<close>

lemma relocate_x86:
  "relocate x86_types K =
     K\<lparr>task_flags := 44, task_group_leader := 1520, task_nsproxy := 2016, task_thread_pid := 1560,
       task_thread_fsbase := 7016, task_thread_uw_tp_value := task_thread_uw_tp_value K,
       nsproxy_pid_ns_for_children := 32, pid_namespace_level := 64,
       pid_namespace_ns_inum := 128, pid_numbers := 96, upid_size := 16, upid_nr := 0, upid_ns := 8\<rparr>"
  by (simp add: relocate_def reloc_def offsetof_def reads_defs header_fields layout_simps layout_eval)

lemma relocate_arm64:
  "relocate arm64_types K =
     K\<lparr>task_flags := 44, task_group_leader := 1432, task_nsproxy := 1896, task_thread_pid := 1472,
       task_thread_fsbase := task_thread_fsbase K, task_thread_uw_tp_value := 6736,
       nsproxy_pid_ns_for_children := 32, pid_namespace_level := 72,
       pid_namespace_ns_inum := 136, pid_numbers := 96, upid_size := 16, upid_nr := 0, upid_ns := 8\<rparr>"
  by (simp add: relocate_def reloc_def offsetof_def reads_defs header_fields layout_simps layout_eval)

section \<open>The headers as the target of a loader\<close>

text \<open>The structures the programs read, as declarations of the running kernel.\<close>

definition header_btf :: "kernel_types \<Rightarrow> btf" where
  "header_btf T =
     \<lparr>btf_types = [(''task_struct'', ty_task_struct T), (''nsproxy'', ty_nsproxy T),
        (''pid_namespace'', ty_pid_namespace T), (''pid'', ty_pid T), (''upid'', ty_upid T)], btf_enums = []\<rparr>"

interpretation headers: core_loader "ref_loader (header_btf T)" "header_btf T" for T
  by (rule ref_core_loader) (simp add: header_btf_def)

lemma flags_present:
  "bpf_core_field_exists (ref_loader (header_btf (header_types a))) (''task_struct'', [Field ''flags'']) = 1 \<and>
   bpf_core_field_size (ref_loader (header_btf (header_types a))) (''task_struct'', [Field ''flags'']) = 4"
proof -
  have "offset_path (ty_task_struct (header_types a)) [Field ''flags''] = Some (44, Prim 4)"
    by (cases a) (simp_all add: types_defs header_fields)
  from headers.field_present [OF _ this] show ?thesis by (simp add: header_btf_def)
qed

section \<open>A bit field of the kernel header\<close>

definition ones_mem :: memory where
  "ones_mem = (\<lambda>a. Some 0xFF)"

definition w_ones :: profile_kernel where
  "w_ones = w_base\<lparr>probe_read_kernel := ref_probe_read ones_mem\<rparr>"

lemma ones_bytes: "mem_bytes ones_mem a n = Some (replicate n 0xFF)"
  by (induction n arbitrary: a) (simp_all add: ones_mem_def)

lemma le_nat_ones: "le_nat (replicate n 0xFF) = mask (8 * n)"
proof (induction n)
  case (Suc n)
  have "255 + 256 * mask (8 * n) = (mask (8 + 8 * n) :: nat)"
    by (simp add: mask_eq_exp_minus_1 power_add algebra_simps)
  with Suc show ?case by simp
qed simp

theorem core_bitfield_read_witness:
  "field_of uclamp_se_x86 ''bucket_id'' = Some (11, Bits ''bucket_id'' 4 3) \<and>
   BPF_CORE_READ_BITFIELD_PROBED w_ones 0x8000 (bitfield_relocs 11 4 3 False) = 7"
proof -
  have f: "field_of uclamp_se_x86 ''bucket_id'' = Some (11, Bits ''bucket_id'' 4 3)" "wf_type uclamp_se_x86"
    "csizeof uclamp_se_x86 = 4"
    by (simp_all add: uclamp_se_x86_def layout_simps layout_eval)
  have "probe_read_resident (probe_read_kernel w_ones) ones_mem"
    by (simp add: w_ones_def ref_read.probe_read_resident_axioms)
  from core_bitfield_read [OF f(2) _ f(1) _ _ _ this ones_bytes] f(3)
  have "BPF_CORE_READ_BITFIELD_PROBED w_ones 0x8000 (bitfield_relocs 11 4 3 False) =
      take_bit 3 (of_nat (drop_bit 11 (mask (8 * 4))))" by (simp add: le_nat_ones)
  also have "\<dots> = 7" by (simp add: mask_eq_exp_minus_1 drop_bit_eq_div take_bit_eq_mod)
  finally show ?thesis using f(1) by simp
qed

section \<open>Registers of a concrete context\<close>

definition w_regs :: regs_config where
  "w_regs = \<lparr>in_kernel = True, is_i386 = False, is_arch64 = False, ureg_index = (\<lambda>_. 0)\<rparr>"

theorem pt_regs_core_reads_witness:
  "PT_REGS w_regs target_x86 PARM1 = Some (At [Field ''di'']) \<and>
   reg_load w_kmem pt_regs_x86 0x7F98 (At [Field ''di'']) = Some 0x8000 \<and>
   (\<exists>s'. PT_REGS_CORE w_regs target_x86 PARM1 = Some s' \<and>
      reg_core_read w_base pt_regs_x86 0x7F98 s' = Some 0x8000)"
proof -
  have mem: "probe_read_resident (probe_read_kernel w_base) w_kmem"
    unfolding w_sel by (rule ref_read.probe_read_resident_axioms)
  have s: "PT_REGS w_regs target_x86 PARM1 = Some (At [Field ''di''])"
    by (simp add: PT_REGS_def w_regs_def)
  have "mem_word w_kmem 0x8008 = Some (0x8000 :: u64)" by (simp add: w_mem_simps)
  then have v: "reg_load w_kmem pt_regs_x86 0x7F98 (At [Field ''di'']) = Some 0x8000"
    by (simp add: offsetof_def pt_regs_x86_def layout_eval)
  from pt_regs_core_reads [OF mem _ _ s v] s v show ?thesis by (simp add: w_regs_def)
qed

end
