(* ===== verification/Helper_Defs.thy ===== *)
theory Helper_Defs
  imports Bpf_Helpers
begin

text \<open>
  The helper functions of \<open>ebpf/bpf/libbpf/bpf_helper_defs.h\<close>, declared as pointers with the
  helper's number as their value, and \<open>enum bpf_func_id\<close> of the two kernel headers, in which
  the kernel numbers them. A declaration is its name, number, result type and parameter types;
  each table holds the declarations of one stretch of the file, in order.

  The lemmas show that the numbers run from 1 without gaps, that both kernels number the
  helpers as the declarations do, and that the helpers which the programs call exist in both.
\<close>

datatype helper_decl = Helper string nat string "string list"

fun helper_name :: "helper_decl \<Rightarrow> string" where
  "helper_name (Helper n i r ps) = n"

fun helper_num :: "helper_decl \<Rightarrow> nat" where
  "helper_num (Helper n i r ps) = i"

fun helper_arity :: "helper_decl \<Rightarrow> nat" where
  "helper_arity (Helper n i r ps) = length ps"

section \<open>The declarations\<close>

definition helper_defs_1 :: "helper_decl list" where
  "helper_defs_1 = [
    Helper ''bpf_map_lookup_elem'' 1 ''void *'' [''void *'', ''const void *''],
    Helper ''bpf_map_update_elem'' 2 ''long''
      [''void *'', ''const void *'', ''const void *'', ''__u64''],
    Helper ''bpf_map_delete_elem'' 3 ''long'' [''void *'', ''const void *''],
    Helper ''bpf_probe_read'' 4 ''long'' [''void *'', ''__u32'', ''const void *''],
    Helper ''bpf_ktime_get_ns'' 5 ''__u64'' [],
    Helper ''bpf_trace_printk'' 6 ''long'' [''const char *'', ''__u32'', ''...''],
    Helper ''bpf_get_prandom_u32'' 7 ''__u32'' []]"

definition helper_defs_2 :: "helper_decl list" where
  "helper_defs_2 = [
    Helper ''bpf_get_smp_processor_id'' 8 ''__u32'' [],
    Helper ''bpf_skb_store_bytes'' 9 ''long''
      [''struct __sk_buff *'', ''__u32'', ''const void *'', ''__u32'', ''__u64''],
    Helper ''bpf_l3_csum_replace'' 10 ''long''
      [''struct __sk_buff *'', ''__u32'', ''__u64'', ''__u64'', ''__u64''],
    Helper ''bpf_l4_csum_replace'' 11 ''long''
      [''struct __sk_buff *'', ''__u32'', ''__u64'', ''__u64'', ''__u64''],
    Helper ''bpf_tail_call'' 12 ''long'' [''void *'', ''void *'', ''__u32'']]"

definition helper_defs_3 :: "helper_decl list" where
  "helper_defs_3 = [
    Helper ''bpf_clone_redirect'' 13 ''long'' [''struct __sk_buff *'', ''__u32'', ''__u64''],
    Helper ''bpf_get_current_pid_tgid'' 14 ''__u64'' [],
    Helper ''bpf_get_current_uid_gid'' 15 ''__u64'' [],
    Helper ''bpf_get_current_comm'' 16 ''long'' [''void *'', ''__u32''],
    Helper ''bpf_get_cgroup_classid'' 17 ''__u32'' [''struct __sk_buff *''],
    Helper ''bpf_skb_vlan_push'' 18 ''long'' [''struct __sk_buff *'', ''__be16'', ''__u16''],
    Helper ''bpf_skb_vlan_pop'' 19 ''long'' [''struct __sk_buff *'']]"

definition helper_defs_4 :: "helper_decl list" where
  "helper_defs_4 = [
    Helper ''bpf_skb_get_tunnel_key'' 20 ''long''
      [''struct __sk_buff *'', ''struct bpf_tunnel_key *'', ''__u32'', ''__u64''],
    Helper ''bpf_skb_set_tunnel_key'' 21 ''long''
      [''struct __sk_buff *'', ''struct bpf_tunnel_key *'', ''__u32'', ''__u64''],
    Helper ''bpf_perf_event_read'' 22 ''__u64'' [''void *'', ''__u64'']]"

definition helper_defs_5 :: "helper_decl list" where
  "helper_defs_5 = [
    Helper ''bpf_redirect'' 23 ''long'' [''__u32'', ''__u64''],
    Helper ''bpf_get_route_realm'' 24 ''__u32'' [''struct __sk_buff *''],
    Helper ''bpf_perf_event_output'' 25 ''long''
      [''void *'', ''void *'', ''__u64'', ''void *'', ''__u64''],
    Helper ''bpf_skb_load_bytes'' 26 ''long'' [''const void *'', ''__u32'', ''void *'', ''__u32'']]"

definition helper_defs_6 :: "helper_decl list" where
  "helper_defs_6 = [
    Helper ''bpf_get_stackid'' 27 ''long'' [''void *'', ''void *'', ''__u64''],
    Helper ''bpf_csum_diff'' 28 ''__s64''
      [''__be32 *'', ''__u32'', ''__be32 *'', ''__u32'', ''__wsum''],
    Helper ''bpf_skb_get_tunnel_opt'' 29 ''long'' [''struct __sk_buff *'', ''void *'', ''__u32''],
    Helper ''bpf_skb_set_tunnel_opt'' 30 ''long'' [''struct __sk_buff *'', ''void *'', ''__u32''],
    Helper ''bpf_skb_change_proto'' 31 ''long'' [''struct __sk_buff *'', ''__be16'', ''__u64'']]"

definition helper_defs_7 :: "helper_decl list" where
  "helper_defs_7 = [
    Helper ''bpf_skb_change_type'' 32 ''long'' [''struct __sk_buff *'', ''__u32''],
    Helper ''bpf_skb_under_cgroup'' 33 ''long'' [''struct __sk_buff *'', ''void *'', ''__u32''],
    Helper ''bpf_get_hash_recalc'' 34 ''__u32'' [''struct __sk_buff *''],
    Helper ''bpf_get_current_task'' 35 ''__u64'' [],
    Helper ''bpf_probe_write_user'' 36 ''long'' [''void *'', ''const void *'', ''__u32''],
    Helper ''bpf_current_task_under_cgroup'' 37 ''long'' [''void *'', ''__u32''],
    Helper ''bpf_skb_change_tail'' 38 ''long'' [''struct __sk_buff *'', ''__u32'', ''__u64'']]"

definition helper_defs_8 :: "helper_decl list" where
  "helper_defs_8 = [
    Helper ''bpf_skb_pull_data'' 39 ''long'' [''struct __sk_buff *'', ''__u32''],
    Helper ''bpf_csum_update'' 40 ''__s64'' [''struct __sk_buff *'', ''__wsum''],
    Helper ''bpf_set_hash_invalid'' 41 ''void'' [''struct __sk_buff *''],
    Helper ''bpf_get_numa_node_id'' 42 ''long'' [],
    Helper ''bpf_skb_change_head'' 43 ''long'' [''struct __sk_buff *'', ''__u32'', ''__u64''],
    Helper ''bpf_xdp_adjust_head'' 44 ''long'' [''struct xdp_md *'', ''int''],
    Helper ''bpf_probe_read_str'' 45 ''long'' [''void *'', ''__u32'', ''const void *'']]"

definition helper_defs_9 :: "helper_decl list" where
  "helper_defs_9 = [
    Helper ''bpf_get_socket_cookie'' 46 ''__u64'' [''void *''],
    Helper ''bpf_get_socket_uid'' 47 ''__u32'' [''struct __sk_buff *''],
    Helper ''bpf_set_hash'' 48 ''long'' [''struct __sk_buff *'', ''__u32''],
    Helper ''bpf_setsockopt'' 49 ''long'' [''void *'', ''int'', ''int'', ''void *'', ''int''],
    Helper ''bpf_skb_adjust_room'' 50 ''long''
      [''struct __sk_buff *'', ''__s32'', ''__u32'', ''__u64'']]"

definition helper_defs_10 :: "helper_decl list" where
  "helper_defs_10 = [
    Helper ''bpf_redirect_map'' 51 ''long'' [''void *'', ''__u32'', ''__u64''],
    Helper ''bpf_sk_redirect_map'' 52 ''long''
      [''struct __sk_buff *'', ''void *'', ''__u32'', ''__u64''],
    Helper ''bpf_sock_map_update'' 53 ''long''
      [''struct bpf_sock_ops *'', ''void *'', ''void *'', ''__u64''],
    Helper ''bpf_xdp_adjust_meta'' 54 ''long'' [''struct xdp_md *'', ''int'']]"

definition helper_defs_11 :: "helper_decl list" where
  "helper_defs_11 = [
    Helper ''bpf_perf_event_read_value'' 55 ''long''
      [''void *'', ''__u64'', ''struct bpf_perf_event_value *'', ''__u32''],
    Helper ''bpf_perf_prog_read_value'' 56 ''long''
      [''struct bpf_perf_event_data *'', ''struct bpf_perf_event_value *'', ''__u32''],
    Helper ''bpf_getsockopt'' 57 ''long'' [''void *'', ''int'', ''int'', ''void *'', ''int''],
    Helper ''bpf_override_return'' 58 ''long'' [''struct pt_regs *'', ''__u64'']]"

definition helper_defs_12 :: "helper_decl list" where
  "helper_defs_12 = [
    Helper ''bpf_sock_ops_cb_flags_set'' 59 ''long'' [''struct bpf_sock_ops *'', ''int''],
    Helper ''bpf_msg_redirect_map'' 60 ''long''
      [''struct sk_msg_md *'', ''void *'', ''__u32'', ''__u64''],
    Helper ''bpf_msg_apply_bytes'' 61 ''long'' [''struct sk_msg_md *'', ''__u32''],
    Helper ''bpf_msg_cork_bytes'' 62 ''long'' [''struct sk_msg_md *'', ''__u32'']]"

definition helper_defs_13 :: "helper_decl list" where
  "helper_defs_13 = [
    Helper ''bpf_msg_pull_data'' 63 ''long''
      [''struct sk_msg_md *'', ''__u32'', ''__u32'', ''__u64''],
    Helper ''bpf_bind'' 64 ''long'' [''struct bpf_sock_addr *'', ''struct sockaddr *'', ''int''],
    Helper ''bpf_xdp_adjust_tail'' 65 ''long'' [''struct xdp_md *'', ''int''],
    Helper ''bpf_skb_get_xfrm_state'' 66 ''long''
      [''struct __sk_buff *'', ''__u32'', ''struct bpf_xfrm_state *'', ''__u32'', ''__u64''],
    Helper ''bpf_get_stack'' 67 ''long'' [''void *'', ''void *'', ''__u32'', ''__u64'']]"

definition helper_defs_14 :: "helper_decl list" where
  "helper_defs_14 = [
    Helper ''bpf_skb_load_bytes_relative'' 68 ''long''
      [''const void *'', ''__u32'', ''void *'', ''__u32'', ''__u32''],
    Helper ''bpf_fib_lookup'' 69 ''long''
      [''void *'', ''struct bpf_fib_lookup *'', ''int'', ''__u32''],
    Helper ''bpf_sock_hash_update'' 70 ''long''
      [''struct bpf_sock_ops *'', ''void *'', ''void *'', ''__u64''],
    Helper ''bpf_msg_redirect_hash'' 71 ''long''
      [''struct sk_msg_md *'', ''void *'', ''void *'', ''__u64''],
    Helper ''bpf_sk_redirect_hash'' 72 ''long''
      [''struct __sk_buff *'', ''void *'', ''void *'', ''__u64'']]"

definition helper_defs_15 :: "helper_decl list" where
  "helper_defs_15 = [
    Helper ''bpf_lwt_push_encap'' 73 ''long''
      [''struct __sk_buff *'', ''__u32'', ''void *'', ''__u32''],
    Helper ''bpf_lwt_seg6_store_bytes'' 74 ''long''
      [''struct __sk_buff *'', ''__u32'', ''const void *'', ''__u32''],
    Helper ''bpf_lwt_seg6_adjust_srh'' 75 ''long'' [''struct __sk_buff *'', ''__u32'', ''__s32''],
    Helper ''bpf_lwt_seg6_action'' 76 ''long''
      [''struct __sk_buff *'', ''__u32'', ''void *'', ''__u32''],
    Helper ''bpf_rc_repeat'' 77 ''long'' [''void *'']]"

definition helper_defs_16 :: "helper_decl list" where
  "helper_defs_16 = [
    Helper ''bpf_rc_keydown'' 78 ''long'' [''void *'', ''__u32'', ''__u64'', ''__u32''],
    Helper ''bpf_skb_cgroup_id'' 79 ''__u64'' [''struct __sk_buff *''],
    Helper ''bpf_get_current_cgroup_id'' 80 ''__u64'' [],
    Helper ''bpf_get_local_storage'' 81 ''void *'' [''void *'', ''__u64''],
    Helper ''bpf_sk_select_reuseport'' 82 ''long''
      [''struct sk_reuseport_md *'', ''void *'', ''void *'', ''__u64''],
    Helper ''bpf_skb_ancestor_cgroup_id'' 83 ''__u64'' [''struct __sk_buff *'', ''int'']]"

definition helper_defs_17 :: "helper_decl list" where
  "helper_defs_17 = [
    Helper ''bpf_sk_lookup_tcp'' 84 ''struct bpf_sock *''
      [''void *'', ''struct bpf_sock_tuple *'', ''__u32'', ''__u64'', ''__u64''],
    Helper ''bpf_sk_lookup_udp'' 85 ''struct bpf_sock *''
      [''void *'', ''struct bpf_sock_tuple *'', ''__u32'', ''__u64'', ''__u64''],
    Helper ''bpf_sk_release'' 86 ''long'' [''void *''],
    Helper ''bpf_map_push_elem'' 87 ''long'' [''void *'', ''const void *'', ''__u64''],
    Helper ''bpf_map_pop_elem'' 88 ''long'' [''void *'', ''void *''],
    Helper ''bpf_map_peek_elem'' 89 ''long'' [''void *'', ''void *''],
    Helper ''bpf_msg_push_data'' 90 ''long''
      [''struct sk_msg_md *'', ''__u32'', ''__u32'', ''__u64'']]"

definition helper_defs_18 :: "helper_decl list" where
  "helper_defs_18 = [
    Helper ''bpf_msg_pop_data'' 91 ''long'' [''struct sk_msg_md *'', ''__u32'', ''__u32'', ''__u64''],
    Helper ''bpf_rc_pointer_rel'' 92 ''long'' [''void *'', ''__s32'', ''__s32''],
    Helper ''bpf_spin_lock'' 93 ''long'' [''struct bpf_spin_lock *''],
    Helper ''bpf_spin_unlock'' 94 ''long'' [''struct bpf_spin_lock *''],
    Helper ''bpf_sk_fullsock'' 95 ''struct bpf_sock *'' [''struct bpf_sock *''],
    Helper ''bpf_tcp_sock'' 96 ''struct bpf_tcp_sock *'' [''struct bpf_sock *''],
    Helper ''bpf_skb_ecn_set_ce'' 97 ''long'' [''struct __sk_buff *''],
    Helper ''bpf_get_listener_sock'' 98 ''struct bpf_sock *'' [''struct bpf_sock *'']]"

definition helper_defs_19 :: "helper_decl list" where
  "helper_defs_19 = [
    Helper ''bpf_skc_lookup_tcp'' 99 ''struct bpf_sock *''
      [''void *'', ''struct bpf_sock_tuple *'', ''__u32'', ''__u64'', ''__u64''],
    Helper ''bpf_tcp_check_syncookie'' 100 ''long''
      [''void *'', ''void *'', ''__u32'', ''struct tcphdr *'', ''__u32''],
    Helper ''bpf_sysctl_get_name'' 101 ''long''
      [''struct bpf_sysctl *'', ''char *'', ''unsigned long'', ''__u64''],
    Helper ''bpf_sysctl_get_current_value'' 102 ''long''
      [''struct bpf_sysctl *'', ''char *'', ''unsigned long''],
    Helper ''bpf_sysctl_get_new_value'' 103 ''long''
      [''struct bpf_sysctl *'', ''char *'', ''unsigned long''],
    Helper ''bpf_sysctl_set_new_value'' 104 ''long''
      [''struct bpf_sysctl *'', ''const char *'', ''unsigned long'']]"

definition helper_defs_20 :: "helper_decl list" where
  "helper_defs_20 = [
    Helper ''bpf_strtol'' 105 ''long'' [''const char *'', ''unsigned long'', ''__u64'', ''long *''],
    Helper ''bpf_strtoul'' 106 ''long''
      [''const char *'', ''unsigned long'', ''__u64'', ''unsigned long *''],
    Helper ''bpf_sk_storage_get'' 107 ''void *'' [''void *'', ''void *'', ''void *'', ''__u64''],
    Helper ''bpf_sk_storage_delete'' 108 ''long'' [''void *'', ''void *''],
    Helper ''bpf_send_signal'' 109 ''long'' [''__u32'']]"

definition helper_defs_21 :: "helper_decl list" where
  "helper_defs_21 = [
    Helper ''bpf_tcp_gen_syncookie'' 110 ''__s64''
      [''void *'', ''void *'', ''__u32'', ''struct tcphdr *'', ''__u32''],
    Helper ''bpf_skb_output'' 111 ''long'' [''void *'', ''void *'', ''__u64'', ''void *'', ''__u64''],
    Helper ''bpf_probe_read_user'' 112 ''long'' [''void *'', ''__u32'', ''const void *''],
    Helper ''bpf_probe_read_kernel'' 113 ''long'' [''void *'', ''__u32'', ''const void *''],
    Helper ''bpf_probe_read_user_str'' 114 ''long'' [''void *'', ''__u32'', ''const void *''],
    Helper ''bpf_probe_read_kernel_str'' 115 ''long'' [''void *'', ''__u32'', ''const void *''],
    Helper ''bpf_tcp_send_ack'' 116 ''long'' [''void *'', ''__u32'']]"

definition helper_defs_22 :: "helper_decl list" where
  "helper_defs_22 = [
    Helper ''bpf_send_signal_thread'' 117 ''long'' [''__u32''],
    Helper ''bpf_jiffies64'' 118 ''__u64'' [],
    Helper ''bpf_read_branch_records'' 119 ''long''
      [''struct bpf_perf_event_data *'', ''void *'', ''__u32'', ''__u64''],
    Helper ''bpf_get_ns_current_pid_tgid'' 120 ''long''
      [''__u64'', ''__u64'', ''struct bpf_pidns_info *'', ''__u32''],
    Helper ''bpf_xdp_output'' 121 ''long'' [''void *'', ''void *'', ''__u64'', ''void *'', ''__u64''],
    Helper ''bpf_get_netns_cookie'' 122 ''__u64'' [''void *''],
    Helper ''bpf_get_current_ancestor_cgroup_id'' 123 ''__u64'' [''int'']]"

definition helper_defs_23 :: "helper_decl list" where
  "helper_defs_23 = [
    Helper ''bpf_sk_assign'' 124 ''long'' [''void *'', ''void *'', ''__u64''],
    Helper ''bpf_ktime_get_boot_ns'' 125 ''__u64'' [],
    Helper ''bpf_seq_printf'' 126 ''long''
      [''struct seq_file *'', ''const char *'', ''__u32'', ''const void *'', ''__u32''],
    Helper ''bpf_seq_write'' 127 ''long'' [''struct seq_file *'', ''const void *'', ''__u32''],
    Helper ''bpf_sk_cgroup_id'' 128 ''__u64'' [''void *''],
    Helper ''bpf_sk_ancestor_cgroup_id'' 129 ''__u64'' [''void *'', ''int'']]"

definition helper_defs_24 :: "helper_decl list" where
  "helper_defs_24 = [
    Helper ''bpf_ringbuf_output'' 130 ''long'' [''void *'', ''void *'', ''__u64'', ''__u64''],
    Helper ''bpf_ringbuf_reserve'' 131 ''void *'' [''void *'', ''__u64'', ''__u64''],
    Helper ''bpf_ringbuf_submit'' 132 ''void'' [''void *'', ''__u64''],
    Helper ''bpf_ringbuf_discard'' 133 ''void'' [''void *'', ''__u64''],
    Helper ''bpf_ringbuf_query'' 134 ''__u64'' [''void *'', ''__u64''],
    Helper ''bpf_csum_level'' 135 ''long'' [''struct __sk_buff *'', ''__u64''],
    Helper ''bpf_skc_to_tcp6_sock'' 136 ''struct tcp6_sock *'' [''void *''],
    Helper ''bpf_skc_to_tcp_sock'' 137 ''struct tcp_sock *'' [''void *'']]"

definition helper_defs_25 :: "helper_decl list" where
  "helper_defs_25 = [
    Helper ''bpf_skc_to_tcp_timewait_sock'' 138 ''struct tcp_timewait_sock *'' [''void *''],
    Helper ''bpf_skc_to_tcp_request_sock'' 139 ''struct tcp_request_sock *'' [''void *''],
    Helper ''bpf_skc_to_udp6_sock'' 140 ''struct udp6_sock *'' [''void *''],
    Helper ''bpf_get_task_stack'' 141 ''long''
      [''struct task_struct *'', ''void *'', ''__u32'', ''__u64''],
    Helper ''bpf_load_hdr_opt'' 142 ''long''
      [''struct bpf_sock_ops *'', ''void *'', ''__u32'', ''__u64'']]"

definition helper_defs_26 :: "helper_decl list" where
  "helper_defs_26 = [
    Helper ''bpf_store_hdr_opt'' 143 ''long''
      [''struct bpf_sock_ops *'', ''const void *'', ''__u32'', ''__u64''],
    Helper ''bpf_reserve_hdr_opt'' 144 ''long'' [''struct bpf_sock_ops *'', ''__u32'', ''__u64''],
    Helper ''bpf_inode_storage_get'' 145 ''void *'' [''void *'', ''void *'', ''void *'', ''__u64''],
    Helper ''bpf_inode_storage_delete'' 146 ''int'' [''void *'', ''void *''],
    Helper ''bpf_d_path'' 147 ''long'' [''struct path *'', ''char *'', ''__u32''],
    Helper ''bpf_copy_from_user'' 148 ''long'' [''void *'', ''__u32'', ''const void *'']]"

definition helper_defs_27 :: "helper_decl list" where
  "helper_defs_27 = [
    Helper ''bpf_snprintf_btf'' 149 ''long''
      [''char *'', ''__u32'', ''struct btf_ptr *'', ''__u32'', ''__u64''],
    Helper ''bpf_seq_printf_btf'' 150 ''long''
      [''struct seq_file *'', ''struct btf_ptr *'', ''__u32'', ''__u64''],
    Helper ''bpf_skb_cgroup_classid'' 151 ''__u64'' [''struct __sk_buff *''],
    Helper ''bpf_redirect_neigh'' 152 ''long''
      [''__u32'', ''struct bpf_redir_neigh *'', ''int'', ''__u64''],
    Helper ''bpf_per_cpu_ptr'' 153 ''void *'' [''const void *'', ''__u32''],
    Helper ''bpf_this_cpu_ptr'' 154 ''void *'' [''const void *''],
    Helper ''bpf_redirect_peer'' 155 ''long'' [''__u32'', ''__u64'']]"

definition helper_defs_28 :: "helper_decl list" where
  "helper_defs_28 = [
    Helper ''bpf_task_storage_get'' 156 ''void *''
      [''void *'', ''struct task_struct *'', ''void *'', ''__u64''],
    Helper ''bpf_task_storage_delete'' 157 ''long'' [''void *'', ''struct task_struct *''],
    Helper ''bpf_get_current_task_btf'' 158 ''struct task_struct *'' [],
    Helper ''bpf_bprm_opts_set'' 159 ''long'' [''struct linux_binprm *'', ''__u64''],
    Helper ''bpf_ktime_get_coarse_ns'' 160 ''__u64'' [],
    Helper ''bpf_ima_inode_hash'' 161 ''long'' [''struct inode *'', ''void *'', ''__u32''],
    Helper ''bpf_sock_from_file'' 162 ''struct socket *'' [''struct file *'']]"

definition helper_defs_29 :: "helper_decl list" where
  "helper_defs_29 = [
    Helper ''bpf_check_mtu'' 163 ''long'' [''void *'', ''__u32'', ''__u32 *'', ''__s32'', ''__u64''],
    Helper ''bpf_for_each_map_elem'' 164 ''long'' [''void *'', ''void *'', ''void *'', ''__u64''],
    Helper ''bpf_snprintf'' 165 ''long''
      [''char *'', ''__u32'', ''const char *'', ''__u64 *'', ''__u32''],
    Helper ''bpf_sys_bpf'' 166 ''long'' [''__u32'', ''void *'', ''__u32'']]"

definition helper_defs_30 :: "helper_decl list" where
  "helper_defs_30 = [
    Helper ''bpf_btf_find_by_name_kind'' 167 ''long'' [''char *'', ''int'', ''__u32'', ''int''],
    Helper ''bpf_sys_close'' 168 ''long'' [''__u32''],
    Helper ''bpf_timer_init'' 169 ''long'' [''struct bpf_timer *'', ''void *'', ''__u64''],
    Helper ''bpf_timer_set_callback'' 170 ''long'' [''struct bpf_timer *'', ''void *''],
    Helper ''bpf_timer_start'' 171 ''long'' [''struct bpf_timer *'', ''__u64'', ''__u64''],
    Helper ''bpf_timer_cancel'' 172 ''long'' [''struct bpf_timer *''],
    Helper ''bpf_get_func_ip'' 173 ''__u64'' [''void *''],
    Helper ''bpf_get_attach_cookie'' 174 ''__u64'' [''void *''],
    Helper ''bpf_task_pt_regs'' 175 ''long'' [''struct task_struct *'']]"

definition helper_defs_31 :: "helper_decl list" where
  "helper_defs_31 = [
    Helper ''bpf_get_branch_snapshot'' 176 ''long'' [''void *'', ''__u32'', ''__u64''],
    Helper ''bpf_trace_vprintk'' 177 ''long''
      [''const char *'', ''__u32'', ''const void *'', ''__u32''],
    Helper ''bpf_skc_to_unix_sock'' 178 ''struct unix_sock *'' [''void *''],
    Helper ''bpf_kallsyms_lookup_name'' 179 ''long'' [''const char *'', ''int'', ''int'', ''__u64 *''],
    Helper ''bpf_find_vma'' 180 ''long''
      [''struct task_struct *'', ''__u64'', ''void *'', ''void *'', ''__u64'']]"

definition helper_defs :: "helper_decl list" where
  "helper_defs =
    helper_defs_1 @ helper_defs_2 @ helper_defs_3 @ helper_defs_4 @ helper_defs_5 @
    helper_defs_6 @ helper_defs_7 @ helper_defs_8 @ helper_defs_9 @ helper_defs_10 @
    helper_defs_11 @ helper_defs_12 @ helper_defs_13 @ helper_defs_14 @ helper_defs_15 @
    helper_defs_16 @ helper_defs_17 @ helper_defs_18 @ helper_defs_19 @ helper_defs_20 @
    helper_defs_21 @ helper_defs_22 @ helper_defs_23 @ helper_defs_24 @ helper_defs_25 @
    helper_defs_26 @ helper_defs_27 @ helper_defs_28 @ helper_defs_29 @ helper_defs_30 @
    helper_defs_31"

text \<open>\<open>declares f n a\<close>: the helper \<open>f\<close> is declared with the number \<open>n\<close> and \<open>a\<close> parameters.\<close>

definition declares :: "string \<Rightarrow> nat \<Rightarrow> nat \<Rightarrow> bool" where
  "declares f n a \<longleftrightarrow>
     list_ex (\<lambda>h. helper_name h = f \<and> helper_num h = n \<and> helper_arity h = a) helper_defs"

section \<open>The numbers of the kernels\<close>

definition bpf_func_id_x86 :: "(string \<times> nat) list" where
  "bpf_func_id_x86 = [
    (''BPF_FUNC_unspec'', 0), (''BPF_FUNC_map_lookup_elem'', 1),
    (''BPF_FUNC_map_update_elem'', 2), (''BPF_FUNC_map_delete_elem'', 3),
    (''BPF_FUNC_probe_read'', 4), (''BPF_FUNC_ktime_get_ns'', 5), (''BPF_FUNC_trace_printk'', 6),
    (''BPF_FUNC_get_prandom_u32'', 7), (''BPF_FUNC_get_smp_processor_id'', 8),
    (''BPF_FUNC_skb_store_bytes'', 9), (''BPF_FUNC_l3_csum_replace'', 10),
    (''BPF_FUNC_l4_csum_replace'', 11), (''BPF_FUNC_tail_call'', 12),
    (''BPF_FUNC_clone_redirect'', 13), (''BPF_FUNC_get_current_pid_tgid'', 14),
    (''BPF_FUNC_get_current_uid_gid'', 15), (''BPF_FUNC_get_current_comm'', 16),
    (''BPF_FUNC_get_cgroup_classid'', 17), (''BPF_FUNC_skb_vlan_push'', 18),
    (''BPF_FUNC_skb_vlan_pop'', 19), (''BPF_FUNC_skb_get_tunnel_key'', 20),
    (''BPF_FUNC_skb_set_tunnel_key'', 21), (''BPF_FUNC_perf_event_read'', 22),
    (''BPF_FUNC_redirect'', 23), (''BPF_FUNC_get_route_realm'', 24),
    (''BPF_FUNC_perf_event_output'', 25), (''BPF_FUNC_skb_load_bytes'', 26),
    (''BPF_FUNC_get_stackid'', 27), (''BPF_FUNC_csum_diff'', 28),
    (''BPF_FUNC_skb_get_tunnel_opt'', 29), (''BPF_FUNC_skb_set_tunnel_opt'', 30),
    (''BPF_FUNC_skb_change_proto'', 31), (''BPF_FUNC_skb_change_type'', 32),
    (''BPF_FUNC_skb_under_cgroup'', 33), (''BPF_FUNC_get_hash_recalc'', 34),
    (''BPF_FUNC_get_current_task'', 35), (''BPF_FUNC_probe_write_user'', 36),
    (''BPF_FUNC_current_task_under_cgroup'', 37), (''BPF_FUNC_skb_change_tail'', 38),
    (''BPF_FUNC_skb_pull_data'', 39), (''BPF_FUNC_csum_update'', 40),
    (''BPF_FUNC_set_hash_invalid'', 41), (''BPF_FUNC_get_numa_node_id'', 42),
    (''BPF_FUNC_skb_change_head'', 43), (''BPF_FUNC_xdp_adjust_head'', 44),
    (''BPF_FUNC_probe_read_str'', 45), (''BPF_FUNC_get_socket_cookie'', 46),
    (''BPF_FUNC_get_socket_uid'', 47), (''BPF_FUNC_set_hash'', 48),
    (''BPF_FUNC_setsockopt'', 49), (''BPF_FUNC_skb_adjust_room'', 50),
    (''BPF_FUNC_redirect_map'', 51), (''BPF_FUNC_sk_redirect_map'', 52),
    (''BPF_FUNC_sock_map_update'', 53), (''BPF_FUNC_xdp_adjust_meta'', 54),
    (''BPF_FUNC_perf_event_read_value'', 55), (''BPF_FUNC_perf_prog_read_value'', 56),
    (''BPF_FUNC_getsockopt'', 57), (''BPF_FUNC_override_return'', 58),
    (''BPF_FUNC_sock_ops_cb_flags_set'', 59), (''BPF_FUNC_msg_redirect_map'', 60),
    (''BPF_FUNC_msg_apply_bytes'', 61), (''BPF_FUNC_msg_cork_bytes'', 62),
    (''BPF_FUNC_msg_pull_data'', 63), (''BPF_FUNC_bind'', 64),
    (''BPF_FUNC_xdp_adjust_tail'', 65), (''BPF_FUNC_skb_get_xfrm_state'', 66),
    (''BPF_FUNC_get_stack'', 67), (''BPF_FUNC_skb_load_bytes_relative'', 68),
    (''BPF_FUNC_fib_lookup'', 69), (''BPF_FUNC_sock_hash_update'', 70),
    (''BPF_FUNC_msg_redirect_hash'', 71), (''BPF_FUNC_sk_redirect_hash'', 72),
    (''BPF_FUNC_lwt_push_encap'', 73), (''BPF_FUNC_lwt_seg6_store_bytes'', 74),
    (''BPF_FUNC_lwt_seg6_adjust_srh'', 75), (''BPF_FUNC_lwt_seg6_action'', 76),
    (''BPF_FUNC_rc_repeat'', 77), (''BPF_FUNC_rc_keydown'', 78),
    (''BPF_FUNC_skb_cgroup_id'', 79), (''BPF_FUNC_get_current_cgroup_id'', 80),
    (''BPF_FUNC_get_local_storage'', 81), (''BPF_FUNC_sk_select_reuseport'', 82),
    (''BPF_FUNC_skb_ancestor_cgroup_id'', 83), (''BPF_FUNC_sk_lookup_tcp'', 84),
    (''BPF_FUNC_sk_lookup_udp'', 85), (''BPF_FUNC_sk_release'', 86),
    (''BPF_FUNC_map_push_elem'', 87), (''BPF_FUNC_map_pop_elem'', 88),
    (''BPF_FUNC_map_peek_elem'', 89), (''BPF_FUNC_msg_push_data'', 90),
    (''BPF_FUNC_msg_pop_data'', 91), (''BPF_FUNC_rc_pointer_rel'', 92),
    (''BPF_FUNC_spin_lock'', 93), (''BPF_FUNC_spin_unlock'', 94), (''BPF_FUNC_sk_fullsock'', 95),
    (''BPF_FUNC_tcp_sock'', 96), (''BPF_FUNC_skb_ecn_set_ce'', 97),
    (''BPF_FUNC_get_listener_sock'', 98), (''BPF_FUNC_skc_lookup_tcp'', 99),
    (''BPF_FUNC_tcp_check_syncookie'', 100), (''BPF_FUNC_sysctl_get_name'', 101),
    (''BPF_FUNC_sysctl_get_current_value'', 102), (''BPF_FUNC_sysctl_get_new_value'', 103),
    (''BPF_FUNC_sysctl_set_new_value'', 104), (''BPF_FUNC_strtol'', 105),
    (''BPF_FUNC_strtoul'', 106), (''BPF_FUNC_sk_storage_get'', 107),
    (''BPF_FUNC_sk_storage_delete'', 108), (''BPF_FUNC_send_signal'', 109),
    (''BPF_FUNC_tcp_gen_syncookie'', 110), (''BPF_FUNC_skb_output'', 111),
    (''BPF_FUNC_probe_read_user'', 112), (''BPF_FUNC_probe_read_kernel'', 113),
    (''BPF_FUNC_probe_read_user_str'', 114), (''BPF_FUNC_probe_read_kernel_str'', 115),
    (''BPF_FUNC_tcp_send_ack'', 116), (''BPF_FUNC_send_signal_thread'', 117),
    (''BPF_FUNC_jiffies64'', 118), (''BPF_FUNC_read_branch_records'', 119),
    (''BPF_FUNC_get_ns_current_pid_tgid'', 120), (''BPF_FUNC_xdp_output'', 121),
    (''BPF_FUNC_get_netns_cookie'', 122), (''BPF_FUNC_get_current_ancestor_cgroup_id'', 123),
    (''BPF_FUNC_sk_assign'', 124), (''BPF_FUNC_ktime_get_boot_ns'', 125),
    (''BPF_FUNC_seq_printf'', 126), (''BPF_FUNC_seq_write'', 127),
    (''BPF_FUNC_sk_cgroup_id'', 128), (''BPF_FUNC_sk_ancestor_cgroup_id'', 129),
    (''BPF_FUNC_ringbuf_output'', 130), (''BPF_FUNC_ringbuf_reserve'', 131),
    (''BPF_FUNC_ringbuf_submit'', 132), (''BPF_FUNC_ringbuf_discard'', 133),
    (''BPF_FUNC_ringbuf_query'', 134), (''BPF_FUNC_csum_level'', 135),
    (''BPF_FUNC_skc_to_tcp6_sock'', 136), (''BPF_FUNC_skc_to_tcp_sock'', 137),
    (''BPF_FUNC_skc_to_tcp_timewait_sock'', 138), (''BPF_FUNC_skc_to_tcp_request_sock'', 139),
    (''BPF_FUNC_skc_to_udp6_sock'', 140), (''BPF_FUNC_get_task_stack'', 141),
    (''BPF_FUNC_load_hdr_opt'', 142), (''BPF_FUNC_store_hdr_opt'', 143),
    (''BPF_FUNC_reserve_hdr_opt'', 144), (''BPF_FUNC_inode_storage_get'', 145),
    (''BPF_FUNC_inode_storage_delete'', 146), (''BPF_FUNC_d_path'', 147),
    (''BPF_FUNC_copy_from_user'', 148), (''BPF_FUNC_snprintf_btf'', 149),
    (''BPF_FUNC_seq_printf_btf'', 150), (''BPF_FUNC_skb_cgroup_classid'', 151),
    (''BPF_FUNC_redirect_neigh'', 152), (''BPF_FUNC_per_cpu_ptr'', 153),
    (''BPF_FUNC_this_cpu_ptr'', 154), (''BPF_FUNC_redirect_peer'', 155),
    (''BPF_FUNC_task_storage_get'', 156), (''BPF_FUNC_task_storage_delete'', 157),
    (''BPF_FUNC_get_current_task_btf'', 158), (''BPF_FUNC_bprm_opts_set'', 159),
    (''BPF_FUNC_ktime_get_coarse_ns'', 160), (''BPF_FUNC_ima_inode_hash'', 161),
    (''BPF_FUNC_sock_from_file'', 162), (''BPF_FUNC_check_mtu'', 163),
    (''BPF_FUNC_for_each_map_elem'', 164), (''BPF_FUNC_snprintf'', 165),
    (''BPF_FUNC_sys_bpf'', 166), (''BPF_FUNC_btf_find_by_name_kind'', 167),
    (''BPF_FUNC_sys_close'', 168), (''__BPF_FUNC_MAX_ID'', 169)]"

definition bpf_func_id_arm64 :: "(string \<times> nat) list" where
  "bpf_func_id_arm64 = [
    (''BPF_FUNC_unspec'', 0), (''BPF_FUNC_map_lookup_elem'', 1),
    (''BPF_FUNC_map_update_elem'', 2), (''BPF_FUNC_map_delete_elem'', 3),
    (''BPF_FUNC_probe_read'', 4), (''BPF_FUNC_ktime_get_ns'', 5), (''BPF_FUNC_trace_printk'', 6),
    (''BPF_FUNC_get_prandom_u32'', 7), (''BPF_FUNC_get_smp_processor_id'', 8),
    (''BPF_FUNC_skb_store_bytes'', 9), (''BPF_FUNC_l3_csum_replace'', 10),
    (''BPF_FUNC_l4_csum_replace'', 11), (''BPF_FUNC_tail_call'', 12),
    (''BPF_FUNC_clone_redirect'', 13), (''BPF_FUNC_get_current_pid_tgid'', 14),
    (''BPF_FUNC_get_current_uid_gid'', 15), (''BPF_FUNC_get_current_comm'', 16),
    (''BPF_FUNC_get_cgroup_classid'', 17), (''BPF_FUNC_skb_vlan_push'', 18),
    (''BPF_FUNC_skb_vlan_pop'', 19), (''BPF_FUNC_skb_get_tunnel_key'', 20),
    (''BPF_FUNC_skb_set_tunnel_key'', 21), (''BPF_FUNC_perf_event_read'', 22),
    (''BPF_FUNC_redirect'', 23), (''BPF_FUNC_get_route_realm'', 24),
    (''BPF_FUNC_perf_event_output'', 25), (''BPF_FUNC_skb_load_bytes'', 26),
    (''BPF_FUNC_get_stackid'', 27), (''BPF_FUNC_csum_diff'', 28),
    (''BPF_FUNC_skb_get_tunnel_opt'', 29), (''BPF_FUNC_skb_set_tunnel_opt'', 30),
    (''BPF_FUNC_skb_change_proto'', 31), (''BPF_FUNC_skb_change_type'', 32),
    (''BPF_FUNC_skb_under_cgroup'', 33), (''BPF_FUNC_get_hash_recalc'', 34),
    (''BPF_FUNC_get_current_task'', 35), (''BPF_FUNC_probe_write_user'', 36),
    (''BPF_FUNC_current_task_under_cgroup'', 37), (''BPF_FUNC_skb_change_tail'', 38),
    (''BPF_FUNC_skb_pull_data'', 39), (''BPF_FUNC_csum_update'', 40),
    (''BPF_FUNC_set_hash_invalid'', 41), (''BPF_FUNC_get_numa_node_id'', 42),
    (''BPF_FUNC_skb_change_head'', 43), (''BPF_FUNC_xdp_adjust_head'', 44),
    (''BPF_FUNC_probe_read_str'', 45), (''BPF_FUNC_get_socket_cookie'', 46),
    (''BPF_FUNC_get_socket_uid'', 47), (''BPF_FUNC_set_hash'', 48),
    (''BPF_FUNC_setsockopt'', 49), (''BPF_FUNC_skb_adjust_room'', 50),
    (''BPF_FUNC_redirect_map'', 51), (''BPF_FUNC_sk_redirect_map'', 52),
    (''BPF_FUNC_sock_map_update'', 53), (''BPF_FUNC_xdp_adjust_meta'', 54),
    (''BPF_FUNC_perf_event_read_value'', 55), (''BPF_FUNC_perf_prog_read_value'', 56),
    (''BPF_FUNC_getsockopt'', 57), (''BPF_FUNC_override_return'', 58),
    (''BPF_FUNC_sock_ops_cb_flags_set'', 59), (''BPF_FUNC_msg_redirect_map'', 60),
    (''BPF_FUNC_msg_apply_bytes'', 61), (''BPF_FUNC_msg_cork_bytes'', 62),
    (''BPF_FUNC_msg_pull_data'', 63), (''BPF_FUNC_bind'', 64),
    (''BPF_FUNC_xdp_adjust_tail'', 65), (''BPF_FUNC_skb_get_xfrm_state'', 66),
    (''BPF_FUNC_get_stack'', 67), (''BPF_FUNC_skb_load_bytes_relative'', 68),
    (''BPF_FUNC_fib_lookup'', 69), (''BPF_FUNC_sock_hash_update'', 70),
    (''BPF_FUNC_msg_redirect_hash'', 71), (''BPF_FUNC_sk_redirect_hash'', 72),
    (''BPF_FUNC_lwt_push_encap'', 73), (''BPF_FUNC_lwt_seg6_store_bytes'', 74),
    (''BPF_FUNC_lwt_seg6_adjust_srh'', 75), (''BPF_FUNC_lwt_seg6_action'', 76),
    (''BPF_FUNC_rc_repeat'', 77), (''BPF_FUNC_rc_keydown'', 78),
    (''BPF_FUNC_skb_cgroup_id'', 79), (''BPF_FUNC_get_current_cgroup_id'', 80),
    (''BPF_FUNC_get_local_storage'', 81), (''BPF_FUNC_sk_select_reuseport'', 82),
    (''BPF_FUNC_skb_ancestor_cgroup_id'', 83), (''BPF_FUNC_sk_lookup_tcp'', 84),
    (''BPF_FUNC_sk_lookup_udp'', 85), (''BPF_FUNC_sk_release'', 86),
    (''BPF_FUNC_map_push_elem'', 87), (''BPF_FUNC_map_pop_elem'', 88),
    (''BPF_FUNC_map_peek_elem'', 89), (''BPF_FUNC_msg_push_data'', 90),
    (''BPF_FUNC_msg_pop_data'', 91), (''BPF_FUNC_rc_pointer_rel'', 92),
    (''BPF_FUNC_spin_lock'', 93), (''BPF_FUNC_spin_unlock'', 94), (''BPF_FUNC_sk_fullsock'', 95),
    (''BPF_FUNC_tcp_sock'', 96), (''BPF_FUNC_skb_ecn_set_ce'', 97),
    (''BPF_FUNC_get_listener_sock'', 98), (''BPF_FUNC_skc_lookup_tcp'', 99),
    (''BPF_FUNC_tcp_check_syncookie'', 100), (''BPF_FUNC_sysctl_get_name'', 101),
    (''BPF_FUNC_sysctl_get_current_value'', 102), (''BPF_FUNC_sysctl_get_new_value'', 103),
    (''BPF_FUNC_sysctl_set_new_value'', 104), (''BPF_FUNC_strtol'', 105),
    (''BPF_FUNC_strtoul'', 106), (''BPF_FUNC_sk_storage_get'', 107),
    (''BPF_FUNC_sk_storage_delete'', 108), (''BPF_FUNC_send_signal'', 109),
    (''BPF_FUNC_tcp_gen_syncookie'', 110), (''BPF_FUNC_skb_output'', 111),
    (''BPF_FUNC_probe_read_user'', 112), (''BPF_FUNC_probe_read_kernel'', 113),
    (''BPF_FUNC_probe_read_user_str'', 114), (''BPF_FUNC_probe_read_kernel_str'', 115),
    (''BPF_FUNC_tcp_send_ack'', 116), (''BPF_FUNC_send_signal_thread'', 117),
    (''BPF_FUNC_jiffies64'', 118), (''BPF_FUNC_read_branch_records'', 119),
    (''BPF_FUNC_get_ns_current_pid_tgid'', 120), (''BPF_FUNC_xdp_output'', 121),
    (''BPF_FUNC_get_netns_cookie'', 122), (''BPF_FUNC_get_current_ancestor_cgroup_id'', 123),
    (''BPF_FUNC_sk_assign'', 124), (''BPF_FUNC_ktime_get_boot_ns'', 125),
    (''BPF_FUNC_seq_printf'', 126), (''BPF_FUNC_seq_write'', 127),
    (''BPF_FUNC_sk_cgroup_id'', 128), (''BPF_FUNC_sk_ancestor_cgroup_id'', 129),
    (''BPF_FUNC_ringbuf_output'', 130), (''BPF_FUNC_ringbuf_reserve'', 131),
    (''BPF_FUNC_ringbuf_submit'', 132), (''BPF_FUNC_ringbuf_discard'', 133),
    (''BPF_FUNC_ringbuf_query'', 134), (''BPF_FUNC_csum_level'', 135),
    (''BPF_FUNC_skc_to_tcp6_sock'', 136), (''BPF_FUNC_skc_to_tcp_sock'', 137),
    (''BPF_FUNC_skc_to_tcp_timewait_sock'', 138), (''BPF_FUNC_skc_to_tcp_request_sock'', 139),
    (''BPF_FUNC_skc_to_udp6_sock'', 140), (''BPF_FUNC_get_task_stack'', 141),
    (''BPF_FUNC_load_hdr_opt'', 142), (''BPF_FUNC_store_hdr_opt'', 143),
    (''BPF_FUNC_reserve_hdr_opt'', 144), (''BPF_FUNC_inode_storage_get'', 145),
    (''BPF_FUNC_inode_storage_delete'', 146), (''BPF_FUNC_d_path'', 147),
    (''BPF_FUNC_copy_from_user'', 148), (''BPF_FUNC_snprintf_btf'', 149),
    (''BPF_FUNC_seq_printf_btf'', 150), (''BPF_FUNC_skb_cgroup_classid'', 151),
    (''BPF_FUNC_redirect_neigh'', 152), (''BPF_FUNC_per_cpu_ptr'', 153),
    (''BPF_FUNC_this_cpu_ptr'', 154), (''BPF_FUNC_redirect_peer'', 155),
    (''__BPF_FUNC_MAX_ID'', 156)]"

text \<open>
  The helpers that \<open>pyperf.bpf.c\<close>, \<open>profile.bpf.c\<close> and their headers call, with the number of
  arguments of the calls.
\<close>

definition called_helpers :: "(string \<times> nat) list" where
  "called_helpers = [
    (''bpf_map_lookup_elem'', 2), (''bpf_map_update_elem'', 4), (''bpf_map_delete_elem'', 2),
    (''bpf_get_smp_processor_id'', 0), (''bpf_tail_call'', 3), (''bpf_get_current_pid_tgid'', 0),
    (''bpf_perf_event_output'', 5), (''bpf_get_stackid'', 3), (''bpf_get_current_task'', 0),
    (''bpf_perf_prog_read_value'', 3), (''bpf_probe_read_user'', 3),
    (''bpf_probe_read_kernel'', 3), (''bpf_probe_read_user_str'', 3)]"

text \<open>An entry \<open>BPF_FUNC_f\<close> of the kernel names the helper \<open>bpf_f\<close>.\<close>

definition enum_entry :: "string \<times> nat \<Rightarrow> string \<times> nat" where
  "enum_entry e = (drop 9 (fst e), snd e)"

definition helper_entry :: "helper_decl \<Rightarrow> string \<times> nat" where
  "helper_entry h = (drop 4 (helper_name h), helper_num h)"

section \<open>Lemmas\<close>

lemmas helper_tables = helper_defs_def
  helper_defs_1_def helper_defs_2_def helper_defs_3_def helper_defs_4_def helper_defs_5_def
  helper_defs_6_def helper_defs_7_def helper_defs_8_def helper_defs_9_def helper_defs_10_def
  helper_defs_11_def helper_defs_12_def helper_defs_13_def helper_defs_14_def
  helper_defs_15_def helper_defs_16_def helper_defs_17_def helper_defs_18_def
  helper_defs_19_def helper_defs_20_def helper_defs_21_def helper_defs_22_def
  helper_defs_23_def helper_defs_24_def helper_defs_25_def helper_defs_26_def
  helper_defs_27_def helper_defs_28_def helper_defs_29_def helper_defs_30_def
  helper_defs_31_def

lemma helper_nums: "map helper_num helper_defs = [1..<181]"
  by (simp add: helper_tables upt_rec)

lemma helper_arities: "list_all (\<lambda>h. helper_arity h \<le> 5) helper_defs"
  by (simp add: helper_tables)

lemma enum_x86: "map enum_entry (butlast (tl bpf_func_id_x86)) = take 168 (map helper_entry helper_defs)"
  by code_simp

lemma enum_arm64: "map enum_entry (butlast (tl bpf_func_id_arm64)) = take 155 (map helper_entry helper_defs)"
  by code_simp

lemma enum_max: "snd (last bpf_func_id_x86) = 169" "snd (last bpf_func_id_arm64) = 156"
  unfolding bpf_func_id_x86_def bpf_func_id_arm64_def
  by (simp_all only: last.simps list.distinct if_False if_True simp_thms snd_conv)

lemma declaresI:
  assumes "Helper f n r ps \<in> set helper_defs" "length ps = a"
  shows "declares f n a"
  using assms by (force simp: declares_def list_ex_iff)

lemma tables_used:
  "set helper_defs_1 \<subseteq> set helper_defs"
  "set helper_defs_2 \<subseteq> set helper_defs"
  "set helper_defs_3 \<subseteq> set helper_defs"
  "set helper_defs_5 \<subseteq> set helper_defs"
  "set helper_defs_6 \<subseteq> set helper_defs"
  "set helper_defs_7 \<subseteq> set helper_defs"
  "set helper_defs_11 \<subseteq> set helper_defs"
  "set helper_defs_21 \<subseteq> set helper_defs"
  by (auto simp: helper_defs_def)

lemma called_declared:
  "declares ''bpf_map_lookup_elem'' 1 2"
  "declares ''bpf_map_update_elem'' 2 4"
  "declares ''bpf_map_delete_elem'' 3 2"
  "declares ''bpf_get_smp_processor_id'' 8 0"
  "declares ''bpf_tail_call'' 12 3"
  "declares ''bpf_get_current_pid_tgid'' 14 0"
  "declares ''bpf_perf_event_output'' 25 5"
  "declares ''bpf_get_stackid'' 27 3"
  "declares ''bpf_get_current_task'' 35 0"
  "declares ''bpf_perf_prog_read_value'' 56 3"
  "declares ''bpf_probe_read_user'' 112 3"
  "declares ''bpf_probe_read_kernel'' 113 3"
  "declares ''bpf_probe_read_user_str'' 114 3"
  subgoal by (rule declaresI [OF subsetD [OF tables_used(1)], of _ _ "''void *''" "[''void *'', ''const void *'']"]) (simp_all add: helper_defs_1_def)
  subgoal by (rule declaresI [OF subsetD [OF tables_used(1)], of _ _ "''long''" "[''void *'', ''const void *'', ''const void *'', ''__u64'']"]) (simp_all add: helper_defs_1_def)
  subgoal by (rule declaresI [OF subsetD [OF tables_used(1)], of _ _ "''long''" "[''void *'', ''const void *'']"]) (simp_all add: helper_defs_1_def)
  subgoal by (rule declaresI [OF subsetD [OF tables_used(2)], of _ _ "''__u32''" "[]"]) (simp_all add: helper_defs_2_def)
  subgoal by (rule declaresI [OF subsetD [OF tables_used(2)], of _ _ "''long''" "[''void *'', ''void *'', ''__u32'']"]) (simp_all add: helper_defs_2_def)
  subgoal by (rule declaresI [OF subsetD [OF tables_used(3)], of _ _ "''__u64''" "[]"]) (simp_all add: helper_defs_3_def)
  subgoal by (rule declaresI [OF subsetD [OF tables_used(4)], of _ _ "''long''" "[''void *'', ''void *'', ''__u64'', ''void *'', ''__u64'']"]) (simp_all add: helper_defs_5_def)
  subgoal by (rule declaresI [OF subsetD [OF tables_used(5)], of _ _ "''long''" "[''void *'', ''void *'', ''__u64'']"]) (simp_all add: helper_defs_6_def)
  subgoal by (rule declaresI [OF subsetD [OF tables_used(6)], of _ _ "''__u64''" "[]"]) (simp_all add: helper_defs_7_def)
  subgoal by (rule declaresI [OF subsetD [OF tables_used(7)], of _ _ "''long''" "[''struct bpf_perf_event_data *'', ''struct bpf_perf_event_value *'', ''__u32'']"]) (simp_all add: helper_defs_11_def)
  subgoal by (rule declaresI [OF subsetD [OF tables_used(8)], of _ _ "''long''" "[''void *'', ''__u32'', ''const void *'']"]) (simp_all add: helper_defs_21_def)
  subgoal by (rule declaresI [OF subsetD [OF tables_used(8)], of _ _ "''long''" "[''void *'', ''__u32'', ''const void *'']"]) (simp_all add: helper_defs_21_def)
  subgoal by (rule declaresI [OF subsetD [OF tables_used(8)], of _ _ "''long''" "[''void *'', ''__u32'', ''const void *'']"]) (simp_all add: helper_defs_21_def)
  done


text \<open>
  Every helper that the profiling programs call is declared with as many parameters as the
  calls pass arguments, under a number that both kernels know.
\<close>

lemma called_helpers_available:
  "list_all (\<lambda>(f, a). \<exists>n. declares f n a \<and>
      n < snd (last bpf_func_id_x86) \<and> n < snd (last bpf_func_id_arm64)) called_helpers"
  unfolding called_helpers_def enum_max list.pred_inject prod.case
  by (intro conjI exI, (rule called_declared | simp)+)

text \<open>
  The static tail call enters the helper declared as \<open>bpf_tail_call\<close> with the context, the
  program array and the slot in the registers of its three parameters.
\<close>

lemma tail_call_static_helper:
  assumes "ctx \<notin> set tail_call_clobbers" "mp \<notin> set tail_call_clobbers"
  shows "\<exists>is n rs'. bpf_tail_call_static ctx mp True slot = Some is \<and> run_to_call rs is = Some (n, rs') \<and>
           declares ''bpf_tail_call'' n 3 \<and>
           rs' R1 = rs ctx \<and> rs' R2 = rs mp \<and> rs' R3 = ucast slot"
  using tail_call_static_regs [OF assms, of slot rs] called_declared(5) by blast

end
