(* ===== verification/Bpf_Endian.thy ===== *)
theory Bpf_Endian
  imports Prelude
begin

text \<open>
  \<open>ebpf/bpf/libbpf/bpf_endian.h\<close>: byte swaps by shifting, and the conversions between host
  and network order for either byte order of the target, with the macro variant for constants
  and the compiler builtin otherwise.

  The builtin is a parameter: \<open>bswap\<close> reverses the bytes. The 16-bit move works on \<open>int\<close>,
  to which C promotes its operand. The locale \<open>byte_swap\<close> holds what a swap promises; it is
  interpreted on the three widths.
\<close>

definition bpf_mvb16 :: "u16 \<Rightarrow> nat \<Rightarrow> nat \<Rightarrow> s32" where
  "bpf_mvb16 x n m =
     push_bit (m * 8) (signed_drop_bit (16 - 8) (push_bit (16 - (n + 1) * 8) (ucast x :: s32)))"

definition bpf_mvb :: "'w::len word \<Rightarrow> nat \<Rightarrow> nat \<Rightarrow> 'w word" where
  "bpf_mvb x n m =
     push_bit (m * 8) (drop_bit (LENGTH('w) - 8) (push_bit (LENGTH('w) - (n + 1) * 8) x))"

definition bpf_swab16 :: "u16 \<Rightarrow> u16" where
  "bpf_swab16 x = ucast (bpf_mvb16 x 0 1 OR bpf_mvb16 x 1 0)"

definition bpf_swab32 :: "u32 \<Rightarrow> u32" where
  "bpf_swab32 x = bpf_mvb x 0 3 OR bpf_mvb x 1 2 OR bpf_mvb x 2 1 OR bpf_mvb x 3 0"

definition bpf_swab64 :: "u64 \<Rightarrow> u64" where
  "bpf_swab64 x =
     bpf_mvb x 0 7 OR bpf_mvb x 1 6 OR bpf_mvb x 2 5 OR bpf_mvb x 3 4 OR
     bpf_mvb x 4 3 OR bpf_mvb x 5 2 OR bpf_mvb x 6 1 OR bpf_mvb x 7 0"

datatype byte_order = ORDER_LITTLE_ENDIAN | ORDER_BIG_ENDIAN

text \<open>\<open>__builtin_bswap16\<close>, \<open>__builtin_bswap32\<close>, \<open>__builtin_bswap64\<close>.\<close>

record builtins =
  bswap16 :: "u16 \<Rightarrow> u16"
  bswap32 :: "u32 \<Rightarrow> u32"
  bswap64 :: "u64 \<Rightarrow> u64"

text \<open>The twelve macros \<open>__bpf_...\<close> that the byte order of the target selects.\<close>

record order_macros =
  m_ntohs :: "u16 \<Rightarrow> u16"
  m_htons :: "u16 \<Rightarrow> u16"
  m_constant_ntohs :: "u16 \<Rightarrow> u16"
  m_constant_htons :: "u16 \<Rightarrow> u16"
  m_ntohl :: "u32 \<Rightarrow> u32"
  m_htonl :: "u32 \<Rightarrow> u32"
  m_constant_ntohl :: "u32 \<Rightarrow> u32"
  m_constant_htonl :: "u32 \<Rightarrow> u32"
  m_be64_to_cpu :: "u64 \<Rightarrow> u64"
  m_cpu_to_be64 :: "u64 \<Rightarrow> u64"
  m_constant_be64_to_cpu :: "u64 \<Rightarrow> u64"
  m_constant_cpu_to_be64 :: "u64 \<Rightarrow> u64"

definition order_macros_of :: "byte_order \<Rightarrow> builtins \<Rightarrow> order_macros" where
  "order_macros_of bo bi =
     (case bo of
        ORDER_LITTLE_ENDIAN \<Rightarrow>
          \<lparr>m_ntohs = bswap16 bi, m_htons = bswap16 bi, m_constant_ntohs = bpf_swab16, m_constant_htons = bpf_swab16,
           m_ntohl = bswap32 bi, m_htonl = bswap32 bi, m_constant_ntohl = bpf_swab32, m_constant_htonl = bpf_swab32,
           m_be64_to_cpu = bswap64 bi, m_cpu_to_be64 = bswap64 bi, m_constant_be64_to_cpu = bpf_swab64, m_constant_cpu_to_be64 = bpf_swab64\<rparr>
      | ORDER_BIG_ENDIAN \<Rightarrow>
          \<lparr>m_ntohs = (\<lambda>x. x), m_htons = (\<lambda>x. x), m_constant_ntohs = (\<lambda>x. x), m_constant_htons = (\<lambda>x. x),
           m_ntohl = (\<lambda>x. x), m_htonl = (\<lambda>x. x), m_constant_ntohl = (\<lambda>x. x), m_constant_htonl = (\<lambda>x. x),
           m_be64_to_cpu = (\<lambda>x. x), m_cpu_to_be64 = (\<lambda>x. x), m_constant_be64_to_cpu = (\<lambda>x. x), m_constant_cpu_to_be64 = (\<lambda>x. x)\<rparr>)"

text \<open>The public macros choose by whether the argument is a compile-time constant.\<close>

definition bpf_htons :: "byte_order \<Rightarrow> builtins \<Rightarrow> bool \<Rightarrow> u16 \<Rightarrow> u16" where
  "bpf_htons bo bi constant x =
     (if constant then m_constant_htons (order_macros_of bo bi) x else m_htons (order_macros_of bo bi) x)"

definition bpf_ntohs :: "byte_order \<Rightarrow> builtins \<Rightarrow> bool \<Rightarrow> u16 \<Rightarrow> u16" where
  "bpf_ntohs bo bi constant x =
     (if constant then m_constant_ntohs (order_macros_of bo bi) x else m_ntohs (order_macros_of bo bi) x)"

definition bpf_htonl :: "byte_order \<Rightarrow> builtins \<Rightarrow> bool \<Rightarrow> u32 \<Rightarrow> u32" where
  "bpf_htonl bo bi constant x =
     (if constant then m_constant_htonl (order_macros_of bo bi) x else m_htonl (order_macros_of bo bi) x)"

definition bpf_ntohl :: "byte_order \<Rightarrow> builtins \<Rightarrow> bool \<Rightarrow> u32 \<Rightarrow> u32" where
  "bpf_ntohl bo bi constant x =
     (if constant then m_constant_ntohl (order_macros_of bo bi) x else m_ntohl (order_macros_of bo bi) x)"

definition bpf_cpu_to_be64 :: "byte_order \<Rightarrow> builtins \<Rightarrow> bool \<Rightarrow> u64 \<Rightarrow> u64" where
  "bpf_cpu_to_be64 bo bi constant x =
     (if constant then m_constant_cpu_to_be64 (order_macros_of bo bi) x else m_cpu_to_be64 (order_macros_of bo bi) x)"

definition bpf_be64_to_cpu :: "byte_order \<Rightarrow> builtins \<Rightarrow> bool \<Rightarrow> u64 \<Rightarrow> u64" where
  "bpf_be64_to_cpu bo bi constant x =
     (if constant then m_constant_be64_to_cpu (order_macros_of bo bi) x else m_be64_to_cpu (order_macros_of bo bi) x)"

section \<open>Bytes of a word\<close>

definition byte_of :: "'w::len word \<Rightarrow> nat \<Rightarrow> u8" where
  "byte_of w i = ucast (drop_bit (8 * i) w)"

lemma of_nat_mod_256: "(of_nat (x mod 256) :: u8) = of_nat x"
  by (simp add: word_of_nat_eq_iff take_bit_eq_mod)

lemma nat_le_map: "nat_le n x = map (\<lambda>i. of_nat (x div 256 ^ i)) [0..<n]"
proof (induction n arbitrary: x)
  case (Suc n)
  have "[0..<Suc n] = 0 # map Suc [0..<n]" by (simp add: map_Suc_upt upt_conv_Cons del: upt_Suc)
  then show ?case
    by (simp add: Suc of_nat_mod_256 div_mult2_eq comp_def del: upt_Suc)
qed simp

lemma word_le_bytes: "word_le (w :: 'w::len word) = map (byte_of w) [0..<LENGTH('w) div 8]"
proof -
  have "(of_nat (unat w div 256 ^ i) :: u8) = byte_of w i" for i
  proof -
    have "unat (drop_bit (8 * i) w) = drop_bit (8 * i) (unat w)"
      by (rule unsigned_drop_bit_eq [THEN trans]) (simp add: take_bit_nat_eq_self)
    then have "unat w div 256 ^ i = unat (drop_bit (8 * i) w)"
      by (simp only: drop_bit_eq_div exp_256)
    then show ?thesis by (simp add: byte_of_def of_nat_unat)
  qed
  then show ?thesis by (simp add: word_le_def nat_le_map)
qed

lemma byte_of_or: "byte_of (a OR b) i = byte_of a i OR byte_of b i"
  by (rule bit_word_eqI) (simp add: byte_of_def bit_simps)

lemma byte_of_mvb:
  fixes x :: "'w::len word"
  assumes "8 * (n + 1) \<le> LENGTH('w)" "8 * (m + 1) \<le> LENGTH('w)" "8 * (i + 1) \<le> LENGTH('w)"
  shows "byte_of (bpf_mvb x n m) i = (if i = m then byte_of x n else 0)"
proof (rule bit_word_eqI)
  fix j
  assume j: "j < LENGTH(8)"
  have n: "LENGTH('w) - 8 + (8 * i + j - 8 * m) - (LENGTH('w) - 8 * (n + 1)) = 8 * n + j" if "i = m"
    using assms j that by simp
  from assms j n show "bit (byte_of (bpf_mvb x n m) i) j \<longleftrightarrow> bit (if i = m then byte_of x n else 0 :: u8) j"
    by (auto simp: byte_of_def bpf_mvb_def bit_simps ac_simps)
qed

text \<open>
  The 16-bit move works at the width of \<open>int\<close>, so the first left shift drops nothing: byte 0
  moved to byte 1 carries byte 1 along in byte 2, which the final cast removes.
\<close>

lemma byte_of_ucast_mvb16:
  assumes "i < 2"
  shows "byte_of (ucast (bpf_mvb16 x 0 1) :: u16) i = (if i = 1 then byte_of x 0 else 0)"
    and "byte_of (ucast (bpf_mvb16 x 1 0) :: u16) i = (if i = 0 then byte_of x 1 else 0)"
proof -
  consider "i = 0" | "i = 1" using assms by linarith
  then show "byte_of (ucast (bpf_mvb16 x 0 1) :: u16) i = (if i = 1 then byte_of x 0 else 0)"
    by cases (rule bit_word_eqI; auto simp: byte_of_def bpf_mvb16_def bit_simps ac_simps dest: bit_imp_le_length)+
  from \<open>i < 2\<close> consider "i = 0" | "i = 1" by linarith
  then show "byte_of (ucast (bpf_mvb16 x 1 0) :: u16) i = (if i = 0 then byte_of x 1 else 0)"
    by cases (rule bit_word_eqI; auto simp: byte_of_def bpf_mvb16_def bit_simps ac_simps dest: bit_imp_le_length)+
qed

lemma ucast_or16: "(ucast (a OR b :: s32) :: u16) = ucast a OR ucast b"
  by (rule bit_word_eqI) (auto simp: bit_simps)

lemma upt_bytes:
  "[0..<2] = [0, 1 :: nat]" "[0..<4] = [0, 1, 2, 3 :: nat]"
  "[0..<8] = [0, 1, 2, 3, 4, 5, 6, 7 :: nat]"
  by code_simp+

section \<open>The interface of a byte swap\<close>

locale byte_swap =
  fixes swab :: "'w::len word \<Rightarrow> 'w word"
  assumes width: "8 dvd LENGTH('w)"
    and swab_bytes: "word_le (swab x) = rev (word_le x)"
begin

lemma swab_swab: "swab (swab x) = x"
proof -
  have "word_le (swab (swab x)) = word_le x" by (simp add: swab_bytes)
  then have "le_word (word_le (swab (swab x))) = (le_word (word_le x) :: 'w word)" by simp
  then show ?thesis using width by simp
qed

lemma swab_inj: "swab x = swab y \<longleftrightarrow> x = y"
  by (metis swab_swab)

lemma swab_unique:
  assumes "word_le y = rev (word_le x)"
  shows "y = swab x"
proof -
  have "word_le y = word_le (swab x)" by (simp add: assms swab_bytes)
  then have "le_word (word_le y) = (le_word (word_le (swab x)) :: 'w word)" by simp
  then show ?thesis using width by simp
qed

end

interpretation swab16: byte_swap bpf_swab16
proof
  show "word_le (bpf_swab16 x) = rev (word_le x)" for x
    by (simp add: word_le_bytes upt_bytes bpf_swab16_def ucast_or16 byte_of_or byte_of_ucast_mvb16 [simplified])
qed simp

interpretation swab32: byte_swap bpf_swab32
proof
  show "word_le (bpf_swab32 x) = rev (word_le x)" for x
    by (simp add: word_le_bytes upt_bytes bpf_swab32_def byte_of_or byte_of_mvb)
qed simp

interpretation swab64: byte_swap bpf_swab64
proof
  show "word_le (bpf_swab64 x) = rev (word_le x)" for x
    by (simp add: word_le_bytes upt_bytes bpf_swab64_def byte_of_or byte_of_mvb)
qed simp

section \<open>Network order\<close>

text \<open>
  The compiler builtins reverse the bytes, as GCC and Clang document them; \<open>be_bytes\<close> is the
  big-endian reading of a byte list and \<open>order_bytes\<close> the bytes that a word occupies in the
  memory of the target.
\<close>

definition builtins_ok :: "builtins \<Rightarrow> bool" where
  "builtins_ok bi \<longleftrightarrow>
     (\<forall>x. word_le (bswap16 bi x) = rev (word_le x)) \<and>
     (\<forall>x. word_le (bswap32 bi x) = rev (word_le x)) \<and>
     (\<forall>x. word_le (bswap64 bi x) = rev (word_le x))"

definition order_bytes :: "byte_order \<Rightarrow> 'w::len word \<Rightarrow> u8 list" where
  "order_bytes bo x = (case bo of ORDER_LITTLE_ENDIAN \<Rightarrow> word_le x | ORDER_BIG_ENDIAN \<Rightarrow> rev (word_le x))"

lemma builtins_eq:
  assumes "builtins_ok bi"
  shows "bswap16 bi x = bpf_swab16 x" "bswap32 bi y = bpf_swab32 y" "bswap64 bi z = bpf_swab64 z"
  using assms by (simp_all add: builtins_ok_def swab16.swab_unique swab32.swab_unique swab64.swab_unique)

lemmas endian_defs = bpf_htons_def bpf_ntohs_def bpf_htonl_def bpf_ntohl_def
  bpf_cpu_to_be64_def bpf_be64_to_cpu_def order_macros_of_def

text \<open>
  On either byte order, and whether or not the argument is a compile-time constant, the
  conversions to network order lay the value out in memory with its most significant byte
  first, at 16, 32 and 64 bits.
\<close>

lemma network_order_layout:
  assumes "builtins_ok bi"
  shows "order_bytes bo (bpf_htons bo bi c x) = rev (word_le x) \<and>
         order_bytes bo (bpf_htonl bo bi c y) = rev (word_le y) \<and>
         order_bytes bo (bpf_cpu_to_be64 bo bi c z) = rev (word_le z)"
  using builtins_eq [OF assms]
  by (cases bo) (simp_all add: order_bytes_def endian_defs swab16.swab_bytes swab32.swab_bytes swab64.swab_bytes)

text \<open>
  The conversion back undoes the conversion to network order at every width, also when one
  side was folded at compile time and the other was not.
\<close>

lemma network_order_roundtrip:
  assumes "builtins_ok bi"
  shows "bpf_ntohs bo bi c (bpf_htons bo bi d x) = x \<and>
         bpf_ntohl bo bi c (bpf_htonl bo bi d y) = y \<and>
         bpf_be64_to_cpu bo bi c (bpf_cpu_to_be64 bo bi d z) = z"
  using builtins_eq [OF assms]
  by (cases bo) (simp_all add: endian_defs swab16.swab_swab swab32.swab_swab swab64.swab_swab)

definition swab_builtins :: builtins where
  "swab_builtins = \<lparr>bswap16 = bpf_swab16, bswap32 = bpf_swab32, bswap64 = bpf_swab64\<rparr>"

lemma swab_builtins_ok: "builtins_ok swab_builtins"
  by (simp add: builtins_ok_def swab_builtins_def swab16.swab_bytes swab32.swab_bytes swab64.swab_bytes)

end
