(* ===== verification/Shared_Layout.thy ===== *)
theory Shared_Layout
  imports C_Layout Vmlinux_X86 Vmlinux_Arm64 Profile
begin

text \<open>
  The structures that the kernel programs and the agent exchange through maps, global constants
  and the perf buffer: the C declarations of \<open>pyperf.bpf.c\<close>, \<open>pyoffsets.h\<close>, \<open>pystr.h\<close>, \<open>stacks.h\<close>,
  \<open>profile.bpf.h\<close> and \<open>profile.bpf.c\<close>, and the Go declarations of the bindings
  \<open>python/perf_bpfel_*.go\<close> and \<open>pyrobpf/profile_bpfel_*.go\<close>, which are the same on both
  architectures. A Go structure is laid out by the same rules as a C structure; its blank fields
  spell the padding out. The lemmas also tie the byte encodings of the model to these layouts and
  show that the compile-time checks of \<open>pyperf.bpf.c\<close> pass.
\<close>

section \<open>The C declarations\<close>

definition libc_c :: ctype where
  "libc_c = Struct [
    Member ''musl'' (Prim 1), Member ''pthread_size'' (Prim 2),
    Member ''pthread_specific1stblock'' (Prim 2)]"

definition py_offset_config_c :: ctype where
  "py_offset_config_c = Struct [
    Member ''PyThreadState_frame'' (Prim 2), Member ''PyThreadState_cframe'' (Prim 2),
    Member ''PyCFrame_current_frame'' (Prim 2), Member ''PyCodeObject_co_filename'' (Prim 2),
    Member ''PyCodeObject_co_name'' (Prim 2), Member ''PyCodeObject_co_varnames'' (Prim 2),
    Member ''PyCodeObject_co_localsplusnames'' (Prim 2),
    Member ''PyCodeObject__co_cell2arg'' (Prim 2), Member ''PyCodeObject__co_cellvars'' (Prim 2),
    Member ''PyCodeObject__co_nlocals'' (Prim 2), Member ''PyTupleObject_ob_item'' (Prim 2),
    Member ''PyVarObject_ob_size'' (Prim 2), Member ''PyObject_ob_type'' (Prim 2),
    Member ''PyTypeObject_tp_name'' (Prim 2), Member ''VFrame_code'' (Prim 2),
    Member ''VFrame_previous'' (Prim 2), Member ''VFrame_localsplus'' (Prim 2),
    Member ''PyInterpreterFrame_owner'' (Prim 2), Member ''PyASCIIObject_size'' (Prim 2),
    Member ''PyCompactUnicodeObject_size'' (Prim 2), Member ''PyCellObject_ob_ref'' (Prim 2),
    Member ''base'' (Prim 8), Member ''PyCell_Type'' (Prim 8)]"

definition py_version_c :: ctype where
  "py_version_c = Struct [
    Member ''major'' (Prim 4), Member ''minor'' (Prim 4), Member ''patch'' (Prim 4)]"

definition py_pid_data_c :: ctype where
  "py_pid_data_c = Struct [
    Member ''offsets'' py_offset_config_c, Member ''version'' py_version_c, Member ''libc'' libc_c,
    Member ''tssKey'' (Prim 4), Member ''collect_kernel'' (Prim 1)]"

definition py_str_type_c :: ctype where
  "py_str_type_c = Struct [
    Member ''type'' (Prim 1), Member ''size_codepoints'' (Prim 1)]"

definition py_symbol_c :: ctype where
  "py_symbol_c = Struct [
    Member ''classname'' (Arr (Prim 1) PYTHON_CLASS_NAME_LEN),
    Member ''name'' (Arr (Prim 1) PYTHON_FUNCTION_NAME_LEN),
    Member ''file'' (Arr (Prim 1) PYTHON_FILE_NAME_LEN), Member ''classname_type'' py_str_type_c,
    Member ''name_type'' py_str_type_c, Member ''file_type'' py_str_type_c,
    Member ''__padding'' py_str_type_c]"

definition sample_key_c :: ctype where
  "sample_key_c = Struct [
    Member ''pid'' (Prim 4), Member ''flags'' (Prim 4), Member ''kern_stack'' (Prim 8),
    Member ''user_stack'' (Prim 8)]"

definition py_event_c :: ctype where
  "py_event_c = Struct [
    Member ''k'' sample_key_c, Member ''stack_len'' (Prim 4),
    Member ''stack'' (Arr (Prim 4) PYTHON_STACK_MAX_LEN)]"

definition py_sample_state_c :: ctype where
  "py_sample_state_c = Struct [
    Member ''symbol_counter'' (Prim 8), Member ''offsets'' py_offset_config_c,
    Member ''cur_cpu'' (Prim 4), Member ''frame_ptr'' (Prim 8),
    Member ''python_stack_prog_call_cnt'' (Prim 8), Member ''sym'' py_symbol_c,
    Member ''event'' py_event_c, Member ''padding'' (Prim 8)]"

definition py_global_config_c :: ctype where
  "py_global_config_c = Struct [
    Member ''bpf_log_err'' (Prim 1), Member ''bpf_log_debug'' (Prim 1),
    Member ''ns_pid_ino'' (Prim 8)]"

definition profile_global_config_c :: ctype where
  "profile_global_config_c = Struct [
    Member ''ns_pid_ino'' (Prim 8)]"

definition pid_config_c :: ctype where
  "pid_config_c = Struct [
    Member ''type'' (Prim 1), Member ''collect_user'' (Prim 1), Member ''collect_kernel'' (Prim 1),
    Member ''padding_'' (Prim 1)]"

definition pid_event_c :: ctype where
  "pid_event_c = Struct [
    Member ''op'' (Prim 4), Member ''pid'' (Prim 4)]"

section \<open>The Go declarations\<close>

definition PerfLibc :: ctype where
  "PerfLibc = Struct [
    Member ''Musl'' (Prim 1), Member ''_'' (Arr (Prim 1) 1), Member ''PthreadSize'' (Prim 2),
    Member ''PthreadSpecific1stblock'' (Prim 2)]"

definition PerfPyOffsetConfig :: ctype where
  "PerfPyOffsetConfig = Struct [
    Member ''PyThreadStateFrame'' (Prim 2), Member ''PyThreadStateCframe'' (Prim 2),
    Member ''PyCFrameCurrentFrame'' (Prim 2), Member ''PyCodeObjectCoFilename'' (Prim 2),
    Member ''PyCodeObjectCoName'' (Prim 2), Member ''PyCodeObjectCoVarnames'' (Prim 2),
    Member ''PyCodeObjectCoLocalsplusnames'' (Prim 2), Member ''PyCodeObjectCoCell2arg'' (Prim 2),
    Member ''PyCodeObjectCoCellvars'' (Prim 2), Member ''PyCodeObjectCoNlocals'' (Prim 2),
    Member ''PyTupleObjectObItem'' (Prim 2), Member ''PyVarObjectObSize'' (Prim 2),
    Member ''PyObjectObType'' (Prim 2), Member ''PyTypeObjectTpName'' (Prim 2),
    Member ''VFrameCode'' (Prim 2), Member ''VFramePrevious'' (Prim 2),
    Member ''VFrameLocalsplus'' (Prim 2), Member ''PyInterpreterFrameOwner'' (Prim 2),
    Member ''PyASCIIObjectSize'' (Prim 2), Member ''PyCompactUnicodeObjectSize'' (Prim 2),
    Member ''PyCellObjectObRef'' (Prim 2), Member ''_'' (Arr (Prim 1) 6), Member ''Base'' (Prim 8),
    Member ''PyCellType'' (Prim 8)]"

definition PerfPyPidData_type :: ctype where
  "PerfPyPidData_type = Struct [
    Member ''Offsets'' PerfPyOffsetConfig,
    Member ''Version'' (Struct [Member ''Major'' (Prim 4), Member ''Minor'' (Prim 4), Member ''Patch'' (Prim 4)]),
    Member ''Libc'' PerfLibc, Member ''_'' (Arr (Prim 1) 2), Member ''TssKey'' (Prim 4),
    Member ''CollectKernel'' (Prim 1), Member ''_'' (Arr (Prim 1) 7)]"

definition PerfPyStrType :: ctype where
  "PerfPyStrType = Struct [
    Member ''Type'' (Prim 1), Member ''SizeCodepoints'' (Prim 1)]"

definition PerfPySymbol :: ctype where
  "PerfPySymbol = Struct [
    Member ''Classname'' (Arr (Prim 1) 32), Member ''Name'' (Arr (Prim 1) 64),
    Member ''File'' (Arr (Prim 1) 128), Member ''ClassnameType'' PerfPyStrType,
    Member ''NameType'' PerfPyStrType, Member ''FileType'' PerfPyStrType,
    Member ''Padding'' PerfPyStrType]"

definition PerfSampleKey :: ctype where
  "PerfSampleKey = Struct [
    Member ''Pid'' (Prim 4), Member ''Flags'' (Prim 4), Member ''KernStack'' (Prim 8),
    Member ''UserStack'' (Prim 8)]"

definition PerfPyEvent :: ctype where
  "PerfPyEvent = Struct [
    Member ''K'' PerfSampleKey, Member ''StackLen'' (Prim 4), Member ''Stack'' (Arr (Prim 4) 96),
    Member ''_'' (Arr (Prim 1) 4)]"

definition PerfPySampleStateT :: ctype where
  "PerfPySampleStateT = Struct [
    Member ''SymbolCounter'' (Prim 8), Member ''Offsets'' PerfPyOffsetConfig,
    Member ''CurCpu'' (Prim 4), Member ''_'' (Arr (Prim 1) 4), Member ''FramePtr'' (Prim 8),
    Member ''PythonStackProgCallCnt'' (Prim 8), Member ''Sym'' PerfPySymbol,
    Member ''Event'' PerfPyEvent, Member ''Padding'' (Prim 8)]"

definition PerfGlobalConfigT :: ctype where
  "PerfGlobalConfigT = Struct [
    Member ''BpfLogErr'' (Prim 1), Member ''BpfLogDebug'' (Prim 1), Member ''_'' (Arr (Prim 1) 6),
    Member ''NsPidIno'' (Prim 8)]"

definition ProfileGlobalConfigT :: ctype where
  "ProfileGlobalConfigT = Struct [
    Member ''NsPidIno'' (Prim 8)]"

definition ProfilePidConfig :: ctype where
  "ProfilePidConfig = Struct [
    Member ''Type'' (Prim 1), Member ''CollectUser'' (Prim 1), Member ''CollectKernel'' (Prim 1),
    Member ''Padding'' (Prim 1)]"

definition ProfilePidEvent :: ctype where
  "ProfilePidEvent = Struct [
    Member ''Op'' (Prim 4), Member ''Pid'' (Prim 4)]"

definition ProfileSampleKey :: ctype where
  "ProfileSampleKey = Struct [
    Member ''Pid'' (Prim 4), Member ''Flags'' (Prim 4), Member ''KernStack'' (Prim 8),
    Member ''UserStack'' (Prim 8)]"

definition shared_structs :: "(ctype \<times> ctype) list" where
  "shared_structs = [
    (py_offset_config_c, PerfPyOffsetConfig),
    (libc_c, PerfLibc),
    (py_pid_data_c, PerfPyPidData_type),
    (py_str_type_c, PerfPyStrType),
    (py_symbol_c, PerfPySymbol),
    (sample_key_c, PerfSampleKey),
    (sample_key_c, ProfileSampleKey),
    (py_event_c, PerfPyEvent),
    (py_sample_state_c, PerfPySampleStateT),
    (py_global_config_c, PerfGlobalConfigT),
    (profile_global_config_c, ProfileGlobalConfigT),
    (pid_config_c, ProfilePidConfig),
    (pid_event_c, ProfilePidEvent)]"

section \<open>Fields by path\<close>

text \<open>
  The named fields of a type with their path, offset, element size and number of elements. Blank
  fields are left out; a bit field stands for the unit of its declared type.
\<close>

fun fields :: "string list \<Rightarrow> nat \<Rightarrow> ctype \<Rightarrow> (string list \<times> nat \<times> nat \<times> nat) list"
  and fields_in :: "string list \<Rightarrow> nat \<Rightarrow> nat \<Rightarrow> member list \<Rightarrow> (string list \<times> nat \<times> nat \<times> nat) list" where
  "fields p a (Prim n) = [(p, a, n, 1)]"
| "fields p a (Arr t n) = [(p, a, csizeof t, n)]"
| "fields p a (Struct ms) = fields_in p a 0 ms"
| "fields p a (Union ms) = [(p, a, csizeof (Union ms), 1)]"
| "fields_in p a b [] = []"
| "fields_in p a b (Member f t # ms) =
     (if f = ''_'' then [] else fields (p @ [f]) (a + place b (Member f t) div 8) t) @
     fields_in p a (place b (Member f t) + 8 * csizeof t) ms"
| "fields_in p a b (Bits f n w # ms) =
     (p @ [f], a + place b (Bits f n w) div (8 * n) * n, n, 1) # fields_in p a (place b (Bits f n w) + w) ms"

text \<open>The names of the bindings: every piece between underscores begins with a capital.\<close>

definition upper :: "char \<Rightarrow> char" where
  "upper c = (if 97 \<le> (of_char c :: nat) \<and> (of_char c :: nat) \<le> 122 then char_of ((of_char c :: nat) - 32) else c)"

fun camel :: "bool \<Rightarrow> string \<Rightarrow> string" where
  "camel up [] = []"
| "camel up (c # cs) =
     (if c = CHR ''_'' then camel True cs else (if up then upper c else c) # camel False cs)"

lemma upper_letter [simp]:
  "upper CHR ''P'' = CHR ''P''" "upper CHR ''T'' = CHR ''T''" "upper CHR ''V'' = CHR ''V''"
  "upper CHR ''b'' = CHR ''B''" "upper CHR ''c'' = CHR ''C''" "upper CHR ''d'' = CHR ''D''"
  "upper CHR ''e'' = CHR ''E''" "upper CHR ''f'' = CHR ''F''" "upper CHR ''i'' = CHR ''I''"
  "upper CHR ''k'' = CHR ''K''" "upper CHR ''l'' = CHR ''L''" "upper CHR ''m'' = CHR ''M''"
  "upper CHR ''n'' = CHR ''N''" "upper CHR ''o'' = CHR ''O''" "upper CHR ''p'' = CHR ''P''"
  "upper CHR ''r'' = CHR ''R''" "upper CHR ''s'' = CHR ''S''" "upper CHR ''t'' = CHR ''T''"
  "upper CHR ''u'' = CHR ''U''" "upper CHR ''v'' = CHR ''V''"
  by code_simp+

section \<open>Agreement\<close>

definition go_names :: "(string list \<times> 'r) list \<Rightarrow> (string list \<times> 'r) list" where
  "go_names xs = map (\<lambda>(p, r). (map (camel True) p, r)) xs"

definition same_struct :: "ctype \<Rightarrow> ctype \<Rightarrow> bool" where
  "same_struct c g \<longleftrightarrow>
     wf_type c \<and> wf_type g \<and> csizeof g = csizeof c \<and> calignof g = calignof c \<and>
     fields [] 0 g = go_names (fields [] 0 c)"

text \<open>A nested structure keeps its fields, moved by its own path and offset.\<close>

definition move :: "string list \<Rightarrow> nat \<Rightarrow> (string list \<times> nat \<times> 'r) list \<Rightarrow> (string list \<times> nat \<times> 'r) list" where
  "move p a = map (\<lambda>(q, d, r). (p @ q, a + d, r))"

lemma move_simps [simp]:
  "move p a [] = []" "move p a ((q, d, r) # xs) = (p @ q, a + d, r) # move p a xs"
  "move p a (xs @ ys) = move p a xs @ move p a ys"
  by (simp_all add: move_def)

lemma go_names_simps [simp]:
  "go_names [] = []" "go_names ((p, r) # xs) = (map (camel True) p, r) # go_names xs"
  "go_names (xs @ ys) = go_names xs @ go_names ys" "go_names (move p a ys) = move (map (camel True) p) a (go_names ys)"
  by (auto simp: go_names_def move_def)

lemma fields_move:
  "fields (p @ q) (a + b) t = move p a (fields q b t)"
  "fields_in (p @ q) (a + b) n ms = move p a (fields_in q b n ms)"
  by (induction q b t and q b n ms rule: fields_fields_in.induct) (auto simp: add.assoc)

lemma same_struct_nested:
  assumes "same_struct c g"
  shows "go_names (fields p a c) = fields (map (camel True) p) a g"
  using assms fields_move(1) [of p "[]" a 0 c] fields_move(1) [of "map (camel True) p" "[]" a 0 g]
  by (simp add: same_struct_def)

lemma same_struct_layout:
  assumes "same_struct c g"
  shows "wf_type c" "wf_type g" "csizeof g = csizeof c" "calignof g = calignof c"
  using assms by (simp_all add: same_struct_def)

lemmas same_struct_rules = same_struct_nested same_struct_layout

lemmas struct_eval = same_struct_def layout_eval name_lens PYTHON_STACK_MAX_LEN_def
  PYTHON_STACK_FRAMES_PER_PROG_def PYTHON_STACK_PROG_CNT_def

lemma libc_c_layout [layout_simps]: "csizeof libc_c = 6" "calignof libc_c = 2"
  by (simp_all add: libc_c_def struct_eval layout_simps)

lemma same_PerfLibc: "same_struct libc_c PerfLibc"
  by (simp add: libc_c_def PerfLibc_def struct_eval layout_simps)

lemma py_offset_config_c_layout [layout_simps]: "csizeof py_offset_config_c = 64" "calignof py_offset_config_c = 8"
  by (simp_all add: py_offset_config_c_def struct_eval layout_simps)

lemma same_PerfPyOffsetConfig: "same_struct py_offset_config_c PerfPyOffsetConfig"
  by (simp add: py_offset_config_c_def PerfPyOffsetConfig_def struct_eval layout_simps)

lemma py_str_type_c_layout [layout_simps]: "csizeof py_str_type_c = 2" "calignof py_str_type_c = 1"
  by (simp_all add: py_str_type_c_def struct_eval layout_simps)

lemma same_PerfPyStrType: "same_struct py_str_type_c PerfPyStrType"
  by (simp add: py_str_type_c_def PerfPyStrType_def struct_eval layout_simps)

lemma py_symbol_c_layout [layout_simps]: "csizeof py_symbol_c = 232" "calignof py_symbol_c = 1"
  by (simp_all add: py_symbol_c_def struct_eval layout_simps)

lemma same_PerfPySymbol: "same_struct py_symbol_c PerfPySymbol"
  by (simp add: py_symbol_c_def PerfPySymbol_def struct_eval layout_simps
      same_struct_rules [OF same_PerfPyStrType])

lemma sample_key_c_layout [layout_simps]: "csizeof sample_key_c = 24" "calignof sample_key_c = 8"
  by (simp_all add: sample_key_c_def struct_eval layout_simps)

lemma same_PerfSampleKey: "same_struct sample_key_c PerfSampleKey"
  by (simp add: sample_key_c_def PerfSampleKey_def struct_eval layout_simps)

lemma py_event_c_layout [layout_simps]: "csizeof py_event_c = 416" "calignof py_event_c = 8"
  by (simp_all add: py_event_c_def struct_eval layout_simps)

lemma same_PerfPyEvent: "same_struct py_event_c PerfPyEvent"
  by (simp add: py_event_c_def PerfPyEvent_def struct_eval layout_simps
      same_struct_rules [OF same_PerfSampleKey])

lemma same_PerfPyPidData_type: "same_struct py_pid_data_c PerfPyPidData_type"
  by (simp add: py_pid_data_c_def PerfPyPidData_type_def struct_eval layout_simps
      same_struct_rules [OF same_PerfPyOffsetConfig] same_struct_rules [OF same_PerfLibc] py_version_c_def)

lemma same_PerfPySampleStateT: "same_struct py_sample_state_c PerfPySampleStateT"
  by (simp add: py_sample_state_c_def PerfPySampleStateT_def struct_eval layout_simps
      same_struct_rules [OF same_PerfPyOffsetConfig] same_struct_rules [OF same_PerfPySymbol] same_struct_rules [OF same_PerfPyEvent])

lemma same_ProfileSampleKey: "same_struct sample_key_c ProfileSampleKey"
  by (simp add: sample_key_c_def ProfileSampleKey_def struct_eval layout_simps)

lemma same_PerfGlobalConfigT: "same_struct py_global_config_c PerfGlobalConfigT"
  by (simp add: py_global_config_c_def PerfGlobalConfigT_def struct_eval layout_simps)

lemma same_ProfileGlobalConfigT: "same_struct profile_global_config_c ProfileGlobalConfigT"
  by (simp add: profile_global_config_c_def ProfileGlobalConfigT_def struct_eval layout_simps)

lemma same_ProfilePidConfig: "same_struct pid_config_c ProfilePidConfig"
  by (simp add: pid_config_c_def ProfilePidConfig_def struct_eval layout_simps)

lemma same_ProfilePidEvent: "same_struct pid_event_c ProfilePidEvent"
  by (simp add: pid_event_c_def ProfilePidEvent_def struct_eval layout_simps)

lemmas same_structs =
  same_PerfPyOffsetConfig same_PerfLibc same_PerfPyPidData_type same_PerfPyStrType
  same_PerfPySymbol same_PerfSampleKey same_ProfileSampleKey same_PerfPyEvent
  same_PerfPySampleStateT same_PerfGlobalConfigT same_ProfileGlobalConfigT same_ProfilePidConfig
  same_ProfilePidEvent

section \<open>Compile-time checks\<close>

text \<open>The size of the array that the check declares; a negative size stops the compiler.\<close>

definition FAIL_COMPILATION_IF :: "bool \<Rightarrow> int" where
  "FAIL_COMPILATION_IF condition = 1 - 2 * (if condition then 1 else 0)"

lemma compile_time_checks:
  "0 < FAIL_COMPILATION_IF (csizeof py_symbol_c = csizeof bpf_perf_event_value_x86)"
  "0 < FAIL_COMPILATION_IF (csizeof py_symbol_c = csizeof bpf_perf_event_value_arm64)"
  "0 < FAIL_COMPILATION_IF (HASH_LIMIT \<noteq> PYTHON_STACK_MAX_LEN * csizeof (Prim 4))"
  by (simp_all add: FAIL_COMPILATION_IF_def HASH_LIMIT_def struct_eval layout_simps)

text \<open>The bytes of a symbol, as the programs clear and intern it, hold every field at its offset.\<close>

lemma symbol_bytes_fields:
  assumes "wf_symbol s"
    and "(f, v) \<in> set [(''classname'', classname s), (''name'', sname s), (''file'', sfile s),
      (''classname_type'', str_type_bytes (classname_type s)), (''name_type'', str_type_bytes (name_type s)),
      (''file_type'', str_type_bytes (file_type s)), (''__padding'', str_type_bytes (sym_padding s))]"
  shows "\<exists>d t. offset_path py_symbol_c [Field f] = Some (d, t) \<and>
    take (csizeof t) (drop d (symbol_bytes s)) = v"
  using assms
  by (auto simp: py_symbol_c_def struct_eval layout_simps wf_symbol_def symbol_bytes_def str_type_bytes_def)

section \<open>Property\<close>

text \<open>C37: The programs and the agent agree on every structure they share: the Go structure has the
  size of the C structure and the same fields in the same order, each at the same offset with the
  same size and number of elements, under the name that the bindings derive from the C name.\<close>

theorem shared_structs_agree:
  "list_all (\<lambda>(c, g). wf_type c \<and> csizeof g = csizeof c \<and>
     fields [] 0 g = map (\<lambda>(p, r). (map (camel True) p, r)) (fields [] 0 c)) shared_structs"
  using same_structs unfolding same_struct_def go_names_def shared_structs_def by simp

end
