(* ===== verification/Go_Base.thy ===== *)
theory Go_Base
  imports Prelude
begin

text \<open>
  What the agent uses of Go's standard library: strings as byte lists, the search for a byte,
  \<open>strconv.ParseUint\<close> and \<open>ParseInt\<close>, the digits that \<open>fmt\<close> prints, and the binary searches of
  the packages \<open>sort\<close> and \<open>slices\<close>.

  The lemmas are the round trip between printed and parsed numbers, and what a binary search
  returns: a boundary of the predicate without any assumption, the only one on a monotone
  predicate.
\<close>

lemma map_sum_Inr [simp]: "map_sum f g x = Inr y \<longleftrightarrow> (\<exists>z. x = Inr z \<and> y = g z)"
  by (cases x) auto

section \<open>Strings\<close>

type_synonym go_string = "u8 list"

definition go_str :: "string \<Rightarrow> go_string" where
  "go_str cs = map of_char cs"

definition slash :: u8 where "slash = 0x2F"

text \<open>\<open>strings.LastIndexByte\<close>: -1 when the byte does not occur.\<close>

fun LastIndexByte :: "go_string \<Rightarrow> u8 \<Rightarrow> int" where
  "LastIndexByte [] c = -1"
| "LastIndexByte (x # xs) c =
     (let i = LastIndexByte xs c in if 0 \<le> i then i + 1 else if x = c then 0 else -1)"

lemma LastIndexByte_none: "c \<notin> set s \<Longrightarrow> LastIndexByte s c = -1"
  by (induction s) auto

lemma LastIndexByte_last: "c \<notin> set base \<Longrightarrow> LastIndexByte (dirs @ c # base) c = int (length dirs)"
  by (induction dirs) (simp_all add: LastIndexByte_none)

text \<open>\<open>filepath.Base\<close>: trailing slashes are dropped; an empty path gives a dot, one of slashes only a slash.\<close>

definition filepath_Base :: "go_string \<Rightarrow> go_string" where
  "filepath_Base path =
     (if path = [] then go_str ''.''
      else let p = rev (dropWhile (\<lambda>c. c = slash) (rev path))
           in if p = [] then [slash] else rev (takeWhile (\<lambda>c. c \<noteq> slash) (rev p)))"

text \<open>
  \<open>bytes.IndexByte\<close> followed by the two slices around the byte, as the parsers use it;
  \<open>None\<close> when the byte does not occur.
\<close>

fun cut_byte :: "u8 \<Rightarrow> go_string \<Rightarrow> (go_string \<times> go_string) option" where
  "cut_byte c [] = None"
| "cut_byte c (x # xs) =
     (if x = c then Some ([], xs) else map_option (\<lambda>(a, b). (x # a, b)) (cut_byte c xs))"

lemma cut_byte_append [simp]: "c \<notin> set a \<Longrightarrow> cut_byte c (a @ c # b) = Some (a, b)"
  by (induction a) auto

lemma cut_byte_none: "cut_byte c s = None \<longleftrightarrow> c \<notin> set s"
  by (induction s) auto

lemma cut_byte_some: "cut_byte c s = Some (a, b) \<Longrightarrow> s = a @ c # b \<and> c \<notin> set a"
  by (induction s arbitrary: a) (auto split: if_splits)

section \<open>Numbers\<close>

definition digit_char :: "nat \<Rightarrow> u8" where
  "digit_char d = (if d < 10 then of_nat (48 + d) else of_nat (87 + d))"

fun digits :: "nat \<Rightarrow> nat \<Rightarrow> go_string" where
  "digits b n = (if n < b \<or> b < 2 then [digit_char n] else digits b (n div b) @ [digit_char (n mod b)])"

declare digits.simps [simp del]

text \<open>The value of a digit as \<open>strconv\<close> reads it; letters count from ten in either case.\<close>

definition digit_val :: "u8 \<Rightarrow> nat option" where
  "digit_val c =
     (if 48 \<le> c \<and> c \<le> 57 then Some (unat c - 48)
      else if 97 \<le> c \<and> c \<le> 122 then Some (unat c - 87)
      else if 65 \<le> c \<and> c \<le> 90 then Some (unat c - 55)
      else None)"

fun parse_digits :: "nat \<Rightarrow> nat \<Rightarrow> go_string \<Rightarrow> nat option" where
  "parse_digits b acc [] = Some acc"
| "parse_digits b acc (c # cs) =
     (case digit_val c of
        None \<Rightarrow> None
      | Some d \<Rightarrow> if b \<le> d then None else parse_digits b (acc * b + d) cs)"

text \<open>Errors, of syntax and of range, are \<open>None\<close>.\<close>

definition ParseUint :: "nat \<Rightarrow> go_string \<Rightarrow> u64 option" where
  "ParseUint b s =
     (if s = [] then None
      else case parse_digits b 0 s of
             None \<Rightarrow> None
           | Some v \<Rightarrow> if v < 2 ^ 64 then Some (of_nat v) else None)"

definition ParseInt :: "nat \<Rightarrow> go_string \<Rightarrow> s64 option" where
  "ParseInt b s =
     (if s = [] then None
      else let neg = (hd s = 0x2D);
               s = (if hd s = 0x2B \<or> hd s = 0x2D then tl s else s)
           in case ParseUint b s of
                None \<Rightarrow> None
              | Some un \<Rightarrow>
                  if \<not> neg \<and> 2 ^ 63 \<le> unat un then None
                  else if neg \<and> 2 ^ 63 < unat un then None
                  else Some (if neg then - un else un))"

lemma digit_char_table:
  "list_all (\<lambda>d. digit_val (digit_char d) = Some d \<and> digit_char d \<notin> {0x20, 0x2B, 0x2D, 0x3A, 0x0A}) [0..<16]"
  by code_simp

lemma digit_char_small:
  "d < 16 \<Longrightarrow> digit_val (digit_char d) = Some d"
  "d < 16 \<Longrightarrow> digit_char d \<notin> {0x20, 0x2B, 0x2D, 0x3A, 0x0A}"
  using digit_char_table by (simp_all add: list_all_iff del: insert_iff upt_rec_numeral)

lemma digits_nonzero: "2 \<le> b \<Longrightarrow> b \<le> 16 \<Longrightarrow> 0 \<notin> set (digits b n)"
proof (induction b n rule: digits.induct)
  case (1 b n)
  have "0 \<noteq> digit_char d" if "d < 16" for d
    using digit_char_small(1) [OF that] by (auto simp: digit_val_def)
  then show ?case using 1 by (subst digits.simps) (auto simp: less_le_trans [OF mod_less_divisor])
qed

lemma parse_digits_append:
  "parse_digits b acc (xs @ ys) = Option.bind (parse_digits b acc xs) (\<lambda>v. parse_digits b v ys)"
  by (induction b acc xs rule: parse_digits.induct) (auto split: option.splits)

lemma parse_digits_zeros: "0 < b \<Longrightarrow> parse_digits b 0 (replicate n 0x30 @ s) = parse_digits b 0 s"
  by (induction n) (auto simp: digit_val_def)

lemma parse_digits_digits:
  "2 \<le> b \<Longrightarrow> b \<le> 16 \<Longrightarrow> parse_digits b 0 (digits b n) = Some n"
proof (induction b n rule: digits.induct)
  case (1 b n)
  have "n mod b < b" using "1.prems" by simp
  then have d: "digit_val (digit_char (n mod b)) = Some (n mod b)"
    using "1.prems" by (intro digit_char_small(1)) linarith
  show ?case
  proof (cases "n < b \<or> b < 2")
    case True
    then show ?thesis using d "1.prems" by (subst digits.simps) simp
  next
    case False
    then have "parse_digits b 0 (digits b (n div b)) = Some (n div b)" using 1 by blast
    then show ?thesis
      using False d \<open>n mod b < b\<close> [folded not_le] by (subst digits.simps) (simp add: parse_digits_append)
  qed
qed

lemma digits_not_Nil [simp]: "digits b n \<noteq> []"
  by (subst digits.simps) simp

text \<open>Zeros in front, as the kernel pads addresses, do not change the number.\<close>

lemma ParseUint_digits:
  assumes "2 \<le> b" "b \<le> 16" "n < 2 ^ 64"
  shows "ParseUint b (replicate k 0x30 @ digits b n) = Some (of_nat n)"
  using assms by (simp add: ParseUint_def parse_digits_zeros parse_digits_digits)

lemma digits_set:
  "2 \<le> b \<Longrightarrow> b \<le> 16 \<Longrightarrow> c \<in> {0x20, 0x2B, 0x2D, 0x3A, 0x0A} \<Longrightarrow> c \<notin> set (digits b n)"
proof (induction b n rule: digits.induct)
  case (1 b n)
  have small: "c \<noteq> digit_char d" if "d < b" for d
    using digit_char_small(2) [of d] that "1.prems" by auto
  show ?case
  proof (cases "n < b \<or> b < 2")
    case True
    then show ?thesis using small "1.prems"(1) by (subst digits.simps) auto
  next
    case False
    then have "c \<notin> set (digits b (n div b))" using 1 by blast
    moreover have "c \<noteq> digit_char (n mod b)" using "1.prems"(1) by (intro small) simp
    ultimately show ?thesis using False by (subst digits.simps) auto
  qed
qed

section \<open>Binary search\<close>

text \<open>The loop of \<open>sort.Search\<close>, which the searches of \<open>slices\<close> share.\<close>

function search_loop :: "(nat \<Rightarrow> bool) \<Rightarrow> nat \<Rightarrow> nat \<Rightarrow> nat" where
  "search_loop f i j =
     (if i < j
      then let h = (i + j) div 2
           in if \<not> f h then search_loop f (h + 1) j else search_loop f i h
      else i)"
  by pat_completeness auto
termination by (relation "measure (\<lambda>(f, i, j). j - i)") auto

declare search_loop.simps [simp del]

definition sort_Search :: "nat \<Rightarrow> (nat \<Rightarrow> bool) \<Rightarrow> nat" where
  "sort_Search n f = search_loop f 0 n"

definition BinarySearchFunc :: "'a list \<Rightarrow> ('a \<Rightarrow> int) \<Rightarrow> nat \<times> bool" where
  "BinarySearchFunc xs cmp =
     (let i = sort_Search (length xs) (\<lambda>h. \<not> cmp (xs ! h) < 0)
      in (i, i < length xs \<and> cmp (xs ! i) = 0))"

definition BinarySearch :: "'a::linorder list \<Rightarrow> 'a \<Rightarrow> nat \<times> bool" where
  "BinarySearch xs target =
     (let i = sort_Search (length xs) (\<lambda>h. \<not> xs ! h < target)
      in (i, i < length xs \<and> xs ! i = target))"

lemma search_loop_boundary:
  "i \<le> j \<Longrightarrow> i \<le> search_loop f i j \<and> search_loop f i j \<le> j \<and>
    (search_loop f i j < j \<longrightarrow> f (search_loop f i j)) \<and> (i < search_loop f i j \<longrightarrow> \<not> f (search_loop f i j - 1))"
proof (induction f i j rule: search_loop.induct)
  case (1 f i j)
  show ?case
  proof (cases "i < j")
    case True
    define h where "h = (i + j) div 2"
    have h: "i \<le> h" "h < j" using True by (auto simp: h_def)
    have eq: "search_loop f i j = (if f h then search_loop f i h else search_loop f (h + 1) j)"
      using True by (simp add: search_loop.simps [of f i j] Let_def h_def)
    show ?thesis
    proof (cases "f h")
      case True
      have "i \<le> search_loop f i h \<and> search_loop f i h \<le> h \<and> (search_loop f i h < h \<longrightarrow> f (search_loop f i h)) \<and>
          (i < search_loop f i h \<longrightarrow> \<not> f (search_loop f i h - 1))"
        using "1.IH"(2) [OF \<open>i < j\<close> h_def] True h by simp
      with True h show ?thesis unfolding eq by (auto simp: le_less)
    next
      case False
      have "h + 1 \<le> search_loop f (h + 1) j \<and> search_loop f (h + 1) j \<le> j \<and>
          (search_loop f (h + 1) j < j \<longrightarrow> f (search_loop f (h + 1) j)) \<and>
          (h + 1 < search_loop f (h + 1) j \<longrightarrow> \<not> f (search_loop f (h + 1) j - 1))"
        using "1.IH"(1) [OF \<open>i < j\<close> h_def] False h by simp
      moreover have "search_loop f (h + 1) j - 1 = h" if "\<not> h + 1 < search_loop f (h + 1) j"
        using that calculation by simp
      ultimately show ?thesis using False h unfolding eq by (cases "h + 1 < search_loop f (h + 1) j") auto
    qed
  next
    case False
    then show ?thesis using "1.prems" by (simp add: search_loop.simps)
  qed
qed

text \<open>The result is a boundary of the predicate, whatever the predicate is.\<close>

lemma sort_Search_boundary:
  "sort_Search n f \<le> n"
  "sort_Search n f < n \<Longrightarrow> f (sort_Search n f)"
  "0 < sort_Search n f \<Longrightarrow> \<not> f (sort_Search n f - 1)"
  using search_loop_boundary [of 0 n f] by (auto simp: sort_Search_def)

text \<open>On a monotone predicate the boundary separates the indices.\<close>

lemma sort_Search_iff:
  assumes mono: "\<And>i j. i \<le> j \<Longrightarrow> j < n \<Longrightarrow> f i \<Longrightarrow> f j" and k: "k < n"
  shows "f k \<longleftrightarrow> sort_Search n f \<le> k"
proof
  assume "f k"
  show "sort_Search n f \<le> k"
  proof (rule ccontr)
    assume "\<not> sort_Search n f \<le> k"
    then have "0 < sort_Search n f" "k \<le> sort_Search n f - 1" "sort_Search n f - 1 < n"
      using sort_Search_boundary(1) [of n f] by auto
    with mono \<open>f k\<close> sort_Search_boundary(3) [of n f] show False by blast
  qed
next
  assume "sort_Search n f \<le> k"
  with mono [of "sort_Search n f" k] k sort_Search_boundary(2) [of n f] show "f k" by simp
qed

end
