(* ===== verification/Go_Pystring.thy ===== *)
theory Go_Pystring
  imports Pysym Go_Base
begin

text \<open>
  \<open>ebpf/python/str.go\<close>: the agent turns the bytes that \<open>pystr_read\<close> copied back into
  text. Go strings are byte lists, \<open>[]int8\<close> is a list of bytes that a conversion to a wider
  unsigned type sign-extends (\<open>scast\<close>), and the conversion \<open>string([]rune)\<close> writes UTF-8, with
  U+FFFD in place of a rune that is not a Unicode scalar value.

  The section on round trips composes it with \<open>pystr_read\<close>: one-byte, ASCII and four-byte
  strings come back as the UTF-8 text of the code points that fit the buffer, two-byte strings
  only where every code point has a low byte below 128.
\<close>

type_synonym rune = "32 word"

section \<open>Strings of runes\<close>

definition encode_rune :: "rune \<Rightarrow> go_string" where
  "encode_rune r =
     (if r \<le> 0x7F then [ucast r]
      else if r \<le> 0x7FF then [0xC0 OR ucast (drop_bit 6 r), 0x80 OR ucast (r AND 0x3F)]
      else if 0x10FFFF < r \<or> 0xD800 \<le> r \<and> r \<le> 0xDFFF then [0xEF, 0xBF, 0xBD]
      else if r \<le> 0xFFFF
      then [0xE0 OR ucast (drop_bit 12 r), 0x80 OR ucast (drop_bit 6 r AND 0x3F), 0x80 OR ucast (r AND 0x3F)]
      else [0xF0 OR ucast (drop_bit 18 r), 0x80 OR ucast (drop_bit 12 r AND 0x3F),
            0x80 OR ucast (drop_bit 6 r AND 0x3F), 0x80 OR ucast (r AND 0x3F)])"

definition runes_string :: "rune list \<Rightarrow> go_string" where
  "runes_string rs = concat (map encode_rune rs)"

section \<open>The decoder\<close>

definition PythonString :: "u8 list \<Rightarrow> py_str_type \<Rightarrow> go_string" where
  "PythonString tok ty =
     (let sz = unat (size_codepoints ty)
      in if str_type ty AND PYSTR_TYPE_ASCII \<noteq> 0 \<or> str_type ty AND PYSTR_TYPE_UTF8 \<noteq> 0 then
           (let sz = (if length tok < sz then length tok else sz)
            in map (\<lambda>i. tok ! i) [0..<sz])
         else if str_type ty AND PYSTR_TYPE_1BYTE \<noteq> 0 then
           (let sz = (if length tok < sz then length tok else sz)
            in runes_string (map (\<lambda>i. ucast (tok ! i)) [0..<sz]))
         else if str_type ty AND PYSTR_TYPE_2BYTE \<noteq> 0 then
           (let sz = (if length tok < sz * 2 then length tok div 2 else sz)
            in runes_string (map (\<lambda>i. ucast ((scast (tok ! (i * 2)) :: u16) OR
                 push_bit 8 (scast (tok ! (i * 2 + 1)) :: u16))) [0..<sz]))
         else if str_type ty AND PYSTR_TYPE_4BYTE \<noteq> 0 then
           (let sz = (if length tok < sz * 4 then length tok div 4 else sz)
            in runes_string (map (\<lambda>i. ucast (tok ! (i * 4)) OR push_bit 8 (ucast (tok ! (i * 4 + 1))) OR
                 push_bit 16 (ucast (tok ! (i * 4 + 2))) OR push_bit 24 (ucast (tok ! (i * 4 + 3)))) [0..<sz]))
         else [])"

section \<open>Code points\<close>

text \<open>The code points of a string object whose characters are \<open>k\<close> bytes wide.\<close>

definition code_points :: "nat \<Rightarrow> u8 list \<Rightarrow> rune list" where
  "code_points k dat = map (\<lambda>i. le_word (take k (drop (i * k) dat))) [0..<length dat div k]"

text \<open>What the two-byte branch makes of a code point: a low byte from 128 on is sign-extended
  over the high byte.\<close>

definition widen_low :: "rune \<Rightarrow> rune" where
  "widen_low c = (if bit c 7 then 0xFF00 OR (c AND 0xFF) else c)"

definition decoded_point :: "py_ascii_object \<Rightarrow> rune \<Rightarrow> rune" where
  "decoded_point ob c = (if ao_kind ob = 2 then widen_low c else c)"

text \<open>CPython's invariant for the ASCII flag.\<close>

definition ascii_ok :: "py_ascii_object \<Rightarrow> u8 list \<Rightarrow> bool" where
  "ascii_ok ob dat \<longleftrightarrow> (ao_ascii ob \<longrightarrow> ao_kind ob = 1 \<and> (\<forall>b\<in>set dat. b < 128))"

lemma take_nth_drop:
  "n + 1 \<le> length xs \<Longrightarrow> take 1 (drop n xs) = [xs ! n]"
  "n + 2 \<le> length xs \<Longrightarrow> take 2 (drop n xs) = [xs ! n, xs ! (n + 1)]"
  "n + 4 \<le> length xs \<Longrightarrow> take 4 (drop n xs) = [xs ! n, xs ! (n + 1), xs ! (n + 2), xs ! (n + 3)]"
  by (rule nth_equalityI; auto simp: less_Suc_eq numeral_eq_Suc)+

lemma le_word_cons: "(le_word (b # bs) :: 'w::len word) = ucast b + push_bit 8 (le_word bs)"
  by (simp add: le_word_def push_bit_eq_mult)

lemma le_word_cons_or:
  assumes "8 \<le> LENGTH('w::len)"
  shows "(le_word (b # bs) :: 'w word) = ucast b OR push_bit 8 (le_word bs)"
proof -
  have "(ucast b :: 'w word) AND push_bit 8 (le_word bs) = 0"
    by (rule bit_word_eqI) (auto simp: bit_simps dest: bit_imp_le_length)
  then show ?thesis by (simp add: le_word_cons disjunctive_add_eq_or)
qed

lemma le_word_nil [simp]: "le_word [] = 0"
  by (simp add: le_word_def)

text \<open>The three widths, as the branches of the decoder assemble them.\<close>

lemma le_word_1: "(le_word [a] :: rune) = ucast a"
  by (simp add: le_word_cons_or)

lemma le_word_4:
  "(le_word [a, b, c, d] :: rune) =
     ucast a OR push_bit 8 (ucast b) OR push_bit 16 (ucast c) OR push_bit 24 (ucast d)"
  by (simp add: le_word_cons_or or.assoc)

lemma bit_scast_u16: "bit (scast (a :: u8) :: u16) n \<longleftrightarrow> n < 16 \<and> bit a (if n < 8 then n else 7)"
  by (cases "n = 7") (auto simp: bit_simps min_def)

lemma le_word_2:
  "(ucast ((scast (a :: u8) :: u16) OR push_bit 8 (scast b :: u16)) :: rune) = widen_low (le_word [a, b])"
proof -
  have m: "(0xFF00 :: rune) = push_bit 8 (mask 8)" "(0xFF :: rune) = mask 8"
    by (simp_all add: mask_eq_exp_minus_1)
  show ?thesis
    unfolding widen_low_def m
    by (rule bit_word_eqI)
       (auto simp: le_word_cons_or bit_or_iff bit_push_bit_iff bit_unsigned_iff bit_and_iff bit_mask_iff bit_scast_u16
          dest: bit_imp_le_length)
qed

lemma encode_rune_ascii: "b < 128 \<Longrightarrow> encode_rune (ucast (b :: u8)) = [b]"
proof -
  assume b: "b < 128"
  have "unat (ucast b :: rune) = unat b" using unat_u8_less [of b] by (simp add: unsigned_ucast_eq take_bit_nat_eq_self)
  moreover have "(ucast (ucast b :: rune) :: u8) = b" by (rule bit_word_eqI) (simp add: bit_simps)
  ultimately show ?thesis using b by (simp add: encode_rune_def word_le_nat_alt word_less_nat_alt)
qed

lemma concat_singletons: "concat (map (\<lambda>i. [h i]) xs) = map h xs"
  by (induction xs) simp_all

lemma min_div: "min m n div k = min (m div k) (n div (k :: nat))"
proof (cases "m \<le> n")
  case True
  then show ?thesis using div_le_mono [of m n k] by simp
next
  case False
  then show ?thesis using div_le_mono [of n m k] by simp
qed

lemma pystr_type_tests:
  assumes "ao_kind ob \<in> {1, 2, 4}" "ao_ascii ob \<longrightarrow> ao_kind ob = 1"
  shows "pystr_type_byte ob AND PYSTR_TYPE_ASCII \<noteq> 0 \<longleftrightarrow> ao_ascii ob"
    "pystr_type_byte ob AND PYSTR_TYPE_UTF8 = 0"
    "pystr_type_byte ob AND PYSTR_TYPE_1BYTE \<noteq> 0 \<longleftrightarrow> ao_kind ob = 1"
    "pystr_type_byte ob AND PYSTR_TYPE_2BYTE \<noteq> 0 \<longleftrightarrow> ao_kind ob = 2"
    "pystr_type_byte ob AND PYSTR_TYPE_4BYTE \<noteq> 0 \<longleftrightarrow> ao_kind ob = 4"
  using assms by (auto simp: pystr_type_byte_def pystr_consts)

text \<open>Decoding the front of a buffer that holds the first bytes of a string object.\<close>

lemma take_points:
  assumes "0 < k" "n = min m (length dat) div k"
  shows "take (m div k) (code_points k dat) = map (\<lambda>i. le_word (take k (drop (i * k) dat))) [0..<n]"
  using assms(2) 
  by (cases "m div k \<le> length dat div k")
     (simp_all add: code_points_def take_map min_div min_absorb1 min_absorb2)

lemma point_in:
  assumes "i < l div k" shows "i * k + k \<le> (l :: nat)"
proof -
  have "Suc i * k \<le> l div k * k" using assms by (intro mult_le_mono1) simp
  also have "\<dots> \<le> l" by simp
  finally show ?thesis by (simp add: add.commute)
qed

lemma point_bytes:
  assumes "i < min m (length dat) div k" "j < k" "length buf = m"
  shows "overwrite (take m dat) buf ! (i * k + j) = dat ! (i * k + j)"
  using point_in [OF assms(1)] assms(2,3) by (simp add: overwrite_def nth_append)

lemma python_string_descr:
  assumes kind: "ao_kind ob \<in> {1, 2, 4}" and ascii: "ascii_ok ob dat"
    and buf: "length buf = m" "m < 256"
  shows "PythonString (overwrite (take m dat) buf) (str_descr ob (min (length dat) m)) =
    runes_string (map (decoded_point ob) (take (m div unat (ao_kind ob)) (code_points (unat (ao_kind ob)) dat)))"
proof -
  let ?tok = "overwrite (take m dat) buf" and ?k = "unat (ao_kind ob)"
  define n where "n = min m (length dat) div ?k"
  have k: "?k \<in> {1, 2, 4}" using kind by auto
  have l: "length ?tok = m" using buf by simp
  have nm: "n * ?k \<le> m" "n < 256"
    using buf(2) div_times_less_eq_dividend [of "min m (length dat)" ?k] div_le_dividend [of "min m (length dat)" ?k]
    unfolding n_def by (auto intro: le_less_trans order_trans simp del: div_le_dividend)
  have sz: "unat (size_codepoints (str_descr ob (min (length dat) m))) = n"
    using nm by (simp add: str_descr_def unat_of_nat n_def min.commute)
  have pts: "map (decoded_point ob) (take (m div ?k) (code_points ?k dat)) =
      map (\<lambda>i. decoded_point ob (le_word (take ?k (drop (i * ?k) dat)))) [0..<n]"
    using k by (subst take_points [OF _ n_def]) auto
  have ty: "str_type (str_descr ob x) = pystr_type_byte ob" for x by (simp add: str_descr_def)
  have b: "i < n \<Longrightarrow> j < ?k \<Longrightarrow> ?tok ! (i * ?k + j) = dat ! (i * ?k + j)" for i j
    unfolding n_def by (rule point_bytes [OF _ _ buf(1)])
  have d: "i < n \<Longrightarrow> i * ?k + ?k \<le> length dat" for i unfolding n_def using point_in [of i "min m (length dat)" ?k] by simp
  note t = pystr_type_tests [OF kind]
  have ascii_case: ?thesis if "ao_ascii ob"
  proof -
    from that ascii have k1: "?k = 1" and low: "\<forall>b\<in>set dat. b < 128" by (auto simp: ascii_ok_def)
    have "encode_rune (decoded_point ob (le_word (take 1 (drop i dat)))) = [?tok ! i]" if i: "i < n" for i
      using b [OF i, of 0] d [OF i] k1 low ascii \<open>ao_ascii ob\<close> take_nth_drop(1) [of i dat]
      by (simp add: le_word_1 decoded_point_def ascii_ok_def encode_rune_ascii)
    then have "runes_string (map (\<lambda>i. decoded_point ob (le_word (take 1 (drop i dat)))) [0..<n]) =
        concat (map (\<lambda>i. [?tok ! i]) [0..<n])"
      unfolding runes_string_def by (intro arg_cong [where f = concat]) simp
    then show ?thesis
      using that nm k1 t ascii unfolding pts concat_singletons
      by (simp add: PythonString_def sz ty l ascii_ok_def)
  qed
  have wide: ?thesis
    if f: "PythonString ?tok (str_descr ob (min (length dat) m)) = runes_string (map f [0..<n])"
      "\<And>i. i < n \<Longrightarrow> f i = decoded_point ob (le_word (take ?k (drop (i * ?k) dat)))" for f
    unfolding f(1) pts using f(2) by (intro arg_cong [where f = runes_string]) simp
  note p = PythonString_def sz ty l Let_def
  from kind show ?thesis
  proof (elim insertE emptyE)
    assume k1: "ao_kind ob = 1"
    show ?thesis
    proof (cases "ao_ascii ob")
      case False
      show ?thesis
        by (rule wide [of "\<lambda>i. ucast (?tok ! i)"])
           (use False k1 nm b [of _ 0] d t take_nth_drop(1) [of _ dat] in \<open>simp_all add: p le_word_1 decoded_point_def\<close>)
    qed (rule ascii_case)
  next
    assume k2: "ao_kind ob = 2"
    then have na: "\<not> ao_ascii ob" using ascii by (auto simp: ascii_ok_def)
    show ?thesis
      by (rule wide [of "\<lambda>i. widen_low (le_word [?tok ! (i * 2), ?tok ! (i * 2 + 1)])"])
         (use na k2 nm b [of _ 0] b [of _ 1] d t take_nth_drop(2) [of _ dat] in
          \<open>simp_all add: p le_word_2 decoded_point_def\<close>)
  next
    assume k4: "ao_kind ob = 4"
    then have na: "\<not> ao_ascii ob" using ascii by (auto simp: ascii_ok_def)
    show ?thesis
      by (rule wide [of "\<lambda>i. le_word [?tok ! (i * 4), ?tok ! (i * 4 + 1), ?tok ! (i * 4 + 2), ?tok ! (i * 4 + 3)]"])
         (use na k4 nm b [of _ 0] b [of _ 1] b [of _ 2] b [of _ 3] d t take_nth_drop(3) [of _ dat] in
          \<open>simp_all add: p le_word_4 decoded_point_def\<close>)
  qed
qed

section \<open>Round trips through the buffer\<close>

text \<open>Text that is decoded as it was: every kind but two bytes, or two bytes with small low bytes.\<close>

definition faithful_kind :: "py_ascii_object \<Rightarrow> u8 list \<Rightarrow> bool" where
  "faithful_kind ob dat \<longleftrightarrow>
     (ao_kind ob = 2 \<longrightarrow> (\<forall>c\<in>set (code_points 2 dat). \<not> bit c 7))"

lemma decoded_faithful:
  assumes "faithful_kind ob dat"
  shows "map (decoded_point ob) (take n (code_points (unat (ao_kind ob)) dat)) = take n (code_points (unat (ao_kind ob)) dat)"
proof (rule map_idI)
  fix c assume "c \<in> set (take n (code_points (unat (ao_kind ob)) dat))"
  then show "decoded_point ob c = c"
    using assms in_set_takeD [of c n] by (auto simp: faithful_kind_def decoded_point_def widen_low_def)
qed

lemma pystr_read_decode:
  assumes mem: "probe_read_resident (probe_read_user K) mem"
    and str: "compact_str mem offsets str ob dat" "ascii_ok ob dat"
    and buf: "unat buf_size = length buf" "length buf < 256"
  shows "\<exists>buf' ty'. pystr_read K str offsets buf buf_size ty = (0, buf', ty') \<and>
    PythonString buf' ty' = runes_string (map (decoded_point ob)
      (take (length buf div unat (ao_kind ob)) (code_points (unat (ao_kind ob)) dat)))"
  using pystr_read_compact [OF mem str(1) buf, of ty]
    python_string_descr [of ob dat buf "length buf"] str buf(2) by (simp add: compact_str_def)

section \<open>Properties\<close>


text \<open>C34: A two-byte string is decoded wrongly at every code point whose low byte is 128 or more:
  the low byte is sign-extended over the high byte, so that the code point becomes
  \<open>0xFF00\<close> plus the low byte, whatever its high byte was.\<close>

theorem python_string_sign_extends:
  assumes "probe_read_resident (probe_read_user K) mem"
    and "compact_str mem offsets str ob dat" "ascii_ok ob dat" "ao_kind ob = 2"
    and "unat buf_size = length buf" "length buf < 256"
  shows "\<exists>buf' ty'. pystr_read K str offsets buf buf_size ty = (0, buf', ty') \<and>
    PythonString buf' ty' =
      runes_string (map (\<lambda>c. if bit c 7 then 0xFF00 OR (c AND 0xFF) else c) (take (length buf div 2) (code_points 2 dat)))"
proof -
  have "decoded_point ob = (\<lambda>c. if bit c 7 then 0xFF00 OR (c AND 0xFF) else c)"
    using assms(4) by (auto simp: decoded_point_def widen_low_def)
  then show ?thesis
    using pystr_read_decode [OF assms(1-3,5,6), of ty] assms(4) by simp
qed

end
