(* ===== verification/Go_Pyperf.thy ===== *)
theory Go_Pyperf
  imports Go_Pystring Pyperf_Inv
begin

text \<open>
  \<open>ebpf/python/pyperf.go\<close> and the stack walk of \<open>ebpf/session_python.go\<close>: the agent reads
  the map \<open>py_symbols\<close> back, inverts it into a table from ids to symbols, keeps that table
  between profiles (\<open>prevSymbols\<close>) and refreshes it at most once per profile, the first time an
  id is missing (\<open>LazySymbols\<close>); a stored stack is turned into lines of text.

  The library that reads kernel maps is a parameter: a \<open>map_dump\<close> holds what its batch lookup
  and its iterator returned, and \<open>dump_of\<close> states that they return the entries of the map. The
  \<open>n\<close>-th dump of the program is taken from the \<open>n\<close>-th argument, counted by the metric that
  \<open>GetSymbols\<close> increments.
\<close>

section \<open>Reading kernel maps\<close>

record ('k, 'v) map_dump =
  batch_entries :: "('k \<times> 'v) list"
  batch_not_exist :: bool
  iter_entries :: "('k \<times> 'v) list"
  iter_err :: bool

text \<open>The documented results of a dump of the map \<open>m\<close>: a batch with entries is the whole map,
  an empty batch that reports the end of the map means that there are none, and otherwise an
  iteration without error visits every entry.\<close>

definition dump_of :: "('k, 'v) map_dump \<Rightarrow> ('k \<rightharpoonup> 'v) \<Rightarrow> bool" where
  "dump_of D m \<longleftrightarrow>
     (if batch_entries D \<noteq> [] then set (batch_entries D) = Map.graph m
      else if batch_not_exist D then m = Map.empty
      else \<not> iter_err D \<and> set (iter_entries D) = Map.graph m)"

section \<open>The profiler object\<close>

record go_proc =
  PerfPyPidData :: py_pid_data
  PythonFullFilePath :: bool

type_synonym symbols = "u32 \<rightharpoonup> py_symbol"

record go_perf =
  perf_events :: "py_event list"
  pidCache :: "u32 \<rightharpoonup> go_proc"
  prevSymbols :: symbols
  symbol_lookups :: nat

datatype go_error = Map_iteration | Map_update | Symbol_not_found u32 | Refresh_failed go_error

definition NewPerf :: go_perf where
  "NewPerf = \<lparr>perf_events = [], pidCache = Map.empty, prevSymbols = Map.empty, symbol_lookups = 0\<rparr>"

definition FindProc :: "go_perf \<Rightarrow> u32 \<Rightarrow> go_proc option" where
  "FindProc s pid = pidCache s pid"

definition NewProc ::
  "(s32, py_pid_data) map_update \<Rightarrow> u32 \<Rightarrow> py_pid_data \<Rightarrow> bool \<Rightarrow> (s32 \<rightharpoonup> py_pid_data) \<Rightarrow> go_perf
     \<Rightarrow> (go_error + go_proc) \<times> (s32 \<rightharpoonup> py_pid_data) \<times> go_perf" where
  "NewProc upd pid data full m s =
     (case pidCache s pid of
        Some prev \<Rightarrow> (Inr prev, m, s)
      | None \<Rightarrow>
          let (rc, m) = upd m (ucast pid) data BPF_ANY
          in if rc \<noteq> 0 then (Inl Map_update, m, s)
             else let n = \<lparr>PerfPyPidData = data, PythonFullFilePath = full\<rparr>
                  in (Inr n, m, s\<lparr>pidCache := (pidCache s)(pid \<mapsto> n)\<rparr>))"

definition CollectEvents :: "go_perf \<Rightarrow> py_event list \<times> go_perf" where
  "CollectEvents s = (perf_events s, s\<lparr>perf_events := []\<rparr>)"

definition RemoveDeadPID ::
  "(s32, py_pid_data) map_delete \<Rightarrow> u32 \<Rightarrow> (s32 \<rightharpoonup> py_pid_data) \<Rightarrow> go_perf \<Rightarrow> (s32 \<rightharpoonup> py_pid_data) \<times> go_perf" where
  "RemoveDeadPID del pid m s = (snd (del m (ucast pid)), s\<lparr>pidCache := (pidCache s)(pid := None)\<rparr>)"

section \<open>Symbols\<close>

text \<open>\<open>res[v] = k\<close> for every entry, in the order of the dump.\<close>

definition invert_entries :: "(py_symbol \<times> u32) list \<Rightarrow> symbols" where
  "invert_entries es = fold (\<lambda>(k, v) res. res(v \<mapsto> k)) es Map.empty"

definition GetSymbols ::
  "(nat \<Rightarrow> (py_symbol, u32) map_dump) \<Rightarrow> go_perf \<Rightarrow> (go_error + symbols) \<times> go_perf" where
  "GetSymbols D s =
     (let d = D (symbol_lookups s);
          s = s\<lparr>symbol_lookups := Suc (symbol_lookups s)\<rparr>
      in if batch_entries d \<noteq> [] then
           (let res = invert_entries (batch_entries d) in (Inr res, s\<lparr>prevSymbols := res\<rparr>))
         else if batch_not_exist d then (Inr Map.empty, s)
         else if iter_err d then (Inl Map_iteration, s)
         else (let res = invert_entries (iter_entries d) in (Inr res, s\<lparr>prevSymbols := res\<rparr>)))"

record lazy_symbols =
  ls_symbols :: symbols
  ls_fresh :: bool

definition GetLazySymbols :: "go_perf \<Rightarrow> lazy_symbols" where
  "GetLazySymbols s = \<lparr>ls_symbols = prevSymbols s, ls_fresh = False\<rparr>"

definition getSymbol ::
  "(nat \<Rightarrow> (py_symbol, u32) map_dump) \<Rightarrow> u32 \<Rightarrow> lazy_symbols \<times> go_perf
     \<Rightarrow> (go_error + py_symbol) \<times> lazy_symbols \<times> go_perf" where
  "getSymbol D i = (\<lambda>(l, s).
     if ls_fresh l then (Inl (Symbol_not_found i), l, s)
     else (case GetSymbols D s of
             (Inl e, s) \<Rightarrow> (Inl (Refresh_failed e), l, s)
           | (Inr symbols, s) \<Rightarrow>
               (case symbols i of Some sy \<Rightarrow> Inr sy | None \<Rightarrow> Inl (Symbol_not_found i),
                \<lparr>ls_symbols = symbols, ls_fresh = True\<rparr>, s)))"

definition GetSymbol ::
  "(nat \<Rightarrow> (py_symbol, u32) map_dump) \<Rightarrow> u32 \<Rightarrow> lazy_symbols \<times> go_perf
     \<Rightarrow> (go_error + py_symbol) \<times> lazy_symbols \<times> go_perf" where
  "GetSymbol D symID ls =
     (case ls_symbols (fst ls) symID of Some sy \<Rightarrow> (Inr sy, ls) | None \<Rightarrow> getSymbol D symID ls)"

section \<open>The stack walk\<close>

definition skipPythonFrame :: "go_string \<Rightarrow> go_string \<Rightarrow> go_string \<Rightarrow> bool" where
  "skipPythonFrame cls fil nam \<longleftrightarrow> cls = [] \<and> fil = go_str ''__init__'' \<and> nam = go_str ''__init__''"

definition short_filename :: "bool \<Rightarrow> go_string \<Rightarrow> go_string" where
  "short_filename full filename =
     (if \<not> full
      then let iSep = LastIndexByte filename slash
           in if iSep \<noteq> 1 then drop (nat (iSep + 1)) filename else filename
      else filename)"

text \<open>The line of one frame; \<open>None\<close> is the \<open>continue\<close> of a skipped frame.\<close>

definition python_frame :: "bool \<Rightarrow> py_symbol \<Rightarrow> go_string option" where
  "python_frame full sy =
     (let filename = short_filename full (PythonString (sfile sy) (file_type sy));
          cls = PythonString (classname sy) (classname_type sy);
          nam = PythonString (sname sy) (name_type sy)
      in if skipPythonFrame cls filename nam then None
         else if cls = [] then Some (filename @ go_str '' '' @ nam)
         else Some (filename @ go_str '' '' @ cls @ go_str ''.'' @ nam))"

record resolve_stats =
  known :: u32
  unknownSymbols :: u32
  unknownModules :: u32

record py_walk_state =
  pw_lazy :: lazy_symbols
  pw_perf :: go_perf
  pw_stack :: "go_string list"
  pw_stats :: resolve_stats

definition append_frame :: "py_symbol option \<Rightarrow> bool \<Rightarrow> py_walk_state \<Rightarrow> py_walk_state" where
  "append_frame r full w =
     (case r of
        Some sy \<Rightarrow>
          (case python_frame full sy of
             None \<Rightarrow> w
           | Some fr \<Rightarrow> w\<lparr>pw_stack := pw_stack w @ [fr], pw_stats := (pw_stats w)\<lparr>known := known (pw_stats w) + 1\<rparr>\<rparr>)
      | None \<Rightarrow>
          w\<lparr>pw_stack := pw_stack w @ [go_str ''pyperf_unknown''],
            pw_stats := (pw_stats w)\<lparr>unknownSymbols := unknownSymbols (pw_stats w) + 1\<rparr>\<rparr>)"

text \<open>The loop over the bytes of the stack; slicing four bytes off a shorter rest panics (\<open>None\<close>).\<close>

fun walk_frames ::
  "(nat \<Rightarrow> (py_symbol, u32) map_dump) \<Rightarrow> bool \<Rightarrow> u8 list \<Rightarrow> py_walk_state \<Rightarrow> py_walk_state option" where
  "walk_frames D full (b0 # b1 # b2 # b3 # st) w =
     (let symbolID = le_word [b0, b1, b2, b3]
      in if symbolID = 0 then Some w
         else let (r, l, s) = GetSymbol D symbolID (pw_lazy w, pw_perf w)
              in walk_frames D full st
                   (append_frame (case r of Inr sy \<Rightarrow> Some sy | Inl e \<Rightarrow> None) full
                      (w\<lparr>pw_lazy := l, pw_perf := s\<rparr>)))"
| "walk_frames D full [] w = Some w"
| "walk_frames D full _ w = None"

definition reverse_from :: "nat \<Rightarrow> 'a list \<Rightarrow> 'a list" where
  "reverse_from n xs = take n xs @ rev (drop n xs)"

definition WalkPythonStack ::
  "(nat \<Rightarrow> (py_symbol, u32) map_dump) \<Rightarrow> bool \<Rightarrow> u8 list \<Rightarrow> py_walk_state \<Rightarrow> py_walk_state option" where
  "WalkPythonStack D full st w =
     (if st = [] then Some w
      else map_option (\<lambda>w'. w'\<lparr>pw_stack := reverse_from (length (pw_stack w)) (pw_stack w')\<rparr>)
             (walk_frames D full st w))"

text \<open>The value of \<open>python_stacks\<close> as user space reads it; a missing map or key gives an empty
  slice.\<close>

definition stack_value :: "py_symbol_id list \<Rightarrow> u8 list" where
  "stack_value xs = concat (map word_le xs)"

definition GetPythonStack :: "bool \<Rightarrow> (u32 \<rightharpoonup> py_symbol_id list) \<Rightarrow> s64 \<Rightarrow> u8 list" where
  "GetPythonStack loaded m stackId =
     (if \<not> loaded then []
      else case m (ucast stackId) of None \<Rightarrow> [] | Some xs \<Rightarrow> stack_value xs)"

section \<open>The table of symbols\<close>

lemma invert_fold_sound:
  "fold (\<lambda>(k, v) res. res(v \<mapsto> k)) es r i = Some k \<Longrightarrow> (k, i) \<in> set es \<or> r i = Some k"
  by (induction es arbitrary: r) (force split: if_splits prod.splits)+

lemma invert_fold_dom:
  "(k, i) \<in> set es \<or> i \<in> dom r \<Longrightarrow> i \<in> dom (fold (\<lambda>(k, v) res. res(v \<mapsto> k)) es r)"
proof (induction es arbitrary: r)
  case (Cons e es)
  have "(k, i) \<in> set es \<or> i \<in> dom (r(snd e \<mapsto> fst e))" using Cons.prems by auto
  from Cons.IH [OF this] show ?case by (simp add: case_prod_beta)
qed auto

text \<open>Reading an injective map back gives its inverse.\<close>

definition inj_map :: "('k \<rightharpoonup> 'v) \<Rightarrow> bool" where
  "inj_map m \<longleftrightarrow> (\<forall>a b v. m a = Some v \<longrightarrow> m b = Some v \<longrightarrow> a = b)"

lemma invert_entries_inverse:
  assumes "set es = Map.graph m" "inj_map m"
  shows "invert_entries es i = Some k \<longleftrightarrow> m k = Some i"
proof
  assume "invert_entries es i = Some k"
  then show "m k = Some i"
    using invert_fold_sound [of es Map.empty i k] assms(1) by (auto simp: invert_entries_def in_graphD)
next
  assume k: "m k = Some i"
  then have "i \<in> dom (invert_entries es)"
    unfolding invert_entries_def using assms(1) by (intro invert_fold_dom [of k]) (simp add: in_graphI)
  then obtain k' where k': "invert_entries es i = Some k'" by auto
  then have "m k' = Some i"
    using invert_fold_sound [of es Map.empty i k'] assms(1) by (auto simp: invert_entries_def in_graphD)
  with k k' assms(2) show "invert_entries es i = Some k" by (auto simp: inj_map_def)
qed

text \<open>The cached tables hold only entries of the map; a fresh one holds all of them.\<close>

definition table_of :: "symbols \<Rightarrow> (py_symbol \<rightharpoonup> u32) \<Rightarrow> bool" where
  "table_of t m \<longleftrightarrow> (\<forall>i k. t i = Some k \<longrightarrow> m k = Some i)"

definition sym_ok ::
  "(nat \<Rightarrow> (py_symbol, u32) map_dump) \<Rightarrow> (py_symbol \<rightharpoonup> u32) \<Rightarrow> lazy_symbols \<times> go_perf \<Rightarrow> bool" where
  "sym_ok D m = (\<lambda>(l, s). table_of (ls_symbols l) m \<and> table_of (prevSymbols s) m \<and>
     (if ls_fresh l then \<forall>k i. m k = Some i \<longrightarrow> ls_symbols l i = Some k
      else dump_of (D (symbol_lookups s)) m))"

lemma table_of_mono: "table_of t m \<Longrightarrow> m \<subseteq>\<^sub>m m' \<Longrightarrow> table_of t m'"
  by (auto simp: table_of_def map_le_def dom_def)

lemma GetSymbols_ok:
  assumes "dump_of (D (symbol_lookups s)) m" "inj_map m" "table_of (prevSymbols s) m"
  shows "\<exists>t s'. GetSymbols D s = (Inr t, s') \<and> (\<forall>i k. t i = Some k \<longleftrightarrow> m k = Some i) \<and> table_of (prevSymbols s') m"
  using assms invert_entries_inverse [OF _ assms(2)]
  by (auto simp: GetSymbols_def dump_of_def Let_def table_of_def split: if_splits)

lemma GetSymbol_ok:
  assumes "sym_ok D m ls" "inj_map m" "GetSymbol D i ls = (r, ls')"
  shows "sym_ok D m ls' \<and> (\<forall>k. r = Inr k \<longleftrightarrow> m k = Some i)"
proof (cases "ls_symbols (fst ls) i")
  case (Some k)
  then have "m k = Some i" using assms(1) by (auto simp: sym_ok_def table_of_def)
  with Some assms show ?thesis by (auto simp: GetSymbol_def inj_map_def)
next
  case None
  obtain l s where ls: "ls = (l, s)" by (cases ls)
  show ?thesis
  proof (cases "ls_fresh l")
    case True
    with None ls assms show ?thesis by (auto simp: GetSymbol_def getSymbol_def sym_ok_def)
  next
    case False
    with assms(1) ls have "dump_of (D (symbol_lookups s)) m" "table_of (prevSymbols s) m"
      by (simp_all add: sym_ok_def)
    from GetSymbols_ok [where D = D and s = s, OF this(1) assms(2) this(2)] obtain t s'
      where t: "GetSymbols D s = (Inr t, s')" "\<forall>i k. t i = Some k \<longleftrightarrow> m k = Some i" "table_of (prevSymbols s') m"
      by blast
    have inv: "m k = Some j \<longleftrightarrow> t j = Some k" for j k using t(2) by blast
    have r: "r = (case t i of Some sy \<Rightarrow> Inr sy | None \<Rightarrow> Inl (Symbol_not_found i))"
      "ls' = (\<lparr>ls_symbols = t, ls_fresh = True\<rparr>, s')"
      using False None ls assms(3) t(1) by (simp_all add: GetSymbol_def getSymbol_def)
    show ?thesis
      using t(3) unfolding r sym_ok_def by (cases "t i") (auto simp: table_of_def inv)
  qed
qed

section \<open>The lines of a stack\<close>

definition frame_lines :: "bool \<Rightarrow> py_symbol option \<Rightarrow> go_string list" where
  "frame_lines full r =
     (case r of None \<Rightarrow> [go_str ''pyperf_unknown'']
      | Some sy \<Rightarrow> (case python_frame full sy of None \<Rightarrow> [] | Some fr \<Rightarrow> [fr]))"

lemma append_frame_sel [simp]:
  "pw_stack (append_frame r full w) = pw_stack w @ frame_lines full r"
  "pw_lazy (append_frame r full w) = pw_lazy w" "pw_perf (append_frame r full w) = pw_perf w"
  by (auto simp: append_frame_def frame_lines_def split: option.splits)

lemma stack_value_cons:
  obtains b0 b1 b2 b3 where "stack_value (x # xs) = b0 # b1 # b2 # b3 # stack_value xs" "le_word [b0, b1, b2, b3] = x"
proof -
  have "length (word_le x) = Suc (Suc (Suc (Suc 0)))" by simp
  then obtain b0 b1 b2 b3 where b: "word_le x = [b0, b1, b2, b3]"
    unfolding length_Suc_conv length_0_conv by blast
  moreover have "le_word (word_le x) = x" by (rule le_word_word_le) simp
  ultimately show ?thesis using that by (simp add: stack_value_def)
qed

definition resolved :: "(py_symbol \<rightharpoonup> u32) \<Rightarrow> u32 \<Rightarrow> py_symbol option \<Rightarrow> bool" where
  "resolved m i r \<longleftrightarrow> (\<forall>k. r = Some k \<longleftrightarrow> m k = Some i)"

lemma walk_frames_ok:
  assumes "sym_ok D m (pw_lazy w, pw_perf w)" "inj_map m"
  shows "\<exists>w' rs. walk_frames D full (stack_value xs) w = Some w' \<and> sym_ok D m (pw_lazy w', pw_perf w') \<and>
    list_all2 (resolved m) (decode_stack xs) rs \<and>
    pw_stack w' = pw_stack w @ concat (map (frame_lines full) rs)"
  using assms(1)
proof (induction xs arbitrary: w)
  case Nil
  then show ?case by (simp add: stack_value_def decode_stack_def)
next
  case (Cons x xs)
  obtain b0 b1 b2 b3 where b: "stack_value (x # xs) = b0 # b1 # b2 # b3 # stack_value xs" "le_word [b0, b1, b2, b3] = x"
    by (rule stack_value_cons)
  show ?case
  proof (cases "x = 0")
    case True
    then show ?thesis using Cons.prems b by (simp add: decode_stack_def)
  next
    case False
    obtain r l s where g: "GetSymbol D x (pw_lazy w, pw_perf w) = (r, l, s)" by (metis surj_pair)
    let ?r = "case r of Inr sy \<Rightarrow> Some sy | Inl e \<Rightarrow> None"
    let ?w = "append_frame ?r full (w\<lparr>pw_lazy := l, pw_perf := s\<rparr>)"
    have "?r = Some k \<longleftrightarrow> r = Inr k" for k by (cases r) auto
    then have ok: "sym_ok D m (l, s)" and r: "resolved m x ?r"
      using GetSymbol_ok [OF Cons.prems assms(2) g] unfolding resolved_def by blast+
    then obtain w' rs where w': "walk_frames D full (stack_value xs) ?w = Some w'"
      "sym_ok D m (pw_lazy w', pw_perf w')" "list_all2 (resolved m) (decode_stack xs) rs"
      "pw_stack w' = pw_stack ?w @ concat (map (frame_lines full) rs)"
      using Cons.IH [of ?w] by auto
    show ?thesis
      using False b g w' r by (intro exI [of _ w'] exI [of _ "?r # rs"]) (simp add: decode_stack_def)
  qed
qed

lemma WalkPythonStack_ok:
  assumes "sym_ok D m (pw_lazy w, pw_perf w)" "inj_map m"
  shows "\<exists>w' rs. WalkPythonStack D full (stack_value xs) w = Some w' \<and> sym_ok D m (pw_lazy w', pw_perf w') \<and>
    list_all2 (resolved m) (decode_stack xs) rs \<and>
    pw_stack w' = pw_stack w @ rev (concat (map (frame_lines full) rs))"
proof -
  obtain w' rs where w': "walk_frames D full (stack_value xs) w = Some w'" "sym_ok D m (pw_lazy w', pw_perf w')"
    "list_all2 (resolved m) (decode_stack xs) rs" "pw_stack w' = pw_stack w @ concat (map (frame_lines full) rs)"
    using walk_frames_ok [OF assms, of full xs] by blast
  show ?thesis
  proof (cases "stack_value xs = []")
    case True
    with w' show ?thesis by (intro exI [of _ w] exI [of _ rs]) (simp add: WalkPythonStack_def)
  next
    case False
    with w' show ?thesis
      by (intro exI [of _ "w'\<lparr>pw_stack := reverse_from (length (pw_stack w)) (pw_stack w')\<rparr>"] exI [of _ rs])
         (simp add: WalkPythonStack_def reverse_from_def)
  qed
qed

text \<open>The cache of processes is left alone.\<close>

lemma GetSymbol_cache: "GetSymbol D i (l, s) = (r, l', s') \<Longrightarrow> pidCache s' = pidCache s"
  by (auto simp: GetSymbol_def getSymbol_def GetSymbols_def Let_def split: option.splits if_splits)

lemma walk_frames_cache: "walk_frames D full bs w = Some w' \<Longrightarrow> pidCache (pw_perf w') = pidCache (pw_perf w)"
  by (induction D full bs w rule: walk_frames.induct)
     (auto simp: Let_def split: if_splits prod.splits dest: GetSymbol_cache)

lemma WalkPythonStack_cache:
  "WalkPythonStack D full bs w = Some w' \<Longrightarrow> pidCache (pw_perf w') = pidCache (pw_perf w)"
  by (auto simp: WalkPythonStack_def dest: walk_frames_cache split: if_splits)

lemma resolved_interned:
  assumes "set ss \<subseteq> dom m" "inj_map m" "list_all2 (resolved m) (map (\<lambda>s. the (m s)) ss) rs"
  shows "rs = map Some ss"
  using assms(1,3)
proof (induction ss arbitrary: rs)
  case (Cons s ss)
  then obtain r rs' where rs: "rs = r # rs'" "resolved m (the (m s)) r"
    by (auto simp: list_all2_Cons1)
  then have "r = Some s" using Cons.prems(1) by (auto simp: resolved_def)
  with Cons rs show ?case by (auto simp: list_all2_Cons1)
qed simp

section \<open>The text of a frame\<close>

text \<open>Without the option for full paths the file name is cut behind its last slash, except
  when that slash is the second byte of the name: then nothing is cut.\<close>

lemma short_filename_cases:
  assumes "slash \<notin> set base"
  shows "short_filename False base = base"
    "length dirs \<noteq> 1 \<Longrightarrow> short_filename False (dirs @ slash # base) = base"
    "length dirs = 1 \<Longrightarrow> short_filename False (dirs @ slash # base) = dirs @ slash # base"
  using assms by (simp_all add: short_filename_def LastIndexByte_none LastIndexByte_last nat_add_distrib)

text \<open>The text of a string object cut to a field of \<open>n\<close> bytes.\<close>

definition str_text :: "py_ascii_object \<Rightarrow> u8 list \<Rightarrow> nat \<Rightarrow> go_string" where
  "str_text ob dat n =
     runes_string (map (decoded_point ob) (take (n div unat (ao_kind ob)) (code_points (unat (ao_kind ob)) dat)))"

lemma padded_text:
  assumes "ao_kind ob \<in> {1, 2, 4}" "ascii_ok ob dat" "n < 256"
  shows "PythonString (padded n dat) (str_descr ob (min (length dat) n)) = str_text ob dat n"
  using python_string_descr [OF assms(1,2), of "replicate n 0" n] assms(3) by (simp add: padded_def str_text_def)

lemma code_str_kind: "code_str mem offsets code off ob dat \<Longrightarrow> ao_kind ob \<in> {1, 2, 4}"
  by (auto simp: code_str_def compact_str_def)

lemma cstr_length: "cstr mem p n = Some cs \<Longrightarrow> length cs \<le> n"
  by (induction mem p n arbitrary: cs rule: cstr.induct) (auto split: option.splits if_splits)

lemma class_text:
  assumes "length cname \<le> 31"
  shows "PythonString (overwrite (cname @ [0]) (replicate 32 0))
    \<lparr>str_type = PYSTR_TYPE_UTF8, size_codepoints = of_nat (length cname)\<rparr> = cname"
proof -
  have "unat (of_nat (length cname) :: u8) = length cname" using assms by (simp add: unat_of_nat)
  then show ?thesis
    using assms
    by (auto simp: PythonString_def Let_def pystr_consts overwrite_def nth_append intro!: nth_equalityI)
qed

lemma empty_class_text: "PythonString (classname zero_symbol) (classname_type zero_symbol) = []"
  by (simp add: PythonString_def zero_symbol_def symbol_of_bytes_def str_type_at_def sizeof_py_symbol_def name_lens
      pystr_consts)

lemma function_frame:
  assumes "ao_kind fob \<in> {1, 2, 4}" "ascii_ok fob fdat" "ao_kind nob \<in> {1, 2, 4}" "ascii_ok nob ndat"
    and "f = short_filename full (str_text fob fdat 128)" "n = str_text nob ndat 64"
  shows "python_frame full (names_symbol zero_symbol fob fdat nob ndat) =
    (if skipPythonFrame [] f n then None else Some (f @ go_str '' '' @ n))"
  using padded_text [OF assms(1,2), of 128] padded_text [OF assms(3,4), of 64] empty_class_text assms(5,6)
  by (simp add: python_frame_def names_symbol_def)

lemma method_frame:
  assumes "ao_kind fob \<in> {1, 2, 4}" "ascii_ok fob fdat" "ao_kind nob \<in> {1, 2, 4}" "ascii_ok nob ndat"
    and "f = short_filename full (str_text fob fdat 128)" "n = str_text nob ndat 64"
    and "cname \<noteq> []" "length cname \<le> 31"
  shows "python_frame full (names_symbol (class_symbol zero_symbol cname) fob fdat nob ndat) =
    Some (f @ go_str '' '' @ cname @ go_str ''.'' @ n)"
  using padded_text [OF assms(1,2), of 128] padded_text [OF assms(3,4), of 64] class_text [OF assms(8)] assms(5-7)
  by (simp add: python_frame_def names_symbol_def class_symbol_def skipPythonFrame_def)

section \<open>Properties\<close>

text \<open>C16: The line the agent shows for a method, from the memory of the Python process to the
  text: the file name, a space, the name of the class of \<open>self\<close>, a dot and the method name,
  where file and method name are the leading code points of the string objects, as many as
  fit the 128 and 64 bytes of their fields.\<close>

theorem method_frame_text:
  assumes "probe_read_resident (probe_read_user K) mem"
    and "probe_read_str_resident (probe_read_user_str K) mem" "clears_buffer (perf_prog_read_value K)"
    and "wf_symbol s" "first_arg_at mem offsets code aob (self_str @ rest)"
    and "self_class_at mem offsets fr cname" "cname \<noteq> []"
    and "code_str mem offsets code (PyCodeObject_co_filename offsets) fob fdat" "ascii_ok fob fdat"
    and "code_str mem offsets code (PyCodeObject_co_name offsets) nob ndat" "ascii_ok nob ndat"
  shows "\<exists>sy. get_names K fr code offsets s = (0, sy) \<and>
    python_frame full sy = Some (short_filename full (str_text fob fdat 128) @ go_str '' '' @
      cname @ go_str ''.'' @ str_text nob ndat 64)"
proof -
  have "length cname \<le> 31" using assms(6) by (auto simp: self_class_at_def dest: cstr_length)
  then show ?thesis
    using get_names_self [OF assms(1-6,8,10)] assms(7)
      method_frame [OF code_str_kind [OF assms(8)] assms(9) code_str_kind [OF assms(10)] assms(11) refl refl] by simp
qed

end
