(* ===== verification/Go_Symtab.thy ===== *)
theory Go_Symtab
  imports Go_Base
begin

text \<open>
  Symbol tables of the agent: \<open>ebpf/symtab/table.go\<close> (sorted symbols with a base address),
  \<open>kallsyms.go\<close> (the parser of \<open>/proc/kallsyms\<close>), \<open>procmap.go\<close> (the parser of \<open>/proc/pid/maps\<close>)
  and the address ranges of \<open>proc.go\<close>. A parser returns \<open>None\<close> for a panic and \<open>Inl\<close> for an error.

  The lemmas show that the table answers with the last symbol at or below an address, that both
  parsers read back what the kernel prints, and that a process resolves an address through the one
  mapping that contains it.
\<close>

section \<open>Tables of symbols\<close>

record go_symbol =
  sym_Start :: u64
  sym_Name :: go_string
  sym_Module :: go_string

definition no_symbol :: go_symbol where
  "no_symbol = \<lparr>sym_Start = 0, sym_Name = [], sym_Module = []\<rparr>"

record SymbolTab =
  tab_symbols :: "go_symbol list"
  tab_base :: u64

definition NewSymbolTab :: "go_symbol list \<Rightarrow> SymbolTab" where
  "NewSymbolTab syms = \<lparr>tab_symbols = syms, tab_base = 0\<rparr>"

definition Rebase :: "u64 \<Rightarrow> SymbolTab \<Rightarrow> SymbolTab" where
  "Rebase base t = t\<lparr>tab_base := base\<rparr>"

definition Resolve_tab :: "SymbolTab \<Rightarrow> u64 \<Rightarrow> go_symbol option" where
  "Resolve_tab t a =
     (if tab_symbols t = [] then Some no_symbol
      else let a = a - tab_base t
           in if a < sym_Start (tab_symbols t ! 0) then Some no_symbol
              else let i = sort_Search (length (tab_symbols t)) (\<lambda>i. a < sym_Start (tab_symbols t ! i))
                   in if i = 0 then None else Some (tab_symbols t ! (i - 1)))"

section \<open>Lines\<close>

definition newline :: u8 where "newline = 0x0A"
definition space :: u8 where "space = 0x20"
definition tab :: u8 where "tab = 0x09"

definition next_line :: "go_string \<Rightarrow> go_string \<times> go_string" where
  "next_line s = (case cut_byte newline s of None \<Rightarrow> (s, []) | Some (line, rest) \<Rightarrow> (line, rest))"

lemma next_line_shorter: "s \<noteq> [] \<Longrightarrow> length (snd (next_line s)) < length s"
  by (auto simp: next_line_def dest!: cut_byte_some split: option.splits)

function go_lines :: "go_string \<Rightarrow> go_string list" where
  "go_lines s = (if s = [] then [] else fst (next_line s) # go_lines (snd (next_line s)))"
  by pat_completeness auto
termination by (relation "measure length") (auto simp: next_line_shorter)

declare go_lines.simps [simp del]

definition unlines :: "go_string list \<Rightarrow> go_string" where
  "unlines ls = concat (map (\<lambda>l. l @ [newline]) ls)"

lemma go_lines_unlines: "list_all (\<lambda>l. newline \<notin> set l) ls \<Longrightarrow> go_lines (unlines ls) = ls"
  by (induction ls) (simp_all add: unlines_def go_lines.simps next_line_def)

section \<open>Kernel symbols\<close>

datatype parse_error = No_space | Bad_number | Bad_field

definition kallsymsModule :: go_string where "kallsymsModule = go_str ''kernel''"

definition strip_brackets :: "go_string \<Rightarrow> go_string" where
  "strip_brackets m =
     (if m \<noteq> [] \<and> hd m = 0x5B \<and> last m = 0x5D then butlast (tl m) else m)"

definition kernelAddrSpace :: "bool \<Rightarrow> u64" where
  "kernelAddrSpace amd64 = (if amd64 then 0x00FFFFFFFFFFFFFF else 0)"

text \<open>One line that is not empty; \<open>Inr None\<close> is a \<open>continue\<close>.\<close>

definition kallsyms_line :: "bool \<Rightarrow> go_string \<Rightarrow> (parse_error + go_symbol option) option" where
  "kallsyms_line amd64 line =
     (case cut_byte space line of
        None \<Rightarrow> Some (Inl No_space)
      | Some (ad, line) \<Rightarrow>
          (case cut_byte space line of
             None \<Rightarrow> Some (Inl No_space)
           | Some (ty, line) \<Rightarrow>
               (let (nam, md) = (case cut_byte tab line of None \<Rightarrow> (line, kallsymsModule) | Some nm \<Rightarrow> nm)
                in if ty = [] then None
                   else if hd ty \<in> set (go_str ''bBdDrR'') then Some (Inr None)
                   else case ParseUint 16 ad of
                          None \<Rightarrow> Some (Inl Bad_number)
                        | Some istart \<Rightarrow>
                            if istart < kernelAddrSpace amd64 then Some (Inr None)
                            else Some (Inr (Some \<lparr>sym_Start = istart, sym_Name = nam, sym_Module = strip_brackets md\<rparr>)))))"

fun kallsyms_lines :: "bool \<Rightarrow> go_string list \<Rightarrow> (parse_error + go_symbol list) option" where
  "kallsyms_lines amd64 [] = Some (Inr [])"
| "kallsyms_lines amd64 (line # ls) =
     (if line = [] then kallsyms_lines amd64 ls
      else case kallsyms_line amd64 line of
             None \<Rightarrow> None
           | Some (Inl e) \<Rightarrow> Some (Inl e)
           | Some (Inr s) \<Rightarrow>
               map_option (map_sum id (\<lambda>ss. case s of None \<Rightarrow> ss | Some s \<Rightarrow> s # ss)) (kallsyms_lines amd64 ls))"

definition NewKallsymsFromData :: "bool \<Rightarrow> go_string \<Rightarrow> (parse_error + SymbolTab) option" where
  "NewKallsymsFromData amd64 kallsyms =
     map_option (map_sum id
       (\<lambda>syms. if list_all (\<lambda>s. sym_Start s = 0) syms then NewSymbolTab [] else NewSymbolTab syms))
       (kallsyms_lines amd64 (go_lines kallsyms))"

section \<open>Mappings of a process\<close>

record ProcMapPermissions =
  pm_Read :: bool
  pm_Write :: bool
  pm_Execute :: bool
  pm_Shared :: bool
  pm_Private :: bool

record ProcMap =
  StartAddr :: u64
  EndAddr :: u64
  Perms :: ProcMapPermissions
  Offset :: s64
  Dev :: u64
  Inode :: u64
  Pathname :: go_string

text \<open>A token is read through the address of its first byte, so an empty one is a panic.\<close>

definition token :: "(go_string \<Rightarrow> 'a option) \<Rightarrow> go_string \<Rightarrow> (parse_error + 'a) option" where
  "token parse s =
     (if s = [] then None else case parse s of None \<Rightarrow> Some (Inl Bad_number) | Some v \<Rightarrow> Some (Inr v))"

definition mkdev :: "u32 \<Rightarrow> u32 \<Rightarrow> u64" where
  "mkdev major minor =
     push_bit 8 (ucast major AND 0x00000FFF) OR push_bit 32 (ucast major AND 0xFFFFF000) OR
     (ucast minor AND 0x000000FF) OR push_bit 12 (ucast minor AND 0xFFFFFF00)"

text \<open>Sequencing of steps that may panic or fail.\<close>

definition andThen :: "('e + 'a) option \<Rightarrow> ('a \<Rightarrow> ('e + 'b) option) \<Rightarrow> ('e + 'b) option" where
  "andThen r f = (case r of None \<Rightarrow> None | Some (Inl e) \<Rightarrow> Some (Inl e) | Some (Inr v) \<Rightarrow> f v)"

lemma andThen_simps [simp]: "andThen (Some (Inr v)) f = f v" "andThen (Some (Inl e)) f = Some (Inl e)" "andThen None f = None"
  by (simp_all add: andThen_def)

definition cut_or :: "u8 \<Rightarrow> go_string \<Rightarrow> (parse_error + go_string \<times> go_string) option" where
  "cut_or c s = (case cut_byte c s of None \<Rightarrow> Some (Inl Bad_field) | Some p \<Rightarrow> Some (Inr p))"

definition parseDevice :: "go_string \<Rightarrow> (parse_error + u64) option" where
  "parseDevice s =
     andThen (cut_or 0x3A s) (\<lambda>(majorBytes, minorBytes).
     andThen (token (ParseUint 16) majorBytes) (\<lambda>major.
     andThen (token (ParseUint 16) minorBytes) (\<lambda>minor.
       Some (Inr (mkdev (ucast major) (ucast minor))))))"

definition parseAddresses :: "go_string \<Rightarrow> (parse_error + u64 \<times> u64) option" where
  "parseAddresses s =
     andThen (cut_or 0x2D s) (\<lambda>(saddrBytes, eaddrBytes).
     andThen (token (ParseUint 16) saddrBytes) (\<lambda>saddr.
     andThen (token (ParseUint 16) eaddrBytes) (\<lambda>eaddr.
       Some (Inr (saddr, eaddr)))))"

definition parsePermissions :: "go_string \<Rightarrow> (parse_error + ProcMapPermissions) option" where
  "parsePermissions s =
     (if length s < 4 then Some (Inl Bad_field)
      else Some (Inr \<lparr>pm_Read = of_char CHR ''r'' \<in> set s, pm_Write = of_char CHR ''w'' \<in> set s,
             pm_Execute = of_char CHR ''x'' \<in> set s, pm_Shared = of_char CHR ''s'' \<in> set s,
             pm_Private = of_char CHR ''p'' \<in> set s\<rparr>))"

text \<open>\<open>Inr None\<close>: a mapping without execute permission when only executable ones are asked for.\<close>

definition ParseProcMapLine :: "bool \<Rightarrow> go_string \<Rightarrow> (parse_error + ProcMap option) option" where
  "ParseProcMapLine executableOnly line =
     andThen (cut_or space line) (\<lambda>(addressesBytes, line).
     andThen (cut_or space line) (\<lambda>(permsBytes, line).
     andThen (cut_or space line) (\<lambda>(offsetBytes, line).
     andThen (cut_or space line) (\<lambda>(deviceBytes, line).
     let (inodeBytes, line) = (case cut_byte space line of None \<Rightarrow> (line, []) | Some p \<Rightarrow> p) in
     andThen (parsePermissions permsBytes) (\<lambda>perms.
     if executableOnly \<and> \<not> pm_Execute perms then Some (Inr None)
     else
       andThen (parseAddresses addressesBytes) (\<lambda>(saddr, eaddr).
       andThen (token (ParseInt 16) offsetBytes) (\<lambda>offset.
       andThen (parseDevice deviceBytes) (\<lambda>device.
       andThen (token (ParseUint 10) inodeBytes) (\<lambda>inode.
         Some (Inr (Some
           \<lparr>StartAddr = saddr, EndAddr = eaddr, Perms = perms, Offset = offset, Dev = device, Inode = inode,
            Pathname = dropWhile (\<lambda>c. c = space) line\<rparr>)))))))))))"

fun proc_map_lines :: "bool \<Rightarrow> go_string list \<Rightarrow> (parse_error + ProcMap list) option" where
  "proc_map_lines executableOnly [] = Some (Inr [])"
| "proc_map_lines executableOnly (line # ls) =
     (if line = [] then proc_map_lines executableOnly ls
      else andThen (ParseProcMapLine executableOnly line) (\<lambda>m.
             map_option (map_sum id (\<lambda>ms. case m of None \<Rightarrow> ms | Some m \<Rightarrow> m # ms))
               (proc_map_lines executableOnly ls)))"

definition ParseProcMapsExecutableModules :: "bool \<Rightarrow> go_string \<Rightarrow> (parse_error + ProcMap list) option" where
  "ParseProcMapsExecutableModules executableOnly procMaps = proc_map_lines executableOnly (go_lines procMaps)"

definition FindLastRXMap :: "ProcMap list \<Rightarrow> ProcMap option" where
  "FindLastRXMap maps = List.find (\<lambda>m. pm_Read (Perms m) \<and> pm_Execute (Perms m)) (rev maps)"

definition FindReadableMap :: "ProcMap list \<Rightarrow> ProcMap option" where
  "FindReadableMap maps = List.find (\<lambda>m. pm_Read (Perms m) \<and> \<not> pm_Write (Perms m)) maps"

section \<open>Addresses of a process\<close>

text \<open>A loaded ELF table: its base address and the resolver of addresses relative to it.\<close>

record elf_table =
  et_base :: u64
  et_table :: "u64 \<Rightarrow> go_string"

record elf_range =
  mapRange :: ProcMap
  elfTable :: "elf_table option"

definition binarySearchElfRange :: "u64 \<Rightarrow> elf_range \<Rightarrow> int" where
  "binarySearchElfRange pc e =
     (if pc < StartAddr (mapRange e) then 1
      else if EndAddr (mapRange e) \<le> pc then -1
      else 0)"

text \<open>Tables are kept per file between refreshes; \<open>new\<close> makes one that is not there yet.\<close>

type_synonym file_key = "u64 \<times> u64 \<times> go_string"

definition file_of :: "ProcMap \<Rightarrow> file_key" where
  "file_of m = (Dev m, Inode m, Pathname m)"

definition createElfTable :: "(ProcMap \<Rightarrow> elf_table) \<Rightarrow> ProcMap \<Rightarrow> elf_table option" where
  "createElfTable new m = (if Pathname m \<noteq> [] \<and> hd (Pathname m) = slash then Some (new m) else None)"

definition getElfTable ::
  "(ProcMap \<Rightarrow> elf_table) \<Rightarrow> ProcMap \<Rightarrow> (file_key \<rightharpoonup> elf_table) \<Rightarrow> elf_table option \<times> (file_key \<rightharpoonup> elf_table)" where
  "getElfTable new m tbl =
     (case tbl (file_of m) of
        Some e \<Rightarrow> (Some e, tbl)
      | None \<Rightarrow>
          (case createElfTable new m of
             None \<Rightarrow> (None, tbl)
           | Some e \<Rightarrow> (Some e, tbl(file_of m \<mapsto> e))))"

fun make_ranges ::
  "(ProcMap \<Rightarrow> elf_table) \<Rightarrow> ProcMap list \<Rightarrow> (file_key \<rightharpoonup> elf_table) \<Rightarrow> elf_range list \<times> (file_key \<rightharpoonup> elf_table)" where
  "make_ranges new [] tbl = ([], tbl)"
| "make_ranges new (m # ms) tbl =
     (let (e, tbl) = getElfTable new m tbl;
          (rs, tbl) = make_ranges new ms tbl
      in (\<lparr>mapRange = m, elfTable = e\<rparr> # rs, tbl))"

definition filesToKeep :: "elf_range list \<Rightarrow> file_key set" where
  "filesToKeep rs = (\<lambda>r. file_of (mapRange r)) ` {r \<in> set rs. elfTable r \<noteq> None}"

text \<open>An error leaves no ranges and all tables.\<close>

definition refreshProcMap ::
  "(ProcMap \<Rightarrow> elf_table) \<Rightarrow> go_string \<Rightarrow> (file_key \<rightharpoonup> elf_table)
     \<Rightarrow> ((parse_error + unit) \<times> elf_range list \<times> (file_key \<rightharpoonup> elf_table)) option" where
  "refreshProcMap new procMaps tbl =
     (case ParseProcMapsExecutableModules True procMaps of
        None \<Rightarrow> None
      | Some (Inl e) \<Rightarrow> Some (Inl e, [], tbl)
      | Some (Inr maps) \<Rightarrow>
          (let (rs, tbl) = make_ranges new maps tbl
           in Some (Inr (), rs, tbl |` filesToKeep rs)))"

definition Resolve_proc :: "elf_range list \<Rightarrow> u64 \<Rightarrow> go_symbol" where
  "Resolve_proc ranges pc =
     (if pc = 0xCCCCCCCCCCCCCCCC \<or> pc = 0x9090909090909090
      then \<lparr>sym_Start = 0, sym_Name = go_str ''end_of_stack'', sym_Module = go_str ''[unknown]''\<rparr>
      else let (i, found) = BinarySearchFunc ranges (binarySearchElfRange pc)
           in if \<not> found then no_symbol
              else case elfTable (ranges ! i) of
                     None \<Rightarrow> no_symbol
                   | Some t \<Rightarrow>
                       \<lparr>sym_Start = pc - et_base t, sym_Name = et_table t (pc - et_base t),
                        sym_Module = Pathname (mapRange (ranges ! i))\<rparr>)"

section \<open>The table answers with the last symbol at or below the address\<close>

lemma Resolve_tab_no_panic: "Resolve_tab t a \<noteq> None"
  using sort_Search_boundary(2) [of "length (tab_symbols t)" "\<lambda>i. a - tab_base t < sym_Start (tab_symbols t ! i)"]
  by (cases "tab_symbols t = []") (auto simp: Resolve_tab_def Let_def)

lemma sorted_filter_le:
  fixes f :: "'a \<Rightarrow> 'b::linorder"
  assumes "sorted (map f xs)"
  shows "filter (\<lambda>x. f x \<le> a) xs = take (sort_Search (length xs) (\<lambda>i. a < f (xs ! i))) xs"
proof -
  let ?n = "sort_Search (length xs) (\<lambda>i. a < f (xs ! i))"
  have mono: "a < f (xs ! j)" if "i \<le> j" "j < length xs" "a < f (xs ! i)" for i j
    using that sorted_nth_mono [OF assms, of i j] by simp
  have iff: "a < f (xs ! k) \<longleftrightarrow> ?n \<le> k" if "k < length xs" for k
    using sort_Search_iff [of "length xs" "\<lambda>i. a < f (xs ! i)" k] mono that by blast
  have "filter (\<lambda>x. f x \<le> a) (take ?n xs) = take ?n xs"
    using iff by (auto simp: filter_id_conv in_set_conv_nth not_less [symmetric])
  moreover have "filter (\<lambda>x. f x \<le> a) (drop ?n xs) = []"
    using iff by (auto simp: filter_empty_conv in_set_conv_nth not_le)
  ultimately show ?thesis by (metis append_take_drop_id append_Nil2 filter_append)
qed

section \<open>Round trips of the parsers\<close>

text \<open>The lines of \<open>/proc/kallsyms\<close>: an address of at least \<open>k\<close> digits, a type, a name and, for a
  module, its name in brackets.\<close>

definition padded_hex :: "nat \<Rightarrow> nat \<Rightarrow> go_string" where
  "padded_hex k n = replicate (k - length (digits 16 n)) 0x30 @ digits 16 n"

definition print_kallsym :: "u8 \<Rightarrow> go_symbol \<Rightarrow> go_string" where
  "print_kallsym ty s =
     padded_hex 16 (unat (sym_Start s)) @ [space, ty, space] @ sym_Name s @
     (if sym_Module s = kallsymsModule then [] else [tab, 0x5B] @ sym_Module s @ [0x5D])"

definition printable_symbol :: "bool \<Rightarrow> go_symbol \<Rightarrow> bool" where
  "printable_symbol amd64 s \<longleftrightarrow>
     kernelAddrSpace amd64 \<le> sym_Start s \<and> tab \<notin> set (sym_Name s) \<and>
     newline \<notin> set (sym_Name s) \<and> newline \<notin> set (sym_Module s)"

lemma padded_hex_parse: "ParseUint 16 (padded_hex k (unat (a :: u64))) = Some a"
  using ParseUint_digits [of 16 "unat a"] unsigned_less [of a, where ?'a = nat] by (simp add: padded_hex_def)

lemma padded_hex_set: "c \<in> {0x20, 0x2B, 0x2D, 0x3A, 0x0A} \<Longrightarrow> c \<notin> set (padded_hex k n)"
  using digits_set [of 16 c n] by (auto simp: padded_hex_def)

lemma padded_hex_not_Nil [simp]: "padded_hex k n \<noteq> []"
  by (simp add: padded_hex_def)

lemmas separators = space_def tab_def newline_def

lemma kallsyms_line_print:
  assumes "printable_symbol amd64 s" "ty \<notin> set (go_str ''bBdDrR'')" "ty \<noteq> space"
  shows "kallsyms_line amd64 (print_kallsym ty s) = Some (Inr (Some s))"
proof -
  let ?rest = "sym_Name s @ (if sym_Module s = kallsymsModule then [] else [tab, 0x5B] @ sym_Module s @ [0x5D])"
  have 1: "cut_byte space (print_kallsym ty s) = Some (padded_hex 16 (unat (sym_Start s)), ty # space # ?rest)"
    using cut_byte_append [of space "padded_hex 16 (unat (sym_Start s))" "ty # space # ?rest"]
    by (simp add: print_kallsym_def padded_hex_set space_def)
  have 2: "cut_byte space (ty # space # ?rest) = Some ([ty], ?rest)" using assms(3) by simp
  have 3: "(case cut_byte tab ?rest of None \<Rightarrow> (?rest, kallsymsModule) | Some nm \<Rightarrow> nm) =
      (sym_Name s, if sym_Module s = kallsymsModule then kallsymsModule else 0x5B # sym_Module s @ [0x5D])"
    using assms(1) cut_byte_none [of tab "sym_Name s"] by (auto simp: printable_symbol_def split: option.splits)
  show ?thesis
    unfolding kallsyms_line_def 1 option.case prod.case 2 3 Let_def
    using assms(1,2) padded_hex_parse [of 16 "sym_Start s"]
    by (auto simp: printable_symbol_def strip_brackets_def kallsymsModule_def go_str_def)
qed

lemma kallsyms_lines_print:
  assumes "list_all (\<lambda>(ty, s). printable_symbol amd64 s \<and> ty \<notin> set (go_str ''bBdDrR'') \<and> ty \<noteq> space) xs"
  shows "kallsyms_lines amd64 (map (\<lambda>(ty, s). print_kallsym ty s) xs) = Some (Inr (map snd xs))"
  using assms by (induction xs) (auto simp: kallsyms_line_print, simp add: print_kallsym_def)

text \<open>The lines of \<open>/proc/pid/maps\<close>.\<close>

definition perms_text :: "ProcMapPermissions \<Rightarrow> go_string" where
  "perms_text p =
     [if pm_Read p then of_char CHR ''r'' else 0x2D, if pm_Write p then of_char CHR ''w'' else 0x2D,
      if pm_Execute p then of_char CHR ''x'' else 0x2D, if pm_Shared p then of_char CHR ''s'' else of_char CHR ''p'']"

definition print_map :: "u32 \<Rightarrow> u32 \<Rightarrow> nat \<Rightarrow> ProcMap \<Rightarrow> go_string" where
  "print_map major minor pad m =
     (padded_hex 8 (unat (StartAddr m)) @ 0x2D # padded_hex 8 (unat (EndAddr m))) @ space #
     perms_text (Perms m) @ space #
     padded_hex 8 (unat (Offset m)) @ space #
     (padded_hex 2 (unat major) @ 0x3A # padded_hex 2 (unat minor)) @ space #
     digits 10 (unat (Inode m)) @ space #
     replicate pad space @ Pathname m"

definition printable_map :: "u32 \<Rightarrow> u32 \<Rightarrow> ProcMap \<Rightarrow> bool" where
  "printable_map major minor m \<longleftrightarrow>
     unat (Offset m) < 2 ^ 63 \<and> Dev m = mkdev major minor \<and> pm_Shared (Perms m) \<noteq> pm_Private (Perms m) \<and>
     (Pathname m = [] \<or> hd (Pathname m) \<noteq> space) \<and> newline \<notin> set (Pathname m)"

lemma token_some: "s \<noteq> [] \<Longrightarrow> parse s = Some v \<Longrightarrow> token parse s = Some (Inr v)"
  by (simp add: token_def)

lemma cut_or_append: "c \<notin> set a \<Longrightarrow> cut_or c (a @ c # b) = Some (Inr (a, b))"
  by (simp add: cut_or_def)

lemma padded_hex_parse32: "ParseUint 16 (padded_hex k (unat (a :: u32))) = Some (ucast a)"
proof -
  have "unat a < 2 ^ 64" using unsigned_less [of a, where ?'a = nat] by simp
  then show ?thesis
    using ParseUint_digits [of 16 "unat a"] by (simp add: padded_hex_def unsigned_of_nat)
qed

lemma ucast_u64_u32: "(ucast (ucast (a :: u32) :: u64) :: u32) = a"
  using unsigned_less [of a, where ?'a = nat]
  by (simp add: word_unat_eq_iff unsigned_ucast_eq unsigned_take_bit_eq take_bit_nat_eq_self)

lemma padded_hex_parse_int:
  assumes "unat (a :: s64) < 2 ^ 63"
  shows "ParseInt 16 (padded_hex k (unat a)) = Some a"
proof -
  have "hd (padded_hex k (unat a)) \<in> set (padded_hex k (unat a))" by simp
  then have "hd (padded_hex k (unat a)) \<noteq> 0x2B" "hd (padded_hex k (unat a)) \<noteq> 0x2D"
    using padded_hex_set [where k = k and n = "unat a"] by (metis insertCI)+
  then show ?thesis using assms by (simp add: ParseInt_def padded_hex_parse)
qed

lemma parsePermissions_text:
  "pm_Shared p \<noteq> pm_Private p \<Longrightarrow> parsePermissions (perms_text p) = Some (Inr p)"
  by (cases p) (auto simp: parsePermissions_def perms_text_def)

lemma ParseProcMapLine_print:
  assumes "printable_map major minor m"
  shows "ParseProcMapLine executableOnly (print_map major minor pad m) =
    Some (Inr (if executableOnly \<and> \<not> pm_Execute (Perms m) then None else Some m))"
proof -
  define A where "A = padded_hex 8 (unat (StartAddr m)) @ 0x2D # padded_hex 8 (unat (EndAddr m))"
  define D where "D = padded_hex 2 (unat major) @ 0x3A # padded_hex 2 (unat minor)"
  have ad: "parseAddresses A = Some (Inr (StartAddr m, EndAddr m))"
    by (simp add: A_def parseAddresses_def cut_or_append padded_hex_set token_some padded_hex_parse)
  have dv: "parseDevice D = Some (Inr (Dev m))"
    using assms
    by (simp add: D_def parseDevice_def cut_or_append padded_hex_set token_some padded_hex_parse32 ucast_u64_u32 printable_map_def)
  have sp: "space \<notin> set A" "space \<notin> set (perms_text (Perms m))" "space \<notin> set (padded_hex 8 (unat (Offset m)))"
    "space \<notin> set D" "space \<notin> set (digits 10 (unat (Inode m)))"
    by (auto simp: A_def D_def space_def padded_hex_set digits_set perms_text_def)
  have ino: "token (ParseUint 10) (digits 10 (unat (Inode m))) = Some (Inr (Inode m))"
    using ParseUint_digits [of 10 "unat (Inode m)" 0] unsigned_less [of "Inode m", where ?'a = nat]
    by (intro token_some) simp_all
  have pa: "dropWhile (\<lambda>c. c = space) (replicate pad space @ Pathname m) = Pathname m"
    using assms by (induction pad) (auto simp: printable_map_def dropWhile_eq_self_iff)
  show ?thesis
    using assms unfolding ParseProcMapLine_def print_map_def A_def [symmetric] D_def [symmetric]
    by (simp add: cut_or_append sp ad dv ino pa parsePermissions_text token_some padded_hex_parse_int printable_map_def)
qed

lemma proc_map_lines_print:
  assumes "list_all (\<lambda>(major, minor, pad, m). printable_map major minor m) xs"
  shows "proc_map_lines e (map (\<lambda>(major, minor, pad, m). print_map major minor pad m) xs) =
    Some (Inr (filter (\<lambda>m. e \<longrightarrow> pm_Execute (Perms m)) (map (\<lambda>(major, minor, pad, m). m) xs)))"
proof -
  have "print_map major minor pad m \<noteq> []" for major minor pad m by (simp add: print_map_def)
  then show ?thesis using assms by (induction xs) (auto simp: ParseProcMapLine_print)
qed

lemma print_no_newline:
  "printable_map major minor m \<Longrightarrow> newline \<notin> set (print_map major minor pad m)"
  "printable_symbol amd64 s \<Longrightarrow> ty \<noteq> newline \<Longrightarrow> newline \<notin> set (print_kallsym ty s)"
  by (auto simp: print_map_def print_kallsym_def printable_map_def printable_symbol_def perms_text_def padded_hex_set
      digits_set separators)

section \<open>Ranges\<close>

definition ranges_ok :: "elf_range list \<Rightarrow> bool" where
  "ranges_ok rs \<longleftrightarrow> list_all (\<lambda>r. StartAddr (mapRange r) \<le> EndAddr (mapRange r)) rs \<and>
     sorted_wrt (\<lambda>r r'. EndAddr (mapRange r) \<le> StartAddr (mapRange r')) rs"

definition in_range :: "u64 \<Rightarrow> elf_range \<Rightarrow> bool" where
  "in_range pc r \<longleftrightarrow> StartAddr (mapRange r) \<le> pc \<and> pc < EndAddr (mapRange r)"

lemma range_search:
  assumes "ranges_ok rs" "k < length rs" "in_range pc (rs ! k)"
  shows "BinarySearchFunc rs (binarySearchElfRange pc) = (k, True)"
proof -
  let ?f = "\<lambda>h. \<not> binarySearchElfRange pc (rs ! h) < 0"
  let ?n = "sort_Search (length rs) ?f"
  have f: "?f h \<longleftrightarrow> pc < EndAddr (mapRange (rs ! h))" if "h < length rs" for h
    using assms(1) that by (auto simp: binarySearchElfRange_def ranges_ok_def list_all_length dest: less_le_trans)
  have low: "EndAddr (mapRange (rs ! i)) \<le> StartAddr (mapRange (rs ! j))" if "i < j" "j < length rs" for i j
    using assms(1) that by (auto simp: ranges_ok_def sorted_wrt_iff_nth_less)
  have out: "\<not> ?f h" if "h < k" for h
    using low [OF that assms(2)] assms(2,3) f [of h] that by (auto simp: in_range_def not_less)
  have "?f k" using f assms(2,3) by (simp add: in_range_def)
  have "\<not> ?n < k" using out sort_Search_boundary(2) [of "length rs" ?f] assms(2) by auto
  moreover have "\<not> k < ?n"
  proof
    assume "k < ?n"
    then have n: "k \<le> ?n - 1" "?n - 1 < length rs" "\<not> ?f (?n - 1)"
      using sort_Search_boundary(1,3) [of "length rs" ?f] by auto
    then have "EndAddr (mapRange (rs ! (?n - 1))) \<le> pc" "?n - 1 \<noteq> k" using f \<open>?f k\<close> by (auto simp: not_less)
    then have "EndAddr (mapRange (rs ! k)) \<le> StartAddr (mapRange (rs ! (?n - 1)))"
      "StartAddr (mapRange (rs ! (?n - 1))) \<le> EndAddr (mapRange (rs ! (?n - 1)))"
      using low [of k "?n - 1"] n assms(1) by (auto simp: ranges_ok_def list_all_length)
    then have "EndAddr (mapRange (rs ! k)) \<le> pc" using \<open>EndAddr _ \<le> pc\<close> by (meson order_trans)
    then show False using assms(3) by (simp add: in_range_def not_less [symmetric])
  qed
  ultimately have "?n = k" by simp
  moreover have "binarySearchElfRange pc (rs ! k) = 0" using assms(3) by (auto simp: binarySearchElfRange_def in_range_def)
  ultimately show ?thesis using assms(2) by (simp add: BinarySearchFunc_def)
qed

lemma range_search_found:
  assumes "BinarySearchFunc rs (binarySearchElfRange pc) = (k, True)"
  shows "k < length rs \<and> in_range pc (rs ! k)"
  using assms by (auto simp: BinarySearchFunc_def Let_def binarySearchElfRange_def in_range_def split: if_splits)

section \<open>Properties\<close>

text \<open>A table sorted by address answers with the last of its symbols whose start is at or below the
  address relative to the base, and with the empty symbol when there is none.\<close>

lemma symtab_resolve:
  assumes "sorted (map sym_Start (tab_symbols t))"
  shows "Resolve_tab t a =
    (let below = filter (\<lambda>s. sym_Start s \<le> a - tab_base t) (tab_symbols t)
     in Some (if below = [] then no_symbol else last below))"
proof -
  let ?n = "sort_Search (length (tab_symbols t)) (\<lambda>i. a - tab_base t < sym_Start (tab_symbols t ! i))"
  have n: "?n \<le> length (tab_symbols t)" by (rule sort_Search_boundary)
  have "?n = 0" if "tab_symbols t \<noteq> []" "a - tab_base t < sym_Start (tab_symbols t ! 0)"
    using that sort_Search_iff [of "length (tab_symbols t)" "\<lambda>i. a - tab_base t < sym_Start (tab_symbols t ! i)" 0]
      sorted_nth_mono [OF assms] by (force simp: less_le_trans)
  moreover have "?n \<noteq> 0" if "tab_symbols t \<noteq> []" "\<not> a - tab_base t < sym_Start (tab_symbols t ! 0)"
    using that sort_Search_boundary(2) [of "length (tab_symbols t)" "\<lambda>i. a - tab_base t < sym_Start (tab_symbols t ! i)"]
    by (metis length_greater_0_conv)
  moreover have "last (take ?n (tab_symbols t)) = tab_symbols t ! (?n - 1)" if "?n \<noteq> 0"
    using that n by (subst last_conv_nth) (auto simp: min_absorb2)
  ultimately show ?thesis
    by (cases "tab_symbols t = []"; cases "a - tab_base t < sym_Start (tab_symbols t ! 0)")
      (auto simp: Resolve_tab_def Let_def sorted_filter_le [OF assms])
qed

text \<open>Kernel symbols printed as \<open>/proc/kallsyms\<close> prints them are read back: the addresses, names
  and modules of every symbol that is neither data nor below the kernel's address space, in the order
  of the file.\<close>

lemma kallsyms_round_trip:
  assumes "list_all (\<lambda>(ty, s). printable_symbol amd64 s \<and> ty \<notin> set (go_str ''bBdDrR'') \<and> ty \<noteq> space \<and> ty \<noteq> newline) xs"
    and "\<exists>(ty, s)\<in>set xs. sym_Start s \<noteq> 0"
  shows "NewKallsymsFromData amd64 (unlines (map (\<lambda>(ty, s). print_kallsym ty s) xs)) =
    Some (Inr (NewSymbolTab (map snd xs)))"
proof -
  have "go_lines (unlines (map (\<lambda>(ty, s). print_kallsym ty s) xs)) =
      map (\<lambda>(ty, s). print_kallsym ty s) xs"
    using assms(1) by (intro go_lines_unlines) (fastforce simp: list_all_iff dest: print_no_newline)
  moreover have "kallsyms_lines amd64 (map (\<lambda>(ty, s). print_kallsym ty s) xs) = Some (Inr (map snd xs))"
    using assms(1) by (intro kallsyms_lines_print) (auto simp: list_all_iff)
  moreover have "\<not> list_all (\<lambda>s. sym_Start s = 0) (map snd xs)" using assms(2) by (force simp: list_all_iff)
  ultimately show ?thesis by (simp add: NewKallsymsFromData_def)
qed

text \<open>The mappings printed in \<open>/proc/pid/maps\<close> are read back field by field, in order, and exactly
  the executable ones are kept.\<close>

lemma maps_read_back:
  assumes "list_all (\<lambda>(major, minor, pad, m). printable_map major minor m) xs"
  shows "ParseProcMapsExecutableModules e (unlines (map (\<lambda>(major, minor, pad, m). print_map major minor pad m) xs)) =
    Some (Inr (filter (\<lambda>m. e \<longrightarrow> pm_Execute (Perms m)) (map (\<lambda>(major, minor, pad, m). m) xs)))"
proof -
  have "go_lines (unlines (map (\<lambda>(major, minor, pad, m). print_map major minor pad m) xs)) =
      map (\<lambda>(major, minor, pad, m). print_map major minor pad m) xs"
    using assms by (intro go_lines_unlines) (fastforce simp: list_all_iff dest: print_no_newline)
  then show ?thesis using proc_map_lines_print [OF assms] by (simp add: ParseProcMapsExecutableModules_def)
qed


text \<open>The table of a file: the one kept from before, or the one made for the first mapping of the file.\<close>

definition is_file :: "ProcMap \<Rightarrow> bool" where
  "is_file m \<longleftrightarrow> Pathname m \<noteq> [] \<and> hd (Pathname m) = slash"

definition table_for ::
  "(ProcMap \<Rightarrow> elf_table) \<Rightarrow> ProcMap list \<Rightarrow> (file_key \<rightharpoonup> elf_table) \<Rightarrow> ProcMap \<Rightarrow> elf_table option" where
  "table_for new ms tbl m =
     (case tbl (file_of m) of
        Some e \<Rightarrow> Some e
      | None \<Rightarrow> if is_file m then map_option new (List.find (\<lambda>m'. file_of m' = file_of m) ms) else None)"

lemma is_file_same: "file_of m = file_of m' \<Longrightarrow> is_file m = is_file m'"
  by (simp add: file_of_def is_file_def)

lemma getElfTable_cases:
  "getElfTable new m tbl =
     (table_for new (m # ms) tbl m, if tbl (file_of m) = None \<and> is_file m then tbl(file_of m \<mapsto> new m) else tbl)"
  by (auto simp: getElfTable_def createElfTable_def table_for_def is_file_def split: option.splits)

lemma table_for_Cons:
  "table_for new ms (if tbl (file_of m0) = None \<and> is_file m0 then tbl(file_of m0 \<mapsto> new m0) else tbl) m =
     table_for new (m0 # ms) tbl m"
  using is_file_same [of m m0] by (auto simp: table_for_def split: option.splits)

lemma make_ranges_tables:
  "fst (make_ranges new ms tbl) = map (\<lambda>m. \<lparr>mapRange = m, elfTable = table_for new ms tbl m\<rparr>) ms"
proof (induction ms arbitrary: tbl)
  case (Cons m0 ms)
  then show ?case
    by (simp add: getElfTable_cases [of new m0 tbl ms] table_for_Cons case_prod_beta del: fun_upd_apply)
qed simp

text \<open>The symbol of an address that lies in a given mapping, if it lies in one.\<close>

definition symbol_in :: "u64 \<Rightarrow> ProcMap option \<Rightarrow> (ProcMap \<Rightarrow> elf_table option) \<Rightarrow> go_symbol" where
  "symbol_in pc m tables =
     (case Option.bind m tables of
        None \<Rightarrow> no_symbol
      | Some t \<Rightarrow> \<lparr>sym_Start = pc - et_base t, sym_Name = et_table t (pc - et_base t), sym_Module = Pathname (the m)\<rparr>)"

definition maps_ordered :: "ProcMap list \<Rightarrow> bool" where
  "maps_ordered ms \<longleftrightarrow> list_all (\<lambda>m. StartAddr m \<le> EndAddr m) ms \<and>
     sorted_wrt (\<lambda>m m'. EndAddr m \<le> StartAddr m') ms"

lemma Resolve_ranges:
  assumes "ranges_ok rs" "pc \<noteq> 0xCCCCCCCCCCCCCCCC" "pc \<noteq> 0x9090909090909090"
  shows "Resolve_proc rs pc =
    (case List.find (in_range pc) rs of None \<Rightarrow> no_symbol | Some r \<Rightarrow> symbol_in pc (Some (mapRange r)) (\<lambda>m. elfTable r))"
proof (cases "List.find (in_range pc) rs")
  case None
  then have "\<not> snd (BinarySearchFunc rs (binarySearchElfRange pc))"
    using range_search_found [of rs pc "fst (BinarySearchFunc rs (binarySearchElfRange pc))"]
    by (metis find_None_iff nth_mem prod.collapse)
  then show ?thesis using None assms(2,3) by (auto simp: Resolve_proc_def split: prod.splits)
next
  case (Some r)
  then obtain k where k: "k < length rs" "in_range pc (rs ! k)" "r = rs ! k" by (auto simp: find_Some_iff)
  then show ?thesis
    using range_search [OF assms(1) k(1,2)] assms(2,3) Some
    by (auto simp: Resolve_proc_def symbol_in_def split: option.splits)
qed

lemma find_map: "List.find P (map f xs) = map_option f (List.find (P \<circ> f) xs)"
  by (induction xs) auto

lemma refresh_resolve:
  assumes "list_all (\<lambda>(major, minor, pad, m). printable_map major minor m) xs"
    and "maps_ordered (map (\<lambda>(major, minor, pad, m). m) xs)"
    and "ms = filter (\<lambda>m. pm_Execute (Perms m)) (map (\<lambda>(major, minor, pad, m). m) xs)"
    and "pc \<noteq> 0xCCCCCCCCCCCCCCCC" "pc \<noteq> 0x9090909090909090"
  shows "\<exists>rs tbl'. refreshProcMap new (unlines (map (\<lambda>(major, minor, pad, m). print_map major minor pad m) xs)) tbl =
      Some (Inr (), rs, tbl') \<and>
    Resolve_proc rs pc = symbol_in pc (List.find (\<lambda>m. StartAddr m \<le> pc \<and> pc < EndAddr m) ms) (table_for new ms tbl)"
proof -
  obtain rs t where r: "make_ranges new ms tbl = (rs, t)" by fastforce
  then have rs: "rs = map (\<lambda>m. \<lparr>mapRange = m, elfTable = table_for new ms tbl m\<rparr>) ms"
    using make_ranges_tables [of new ms tbl] by simp
  have "maps_ordered ms" using assms(2) by (auto simp: assms(3) maps_ordered_def list_all_iff intro: sorted_wrt_filter)
  then have ok: "ranges_ok rs" by (auto simp: rs ranges_ok_def maps_ordered_def list_all_iff sorted_wrt_map)
  have "refreshProcMap new (unlines (map (\<lambda>(major, minor, pad, m). print_map major minor pad m) xs)) tbl =
      Some (Inr (), rs, t |` filesToKeep rs)"
    using maps_read_back [OF assms(1), of True] r by (simp add: refreshProcMap_def assms(3))
  moreover have "Resolve_proc rs pc =
      symbol_in pc (List.find (\<lambda>m. StartAddr m \<le> pc \<and> pc < EndAddr m) ms) (table_for new ms tbl)"
    unfolding Resolve_ranges [OF ok assms(4,5)]
    by (auto simp: rs find_map comp_def in_range_def symbol_in_def split: option.splits)
  ultimately show ?thesis by blast
qed

text \<open>C12: After a refresh an address of a process resolves through the executable mapping that
  contains it: the table of its file, kept from before or made for the first executable mapping of
  the file, is asked for the address relative to its base, and the path of the mapping is the
  module. An address in no executable mapping, or in one without a file, resolves to nothing. The
  text of the mappings is what the kernel prints: in order, without overlap.\<close>

theorem proc_resolve:
  assumes "list_all (\<lambda>(major, minor, pad, m). printable_map major minor m) xs"
    and "maps_ordered (map (\<lambda>(major, minor, pad, m). m) xs)"
    and "ms = filter (\<lambda>m. pm_Execute (Perms m)) (map (\<lambda>(major, minor, pad, m). m) xs)"
    and "pc \<noteq> 0xCCCCCCCCCCCCCCCC" "pc \<noteq> 0x9090909090909090"
  shows "\<exists>rs tbl'. refreshProcMap new (unlines (map (\<lambda>(major, minor, pad, m). print_map major minor pad m) xs)) tbl =
      Some (Inr (), rs, tbl') \<and>
    Resolve_proc rs pc = symbol_in pc (List.find (\<lambda>m. StartAddr m \<le> pc \<and> pc < EndAddr m) ms) (table_for new ms tbl)"
  using assms by (rule refresh_resolve)

end
