(* ===== verification/Go_Pprof.thy ===== *)
theory Go_Pprof
  imports Go_Base
begin

text \<open>
  \<open>ebpf/pprof/pprof.go\<close>: the samples of a round become profiles, one builder for each set of
  labels (and each process, if asked for). A builder numbers the functions and locations it meets
  and appends a sample for every stack; samples that are not yet aggregated are merged by the hash
  of their location ids. Pointers to functions, locations and samples are positions in the lists of
  the profile; \<open>None\<close> is a panic.

  The lemmas show that the tables of a builder stay consistent, that a sample decodes to the stack
  it was made from, and that the profiles of a sequence of aggregated samples hold exactly these
  samples, in order, under the key of their builder.
\<close>

section \<open>Data\<close>

type_synonym SampleType = u32

definition SampleTypeCpu :: SampleType where "SampleTypeCpu = 0"
definition SampleTypeMem :: SampleType where "SampleTypeMem = 1"

record ProfileSample =
  ps_target :: nat
  ps_pid :: u32
  ps_type :: SampleType
  ps_aggregated :: bool
  ps_stack :: "go_string list"
  ps_value :: u64
  ps_value2 :: u64

record pp_function =
  fn_ID :: u64
  fn_Name :: go_string

record pp_location =
  loc_ID :: u64
  loc_Function :: nat

record pp_sample =
  sa_Location :: "nat list"
  sa_Value :: "s64 list"

record ProfileBuilder =
  pb_locations :: "go_string \<rightharpoonup> nat"
  pb_functions :: "go_string \<rightharpoonup> nat"
  sampleHashToSample :: "u64 \<rightharpoonup> nat"
  pf_Location :: "pp_location list"
  pf_Function :: "pp_function list"
  pf_Sample :: "pp_sample list"
  pf_Period :: s64

record BuildersOptions =
  SampleRate :: s64
  PerPIDProfile :: bool

type_synonym builderHashKey = "u64 \<times> u32 \<times> SampleType"

section \<open>A builder\<close>

definition addFunction :: "go_string \<Rightarrow> ProfileBuilder \<Rightarrow> nat \<times> ProfileBuilder" where
  "addFunction function p =
     (case pb_functions p function of
        Some f \<Rightarrow> (f, p)
      | None \<Rightarrow>
          let n = length (pf_Function p)
          in (n, p\<lparr>pf_Function := pf_Function p @ [\<lparr>fn_ID = of_nat (n + 1), fn_Name = function\<rparr>],
                   pb_functions := (pb_functions p)(function \<mapsto> n)\<rparr>))"

definition addLocation :: "go_string \<Rightarrow> ProfileBuilder \<Rightarrow> nat \<times> ProfileBuilder" where
  "addLocation function p =
     (case pb_locations p function of
        Some loc \<Rightarrow> (loc, p)
      | None \<Rightarrow>
          let n = length (pf_Location p);
              (f, p) = addFunction function p
          in (n, p\<lparr>pf_Location := pf_Location p @ [\<lparr>loc_ID = of_nat (n + 1), loc_Function = f\<rparr>],
                   pb_locations := (pb_locations p)(function \<mapsto> n)\<rparr>))"

fun addLocations :: "go_string list \<Rightarrow> ProfileBuilder \<Rightarrow> nat list \<times> ProfileBuilder" where
  "addLocations [] p = ([], p)"
| "addLocations (s # ss) p =
     (let (l, p) = addLocation s p; (ls, p) = addLocations ss p in (l # ls, p))"

definition newSample :: "ProfileSample \<Rightarrow> pp_sample" where
  "newSample s =
     \<lparr>sa_Location = replicate (length (ps_stack s)) 0,
      sa_Value = (if ps_type s = SampleTypeCpu then [0] else [0, 0])\<rparr>"

text \<open>\<open>None\<close>: the sample that is added to has fewer values.\<close>

definition addValue :: "s64 \<Rightarrow> ProfileSample \<Rightarrow> pp_sample \<Rightarrow> pp_sample option" where
  "addValue period s sample =
     (case sa_Value sample of
        [] \<Rightarrow> None
      | v # vs \<Rightarrow>
          if ps_type s = SampleTypeCpu then Some (sample\<lparr>sa_Value := (v + ps_value s * period) # vs\<rparr>)
          else (case vs of
                  [] \<Rightarrow> None
                | w # ws \<Rightarrow> Some (sample\<lparr>sa_Value := (v + ps_value s) # (w + ps_value2 s) # ws\<rparr>)))"

definition CreateSample :: "ProfileSample \<Rightarrow> ProfileBuilder \<Rightarrow> ProfileBuilder option" where
  "CreateSample s p =
     (case addValue (pf_Period p) s (newSample s) of
        None \<Rightarrow> None
      | Some sample \<Rightarrow>
          let (ls, p) = addLocations (ps_stack s) p
          in Some (p\<lparr>pf_Sample := pf_Sample p @ [sample\<lparr>sa_Location := ls\<rparr>]\<rparr>))"

definition location_ids :: "ProfileBuilder \<Rightarrow> nat list \<Rightarrow> u8 list" where
  "location_ids p ls = concat (map (\<lambda>l. word_le (loc_ID (pf_Location p ! l))) ls)"

definition CreateSampleOrAddValue ::
  "(u8 list \<Rightarrow> u64) \<Rightarrow> ProfileSample \<Rightarrow> ProfileBuilder \<Rightarrow> ProfileBuilder option" where
  "CreateSampleOrAddValue xxhash s p =
     (let (ls, p) = addLocations (ps_stack s) p;
          h = xxhash (location_ids p ls)
      in case sampleHashToSample p h of
           Some i \<Rightarrow>
             map_option (\<lambda>sample. p\<lparr>pf_Sample := (pf_Sample p)[i := sample]\<rparr>)
               (addValue (pf_Period p) s (pf_Sample p ! i))
         | None \<Rightarrow>
             map_option
               (\<lambda>sample. p\<lparr>pf_Sample := pf_Sample p @ [sample\<lparr>sa_Location := ls\<rparr>],
                          sampleHashToSample := (sampleHashToSample p)(h \<mapsto> length (pf_Sample p))\<rparr>)
               (addValue (pf_Period p) s (newSample s)))"

section \<open>Builders\<close>

definition period_of :: "BuildersOptions \<Rightarrow> SampleType \<Rightarrow> s64 option" where
  "period_of opt ty =
     (if ty = SampleTypeCpu
      then if SampleRate opt = 0 then None
           else Some (of_int (sgn (sint (SampleRate opt)) * (1000000000 div \<bar>sint (SampleRate opt)\<bar>)))
      else Some (512 * 1024))"

definition newBuilder :: "s64 \<Rightarrow> ProfileBuilder" where
  "newBuilder period =
     \<lparr>pb_locations = Map.empty, pb_functions = Map.empty, sampleHashToSample = Map.empty,
      pf_Location = [], pf_Function = [], pf_Sample = [], pf_Period = period\<rparr>"

definition builder_key :: "(nat \<Rightarrow> u64) \<Rightarrow> BuildersOptions \<Rightarrow> ProfileSample \<Rightarrow> builderHashKey" where
  "builder_key labelsHash opt s =
     (labelsHash (ps_target s), if PerPIDProfile opt then ps_pid s else 0, ps_type s)"

definition BuilderForSample ::
  "(nat \<Rightarrow> u64) \<Rightarrow> BuildersOptions \<Rightarrow> ProfileSample \<Rightarrow> (builderHashKey \<rightharpoonup> ProfileBuilder) \<Rightarrow> ProfileBuilder option" where
  "BuilderForSample labelsHash opt s builders =
     (case builders (builder_key labelsHash opt s) of
        Some p \<Rightarrow> Some p
      | None \<Rightarrow> map_option newBuilder (period_of opt (ps_type s)))"

definition AddSample ::
  "(nat \<Rightarrow> u64) \<Rightarrow> (u8 list \<Rightarrow> u64) \<Rightarrow> BuildersOptions \<Rightarrow> ProfileSample
     \<Rightarrow> (builderHashKey \<rightharpoonup> ProfileBuilder) \<Rightarrow> (builderHashKey \<rightharpoonup> ProfileBuilder) option" where
  "AddSample labelsHash xxhash opt s builders =
     (case BuilderForSample labelsHash opt s builders of
        None \<Rightarrow> None
      | Some p \<Rightarrow>
          map_option (\<lambda>p. builders(builder_key labelsHash opt s \<mapsto> p))
            (if ps_aggregated s then CreateSample s p else CreateSampleOrAddValue xxhash s p))"

text \<open>The callback applied to the samples of a round, in order.\<close>

fun Collect_samples ::
  "(nat \<Rightarrow> u64) \<Rightarrow> (u8 list \<Rightarrow> u64) \<Rightarrow> BuildersOptions \<Rightarrow> ProfileSample list
     \<Rightarrow> (builderHashKey \<rightharpoonup> ProfileBuilder) \<Rightarrow> (builderHashKey \<rightharpoonup> ProfileBuilder) option" where
  "Collect_samples labelsHash xxhash opt [] builders = Some builders"
| "Collect_samples labelsHash xxhash opt (s # ss) builders =
     Option.bind (AddSample labelsHash xxhash opt s builders) (Collect_samples labelsHash xxhash opt ss)"

section \<open>Consistency of a builder\<close>

definition location_name :: "ProfileBuilder \<Rightarrow> nat \<Rightarrow> go_string" where
  "location_name p l = fn_Name (pf_Function p ! loc_Function (pf_Location p ! l))"

definition wf_functions :: "ProfileBuilder \<Rightarrow> bool" where
  "wf_functions p \<longleftrightarrow>
     (\<forall>f i. pb_functions p f = Some i \<longleftrightarrow> i < length (pf_Function p) \<and> fn_Name (pf_Function p ! i) = f) \<and>
     (\<forall>i<length (pf_Function p). fn_ID (pf_Function p ! i) = of_nat (i + 1))"

definition wf_locations :: "ProfileBuilder \<Rightarrow> bool" where
  "wf_locations p \<longleftrightarrow>
     (\<forall>f i. pb_locations p f = Some i \<longleftrightarrow> i < length (pf_Location p) \<and> location_name p i = f) \<and>
     (\<forall>i<length (pf_Location p). loc_ID (pf_Location p ! i) = of_nat (i + 1) \<and>
        loc_Function (pf_Location p ! i) < length (pf_Function p))"

definition wf_samples :: "ProfileBuilder \<Rightarrow> bool" where
  "wf_samples p \<longleftrightarrow>
     (\<forall>s\<in>set (pf_Sample p). \<forall>l\<in>set (sa_Location s). l < length (pf_Location p)) \<and>
     (\<forall>h i. sampleHashToSample p h = Some i \<longrightarrow> i < length (pf_Sample p))"

definition wf_builder :: "ProfileBuilder \<Rightarrow> bool" where
  "wf_builder p \<longleftrightarrow> wf_functions p \<and> wf_locations p \<and> wf_samples p"

text \<open>The tables only grow: names already given stay.\<close>

definition grows :: "ProfileBuilder \<Rightarrow> ProfileBuilder \<Rightarrow> bool" where
  "grows p q \<longleftrightarrow>
     pf_Sample q = pf_Sample p \<and> pf_Period q = pf_Period p \<and> sampleHashToSample q = sampleHashToSample p \<and>
     length (pf_Location p) \<le> length (pf_Location q) \<and>
     (\<forall>l<length (pf_Location p). location_name q l = location_name p l \<and> pf_Location q ! l = pf_Location p ! l)"

lemma grows_trans: "grows p q \<Longrightarrow> grows q r \<Longrightarrow> grows p r"
  by (auto simp: grows_def)

lemma grows_refl [simp]: "grows p p"
  by (simp add: grows_def)

lemma addFunction_ok:
  assumes "wf_functions p" "wf_locations p" "addFunction f p = (i, q)"
  shows "wf_functions q \<and> wf_locations q \<and> i < length (pf_Function q) \<and> fn_Name (pf_Function q ! i) = f \<and>
    grows p q \<and> pf_Location q = pf_Location p \<and> pb_locations q = pb_locations p"
proof (cases "pb_functions p f")
  case None
  let ?g = "\<lparr>fn_ID = of_nat (length (pf_Function p) + 1), fn_Name = f\<rparr>"
  have q: "q = p\<lparr>pf_Function := pf_Function p @ [?g], pb_functions := (pb_functions p)(f \<mapsto> length (pf_Function p))\<rparr>"
    "i = length (pf_Function p)"
    using assms(3) None by (auto simp: addFunction_def Let_def)
  have name: "location_name q l = location_name p l" if "l < length (pf_Location p)" for l
    using assms(2) that unfolding q by (simp add: location_name_def wf_locations_def nth_append)
  have "\<forall>k<length (pf_Function p). fn_Name (pf_Function p ! k) \<noteq> f"
    using assms(1) None unfolding wf_functions_def by (metis option.distinct(1))
  then have "wf_functions q"
    using assms(1) unfolding q wf_functions_def by (auto simp: nth_append less_Suc_eq)
  moreover have "wf_locations q"
    using assms(2) name unfolding wf_locations_def by (auto simp: q)
  ultimately show ?thesis using name by (simp add: q grows_def nth_append)
next
  case (Some j)
  then show ?thesis using assms by (auto simp: addFunction_def wf_functions_def)
qed

lemma addLocation_ok:
  assumes "wf_functions p" "wf_locations p" "addLocation f p = (l, q)"
  shows "wf_functions q \<and> wf_locations q \<and> l < length (pf_Location q) \<and> location_name q l = f \<and> grows p q"
proof (cases "pb_locations p f")
  case None
  obtain i r where r: "addFunction f p = (i, r)" by fastforce
  note ok = addFunction_ok [OF assms(1,2) r]
  let ?n = "length (pf_Location p)"
  let ?g = "\<lparr>loc_ID = of_nat (?n + 1), loc_Function = i\<rparr>"
  have q: "q = r\<lparr>pf_Location := pf_Location r @ [?g], pb_locations := (pb_locations r)(f \<mapsto> ?n)\<rparr>" "l = ?n"
    using assms(3) None r by (auto simp: addLocation_def Let_def)
  have n: "length (pf_Location r) = ?n" using ok by simp
  have name: "location_name q k = (if k = ?n then f else location_name r k)" if "k < Suc ?n" for k
    using ok that n unfolding q by (auto simp: location_name_def nth_append)
  have fresh: "\<forall>k<?n. location_name r k \<noteq> f" using None ok n unfolding wf_locations_def by (metis option.distinct(1))
  have table: "pb_locations q g = Some k \<longleftrightarrow> k < length (pf_Location q) \<and> location_name q k = g" for g k
  proof (cases "k < Suc ?n")
    case True
    then show ?thesis using ok n fresh name [OF True] by (auto simp: q wf_locations_def less_Suc_eq)
  next
    case False
    then show ?thesis using ok n by (auto simp: q wf_locations_def)
  qed
  moreover have "loc_ID (pf_Location q ! k) = of_nat (k + 1) \<and> loc_Function (pf_Location q ! k) < length (pf_Function q)"
    if "k < length (pf_Location q)" for k
    using that ok n by (auto simp: q nth_append less_Suc_eq wf_locations_def)
  ultimately have "wf_locations q" unfolding wf_locations_def by blast
  moreover have "wf_functions q" using ok by (simp add: q wf_functions_def)
  moreover have "grows p q" using ok name by (auto simp: q grows_def nth_append)
  ultimately show ?thesis using name [of l] by (simp add: q n)
next
  case (Some j)
  then show ?thesis using assms by (auto simp: addLocation_def wf_locations_def)
qed

lemma addLocations_ok:
  "wf_functions p \<Longrightarrow> wf_locations p \<Longrightarrow> addLocations fs p = (ls, q) \<Longrightarrow>
    wf_functions q \<and> wf_locations q \<and> (\<forall>l\<in>set ls. l < length (pf_Location q)) \<and> map (location_name q) ls = fs \<and> grows p q"
proof (induction fs arbitrary: p ls)
  case (Cons f fs)
  obtain l r where l: "addLocation f p = (l, r)" by fastforce
  obtain ls' where ls': "addLocations fs r = (ls', q)" "ls = l # ls'"
    using Cons.prems(3) l by (auto split: prod.splits)
  note 1 = addLocation_ok [OF Cons.prems(1,2) l]
  with Cons.IH ls' have 2: "wf_functions q \<and> wf_locations q \<and> (\<forall>l\<in>set ls'. l < length (pf_Location q)) \<and>
      map (location_name q) ls' = fs \<and> grows r q" by blast
  have "l < length (pf_Location q)" "location_name q l = f" using 1 2 by (auto simp: grows_def)
  then show ?case using 1 2 ls'(2) grows_trans by auto
qed simp

section \<open>Decoding\<close>

text \<open>What a profile says: the stacks with their values.\<close>

definition decode :: "ProfileBuilder \<Rightarrow> (go_string list \<times> s64 list) list" where
  "decode p = map (\<lambda>s. (map (location_name p) (sa_Location s), sa_Value s)) (pf_Sample p)"

definition sample_values :: "s64 \<Rightarrow> ProfileSample \<Rightarrow> s64 list" where
  "sample_values period s =
     (if ps_type s = SampleTypeCpu then [ps_value s * period] else [ps_value s, ps_value2 s])"

lemma addValue_new:
  "addValue period s (newSample s) = Some ((newSample s)\<lparr>sa_Value := sample_values period s\<rparr>)"
  by (simp add: addValue_def newSample_def sample_values_def)

lemma grows_samples:
  assumes "grows p q" "wf_samples p"
  shows "wf_samples q" "decode q = decode p"
  using assms by (fastforce simp: grows_def wf_samples_def decode_def)+

lemma CreateSample_decode:
  assumes "wf_builder p"
  shows "\<exists>q. CreateSample s p = Some q \<and> wf_builder q \<and> pf_Period q = pf_Period p \<and>
    decode q = decode p @ [(ps_stack s, sample_values (pf_Period p) s)]"
proof -
  obtain ls r where r: "addLocations (ps_stack s) p = (ls, r)" by fastforce
  have ok: "wf_functions r" "wf_locations r" "\<forall>l\<in>set ls. l < length (pf_Location r)"
    "map (location_name r) ls = ps_stack s" "grows p r"
    using addLocations_ok [OF _ _ r] assms by (auto simp: wf_builder_def)
  note gs = grows_samples [OF ok(5)]
  let ?q = "r\<lparr>pf_Sample := pf_Sample r @ [(newSample s)\<lparr>sa_Value := sample_values (pf_Period p) s, sa_Location := ls\<rparr>]\<rparr>"
  have name: "location_name ?q = location_name r" by (simp add: location_name_def fun_eq_iff)
  have "CreateSample s p = Some ?q" using r by (simp add: CreateSample_def addValue_new)
  moreover have "wf_functions ?q" "wf_locations ?q"
    using ok(1,2) by (simp_all add: wf_functions_def wf_locations_def location_name_def)
  moreover have "wf_samples ?q"
    using ok(3) gs(1) assms by (auto simp: wf_builder_def wf_samples_def intro: less_SucI)
  moreover have "decode ?q = decode p @ [(ps_stack s, sample_values (pf_Period p) s)]"
    using gs(2) ok(4) assms name by (auto simp: wf_builder_def decode_def)
  moreover have "pf_Period ?q = pf_Period p" using ok(5) by (simp add: grows_def)
  ultimately show ?thesis unfolding wf_builder_def by blast
qed

section \<open>Totals\<close>

definition value_count :: "SampleType \<Rightarrow> nat" where
  "value_count ty = (if ty = SampleTypeCpu then 1 else 2)"

definition wf_values :: "SampleType \<Rightarrow> ProfileBuilder \<Rightarrow> bool" where
  "wf_values ty p \<longleftrightarrow> (\<forall>s\<in>set (pf_Sample p). length (sa_Value s) = value_count ty)"

definition total :: "ProfileBuilder \<Rightarrow> nat \<Rightarrow> s64" where
  "total p j = sum_list (map (\<lambda>s. sa_Value s ! j) (pf_Sample p))"

lemma length_sample_values [simp]: "length (sample_values period s) = value_count (ps_type s)"
  by (simp add: sample_values_def value_count_def)

lemma sum_list_update_group:
  "k < length xs \<Longrightarrow> sum_list (xs[k := x]) = sum_list xs + x - (xs ! k :: 'a::ab_group_add)"
  by (induction xs arbitrary: k) (auto split: nat.splits simp: algebra_simps)

lemma addValue_ok:
  assumes "length (sa_Value t) = value_count (ps_type s)"
  obtains t' where "addValue period s t = Some t'" "length (sa_Value t') = value_count (ps_type s)"
    "sa_Location t' = sa_Location t"
    "\<forall>j<value_count (ps_type s). sa_Value t' ! j = sa_Value t ! j + sample_values period s ! j"
proof (cases "ps_type s = SampleTypeCpu")
  case True
  with assms obtain v where "sa_Value t = [v]" by (auto simp: value_count_def length_Suc_conv)
  with True show ?thesis by (intro that [of "t\<lparr>sa_Value := [v + ps_value s * period]\<rparr>"])
      (simp_all add: addValue_def value_count_def sample_values_def)
next
  case False
  with assms obtain v w where "sa_Value t = [v, w]"
    by (auto simp: value_count_def numeral_2_eq_2 length_Suc_conv)
  with False show ?thesis by (intro that [of "t\<lparr>sa_Value := [v + ps_value s, w + ps_value2 s]\<rparr>"])
      (simp_all add: addValue_def value_count_def sample_values_def less_Suc_eq numeral_2_eq_2)
qed

text \<open>Adding a sample, by whatever way, keeps the tables and adds the values of the sample once.\<close>

definition adds :: "ProfileSample \<Rightarrow> ProfileBuilder \<Rightarrow> ProfileBuilder \<Rightarrow> bool" where
  "adds s p q \<longleftrightarrow>
     wf_builder q \<and> wf_values (ps_type s) q \<and> pf_Period q = pf_Period p \<and>
     (\<forall>j<value_count (ps_type s). total q j = total p j + sample_values (pf_Period p) s ! j)"

lemma wf_builder_append:
  assumes "wf_functions r" "wf_locations r" "wf_samples r" "\<forall>l\<in>set ls. l < length (pf_Location r)"
    "\<forall>h i. m h = Some i \<longrightarrow> sampleHashToSample r h = Some i \<or> i = length (pf_Sample r)"
  shows "wf_builder (r\<lparr>pf_Sample := pf_Sample r @ [t\<lparr>sa_Location := ls\<rparr>], sampleHashToSample := m\<rparr>)"
proof -
  have "wf_samples (r\<lparr>pf_Sample := pf_Sample r @ [t\<lparr>sa_Location := ls\<rparr>], sampleHashToSample := m\<rparr>)"
    using assms(4,5) assms(3) [unfolded wf_samples_def] by (fastforce simp: wf_samples_def less_Suc_eq)
  with assms(1,2) show ?thesis by (simp add: wf_builder_def wf_functions_def wf_locations_def location_name_def)
qed

lemma wf_builder_update:
  assumes "wf_functions r" "wf_locations r" "wf_samples r" "i < length (pf_Sample r)"
    "sa_Location t = sa_Location (pf_Sample r ! i)"
  shows "wf_builder (r\<lparr>pf_Sample := (pf_Sample r)[i := t]\<rparr>)"
proof -
  have "\<forall>l\<in>set (sa_Location t). l < length (pf_Location r)"
    using assms(3,5) nth_mem [OF assms(4)] by (auto simp: wf_samples_def)
  then have "wf_samples (r\<lparr>pf_Sample := (pf_Sample r)[i := t]\<rparr>)"
    using assms(3) set_update_subset_insert [of "pf_Sample r" i t] by (auto simp: wf_samples_def)
  with assms(1,2) show ?thesis by (simp add: wf_builder_def wf_functions_def wf_locations_def location_name_def)
qed

lemma grows_totals: "grows p q \<Longrightarrow> total q = total p \<and> wf_values ty q = wf_values ty p \<and> pf_Period q = pf_Period p"
  by (simp add: grows_def total_def wf_values_def fun_eq_iff)

lemma wf_values_update:
  "wf_values ty r \<Longrightarrow> length (sa_Value t) = value_count ty \<Longrightarrow> wf_values ty (r\<lparr>pf_Sample := (pf_Sample r)[i := t]\<rparr>)"
  unfolding wf_values_def by (auto dest!: set_update_subset_insert [THEN subsetD])

lemma CreateSample_adds:
  assumes "wf_builder p" "wf_values (ps_type s) p"
  shows "\<exists>q. CreateSample s p = Some q \<and> adds s p q \<and>
    decode q = decode p @ [(ps_stack s, sample_values (pf_Period p) s)]"
proof -
  obtain q where q: "CreateSample s p = Some q" "wf_builder q" "pf_Period q = pf_Period p"
    "decode q = decode p @ [(ps_stack s, sample_values (pf_Period p) s)]"
    using CreateSample_decode [OF assms(1)] by blast
  have "map sa_Value (pf_Sample q) = map snd (decode q)" "map sa_Value (pf_Sample p) = map snd (decode p)"
    by (simp_all add: decode_def)
  with q(4) have v: "map sa_Value (pf_Sample q) = map sa_Value (pf_Sample p) @ [sample_values (pf_Period p) s]"
    by simp
  have t': "total r j = sum_list (map (\<lambda>v. v ! j) (map sa_Value (pf_Sample r)))" for r j
    by (simp add: total_def comp_def)
  have t: "total q j = total p j + sample_values (pf_Period p) s ! j" for j unfolding t' v by simp
  have wf': "wf_values ty r \<longleftrightarrow> (\<forall>v\<in>set (map sa_Value (pf_Sample r)). length v = value_count ty)" for ty r
    by (simp add: wf_values_def)
  have "wf_values (ps_type s) q" using assms(2) unfolding wf' v by simp
  with q t show ?thesis by (auto simp: adds_def)
qed

lemma CreateSampleOrAddValue_adds:
  assumes "wf_builder p" "wf_values (ps_type s) p"
  shows "\<exists>q. CreateSampleOrAddValue xxhash s p = Some q \<and> adds s p q"
proof -
  obtain ls r where r: "addLocations (ps_stack s) p = (ls, r)" by fastforce
  have ok: "wf_functions r" "wf_locations r" "\<forall>l\<in>set ls. l < length (pf_Location r)" "grows p r"
    using addLocations_ok [OF _ _ r] assms by (auto simp: wf_builder_def)
  have ws: "wf_samples r" using grows_samples(1) [OF ok(4)] assms by (simp add: wf_builder_def)
  note same = grows_totals [OF ok(4)]
  have wv: "wf_values (ps_type s) r" using same assms(2) by simp
  define h where "h = xxhash (location_ids r ls)"
  show ?thesis
  proof (cases "sampleHashToSample r h")
    case None
    let ?q = "r\<lparr>pf_Sample := pf_Sample r @ [(newSample s)\<lparr>sa_Value := sample_values (pf_Period p) s, sa_Location := ls\<rparr>],
      sampleHashToSample := (sampleHashToSample r)(h \<mapsto> length (pf_Sample r))\<rparr>"
    have "CreateSampleOrAddValue xxhash s p = Some ?q"
      using r None same by (simp add: CreateSampleOrAddValue_def h_def addValue_new)
    moreover have "wf_builder ?q" by (rule wf_builder_append [OF ok(1,2) ws ok(3)]) auto
    moreover have "wf_values (ps_type s) ?q" using wv by (simp add: wf_values_def)
    moreover have "total ?q j = total p j + sample_values (pf_Period p) s ! j" for j
      using same by (simp add: total_def fun_eq_iff)
    ultimately show ?thesis using same by (auto simp: adds_def)
  next
    case (Some i)
    then have i: "i < length (pf_Sample r)" using ws by (auto simp: wf_samples_def)
    then have "length (sa_Value (pf_Sample r ! i)) = value_count (ps_type s)" using wv by (simp add: wf_values_def)
    then obtain t where t: "addValue (pf_Period r) s (pf_Sample r ! i) = Some t"
      "length (sa_Value t) = value_count (ps_type s)" "sa_Location t = sa_Location (pf_Sample r ! i)"
      "\<forall>j<value_count (ps_type s). sa_Value t ! j = sa_Value (pf_Sample r ! i) ! j + sample_values (pf_Period r) s ! j"
      by (rule addValue_ok)
    let ?q = "r\<lparr>pf_Sample := (pf_Sample r)[i := t]\<rparr>"
    have "CreateSampleOrAddValue xxhash s p = Some ?q"
      using r Some t(1) by (simp add: CreateSampleOrAddValue_def h_def)
    moreover have "total ?q j = total p j + sample_values (pf_Period p) s ! j" if "j < value_count (ps_type s)" for j
      using that same t(4) i by (simp add: total_def fun_eq_iff map_update sum_list_update_group algebra_simps)
    ultimately show ?thesis
      using same wf_builder_update [OF ok(1,2) ws i t(3)] wf_values_update [OF wv t(2)] by (auto simp: adds_def)
  qed
qed

section \<open>All samples of a round\<close>

definition of_key :: "(nat \<Rightarrow> u64) \<Rightarrow> BuildersOptions \<Rightarrow> builderHashKey \<Rightarrow> ProfileSample list \<Rightarrow> ProfileSample list" where
  "of_key lh opt k ss = filter (\<lambda>s. builder_key lh opt s = k) ss"

definition period_for :: "BuildersOptions \<Rightarrow> builderHashKey \<Rightarrow> s64" where
  "period_for opt k = the (period_of opt (snd (snd k)))"

text \<open>A builder holds a list of samples.\<close>

definition holds_totals :: "BuildersOptions \<Rightarrow> builderHashKey \<Rightarrow> ProfileSample list \<Rightarrow> ProfileBuilder \<Rightarrow> bool" where
  "holds_totals opt k ts p \<longleftrightarrow>
     wf_builder p \<and> wf_values (snd (snd k)) p \<and> pf_Period p = period_for opt k \<and>
     (\<forall>j<value_count (snd (snd k)). total p j = (\<Sum>s\<leftarrow>ts. sample_values (period_for opt k) s ! j))"

definition holds :: "BuildersOptions \<Rightarrow> builderHashKey \<Rightarrow> ProfileSample list \<Rightarrow> ProfileBuilder \<Rightarrow> bool" where
  "holds opt k ts p \<longleftrightarrow>
     holds_totals opt k ts p \<and>
     ((\<forall>s\<in>set ts. ps_aggregated s) \<longrightarrow> decode p = map (\<lambda>s. (ps_stack s, sample_values (period_for opt k) s)) ts)"

lemma holds_new: "holds opt k [] (newBuilder (period_for opt k))"
  by (simp add: holds_def holds_totals_def newBuilder_def wf_builder_def wf_functions_def wf_locations_def wf_samples_def wf_values_def
      total_def decode_def)

text \<open>The contract that the two ways of adding a sample share: the values of the sample are added once.\<close>

locale sample_operation =
  fixes op :: "ProfileSample \<Rightarrow> ProfileBuilder \<Rightarrow> ProfileBuilder option"
  assumes op_adds: "wf_builder p \<Longrightarrow> wf_values (ps_type s) p \<Longrightarrow> \<exists>q. op s p = Some q \<and> adds s p q"
begin

lemma op_holds_totals:
  assumes "holds_totals opt k ts p" "ps_type s = snd (snd k)" "op s p = Some q"
  shows "holds_totals opt k (ts @ [s]) q"
  using op_adds [of p s] assms by (auto simp: holds_totals_def adds_def)

lemma op_total:
  assumes "holds_totals opt k ts p" "ps_type s = snd (snd k)"
  shows "\<exists>q. op s p = Some q"
  using op_adds [of p s] assms by (auto simp: holds_totals_def)

end

interpretation create: sample_operation CreateSample
  by unfold_locales (use CreateSample_adds in blast)

interpretation merge: sample_operation "CreateSampleOrAddValue xxhash"
  by unfold_locales (rule CreateSampleOrAddValue_adds)

lemma holds_add:
  assumes "holds opt k ts p" "ps_type s = snd (snd k)"
  shows "\<exists>q. (if ps_aggregated s then CreateSample s p else CreateSampleOrAddValue xxhash s p) = Some q \<and>
    holds opt k (ts @ [s]) q"
proof (cases "ps_aggregated s")
  case True
  have wf: "wf_builder p" "wf_values (ps_type s) p" using assms by (simp_all add: holds_def holds_totals_def)
  obtain q where q: "CreateSample s p = Some q"
    "decode q = decode p @ [(ps_stack s, sample_values (pf_Period p) s)]" using CreateSample_adds [OF wf] by blast
  have h: "holds_totals opt k ts p" using assms(1) by (simp add: holds_def)
  then have "pf_Period p = period_for opt k" by (simp add: holds_totals_def)
  with q create.op_holds_totals [OF h assms(2) q(1)] assms(1) True show ?thesis by (simp add: holds_def)
next
  case False
  have h: "holds_totals opt k ts p" using assms(1) by (simp add: holds_def)
  obtain q where "CreateSampleOrAddValue xxhash s p = Some q" using merge.op_total [OF h assms(2)] by blast
  with merge.op_holds_totals [OF h assms(2)] False show ?thesis by (auto simp: holds_def)
qed

definition all_held ::
  "(nat \<Rightarrow> u64) \<Rightarrow> BuildersOptions \<Rightarrow> ProfileSample list \<Rightarrow> (builderHashKey \<rightharpoonup> ProfileBuilder) \<Rightarrow> bool" where
  "all_held lh opt ss bs \<longleftrightarrow>
     (\<forall>k. case bs k of None \<Rightarrow> of_key lh opt k ss = []
                      | Some p \<Rightarrow> of_key lh opt k ss \<noteq> [] \<and> holds opt k (of_key lh opt k ss) p)"

lemma all_heldD:
  assumes "all_held lh opt ss bs"
  shows "bs k = None \<Longrightarrow> of_key lh opt k ss = []"
    "bs k = Some p \<Longrightarrow> of_key lh opt k ss \<noteq> [] \<and> holds opt k (of_key lh opt k ss) p"
  using assms [unfolded all_held_def, rule_format, of k] by auto

lemma builder_key_type: "ps_type s = snd (snd (builder_key lh opt s))"
  by (simp add: builder_key_def)

lemma AddSample_held:
  assumes "all_held lh opt ss bs" "SampleRate opt \<noteq> 0"
  shows "\<exists>bs'. AddSample lh xxhash opt s bs = Some bs' \<and> all_held lh opt (ss @ [s]) bs'"
proof -
  define k where "k = builder_key lh opt s"
  have period: "period_of opt (ps_type s) = Some (period_for opt k)"
    using assms(2) by (simp add: k_def period_for_def period_of_def builder_key_def)
  obtain p where p: "BuilderForSample lh opt s bs = Some p" "holds opt k (of_key lh opt k ss) p"
  proof (cases "bs k")
    case None
    then have "of_key lh opt k ss = []" using assms(1) by (rule all_heldD(1) [rotated])
    with None period holds_new [of opt k] show ?thesis
      by (intro that [of "newBuilder (period_for opt k)"]) (simp_all add: BuilderForSample_def k_def)
  next
    case (Some p)
    then have "holds opt k (of_key lh opt k ss) p" using all_heldD(2) [OF assms(1)] by blast
    with Some show ?thesis by (intro that [of p]) (simp_all add: BuilderForSample_def k_def)
  qed
  obtain q where q: "(if ps_aggregated s then CreateSample s p else CreateSampleOrAddValue xxhash s p) = Some q"
    "holds opt k (of_key lh opt k ss @ [s]) q"
    using holds_add [OF p(2)] builder_key_type [of s lh opt] unfolding k_def by blast
  have "AddSample lh xxhash opt s bs = Some (bs(k \<mapsto> q))" using p(1) q(1) by (simp add: AddSample_def k_def)
  moreover have "all_held lh opt (ss @ [s]) (bs(k \<mapsto> q))"
    unfolding all_held_def
  proof
    fix l
    have snoc: "of_key lh opt l (ss @ [s]) = of_key lh opt l ss @ (if l = k then [s] else [])"
      by (simp add: of_key_def k_def)
    show "case (bs(k \<mapsto> q)) l of None \<Rightarrow> of_key lh opt l (ss @ [s]) = []
        | Some p \<Rightarrow> of_key lh opt l (ss @ [s]) \<noteq> [] \<and> holds opt l (of_key lh opt l (ss @ [s])) p"
      using assms(1) [unfolded all_held_def, rule_format, of l] q(2) unfolding snoc
      by (cases "l = k") (simp_all split: option.splits)
  qed
  ultimately show ?thesis by blast
qed

lemma Collect_samples_append:
  "Collect_samples lh xxhash opt (ss @ ts) bs =
     Option.bind (Collect_samples lh xxhash opt ss bs) (Collect_samples lh xxhash opt ts)"
  by (induction ss arbitrary: bs) (simp_all add: fun_eq_iff cong: Option.bind_cong)

lemma Collect_samples_held:
  assumes "SampleRate opt \<noteq> 0"
  shows "\<exists>bs. Collect_samples lh xxhash opt ss Map.empty = Some bs \<and> all_held lh opt ss bs"
proof (induction ss rule: rev_induct)
  case Nil
  then show ?case by (simp add: all_held_def of_key_def)
next
  case (snoc s ss)
  then obtain bs where "Collect_samples lh xxhash opt ss Map.empty = Some bs" "all_held lh opt ss bs" by blast
  moreover obtain bs' where "AddSample lh xxhash opt s bs = Some bs'" "all_held lh opt (ss @ [s]) bs'"
    using AddSample_held [OF \<open>all_held lh opt ss bs\<close> assms] by blast
  ultimately show ?case by (simp add: Collect_samples_append)
qed

text \<open>An aggregated sample of a round is found in the profile of its key.\<close>

lemma reported_in_profile:
  assumes "SampleRate opt \<noteq> 0" "\<forall>s\<in>set ss. ps_aggregated s" "x \<in> set ss" "k = builder_key lh opt x"
  shows "\<exists>bs p. Collect_samples lh xxhash opt ss Map.empty = Some bs \<and> bs k = Some p \<and>
    (ps_stack x, sample_values (period_for opt k) x) \<in> set (decode p)"
proof -
  obtain bs where bs: "Collect_samples lh xxhash opt ss Map.empty = Some bs" "all_held lh opt ss bs"
    using Collect_samples_held [OF assms(1)] by blast
  have x: "x \<in> set (of_key lh opt k ss)" using assms(3,4) by (simp add: of_key_def)
  then obtain p where p: "bs k = Some p" using all_heldD(1) [OF bs(2)] by (cases "bs k") auto
  have "\<forall>s\<in>set (of_key lh opt k ss). ps_aggregated s" using assms(2) by (simp add: of_key_def)
  then have "decode p = map (\<lambda>s. (ps_stack s, sample_values (period_for opt k) s)) (of_key lh opt k ss)"
    using all_heldD(2) [OF bs(2) p] by (simp add: holds_def)
  with bs(1) p x show ?thesis by auto
qed

text \<open>
  C9: the profiles made from aggregated samples hold exactly these samples. With a sample rate
  other than 0 the builders never panic, there is a builder for a key exactly if some sample has it,
  and its profile decodes to the stacks of the samples of the key, in order, each with its values
  (times the period for CPU samples).
\<close>

theorem profile_of_samples:
  assumes "SampleRate opt \<noteq> 0" "\<forall>s\<in>set ss. ps_aggregated s"
  shows "\<exists>bs. Collect_samples lh xxhash opt ss Map.empty = Some bs \<and>
    (\<forall>k. map_option decode (bs k) =
       (if of_key lh opt k ss = [] then None
        else Some (map (\<lambda>s. (ps_stack s, sample_values (period_for opt k) s)) (of_key lh opt k ss))))"
proof -
  obtain bs where bs: "Collect_samples lh xxhash opt ss Map.empty = Some bs" "all_held lh opt ss bs"
    using Collect_samples_held [OF assms(1)] by blast
  have "map_option decode (bs k) =
       (if of_key lh opt k ss = [] then None
        else Some (map (\<lambda>s. (ps_stack s, sample_values (period_for opt k) s)) (of_key lh opt k ss)))" for k
  proof (cases "bs k")
    case None
    then show ?thesis using all_heldD(1) [OF bs(2)] by simp
  next
    case (Some p)
    have "\<forall>s\<in>set (of_key lh opt k ss). ps_aggregated s" using assms(2) by (simp add: of_key_def)
    with all_heldD(2) [OF bs(2) Some] Some show ?thesis by (simp add: holds_def)
  qed
  with bs(1) show ?thesis by blast
qed

text \<open>
  C30: nothing is lost or counted twice when samples are merged by hash. Whatever the hash function
  and whichever samples are aggregated, the values of the samples of a builder sum up to the
  values of all the samples handed to it, modulo \<open>2 ^ 64\<close>.
\<close>

theorem profile_totals:
  assumes "SampleRate opt \<noteq> 0"
  shows "\<exists>bs. Collect_samples lh xxhash opt ss Map.empty = Some bs \<and>
    (\<forall>k p j. bs k = Some p \<longrightarrow> j < value_count (snd (snd k)) \<longrightarrow>
       total p j = (\<Sum>s\<leftarrow>of_key lh opt k ss. sample_values (period_for opt k) s ! j))"
proof -
  obtain bs where bs: "Collect_samples lh xxhash opt ss Map.empty = Some bs" "all_held lh opt ss bs"
    using Collect_samples_held [OF assms] by blast
  have "\<forall>j<value_count (snd (snd k)). total p j = (\<Sum>s\<leftarrow>of_key lh opt k ss. sample_values (period_for opt k) s ! j)"
    if "bs k = Some p" for k p
    using all_heldD(2) [OF bs(2) that] unfolding holds_def holds_totals_def by blast
  with bs(1) show ?thesis by blast
qed

end
