(* ===== verification/Go_Session.thy ===== *)
theory Go_Session
  imports Go_Pyperf Profile Go_Symtab Go_Pprof
begin

text \<open>
  One round of profile collection: \<open>collectRegularProfile\<close> and what it calls in
  \<open>ebpf/session.go\<close>, and \<open>ebpf/session_maps.go\<close>. The agent reads the counters, turns every key
  into a stack of text lines, hands it to a callback, and removes the counters and the stacks it
  has seen from the kernel maps.

  Parameters: the service discovery (\<open>find_target\<close>), the symbol tables behind the interface
  \<open>SymbolTable\<close> (\<open>proc_table\<close>, \<open>None\<close> for a table in error, and \<open>kallsyms\<close>), the dumps
  of kernel maps and the deletion of their keys. A Go panic is the result \<open>None\<close>.

  Go maps used as sets are lists of their keys in the order of first insertion; the order in
  which Go visits them does not matter, since it only deletes them one by one.
\<close>

section \<open>State\<close>

type_synonym resolver = "u64 \<Rightarrow> go_symbol"

record session_options =
  CollectUser :: bool
  CollectKernel :: bool
  UnknownSymbolModuleOffset :: bool
  UnknownSymbolAddress :: bool
  PythonEnabled :: bool
  OptPythonFullFilePath :: bool

record proc_info_lite =
  pi_pid :: u32
  pi_comm :: go_string
  pi_exe :: go_string
  pi_typ :: u8

record session =
  options :: session_options
  roundNumber :: nat
  started :: bool
  pyperf :: "go_perf option"
  pyperfError :: bool
  python_loaded :: bool
  pids_unknown :: "u32 set"
  pids_dead :: "u32 set"
  pids_all :: "u32 \<rightharpoonup> proc_info_lite"

record agent_maps = profile_maps +
  stacks :: "u32 \<rightharpoonup> u8 list"

record agent_env =
  find_target :: "u32 \<Rightarrow> nat option"
  proc_table :: "u32 \<Rightarrow> resolver option"
  kallsyms :: resolver
  symbol_dumps :: "nat \<Rightarrow> (py_symbol, u32) map_dump"
  counts_dump :: "(sample_key, u32) map_dump"
  stacks_iter :: "u32 list option"
  python_stacks_iter :: "u32 list option"
  delete_counts :: "(sample_key, u32) map_delete"
  delete_stacks :: "(u32, u8 list) map_delete"
  delete_python_stacks :: "(u32, py_symbol_id list) map_delete"

section \<open>Reading and clearing the maps\<close>

text \<open>A batch lookup with deletion removes the entries it returns.\<close>

definition without :: "('k \<times> 'v) list \<Rightarrow> ('k \<rightharpoonup> 'v) \<Rightarrow> ('k \<rightharpoonup> 'v)" where
  "without es m = (\<lambda>k. if k \<in> fst ` set es then None else m k)"

definition getCountsMapValues ::
  "(sample_key, u32) map_dump \<Rightarrow> (sample_key \<rightharpoonup> u32) \<Rightarrow> (go_error + (sample_key \<times> u32) list \<times> bool) \<times> (sample_key \<rightharpoonup> u32)" where
  "getCountsMapValues d m =
     (if batch_entries d \<noteq> [] then (Inr (batch_entries d, True), without (batch_entries d) m)
      else if batch_not_exist d then (Inr ([], True), m)
      else if iter_err d then (Inl Map_iteration, m)
      else (Inr (iter_entries d, False), m))"

fun delete_until_error :: "('k, 'v) map_delete \<Rightarrow> 'k list \<Rightarrow> ('k \<rightharpoonup> 'v) \<Rightarrow> bool \<times> ('k \<rightharpoonup> 'v)" where
  "delete_until_error del [] m = (True, m)"
| "delete_until_error del (k # ks) m =
     (let (rc, m) = del m k in if rc \<noteq> 0 then (False, m) else delete_until_error del ks m)"

definition clearCountsMap ::
  "(sample_key, u32) map_delete \<Rightarrow> sample_key list \<Rightarrow> bool \<Rightarrow> (sample_key \<rightharpoonup> u32) \<Rightarrow> bool \<times> (sample_key \<rightharpoonup> u32)" where
  "clearCountsMap del keys batch m =
     (if keys = [] then (True, m)
      else if batch then (True, m)
      else delete_until_error del keys m)"

definition delete_each :: "('k, 'v) map_delete \<Rightarrow> 'k list \<Rightarrow> ('k \<rightharpoonup> 'v) \<Rightarrow> ('k \<rightharpoonup> 'v)" where
  "delete_each del ks m = fold (\<lambda>k m. snd (del m k)) ks m"

text \<open>\<open>it\<close> is the list of keys an iteration visits, \<open>None\<close> when it fails.\<close>

definition clearStacksMap ::
  "(u32, 'v) map_delete \<Rightarrow> u32 list option \<Rightarrow> nat \<Rightarrow> u32 list \<Rightarrow> (u32 \<rightharpoonup> 'v) \<Rightarrow> bool \<times> (u32 \<rightharpoonup> 'v)" where
  "clearStacksMap del it roundNo knownKeys m =
     (if roundNo mod 10 = 0
      then (case it of None \<Rightarrow> (False, m) | Some keys \<Rightarrow> (True, delete_each del keys m))
      else (True, delete_each del knownKeys m))"

definition GetStack :: "(u32 \<rightharpoonup> u8 list) \<Rightarrow> s64 \<Rightarrow> u8 list" where
  "GetStack m stackId =
     (if stackId <s 0 then []
      else case m (ucast stackId) of None \<Rightarrow> [] | Some v \<Rightarrow> v)"

section \<open>Stacks of addresses\<close>

definition frame_name ::
  "session_options \<Rightarrow> u64 \<Rightarrow> go_symbol \<Rightarrow> resolve_stats \<Rightarrow> go_string \<times> resolve_stats" where
  "frame_name opts ip sy stats =
     (if sym_Name sy \<noteq> [] then (sym_Name sy, stats\<lparr>known := known stats + 1\<rparr>)
      else if sym_Module sy \<noteq> [] then
        (if UnknownSymbolModuleOffset opts
         then sym_Module sy @ go_str ''+'' @ digits 16 (unat (sym_Start sy))
         else sym_Module sy,
         stats\<lparr>unknownSymbols := unknownSymbols stats + 1\<rparr>)
      else
        (if UnknownSymbolAddress opts then digits 16 (unat ip) else go_str ''[unknown]'',
         stats\<lparr>unknownModules := unknownModules stats + 1\<rparr>))"

text \<open>The loop over at most \<open>n\<close> more instruction pointers.\<close>

fun walk_ips ::
  "session_options \<Rightarrow> resolver \<Rightarrow> nat \<Rightarrow> u8 list \<Rightarrow> go_string list \<times> resolve_stats
     \<Rightarrow> (go_string list \<times> resolve_stats) option" where
  "walk_ips opts res 0 bs w = Some w"
| "walk_ips opts res (Suc n) bs w =
     (if length bs < 8 then None
      else let ip = le_word (take 8 bs)
           in if ip = 0 then Some w
              else let (nm, stats) = frame_name opts ip (res ip) (snd w)
                   in walk_ips opts res n (drop 8 bs) (fst w @ [nm], stats))"

definition WalkStack ::
  "session_options \<Rightarrow> resolver \<Rightarrow> u8 list \<Rightarrow> go_string list \<times> resolve_stats
     \<Rightarrow> (go_string list \<times> resolve_stats) option" where
  "WalkStack opts res bs w =
     (if bs = [] then Some w
      else map_option (\<lambda>(sb, stats). (reverse_from (length (fst w)) sb, stats)) (walk_ips opts res 127 bs w))"

section \<open>One key\<close>

record collect_state =
  cs_known :: "u32 list"
  cs_known_python :: "u32 list"
  cs_dead :: "u32 set"
  cs_lazy :: lazy_symbols
  cs_perf :: "go_perf option"
  cs_samples :: "ProfileSample list"

definition is_python_key :: "sample_key \<Rightarrow> bool" where
  "is_python_key k \<longleftrightarrow> k_flags k AND SAMPLE_KEY_FLAG_PYTHON_STACK \<noteq> 0"

definition note_stacks :: "sample_key \<Rightarrow> collect_state \<Rightarrow> collect_state" where
  "note_stacks k cs =
     (let cs = (if 0 <s user_stack k
                then if is_python_key k
                     then cs\<lparr>cs_known_python := List.insert (ucast (user_stack k)) (cs_known_python cs)\<rparr>
                     else cs\<lparr>cs_known := List.insert (ucast (user_stack k)) (cs_known cs)\<rparr>
                else cs)
      in if 0 \<le>s kern_stack k
         then cs\<lparr>cs_known := List.insert (ucast (kern_stack k)) (cs_known cs)\<rparr>
         else cs)"

definition comm :: "session \<Rightarrow> u32 \<Rightarrow> go_string" where
  "comm s pid =
     (case pids_all s pid of
        Some p \<Rightarrow> if pi_comm p \<noteq> [] then pi_comm p else go_str ''pid_unknown''
      | None \<Rightarrow> go_str ''pid_unknown'')"

definition no_stats :: resolve_stats where
  "no_stats = \<lparr>known = 0, unknownSymbols = 0, unknownModules = 0\<rparr>"

text \<open>The user part of a stack: \<open>None\<close> is a panic, \<open>Some None\<close> the \<open>continue\<close> for a process whose
  symbol table is in error.\<close>

definition user_part ::
  "agent_env \<Rightarrow> session \<Rightarrow> ('m) agent_maps_scheme \<Rightarrow> sample_key \<Rightarrow> go_string list \<times> resolve_stats \<Rightarrow> collect_state
     \<Rightarrow> ((go_string list \<times> resolve_stats) option \<times> collect_state) option" where
  "user_part E s M k w cs =
     (if \<not> CollectUser (options s) then Some (Some w, cs)
      else if is_python_key k then
        (let uStack = GetPythonStack (python_loaded s) (python_stacks M) (user_stack k)
         in case cs_perf cs of
              None \<Rightarrow> None
            | Some perf \<Rightarrow>
                (case FindProc perf (k_pid k) of
                   None \<Rightarrow> Some (Some w, cs)
                 | Some pyProc \<Rightarrow>
                     map_option
                       (\<lambda>pw. (Some (pw_stack pw, pw_stats pw), cs\<lparr>cs_lazy := pw_lazy pw, cs_perf := Some (pw_perf pw)\<rparr>))
                       (WalkPythonStack (symbol_dumps E) (PythonFullFilePath pyProc) uStack
                          \<lparr>pw_lazy = cs_lazy cs, pw_perf = perf, pw_stack = fst w, pw_stats = snd w\<rparr>)))
      else
        (case proc_table E (k_pid k) of
           None \<Rightarrow> Some (None, cs\<lparr>cs_dead := insert (k_pid k) (cs_dead cs)\<rparr>)
         | Some res \<Rightarrow>
             map_option (\<lambda>w. (Some w, cs)) (WalkStack (options s) res (GetStack (stacks M) (user_stack k)) w)))"

definition kernel_part ::
  "agent_env \<Rightarrow> session \<Rightarrow> ('m) agent_maps_scheme \<Rightarrow> sample_key \<Rightarrow> go_string list \<times> resolve_stats
     \<Rightarrow> (go_string list \<times> resolve_stats) option" where
  "kernel_part E s M k w =
     (if \<not> CollectKernel (options s) then Some w
      else WalkStack (options s) (kallsyms E) (GetStack (stacks M) (kern_stack k)) w)"

definition report :: "nat \<Rightarrow> sample_key \<Rightarrow> u32 \<Rightarrow> go_string list \<Rightarrow> collect_state \<Rightarrow> collect_state" where
  "report t k value sb cs =
     (if length sb = 1 then cs
      else cs\<lparr>cs_samples := cs_samples cs @
             [\<lparr>ps_target = t, ps_pid = k_pid k, ps_type = SampleTypeCpu, ps_aggregated = True,
               ps_stack = rev sb, ps_value = ucast value, ps_value2 = 0\<rparr>]\<rparr>)"

definition collect_key ::
  "agent_env \<Rightarrow> session \<Rightarrow> ('m) agent_maps_scheme \<Rightarrow> sample_key \<times> u32 \<Rightarrow> collect_state \<Rightarrow> collect_state option" where
  "collect_key E s M = (\<lambda>(k, value) cs.
     let cs = note_stacks k cs
     in case find_target E (k_pid k) of
          None \<Rightarrow> Some cs
        | Some t \<Rightarrow>
            if k_pid k \<in> cs_dead cs then Some cs
            else
              case user_part E s M k ([comm s (k_pid k)], no_stats) cs of
                None \<Rightarrow> None
              | Some (None, cs) \<Rightarrow> Some cs
              | Some (Some w, cs) \<Rightarrow>
                  map_option (\<lambda>w. report t k value (fst w) cs) (kernel_part E s M k w))"

fun collect_keys ::
  "agent_env \<Rightarrow> session \<Rightarrow> ('m) agent_maps_scheme \<Rightarrow> (sample_key \<times> u32) list \<Rightarrow> collect_state \<Rightarrow> collect_state option" where
  "collect_keys E s M [] cs = Some cs"
| "collect_keys E s M (e # es) cs = Option.bind (collect_key E s M e cs) (collect_keys E s M es)"

section \<open>One round\<close>

datatype round_error = Get_counts | Clear_counts | Clear_stacks

definition collect_start :: "session \<Rightarrow> collect_state" where
  "collect_start s =
     \<lparr>cs_known = [], cs_known_python = [], cs_dead = pids_dead s,
      cs_lazy = (case pyperf s of Some p \<Rightarrow> GetLazySymbols p | None \<Rightarrow> \<lparr>ls_symbols = Map.empty, ls_fresh = False\<rparr>),
      cs_perf = pyperf s, cs_samples = []\<rparr>"

text \<open>The map operations after the loop: the first error ends the round.\<close>

definition clear_maps ::
  "agent_env \<Rightarrow> session \<Rightarrow> (sample_key \<times> u32) list \<Rightarrow> bool \<Rightarrow> collect_state \<Rightarrow> ('m) agent_maps_scheme
     \<Rightarrow> (round_error + unit) \<times> ('m) agent_maps_scheme" where
  "clear_maps E s es batch cs M =
     (let (ok, c) = clearCountsMap (delete_counts E) (map fst es) batch (counts M);
          M = M\<lparr>counts := c\<rparr>
      in if \<not> ok then (Inl Clear_counts, M)
         else
           let (ok, st) = clearStacksMap (delete_stacks E) (stacks_iter E) (roundNumber s) (cs_known cs) (stacks M);
               M = M\<lparr>stacks := st\<rparr>
           in if \<not> ok then (Inl Clear_stacks, M)
              else if python_loaded s \<and> cs_known_python cs \<noteq> [] then
                (let (ok, ps) = clearStacksMap (delete_python_stacks E) (python_stacks_iter E) (roundNumber s)
                                  (cs_known_python cs) (python_stacks M);
                     M = M\<lparr>python_stacks := ps\<rparr>
                 in (if ok then Inr () else Inl Clear_stacks, M))
              else (Inr (), M))"

definition collectRegularProfile ::
  "agent_env \<Rightarrow> session \<Rightarrow> ('m) agent_maps_scheme
     \<Rightarrow> ((round_error + unit) \<times> ProfileSample list \<times> session \<times> ('m) agent_maps_scheme) option" where
  "collectRegularProfile E s M =
     (case getCountsMapValues (counts_dump E) (counts M) of
        (Inl e, c) \<Rightarrow> Some (Inl Get_counts, [], s, M\<lparr>counts := c\<rparr>)
      | (Inr (es, batch), c) \<Rightarrow>
          map_option
            (\<lambda>cs. let (r, M) = clear_maps E s es batch cs (M\<lparr>counts := c\<rparr>)
                  in (r, cs_samples cs, s\<lparr>pids_dead := cs_dead cs, pyperf := cs_perf cs\<rparr>, M))
            (collect_keys E s (M\<lparr>counts := c\<rparr>) es (collect_start s)))"

section \<open>Clearing\<close>

context bpf_map_delete_present
begin

lemma delete_each_snd: "delete_each delete ks m = (\<lambda>k. if k \<in> set ks then None else m k)"
  unfolding delete_each_def by (induction ks arbitrary: m) (auto simp: delete_snd)

lemma delete_until_error_ok:
  "delete_until_error delete ks m = (True, m') \<Longrightarrow> m' = (\<lambda>k. if k \<in> set ks then None else m k)"
proof (induction ks arbitrary: m)
  case (Cons k ks)
  obtain rc m1 where d: "delete m k = (rc, m1)" by (cases "delete m k")
  with Cons.prems have rest: "delete_until_error delete ks m1 = (True, m')" by (simp split: if_splits)
  have "m1 = m(k := None)" using delete_snd [of m k] d by simp
  with Cons.IH [OF rest] show ?case by (auto simp: fun_eq_iff)
qed simp

end

text \<open>A full reset empties the map; otherwise exactly the known keys go.\<close>

lemma clearStacksMap_ok:
  assumes "bpf_map_delete_present del" "clearStacksMap del it n ks m = (True, m')"
  shows "if n mod 10 = 0 then \<exists>keys. it = Some keys \<and> m' = (\<lambda>k. if k \<in> set keys then None else m k)
    else m' = (\<lambda>k. if k \<in> set ks then None else m k)"
  using assms(2)
  by (auto simp: clearStacksMap_def bpf_map_delete_present.delete_each_snd [OF assms(1)] split: if_splits option.splits)

section \<open>Stacks of addresses\<close>

fun ip_list :: "nat \<Rightarrow> u8 list \<Rightarrow> u64 list" where
  "ip_list 0 bs = []"
| "ip_list (Suc n) bs = le_word (take 8 bs) # ip_list n (drop 8 bs)"

definition name_text :: "session_options \<Rightarrow> resolver \<Rightarrow> u64 \<Rightarrow> go_string" where
  "name_text opts res ip = fst (frame_name opts ip (res ip) no_stats)"

lemma frame_name_text: "fst (frame_name opts ip (res ip) st) = name_text opts res ip"
  by (simp add: name_text_def frame_name_def)

definition ip_lines :: "session_options \<Rightarrow> resolver \<Rightarrow> u8 list \<Rightarrow> go_string list" where
  "ip_lines opts res bs = (if bs = [] then [] else map (name_text opts res) (takeWhile (\<lambda>ip. ip \<noteq> 0) (ip_list 127 bs)))"

lemma walk_ips_ok:
  "8 * n \<le> length bs \<Longrightarrow> \<exists>st'. walk_ips opts res n bs w =
     Some (fst w @ map (name_text opts res) (takeWhile (\<lambda>ip. ip \<noteq> 0) (ip_list n bs)), st')"
proof (induction n arbitrary: bs w)
  case 0
  then show ?case by (cases w) simp
next
  case (Suc n)
  let ?ip = "le_word (take 8 bs) :: u64"
  obtain nm st where f: "frame_name opts ?ip (res ?ip) (snd w) = (nm, st)" by (metis surj_pair)
  have nm: "nm = name_text opts res ?ip" using frame_name_text [of opts ?ip res "snd w"] f by simp
  have "8 * n \<le> length (drop 8 bs)" using Suc.prems by simp
  from Suc.IH [OF this, of "(fst w @ [nm], st)"] show ?case
    using Suc.prems f nm by (cases w) auto
qed

lemma WalkStack_ok:
  assumes "bs = [] \<or> length bs = 1016"
  shows "\<exists>st'. WalkStack opts res bs w = Some (fst w @ rev (ip_lines opts res bs), st')"
proof (cases "bs = []")
  case True
  then show ?thesis by (cases w) (simp add: WalkStack_def ip_lines_def)
next
  case False
  then have "8 * 127 \<le> length bs" using assms by simp
  from walk_ips_ok [OF this, of opts res w] False show ?thesis
    by (auto simp: WalkStack_def ip_lines_def reverse_from_def)
qed

section \<open>The loop over the keys\<close>

definition maps_ok :: "('m) agent_maps_scheme \<Rightarrow> bool" where
  "maps_ok M \<longleftrightarrow> inj_map (py_symbols M) \<and> (\<forall>v\<in>ran (stacks M). length v = 1016)"

lemma GetStack_length: "maps_ok M \<Longrightarrow> GetStack (stacks M) i = [] \<or> length (GetStack (stacks M) i) = 1016"
  by (auto simp: GetStack_def maps_ok_def ranI split: option.splits)

definition collect_inv :: "agent_env \<Rightarrow> session \<Rightarrow> ('m) agent_maps_scheme \<Rightarrow> collect_state \<Rightarrow> bool" where
  "collect_inv E s M cs \<longleftrightarrow>
     (case cs_perf cs of
        None \<Rightarrow> pyperf s = None
      | Some p \<Rightarrow> pyperf s \<noteq> None \<and> pidCache p = pidCache (the (pyperf s)) \<and>
          sym_ok (symbol_dumps E) (py_symbols M) (cs_lazy cs, p))"

text \<open>The stacks a key makes the agent remove.\<close>

definition seen_stacks :: "sample_key \<Rightarrow> u32 set" where
  "seen_stacks k =
     (if 0 <s user_stack k \<and> \<not> is_python_key k then {ucast (user_stack k)} else {}) \<union>
     (if 0 \<le>s kern_stack k then {ucast (kern_stack k)} else {})"

definition seen_python_stacks :: "sample_key \<Rightarrow> u32 set" where
  "seen_python_stacks k = (if 0 <s user_stack k \<and> is_python_key k then {ucast (user_stack k)} else {})"

lemma note_stacks_sel [simp]:
  "set (cs_known (note_stacks k cs)) = set (cs_known cs) \<union> seen_stacks k"
  "set (cs_known_python (note_stacks k cs)) = set (cs_known_python cs) \<union> seen_python_stacks k"
  "cs_dead (note_stacks k cs) = cs_dead cs" "cs_lazy (note_stacks k cs) = cs_lazy cs"
  "cs_perf (note_stacks k cs) = cs_perf cs" "cs_samples (note_stacks k cs) = cs_samples cs"
  by (auto simp: note_stacks_def seen_stacks_def seen_python_stacks_def Let_def)

lemma report_sel [simp]:
  "cs_known (report t k v sb cs) = cs_known cs" "cs_known_python (report t k v sb cs) = cs_known_python cs"
  "cs_dead (report t k v sb cs) = cs_dead cs" "cs_lazy (report t k v sb cs) = cs_lazy cs"
  "cs_perf (report t k v sb cs) = cs_perf cs"
  by (simp_all add: report_def)

text \<open>What the user part contributes: the lines of the process, innermost first.\<close>

definition same_notes :: "collect_state \<Rightarrow> collect_state \<Rightarrow> bool" where
  "same_notes cs cs' \<longleftrightarrow> cs_known cs' = cs_known cs \<and> cs_known_python cs' = cs_known_python cs \<and>
     cs_samples cs' = cs_samples cs"

lemma python_part_ok:
  assumes inv: "collect_inv E s M cs" and maps: "maps_ok M"
    and py: "is_python_key k" "pyperf s \<noteq> None" "CollectUser (options s)"
  shows "\<exists>ls st cs'. user_part E s M k w cs = Some (Some (fst w @ rev ls, st), cs') \<and> collect_inv E s M cs' \<and>
    same_notes cs cs' \<and> cs_dead cs' = cs_dead cs \<and>
    (\<forall>pr xs. FindProc (the (pyperf s)) (k_pid k) = Some pr \<longrightarrow> python_loaded s \<longrightarrow>
      python_stacks M (ucast (user_stack k)) = Some xs \<longrightarrow>
      (\<exists>rs. list_all2 (resolved (py_symbols M)) (decode_stack xs) rs \<and>
        ls = concat (map (frame_lines (PythonFullFilePath pr)) rs)))"
proof -
  obtain p where p: "cs_perf cs = Some p" using inv py(2) by (auto simp: collect_inv_def split: option.splits)
  with inv have ok: "pidCache p = pidCache (the (pyperf s))" "sym_ok (symbol_dumps E) (py_symbols M) (cs_lazy cs, p)"
    by (simp_all add: collect_inv_def)
  let ?bs = "GetPythonStack (python_loaded s) (python_stacks M) (user_stack k)"
  let ?w = "\<lparr>pw_lazy = cs_lazy cs, pw_perf = p, pw_stack = fst w, pw_stats = snd w\<rparr>"
  obtain xs where xs: "?bs = stack_value xs"
      "\<And>ys. python_loaded s \<Longrightarrow> python_stacks M (ucast (user_stack k)) = Some ys \<Longrightarrow> xs = ys"
  proof (cases "python_loaded s \<and> python_stacks M (ucast (user_stack k)) \<noteq> None")
    case True
    then show ?thesis using that [of "the (python_stacks M (ucast (user_stack k)))"] by (auto simp: GetPythonStack_def)
  next
    case False
    then show ?thesis using that [of "[]"] by (auto simp: GetPythonStack_def stack_value_def)
  qed
  show ?thesis
  proof (cases "FindProc p (k_pid k)")
    case None
    then have "user_part E s M k w cs = Some (Some (fst w @ rev [], snd w), cs)"
      using py p by (simp add: user_part_def)
    then show ?thesis
      using inv None ok(1) by (intro exI [of _ "[]"] exI [of _ "snd w"] exI [of _ cs]) (auto simp: same_notes_def FindProc_def)
  next
    case (Some pr)
    obtain w' rs where w': "WalkPythonStack (symbol_dumps E) (PythonFullFilePath pr) (stack_value xs) ?w = Some w'"
      "sym_ok (symbol_dumps E) (py_symbols M) (pw_lazy w', pw_perf w')"
      "list_all2 (resolved (py_symbols M)) (decode_stack xs) rs"
      "pw_stack w' = fst w @ rev (concat (map (frame_lines (PythonFullFilePath pr)) rs))"
      using WalkPythonStack_ok [of "symbol_dumps E" "py_symbols M" ?w "PythonFullFilePath pr" xs] ok(2) maps
      by (auto simp: maps_ok_def)
    let ?cs = "cs\<lparr>cs_lazy := pw_lazy w', cs_perf := Some (pw_perf w')\<rparr>"
    have "user_part E s M k w cs =
        Some (Some (fst w @ rev (concat (map (frame_lines (PythonFullFilePath pr)) rs)), pw_stats w'), ?cs)"
      using py p Some w'(1,4) xs(1) by (simp add: user_part_def)
    moreover have "collect_inv E s M ?cs"
      using w'(2) WalkPythonStack_cache [OF w'(1)] ok(1) py(2) by (simp add: collect_inv_def)
    moreover have "FindProc (the (pyperf s)) (k_pid k) = Some pr" using Some ok(1) by (simp add: FindProc_def)
    ultimately show ?thesis
      using w'(3) xs(2)
      by (intro exI [of _ "concat (map (frame_lines (PythonFullFilePath pr)) rs)"] exI [of _ "pw_stats w'"] exI [of _ ?cs])
         (auto simp: same_notes_def)
  qed
qed

lemma native_part_ok:
  assumes "collect_inv E s M cs" "maps_ok M" "\<not> is_python_key k" "CollectUser (options s)"
  shows "case proc_table E (k_pid k) of
      None \<Rightarrow> user_part E s M k w cs = Some (None, cs\<lparr>cs_dead := insert (k_pid k) (cs_dead cs)\<rparr>)
    | Some res \<Rightarrow> \<exists>st. user_part E s M k w cs =
        Some (Some (fst w @ rev (ip_lines (options s) res (GetStack (stacks M) (user_stack k))), st), cs)"
  using assms WalkStack_ok [OF GetStack_length [OF assms(2)]]
  by (auto simp: user_part_def split: option.split)

lemma collect_inv_dead [simp]: "collect_inv E s M (cs\<lparr>cs_dead := d\<rparr>) = collect_inv E s M cs"
  by (simp add: collect_inv_def split: option.split)

lemma user_part_ok:
  assumes inv: "collect_inv E s M cs" and maps: "maps_ok M" and py: "is_python_key k \<longrightarrow> pyperf s \<noteq> None"
  shows "\<exists>x cs'. user_part E s M k w cs = Some (x, cs') \<and> collect_inv E s M cs' \<and> same_notes cs cs' \<and>
    cs_dead cs \<subseteq> cs_dead cs' \<and> cs_dead cs' \<subseteq> cs_dead cs \<union> {p. proc_table E p = None}"
proof (cases "CollectUser (options s)")
  case False
  then show ?thesis using inv by (auto simp: user_part_def same_notes_def)
next
  case user: True
  show ?thesis
  proof (cases "is_python_key k")
    case True
    then show ?thesis using python_part_ok [OF inv maps True _ user, of w] py by blast
  next
    case False
    show ?thesis
      using native_part_ok [OF inv maps False user, of w] inv
      by (cases "proc_table E (k_pid k)") (auto simp: same_notes_def)
  qed
qed

definition kernel_lines :: "agent_env \<Rightarrow> session \<Rightarrow> ('m) agent_maps_scheme \<Rightarrow> sample_key \<Rightarrow> go_string list" where
  "kernel_lines E s M k =
     (if CollectKernel (options s)
      then ip_lines (options s) (kallsyms E) (GetStack (stacks M) (kern_stack k)) else [])"

lemma kernel_part_ok:
  assumes "maps_ok M"
  shows "\<exists>st. kernel_part E s M k w = Some (fst w @ rev (kernel_lines E s M k), st)"
  using WalkStack_ok [OF GetStack_length [OF assms], of "options s" "kallsyms E" "kern_stack k" w]
  by (cases w) (simp add: kernel_part_def kernel_lines_def)

definition step_ok ::
  "agent_env \<Rightarrow> session \<Rightarrow> ('m) agent_maps_scheme \<Rightarrow> sample_key list \<Rightarrow> collect_state \<Rightarrow> collect_state \<Rightarrow> bool" where
  "step_ok E s M ks cs cs' \<longleftrightarrow> collect_inv E s M cs' \<and>
     set (cs_known cs') = set (cs_known cs) \<union> (\<Union>k\<in>set ks. seen_stacks k) \<and>
     set (cs_known_python cs') = set (cs_known_python cs) \<union> (\<Union>k\<in>set ks. seen_python_stacks k) \<and>
     cs_dead cs \<subseteq> cs_dead cs' \<and> cs_dead cs' \<subseteq> cs_dead cs \<union> {p. proc_table E p = None} \<and>
     (\<exists>ps. cs_samples cs' = cs_samples cs @ ps)"

lemma step_ok_trans: "step_ok E s M ks cs cs1 \<Longrightarrow> step_ok E s M ks' cs1 cs2 \<Longrightarrow> step_ok E s M (ks @ ks') cs cs2"
  by (auto simp: step_ok_def)

lemma collect_key_ok:
  assumes inv: "collect_inv E s M cs" and maps: "maps_ok M" and py: "is_python_key k \<longrightarrow> pyperf s \<noteq> None"
  shows "\<exists>cs'. collect_key E s M (k, v) cs = Some cs' \<and> step_ok E s M [k] cs cs'"
proof -
  let ?cs = "note_stacks k cs" and ?w = "([comm s (k_pid k)], no_stats)"
  have inv': "collect_inv E s M ?cs" using inv by (auto simp: collect_inv_def split: option.splits)
  obtain x cs' where u: "user_part E s M k ?w ?cs = Some (x, cs')" "collect_inv E s M cs'" "same_notes ?cs cs'"
    "cs_dead cs \<subseteq> cs_dead cs'" "cs_dead cs' \<subseteq> cs_dead cs \<union> {p. proc_table E p = None}"
    using user_part_ok [OF inv' maps py, of ?w] by auto
  then have n: "step_ok E s M [k] cs ?cs" "step_ok E s M [k] cs cs'"
    using inv' by (auto simp: step_ok_def same_notes_def)
  have r: "step_ok E s M [k] cs (report t k v sb cs')" for t sb
  proof -
    have "\<exists>ps. cs_samples (report t k v sb cs') = cs_samples cs' @ ps" by (auto simp: report_def)
    with n(2) show ?thesis by (auto simp: step_ok_def collect_inv_def split: option.splits)
  qed
  show ?thesis
  proof (cases x)
    case None
    then show ?thesis using u(1) n by (cases "find_target E (k_pid k)") (auto simp: collect_key_def Let_def)
  next
    case (Some w)
    then show ?thesis
      using kernel_part_ok [OF maps, of E s k w] u(1) n r by (cases "find_target E (k_pid k)") (auto simp: collect_key_def Let_def)
  qed
qed

lemma collect_keys_ok:
  assumes "maps_ok M" "\<forall>(k, v)\<in>set es. is_python_key k \<longrightarrow> pyperf s \<noteq> None" "collect_inv E s M cs"
  shows "\<exists>cs'. collect_keys E s M es cs = Some cs' \<and> step_ok E s M (map fst es) cs cs'"
  using assms(2,3)
proof (induction es arbitrary: cs)
  case Nil
  then show ?case by (simp add: step_ok_def)
next
  case (Cons e es)
  obtain k v where e: "e = (k, v)" by (cases e)
  obtain cs1 where c: "collect_key E s M (k, v) cs = Some cs1" "step_ok E s M [k] cs cs1"
    using collect_key_ok [OF Cons.prems(2) assms(1), of k v] Cons.prems(1) e by auto
  then obtain cs2 where "collect_keys E s M es cs1 = Some cs2" "step_ok E s M (map fst es) cs1 cs2"
    using Cons.IH [of cs1] Cons.prems(1) by (auto simp: step_ok_def)
  with c e step_ok_trans [OF c(2)] show ?case by fastforce
qed

lemma collect_keys_append:
  "collect_keys E s M (xs @ ys) cs = Option.bind (collect_keys E s M xs cs) (collect_keys E s M ys)"
  by (induction xs arbitrary: cs) (auto split: bind_splits)

text \<open>Collecting leaves the cache of Python processes and the configuration of processes alone.\<close>

lemma user_part_cache:
  "user_part E s M k w cs = Some (x, cs') \<Longrightarrow> map_option pidCache (cs_perf cs') = map_option pidCache (cs_perf cs)"
  by (auto simp: user_part_def dest!: WalkPythonStack_cache split: if_splits option.splits)

lemma collect_key_cache:
  assumes "collect_key E s M e cs = Some cs'"
  shows "map_option pidCache (cs_perf cs') = map_option pidCache (cs_perf cs)"
  using assms user_part_cache [where cs = "note_stacks (fst e) cs"]
  by (cases e) (auto simp: collect_key_def Let_def split: if_splits option.splits)

lemma collect_keys_cache:
  "collect_keys E s M es cs = Some cs' \<Longrightarrow> map_option pidCache (cs_perf cs') = map_option pidCache (cs_perf cs)"
  by (induction es arbitrary: cs) (auto simp: bind_eq_Some_conv dest: collect_key_cache)

text \<open>The samples of a round are CPU samples, already aggregated.\<close>

definition regular :: "collect_state \<Rightarrow> bool" where
  "regular cs \<longleftrightarrow> (\<forall>x\<in>set (cs_samples cs). ps_aggregated x \<and> ps_type x = SampleTypeCpu)"

lemma user_part_samples: "user_part E s M k w cs = Some (x, cs') \<Longrightarrow> cs_samples cs' = cs_samples cs"
  by (auto simp: user_part_def split: if_splits option.splits)

lemma report_regular: "regular cs \<Longrightarrow> regular (report t k v sb cs)"
  by (auto simp: report_def regular_def)

lemma collect_key_regular:
  assumes run: "collect_key E s M (k, v) cs = Some cs'" and reg: "regular cs"
  shows "regular cs'"
proof -
  let ?cs = "note_stacks k cs"
  have n: "regular ?cs" using reg by (simp add: regular_def)
  have "regular cs1" if "user_part E s M k w ?cs = Some (x, cs1)" for w x cs1
    using user_part_samples [OF that] n by (simp add: regular_def)
  with run n show ?thesis
    by (auto simp: collect_key_def Let_def intro!: report_regular split: if_splits option.splits)
qed

lemma collect_keys_regular: "collect_keys E s M es cs = Some cs' \<Longrightarrow> regular cs \<Longrightarrow> regular cs'"
  by (induction es arbitrary: cs) (auto simp: bind_eq_Some_conv dest: collect_key_regular)

lemma clear_maps_configs:
  "clear_maps E s es batch cs M = (r, M') \<Longrightarrow> py_pid_config M' = py_pid_config M \<and> pids M' = pids M"
  by (auto simp: clear_maps_def Let_def split: if_splits prod.splits)

lemma collectRegularProfile_cases:
  assumes "collectRegularProfile E s M = Some (r, ps, s', M')"
  obtains c where "ps = []" "s' = s" "M' = M\<lparr>counts := c\<rparr>"
  | c es batch cs where "collect_keys E s (M\<lparr>counts := c\<rparr>) es (collect_start s) = Some cs"
      "clear_maps E s es batch cs (M\<lparr>counts := c\<rparr>) = (r, M')" "ps = cs_samples cs"
      "s' = s\<lparr>pids_dead := cs_dead cs, pyperf := cs_perf cs\<rparr>"
proof (cases "getCountsMapValues (counts_dump E) (counts M)")
  case (Pair x c)
  show ?thesis
  proof (cases x)
    case (Inl e)
    then show ?thesis using assms Pair that(1) by (auto simp: collectRegularProfile_def)
  next
    case (Inr eb)
    obtain es batch where eb: "eb = (es, batch)" by (cases eb)
    obtain cs where k: "collect_keys E s (M\<lparr>counts := c\<rparr>) es (collect_start s) = Some cs"
      using assms Pair Inr eb by (auto simp: collectRegularProfile_def)
    have "clear_maps E s es batch cs (M\<lparr>counts := c\<rparr>) = (r, M')" "ps = cs_samples cs"
      "s' = s\<lparr>pids_dead := cs_dead cs, pyperf := cs_perf cs\<rparr>"
      using assms Pair Inr eb k by (simp_all add: collectRegularProfile_def Let_def case_prod_beta prod_eq_iff)
    with k show ?thesis by (rule that(2))
  qed
qed

lemma round_regular:
  assumes "collectRegularProfile E s M = Some (r, ps, s', M')" "x \<in> set ps"
  shows "ps_aggregated x \<and> ps_type x = SampleTypeCpu"
  using assms(1)
proof (cases rule: collectRegularProfile_cases)
  case (2 c es batch cs)
  have "regular cs" using collect_keys_regular [OF 2(1)] by (simp add: regular_def collect_start_def)
  with assms(2) 2(3) show ?thesis by (simp add: regular_def)
qed (use assms(2) in simp)

lemma collect_configs:
  assumes "collectRegularProfile E s M = Some (r, ps, s', M')"
  shows "py_pid_config M' = py_pid_config M \<and> pids M' = pids M \<and> pids_all s' = pids_all s \<and>
    roundNumber s' = roundNumber s \<and> map_option pidCache (pyperf s') = map_option pidCache (pyperf s)"
  using assms
proof (cases rule: collectRegularProfile_cases)
  case (2 c es batch cs)
  have "map_option pidCache (cs_perf cs) = map_option pidCache (pyperf s)"
    using collect_keys_cache [OF 2(1)] by (simp add: collect_start_def)
  then show ?thesis using clear_maps_configs [OF 2(2)] 2(4) by simp
qed simp

section \<open>A round\<close>

text \<open>What the agent's caches and the maps satisfy between rounds.\<close>

definition round_ok :: "agent_env \<Rightarrow> session \<Rightarrow> ('m) agent_maps_scheme \<Rightarrow> bool" where
  "round_ok E s M \<longleftrightarrow> maps_ok M \<and> dump_of (counts_dump E) (counts M) \<and>
     (\<forall>k\<in>dom (counts M). is_python_key k \<longrightarrow> pyperf s \<noteq> None) \<and>
     (\<forall>p. pyperf s = Some p \<longrightarrow> table_of (prevSymbols p) (py_symbols M) \<and>
        dump_of (symbol_dumps E (symbol_lookups p)) (py_symbols M))"

lemma round_start: "round_ok E s M \<Longrightarrow> collect_inv E s (M\<lparr>counts := c\<rparr>) (collect_start s)"
  by (auto simp: round_ok_def collect_inv_def collect_start_def sym_ok_def GetLazySymbols_def split: option.split)

lemma fst_graph: "set es = Map.graph m \<Longrightarrow> fst ` set es = dom m"
  by (simp add: fst_graph_eq_dom)

lemma without_all: "set es = Map.graph m \<Longrightarrow> without es m = Map.empty"
  unfolding without_def fst_graph by (rule ext) (auto simp: dom_def)

text \<open>The keys of a round are the entries of the counter map.\<close>

lemma round_keys:
  assumes "round_ok E s M"
  shows "\<exists>es batch c. getCountsMapValues (counts_dump E) (counts M) = (Inr (es, batch), c) \<and>
    set es = Map.graph (counts M) \<and> c = (if batch then Map.empty else counts M)"
proof -
  let ?d = "counts_dump E"
  have d: "dump_of ?d (counts M)" using assms by (simp add: round_ok_def)
  consider (batch) "batch_entries ?d \<noteq> []" | (none) "batch_entries ?d = []" "batch_not_exist ?d"
    | (iter) "batch_entries ?d = []" "\<not> batch_not_exist ?d" by blast
  then show ?thesis
  proof cases
    case batch
    with d show ?thesis
      by (intro exI [of _ "batch_entries ?d"] exI [of _ True]) (simp add: dump_of_def getCountsMapValues_def without_all)
  next
    case none
    with d show ?thesis
      by (intro exI [of _ "[]"] exI [of _ True]) (simp add: dump_of_def getCountsMapValues_def)
  next
    case iter
    with d show ?thesis
      by (intro exI [of _ "iter_entries ?d"] exI [of _ False]) (simp add: dump_of_def getCountsMapValues_def)
  qed
qed

lemma round_run:
  assumes ok: "round_ok E s M"
    and es: "getCountsMapValues (counts_dump E) (counts M) = (Inr (es, batch), c)" "set es = Map.graph (counts M)"
  shows "\<exists>cs r M'. collect_keys E s (M\<lparr>counts := c\<rparr>) es (collect_start s) = Some cs \<and>
    step_ok E s (M\<lparr>counts := c\<rparr>) (map fst es) (collect_start s) cs \<and>
    clear_maps E s es batch cs (M\<lparr>counts := c\<rparr>) = (r, M') \<and>
    collectRegularProfile E s M =
      Some (r, cs_samples cs, s\<lparr>pids_dead := cs_dead cs, pyperf := cs_perf cs\<rparr>, M')"
proof -
  have "maps_ok (M\<lparr>counts := c\<rparr>)" using ok by (simp add: round_ok_def maps_ok_def)
  moreover have "\<forall>(k, v)\<in>set es. is_python_key k \<longrightarrow> pyperf s \<noteq> None"
  proof clarify
    fix k v assume "(k, v) \<in> set es" and k: "is_python_key k"
    then have "k \<in> dom (counts M)" using es(2) by (simp add: domI in_graphD)
    with ok k show "\<exists>y. pyperf s = Some y" by (auto simp: round_ok_def)
  qed
  ultimately obtain cs where cs: "collect_keys E s (M\<lparr>counts := c\<rparr>) es (collect_start s) = Some cs"
    "step_ok E s (M\<lparr>counts := c\<rparr>) (map fst es) (collect_start s) cs"
    using collect_keys_ok [OF _ _ round_start [OF ok]] by blast
  obtain r M' where "clear_maps E s es batch cs (M\<lparr>counts := c\<rparr>) = (r, M')" by (metis surj_pair)
  with cs es(1) show ?thesis by (simp add: collectRegularProfile_def)
qed

lemma clear_maps_ok:
  assumes laws: "bpf_map_delete_present (delete_counts E)" "bpf_map_delete_present (delete_stacks E)"
      "bpf_map_delete_present (delete_python_stacks E)"
    and run: "clear_maps E s es batch cs M = (Inr (), M')"
    and round: "roundNumber s mod 10 \<noteq> 0" "python_loaded s"
  shows "counts M' = (if batch then counts M else (\<lambda>k. if k \<in> fst ` set es then None else counts M k)) \<and>
    stacks M' = (\<lambda>i. if i \<in> set (cs_known cs) then None else stacks M i) \<and>
    python_stacks M' = (\<lambda>i. if i \<in> set (cs_known_python cs) then None else python_stacks M i)"
proof -
  obtain b c where c: "clearCountsMap (delete_counts E) (map fst es) batch (counts M) = (b, c)" by (metis surj_pair)
  obtain b2 st where st: "clearStacksMap (delete_stacks E) (stacks_iter E) (roundNumber s) (cs_known cs) (stacks M) = (b2, st)"
    by (metis surj_pair)
  obtain b3 ps where ps: "clearStacksMap (delete_python_stacks E) (python_stacks_iter E) (roundNumber s)
      (cs_known_python cs) (python_stacks M) = (b3, ps)" by (metis surj_pair)
  from run have b: "b" "b2" and M': "M' = M\<lparr>counts := c, stacks := st,
      python_stacks := (if cs_known_python cs \<noteq> [] then ps else python_stacks M)\<rparr>"
    using c st ps round(2) by (auto simp: clear_maps_def Let_def split: if_splits)
  have "c = (if batch then counts M else (\<lambda>k. if k \<in> fst ` set es then None else counts M k))"
    using c b(1) bpf_map_delete_present.delete_until_error_ok [OF laws(1), of "map fst es" "counts M" c]
    by (auto simp: clearCountsMap_def split: if_splits)
  moreover have "st = (\<lambda>i. if i \<in> set (cs_known cs) then None else stacks M i)"
    using clearStacksMap_ok [OF laws(2) st [unfolded eqTrueI [OF b(2)]]] round(1) by simp
  moreover have "ps = (\<lambda>i. if i \<in> set (cs_known_python cs) then None else python_stacks M i)"
    using ps round(1) by (simp add: clearStacksMap_def bpf_map_delete_present.delete_each_snd [OF laws(3)])
  ultimately show ?thesis using M' by auto
qed

section \<open>Properties\<close>



end
