(* ===== verification/Go_Trace.thy ===== *)
theory Go_Trace
  imports Go_Session Pyperf_Props
begin

text \<open>
  The way of one sample: the timer interrupt runs \<open>do_perf_event\<close> on a thread of a Python process,
  which tail-calls the Python programs; in the next round of collection the agent reads the
  counter, the stored stack and the symbols back and hands the text to its callback.
\<close>

section \<open>A Python key in a round\<close>

definition python_lines :: "bool \<Rightarrow> py_symbol list \<Rightarrow> go_string list" where
  "python_lines full ss = concat (map (\<lambda>sy. frame_lines full (Some sy)) ss)"

definition python_report ::
  "agent_env \<Rightarrow> session \<Rightarrow> ('m) agent_maps_scheme \<Rightarrow> sample_key \<Rightarrow> u32 \<Rightarrow> bool \<Rightarrow> py_symbol list \<Rightarrow> ProfileSample" where
  "python_report E s M k v full ss =
     \<lparr>ps_target = the (find_target E (k_pid k)), ps_pid = k_pid k, ps_type = SampleTypeCpu, ps_aggregated = True,
      ps_stack = kernel_lines E s M k @ python_lines full ss @ [comm s (k_pid k)], ps_value = ucast v, ps_value2 = 0\<rparr>"

text \<open>The agent profiles the process: it is a target, alive, and known to the Python profiler.\<close>

definition agent_profiles :: "agent_env \<Rightarrow> session \<Rightarrow> u32 \<Rightarrow> go_proc \<Rightarrow> bool" where
  "agent_profiles E s pid pr \<longleftrightarrow> CollectUser (options s) \<and> python_loaded s \<and>
     find_target E pid \<noteq> None \<and> proc_table E pid \<noteq> None \<and> pid \<notin> pids_dead s \<and>
     (\<exists>p. pyperf s = Some p \<and> FindProc p pid = Some pr)"

lemma collect_key_python:
  assumes inv: "collect_inv E s M cs" and maps: "maps_ok M"
    and ag: "agent_profiles E s (k_pid k) pr" "k_pid k \<notin> cs_dead cs" "is_python_key k"
    and stk: "python_stacks M (ucast (user_stack k)) = Some xs"
      "decode_stack xs = map (\<lambda>s. the (py_symbols M s)) ss" "set ss \<subseteq> dom (py_symbols M)"
    and ne: "python_lines (PythonFullFilePath pr) ss \<noteq> []"
    and run: "collect_key E s M (k, v) cs = Some cs'"
  shows "python_report E s M k v (PythonFullFilePath pr) ss \<in> set (cs_samples cs')"
proof -
  let ?cs = "note_stacks k cs" and ?w = "([comm s (k_pid k)], no_stats)"
  have inv': "collect_inv E s M ?cs" using inv by (auto simp: collect_inv_def split: option.splits)
  have py: "pyperf s \<noteq> None" "CollectUser (options s)" "python_loaded s" "find_target E (k_pid k) \<noteq> None"
      "FindProc (the (pyperf s)) (k_pid k) = Some pr"
    using ag(1) by (auto simp: agent_profiles_def)
  obtain ls st cs1 where u: "user_part E s M k ?w ?cs = Some (Some ([comm s (k_pid k)] @ rev ls, st), cs1)"
      "cs_samples cs1 = cs_samples ?cs"
      "\<exists>rs. list_all2 (resolved (py_symbols M)) (decode_stack xs) rs \<and> ls = concat (map (frame_lines (PythonFullFilePath pr)) rs)"
    using python_part_ok [OF inv' maps ag(3) py(1,2), of ?w] py stk(1) by (auto simp: same_notes_def)
  have inj: "inj_map (py_symbols M)" using maps by (simp add: maps_ok_def)
  have ls: "ls = python_lines (PythonFullFilePath pr) ss"
  proof -
    obtain rs where rs: "list_all2 (resolved (py_symbols M)) (map (\<lambda>s. the (py_symbols M s)) ss) rs"
      "ls = concat (map (frame_lines (PythonFullFilePath pr)) rs)" using u(3) unfolding stk(2) by blast
    have "rs = map Some ss" by (rule resolved_interned [OF stk(3) inj rs(1)])
    then show ?thesis by (simp add: rs(2) python_lines_def comp_def)
  qed
  obtain st' where k: "kernel_part E s M k ([comm s (k_pid k)] @ rev ls, st) =
      Some ([comm s (k_pid k)] @ rev ls @ rev (kernel_lines E s M k), st')"
    using kernel_part_ok [OF maps, of E s k "([comm s (k_pid k)] @ rev ls, st)"] by auto
  have "cs' = report (the (find_target E (k_pid k))) k v ([comm s (k_pid k)] @ rev ls @ rev (kernel_lines E s M k)) cs1"
    using run u(1) k py(4) ag(2) by (auto simp: collect_key_def)
  then show ?thesis using ls ne by (simp add: report_def python_report_def)
qed

lemma python_key_reported:
  assumes ok: "round_ok E s M" and ag: "agent_profiles E s (k_pid k) pr" "is_python_key k"
    and k: "counts M k = Some v"
    and stk: "python_stacks M (ucast (user_stack k)) = Some xs"
      "decode_stack xs = map (\<lambda>s. the (py_symbols M s)) ss" "set ss \<subseteq> dom (py_symbols M)"
    and ne: "python_lines (PythonFullFilePath pr) ss \<noteq> []"
  shows "\<exists>r ps s' M'. collectRegularProfile E s M = Some (r, ps, s', M') \<and>
    python_report E s M k v (PythonFullFilePath pr) ss \<in> set ps"
proof -
  obtain es batch c where es: "getCountsMapValues (counts_dump E) (counts M) = (Inr (es, batch), c)"
    "set es = Map.graph (counts M)" using round_keys [OF ok] by blast
  let ?M = "M\<lparr>counts := c\<rparr>"
  obtain cs r M' where cs: "collect_keys E s ?M es (collect_start s) = Some cs"
    "collectRegularProfile E s M = Some (r, cs_samples cs, s\<lparr>pids_dead := cs_dead cs, pyperf := cs_perf cs\<rparr>, M')"
    using round_run [OF ok es] by blast
  have "(k, v) \<in> set es" using k es(2) by (simp add: in_graphI)
  then obtain as bs where split: "es = as @ (k, v) # bs" by (meson split_list)
  have maps: "maps_ok ?M" using ok by (simp add: round_ok_def maps_ok_def)
  have keys: "\<forall>(k, v)\<in>set es. is_python_key k \<longrightarrow> pyperf s \<noteq> None"
    using ok es(2) by (auto simp: round_ok_def dest!: in_graphD)
  obtain cs1 where c1: "collect_keys E s ?M as (collect_start s) = Some cs1" "step_ok E s ?M (map fst as) (collect_start s) cs1"
    using collect_keys_ok [OF maps _ round_start [OF ok], of as] keys split by auto
  obtain cs2 where c2: "collect_key E s ?M (k, v) cs1 = Some cs2" "collect_keys E s ?M bs cs2 = Some cs"
    using cs(1) c1(1) unfolding split by (auto simp: collect_keys_append bind_eq_Some_conv)
  have "k_pid k \<notin> cs_dead cs1" using c1(2) ag(1) by (auto simp: step_ok_def collect_start_def agent_profiles_def)
  moreover have "collect_inv E s ?M cs1" using c1(2) by (simp add: step_ok_def)
  ultimately have "python_report E s ?M k v (PythonFullFilePath pr) ss \<in> set (cs_samples cs2)"
    using stk by (intro collect_key_python [OF _ maps ag(1) _ ag(2) _ _ _ ne c2(1)]) simp_all
  moreover have "set (cs_samples cs2) \<subseteq> set (cs_samples cs)"
  proof -
    have "collect_inv E s ?M cs2"
      using collect_key_ok [OF \<open>collect_inv E s ?M cs1\<close> maps, of k v] c2(1) ag by (auto simp: step_ok_def agent_profiles_def)
    then show ?thesis
      using collect_keys_ok [OF maps, of bs s E cs2] keys split c2(2) by (auto simp: step_ok_def)
  qed
  moreover have "python_report E s ?M k v (PythonFullFilePath pr) ss = python_report E s M k v (PythonFullFilePath pr) ss"
    by (simp add: python_report_def kernel_lines_def)
  ultimately show ?thesis using cs(2) by auto
qed

section \<open>From the interrupt to the text\<close>

lemma count_sample_stored:
  assumes "bpf_hash_map_room upd n" "k \<in> dom m \<or> card (dom m) < n"
  shows "\<exists>v. count_sample upd m k k = Some v"
  using assms(2) bpf_hash_map_room.update_room_new [OF assms(1), of k m 1]
  by (cases "m k") (auto simp: count_sample_def domIff)

text \<open>C1: A sample of a Python process arrives as text. The interrupt runs \<open>do_perf_event\<close>, which
  tail-calls the Python programs; the round of collection that follows hands the callback a
  sample of the process whose stack is the kernel part, then the lines of the first 96 Python
  frames, innermost first, then the command name, with the value of the counter. The profile that
  the samples of the round are collected in holds this stack, under the labels of the target of
  the process, with the value times the period.\<close>

theorem python_sample_to_text:
  assumes laws: "py_kernel K mem nsym nstk" "bpf_hash_map_room (update_counts K) ncnt"
    and thread: "user_thread K pid" "current_pid K (py_ns_pid_ino (py_config K)) (ucast (uninit K ''pid'')) = pid"
    and config: "pids M pid = Some c" "pc_type c = PROFILING_TYPE_PYTHON" "progs M PROG_IDX_PYTHON = Some PYPERF_COLLECT"
      "py_pid_config M (ucast pid) = Some pd"
    and state: "get_state K M = Some st" "wf_state st"
    and frames: "get_thread_state ar K pd 0 = (0, ts)" "ts \<noteq> 0" "top_frame mem (pd_offsets pd) ts = Some fp"
      "py_walk (frame_at K (pd_offsets pd)) 96 fp = (ss, e)" "e = Complete \<or> (\<exists>q. e = More q)"
    and room: "finite (dom (py_symbols M))" "card (dom (py_symbols M) \<union> set ss) \<le> nsym"
      "card (dom (python_stacks M)) < nstk" "card (dom (counts M)) < ncnt"
    and ids: "ids_ok M" "\<forall>cpu. heap_ctr M cpu + 96 < ctr_bound" "unat (get_smp_processor_id K) < 512"
    and tail: "py_progs M PYTHON_PROG_IDX_READ_PYTHON_STACK = Some READ_PYTHON_STACK" "4 \<le> fuel"
    and sample: "do_perf_event ar K fuel M = (rc, M1)"
    and opt: "SampleRate opt \<noteq> 0"
    and agent: "round_ok E s M1" "agent_profiles E s pid pr" "python_lines (PythonFullFilePath pr) ss \<noteq> []"
  shows "\<exists>k v r ps s' M2 x bs p. collectRegularProfile E s M1 = Some (r, ps, s', M2) \<and>
    k_pid k = pid \<and> counts M1 = count_sample (update_counts K) (counts M) k \<and> counts M1 k = Some v \<and>
    x = python_report E s M1 k v (PythonFullFilePath pr) ss \<and> x \<in> set ps \<and>
    Collect_samples labelsHash xxhash opt ps Map.empty = Some bs \<and> bs (builder_key labelsHash opt x) = Some p \<and>
    (ps_stack x, [ucast v * period_for opt (builder_key labelsHash opt x)]) \<in> set (decode p)"
proof -
  obtain n where n: "fuel = Suc n" "3 \<le> n" using tail(2) by (cases fuel) auto
  have run: "pyperf_collect ar K n M = (rc, M1)"
    using sample config n by (simp add: do_perf_event_user [OF thread(1)] profile_process_def profiling_types)
  have pid: "pid \<noteq> 0" using thread(1) by (simp add: user_thread_def)
  obtain h xs where r: "set ss \<subseteq> dom (py_symbols M1)" "python_stacks M1 (ucast h) = Some xs"
    "decode_stack xs = map (\<lambda>s. the (py_symbols M1 s)) ss"
    "counts M1 = count_sample (update_counts K) (counts M)
      \<lparr>k_pid = pid, k_flags = (if e = Complete then 1 else 3),
       kern_stack = (if collect_kernel pd \<noteq> 0 then get_stackid K KERN_STACKID_FLAGS else -1), user_stack = h\<rparr>"
    using collect_records [OF laws(1) thread(2) pid config(4) state frames room(1-3) ids tail(1) n(2)] run by auto
  define k where "k = \<lparr>k_pid = pid, k_flags = (if e = Complete then 1 else 3),
       kern_stack = (if collect_kernel pd \<noteq> 0 then get_stackid K KERN_STACKID_FLAGS else -1), user_stack = h\<rparr>"
  have k: "k_pid k = pid" "user_stack k = h" "is_python_key k"
    by (auto simp: k_def is_python_key_def stack_consts)
  obtain v where v: "counts M1 k = Some v"
    using count_sample_stored [OF laws(2), of k "counts M"] room(4) r(4) by (auto simp: k_def)
  let ?x = "python_report E s M1 k v (PythonFullFilePath pr) ss"
  obtain ro ps s' M2 where c: "collectRegularProfile E s M1 = Some (ro, ps, s', M2)" "?x \<in> set ps"
    using python_key_reported [OF agent(1) _ k(3) v, of pr xs ss] agent(2,3) r k unfolding k_def [symmetric] by metis
  have "\<forall>x\<in>set ps. ps_aggregated x" using round_regular [OF c(1)] by blast
  then obtain bs p where "Collect_samples labelsHash xxhash opt ps Map.empty = Some bs"
    "bs (builder_key labelsHash opt ?x) = Some p"
    "(ps_stack ?x, sample_values (period_for opt (builder_key labelsHash opt ?x)) ?x) \<in> set (decode p)"
    using reported_in_profile [OF opt _ c(2) refl, of labelsHash xxhash] by blast
  moreover have "sample_values per ?x = [ucast v * per]" for per by (simp add: sample_values_def python_report_def)
  moreover have "counts M1 = count_sample (update_counts K) (counts M) k" using r(4) by (simp add: k_def)
  ultimately show ?thesis using c k(1) v by metis
qed

end
