(* ===== verification/Go_Lifecycle.thy ===== *)
theory Go_Lifecycle
  imports Go_Session
begin

text \<open>
  The life of a process as the agent sees it (\<open>ebpf/session.go\<close> and \<open>ebpf/session_python.go\<close>):
  one goroutine reads the records of the kernel programs and spreads them over three channels,
  three more serve the channels, and the configuration of a process is written back into the map
  \<open>pids\<close>. Python processes are configured by a goroutine of their own, with up to four attempts.

  Every operation that holds the session's mutex is one step; goroutines that wait for the
  mutex are entries of \<open>ag_starts\<close>. What the agent reads from \<open>/proc\<close>, the loader of the
  Python programs and the library that writes kernel maps are arguments (\<open>proc_fs\<close>). A Go panic
  is the result \<open>None\<close>.
\<close>

section \<open>Environment and state\<close>

datatype load_result = Load_error | Link_error | Load_ok

record proc_fs =
  exe_link :: "u32 \<Rightarrow> go_string option"
  comm_file :: "u32 \<Rightarrow> go_string option"
  alive :: "u32 \<Rightarrow> bool"
  status_file :: "u32 \<Rightarrow> bool"
  pid_data :: "u32 \<Rightarrow> py_pid_data option"
  load_result :: load_result
  target_python :: "nat \<Rightarrow> bool option"
  target_kernel :: "nat \<Rightarrow> bool option"
  target_full_path :: "nat \<Rightarrow> bool option"
  find_pid_target :: "u32 \<Rightarrow> nat option"
  fs_update_pids :: "(u32, pid_config) map_update"
  fs_delete_pids :: "(u32, pid_config) map_delete"
  fs_update_py :: "(s32, py_pid_data) map_update"
  fs_delete_py :: "(s32, py_pid_data) map_delete"

record python_start =
  st_pid :: u32
  st_target :: nat
  st_info :: proc_info_lite
  st_attempt :: nat

record agent =
  ag_session :: session
  ag_maps :: agent_maps
  ag_info :: "u32 list"
  ag_exec :: "u32 list"
  ag_dead :: "u32 list"
  ag_starts :: "python_start list"

section \<open>Choosing how to profile a process\<close>

definition flag_or :: "bool option \<Rightarrow> bool \<Rightarrow> bool" where
  "flag_or v enabled = (case v of Some b \<Rightarrow> b | None \<Rightarrow> enabled)"

definition pythonEnabled :: "proc_fs \<Rightarrow> session \<Rightarrow> nat \<Rightarrow> bool" where
  "pythonEnabled F s target = flag_or (target_python F target) (PythonEnabled (options s))"

definition collectKernelEnabled :: "proc_fs \<Rightarrow> session \<Rightarrow> nat \<Rightarrow> bool" where
  "collectKernelEnabled F s target = flag_or (target_kernel F target) (CollectKernel (options s))"

definition targetFullFilePath :: "proc_fs \<Rightarrow> session \<Rightarrow> nat \<Rightarrow> bool" where
  "targetFullFilePath F s target = flag_or (target_full_path F target) (OptPythonFullFilePath (options s))"

definition error_info :: "u32 \<Rightarrow> proc_info_lite" where
  "error_info pid = \<lparr>pi_pid = pid, pi_comm = [], pi_exe = [], pi_typ = PROFILING_TYPE_ERROR\<rparr>"

definition selectProfilingType :: "proc_fs \<Rightarrow> session \<Rightarrow> u32 \<Rightarrow> nat \<Rightarrow> proc_info_lite option" where
  "selectProfilingType F s pid target =
     (case exe_link F pid of
        None \<Rightarrow> Some (error_info pid)
      | Some exePath \<Rightarrow>
          (case comm_file F pid of
             None \<Rightarrow> Some (error_info pid)
           | Some cm \<Rightarrow>
               if cm = [] then None
               else
                 let cm = (if last cm = 0x0A then butlast cm else cm);
                     exe = filepath_Base exePath
                 in if pythonEnabled F s target \<and> take 6 exe = go_str ''python'' \<or> exe = go_str ''uwsgi''
                    then Some \<lparr>pi_pid = pid, pi_comm = cm, pi_exe = [], pi_typ = PROFILING_TYPE_PYTHON\<rparr>
                    else Some \<lparr>pi_pid = pid, pi_comm = cm, pi_exe = [], pi_typ = PROFILING_TYPE_FRAMEPOINTERS\<rparr>))"

definition uint8FromBool :: "bool \<Rightarrow> u8" where
  "uint8FromBool b = (if b then 1 else 0)"

definition setPidConfig ::
  "proc_fs \<Rightarrow> u32 \<Rightarrow> proc_info_lite \<Rightarrow> bool \<Rightarrow> bool \<Rightarrow> session \<times> ('m) agent_maps_scheme \<Rightarrow> session \<times> ('m) agent_maps_scheme" where
  "setPidConfig F pid info collectUser collectKernel = (\<lambda>(s, M).
     (s\<lparr>pids_all := (pids_all s)(pid \<mapsto> info)\<rparr>,
      M\<lparr>pids := snd (fs_update_pids F (pids M) pid
           \<lparr>pc_type = pi_typ info, collect_user = uint8FromBool collectUser,
            pc_collect_kernel = uint8FromBool collectKernel, padding_ = 0\<rparr> BPF_ANY)\<rparr>))"

definition remove_python ::
  "proc_fs \<Rightarrow> u32 \<Rightarrow> session \<times> ('m) agent_maps_scheme \<Rightarrow> session \<times> ('m) agent_maps_scheme" where
  "remove_python F pid = (\<lambda>(s, M).
     case pyperf s of
       None \<Rightarrow> (s, M)
     | Some perf \<Rightarrow>
         let (m, perf) = RemoveDeadPID (fs_delete_py F) pid (py_pid_config M) perf
         in (s\<lparr>pyperf := Some perf\<rparr>, M\<lparr>py_pid_config := m\<rparr>))"

definition forget_python ::
  "proc_fs \<Rightarrow> u32 \<Rightarrow> session \<times> ('m) agent_maps_scheme \<Rightarrow> session \<times> ('m) agent_maps_scheme" where
  "forget_python F pid = (\<lambda>(s, M).
     case pyperf s of
       None \<Rightarrow> (s, M)
     | Some perf \<Rightarrow> if FindProc perf pid \<noteq> None then remove_python F pid (s, M) else (s, M))"

definition startProfilingLocked :: "proc_fs \<Rightarrow> u32 \<Rightarrow> nat \<Rightarrow> agent \<Rightarrow> agent option" where
  "startProfilingLocked F pid target A =
     (let s = ag_session A
      in if \<not> started s then Some A
         else case selectProfilingType F s pid target of
                None \<Rightarrow> None
              | Some info \<Rightarrow>
                  if pi_typ info = PROFILING_TYPE_PYTHON
                  then Some (A\<lparr>ag_starts := ag_starts A @ [\<lparr>st_pid = pid, st_target = target, st_info = info, st_attempt = 0\<rparr>]\<rparr>)
                  else
                    let (s, M) = setPidConfig F pid info (CollectUser (options s)) (collectKernelEnabled F s target)
                                   (forget_python F pid (s, ag_maps A))
                    in Some (A\<lparr>ag_session := s, ag_maps := M\<rparr>))"

section \<open>Python processes\<close>

definition getPyPerfLocked ::
  "proc_fs \<Rightarrow> session \<times> ('m) agent_maps_scheme \<Rightarrow> go_perf option \<times> session \<times> ('m) agent_maps_scheme" where
  "getPyPerfLocked F = (\<lambda>(s, M).
     case pyperf s of
       Some perf \<Rightarrow> (Some perf, s, M)
     | None \<Rightarrow>
         if pyperfError s then (None, s, M)
         else (case load_result F of
                 Load_error \<Rightarrow> (None, s\<lparr>pyperfError := True\<rparr>, M)
               | Link_error \<Rightarrow> (None, s\<lparr>pyperfError := True, python_loaded := True\<rparr>, M)
               | Load_ok \<Rightarrow>
                   (Some NewPerf, s\<lparr>pyperf := Some NewPerf, python_loaded := True\<rparr>,
                    M\<lparr>progs := (progs M)(PROG_IDX_PYTHON \<mapsto> PYPERF_COLLECT)\<rparr>)))"

definition python_failed ::
  "proc_fs \<Rightarrow> u32 \<Rightarrow> proc_info_lite \<Rightarrow> session \<times> ('m) agent_maps_scheme \<Rightarrow> session \<times> ('m) agent_maps_scheme" where
  "python_failed F pid info = setPidConfig F pid (info\<lparr>pi_typ := PROFILING_TYPE_ERROR\<rparr>) False False"

text \<open>The result tells whether to try again.\<close>

definition startPythonProfiling ::
  "proc_fs \<Rightarrow> u32 \<Rightarrow> nat \<Rightarrow> proc_info_lite \<Rightarrow> session \<times> ('m) agent_maps_scheme \<Rightarrow> bool \<times> session \<times> ('m) agent_maps_scheme" where
  "startPythonProfiling F pid target info = (\<lambda>(s, M).
     if \<not> started s then (False, s, M)
     else if pid \<in> pids_dead s then (False, s, M)
     else
       case getPyPerfLocked F (s, M) of
         (None, s, M) \<Rightarrow> (False, python_failed F pid info (s, M))
       | (Some perf, s, M) \<Rightarrow>
           (case pid_data F pid of
              None \<Rightarrow> (alive F pid, python_failed F pid info (s, M))
            | Some pyData \<Rightarrow>
                (case FindProc perf pid of
                   Some proc \<Rightarrow> (False, setPidConfig F pid info (CollectUser (options s)) (CollectKernel (options s)) (s, M))
                 | None \<Rightarrow>
                     (case NewProc (fs_update_py F) pid pyData (targetFullFilePath F s target) (py_pid_config M) perf of
                        (Inl e, m, perf) \<Rightarrow>
                          (False, python_failed F pid info (s\<lparr>pyperf := Some perf\<rparr>, M\<lparr>py_pid_config := m\<rparr>))
                      | (Inr proc, m, perf) \<Rightarrow>
                          (False, setPidConfig F pid info (CollectUser (options s)) (CollectKernel (options s))
                             (s\<lparr>pyperf := Some perf\<rparr>, M\<lparr>py_pid_config := m\<rparr>))))))"

definition nTries :: nat where "nTries = 4"

text \<open>One attempt of the waiting goroutine \<open>x\<close>; it sleeps and tries again or ends.\<close>

definition tryStartPythonProfiling :: "proc_fs \<Rightarrow> python_start \<Rightarrow> agent \<Rightarrow> agent" where
  "tryStartPythonProfiling F x A =
     (if x \<notin> set (ag_starts A) then A
      else
        let (retry, s, M) = startPythonProfiling F (st_pid x) (st_target x) (st_info x) (ag_session A, ag_maps A);
            rest = remove1 x (ag_starts A)
        in A\<lparr>ag_session := s, ag_maps := M,
             ag_starts := (if retry \<and> st_attempt x + 1 < nTries then rest @ [x\<lparr>st_attempt := st_attempt x + 1\<rparr>] else rest)\<rparr>)"

section \<open>Channels\<close>

definition channel_size :: nat where "channel_size = 1024"

definition try_send :: "u32 \<Rightarrow> u32 list \<Rightarrow> u32 list" where
  "try_send pid q = (if length q < channel_size then q @ [pid] else q)"

definition readEvents :: "agent \<Rightarrow> agent" where
  "readEvents A =
     (case events (ag_maps A) of
        [] \<Rightarrow> A
      | e # es \<Rightarrow>
          let A = A\<lparr>ag_maps := (ag_maps A)\<lparr>events := es\<rparr>\<rparr>
          in if ev_op e = OP_REQUEST_UNKNOWN_PROCESS_INFO then A\<lparr>ag_info := try_send (ev_pid e) (ag_info A)\<rparr>
             else if ev_op e = OP_PID_DEAD then A\<lparr>ag_dead := try_send (ev_pid e) (ag_dead A)\<rparr>
             else if ev_op e = OP_REQUEST_EXEC_PROCESS_INFO then A\<lparr>ag_exec := try_send (ev_pid e) (ag_exec A)\<rparr>
             else A)"

definition saveUnknownPIDLocked :: "u32 \<Rightarrow> session \<Rightarrow> session" where
  "saveUnknownPIDLocked pid s = s\<lparr>pids_unknown := insert pid (pids_unknown s)\<rparr>"

definition serve_request :: "proc_fs \<Rightarrow> u32 \<Rightarrow> agent \<Rightarrow> agent option" where
  "serve_request F pid A =
     (if pid \<in> pids_dead (ag_session A) then Some A
      else case find_pid_target F pid of
             None \<Rightarrow> Some (A\<lparr>ag_session := saveUnknownPIDLocked pid (ag_session A)\<rparr>)
           | Some target \<Rightarrow> startProfilingLocked F pid target A)"

definition processPidInfoRequests :: "proc_fs \<Rightarrow> agent \<Rightarrow> agent option" where
  "processPidInfoRequests F A =
     (case ag_info A of [] \<Rightarrow> Some A | pid # q \<Rightarrow> serve_request F pid (A\<lparr>ag_info := q\<rparr>))"

definition processPIDExecRequests :: "proc_fs \<Rightarrow> agent \<Rightarrow> agent option" where
  "processPIDExecRequests F A =
     (case ag_exec A of [] \<Rightarrow> Some A | pid # q \<Rightarrow> serve_request F pid (A\<lparr>ag_exec := q\<rparr>))"

definition processDeadPIDsEvents :: "agent \<Rightarrow> agent" where
  "processDeadPIDsEvents A =
     (case ag_dead A of
        [] \<Rightarrow> A
      | pid # q \<Rightarrow>
          A\<lparr>ag_dead := q, ag_session := (ag_session A)\<lparr>pids_dead := insert pid (pids_dead (ag_session A))\<rparr>\<rparr>)"

text \<open>\<open>pids\<close> lists the unknown processes in the order in which Go visits them.\<close>

fun UpdateTargets :: "proc_fs \<Rightarrow> u32 list \<Rightarrow> agent \<Rightarrow> agent option" where
  "UpdateTargets F [] A = Some A"
| "UpdateTargets F (pid # ps) A =
     (case find_pid_target F pid of
        None \<Rightarrow> UpdateTargets F ps A
      | Some target \<Rightarrow>
          (case startProfilingLocked F pid target A of
             None \<Rightarrow> None
           | Some A \<Rightarrow>
               UpdateTargets F ps
                 (A\<lparr>ag_session := (ag_session A)\<lparr>pids_unknown := pids_unknown (ag_session A) - {pid}\<rparr>\<rparr>)))"

definition Update :: "session_options \<Rightarrow> agent \<Rightarrow> agent" where
  "Update opts A = A\<lparr>ag_session := (ag_session A)\<lparr>options := opts\<rparr>\<rparr>"

section \<open>Cleaning up after a round\<close>

definition cleanup_dead :: "proc_fs \<Rightarrow> u32 \<Rightarrow> session \<times> ('m) agent_maps_scheme \<Rightarrow> session \<times> ('m) agent_maps_scheme" where
  "cleanup_dead F pid = (\<lambda>(s, M).
     remove_python F pid
       (s\<lparr>pids_dead := pids_dead s - {pid}, pids_unknown := pids_unknown s - {pid}, pids_all := (pids_all s)(pid := None)\<rparr>, M))"

definition cleanup_unknown :: "proc_fs \<Rightarrow> u32 \<Rightarrow> session \<Rightarrow> session" where
  "cleanup_unknown F pid s =
     (if alive F pid then s
      else s\<lparr>pids_unknown := pids_unknown s - {pid}, pids_all := (pids_all s)(pid := None)\<rparr>)"

definition checkStalePids :: "proc_fs \<Rightarrow> u32 list \<Rightarrow> (u32 \<rightharpoonup> pid_config) \<Rightarrow> (u32 \<rightharpoonup> pid_config)" where
  "checkStalePids F keys m = fold (\<lambda>k m. if status_file F k then m else snd (fs_delete_pids F m k)) keys m"

text \<open>The lists name the dead and the unknown processes and the keys of the map \<open>pids\<close> in the
  order in which they are visited.\<close>

definition cleanup ::
  "proc_fs \<Rightarrow> u32 list \<Rightarrow> u32 list \<Rightarrow> u32 list \<Rightarrow> session \<times> ('m) agent_maps_scheme \<Rightarrow> session \<times> ('m) agent_maps_scheme" where
  "cleanup F dead unknown keys sm =
     (let (s, M) = fold (cleanup_dead F) dead sm;
          s = fold (cleanup_unknown F) unknown s
      in (s, if roundNumber s mod 10 = 0 then M\<lparr>pids := checkStalePids F keys (pids M)\<rparr> else M))"

definition CollectProfiles ::
  "agent_env \<Rightarrow> proc_fs \<Rightarrow> (session \<Rightarrow> u32 list \<times> u32 list) \<Rightarrow> u32 list \<Rightarrow> session \<times> ('m) agent_maps_scheme
     \<Rightarrow> (ProfileSample list \<times> session \<times> ('m) agent_maps_scheme) option" where
  "CollectProfiles E F visit keys = (\<lambda>(s, M).
     case collectRegularProfile E (s\<lparr>roundNumber := Suc (roundNumber s)\<rparr>) M of
       None \<Rightarrow> None
     | Some (Inl e, ps, s, M) \<Rightarrow> Some (ps, s, M)
     | Some (Inr u, ps, s, M) \<Rightarrow> Some (ps, cleanup F (fst (visit s)) (snd (visit s)) keys (s, M)))"

section \<open>Interleavings\<close>

text \<open>The laws of the library that writes the maps.\<close>

locale agent_fs =
  fixes F :: proc_fs and npids npy :: nat
  assumes pids_map: "bpf_hash_map_room (fs_update_pids F) npids" "bpf_map_delete_present (fs_delete_pids F)"
    and py_map: "bpf_hash_map (fs_update_py F) npy" "bpf_map_delete_present (fs_delete_py F)"

definition ref_fs :: "proc_fs \<Rightarrow> proc_fs" where
  "ref_fs F = F\<lparr>fs_update_pids := ref_update 2048, fs_delete_pids := ref_delete,
     fs_update_py := ref_update 2048, fs_delete_py := ref_delete\<rparr>"

interpretation ref_agent: agent_fs "ref_fs F" 2048 2048 for F
  by (rule agent_fs.intro)
     (simp_all add: ref_fs_def ref_map.bpf_hash_map_room_axioms ref_map.bpf_hash_map_axioms ref_del.bpf_map_delete_present_axioms)

text \<open>The kernel programs and the goroutines take turns in any order.\<close>

inductive agent_step :: "agent \<Rightarrow> agent \<Rightarrow> bool" where
  sample: "A' = A\<lparr>ag_maps := snd (do_perf_event ar (K :: profile_kernel) fuel (ag_maps A))\<rparr> \<Longrightarrow> agent_step A A'"
| exit: "A' = A\<lparr>ag_maps := snd (disassociate_ctty (K :: profile_kernel) on_exit (ag_maps A))\<rparr> \<Longrightarrow> agent_step A A'"
| exec: "A' = A\<lparr>ag_maps := snd (exec (K :: profile_kernel) (ag_maps A))\<rparr> \<Longrightarrow> agent_step A A'"
| read: "A' = readEvents A \<Longrightarrow> agent_step A A'"
| info: "agent_fs F npids npy \<Longrightarrow> processPidInfoRequests F A = Some A' \<Longrightarrow> agent_step A A'"
| exec_request: "agent_fs F npids npy \<Longrightarrow> processPIDExecRequests F A = Some A' \<Longrightarrow> agent_step A A'"
| dead: "A' = processDeadPIDsEvents A \<Longrightarrow> agent_step A A'"
| start: "agent_fs F npids npy \<Longrightarrow> A' = tryStartPythonProfiling F x A \<Longrightarrow> agent_step A A'"
| targets: "agent_fs F npids npy \<Longrightarrow> UpdateTargets F ps A = Some A' \<Longrightarrow> agent_step A A'"
| reconfigure: "A' = Update opts A \<Longrightarrow> agent_step A A'"
| collect: "agent_fs F npids npy \<Longrightarrow> CollectProfiles E F visit keys (ag_session A, ag_maps A) = Some (ps, s, M) \<Longrightarrow>
    agent_step A (A\<lparr>ag_session := s, ag_maps := M\<rparr>)"

inductive agent_run :: "agent \<Rightarrow> agent \<Rightarrow> bool" where
  start: "agent_run A A"
| step: "agent_run A B \<Longrightarrow> agent_step B C \<Longrightarrow> agent_run A C"

section \<open>Python processes are backed by their data\<close>

definition cache_ok :: "go_perf option \<Rightarrow> (s32 \<rightharpoonup> py_pid_data) \<Rightarrow> bool" where
  "cache_ok perf m \<longleftrightarrow> (\<forall>p pr pf. perf = Some pf \<longrightarrow> pidCache pf p = Some pr \<longrightarrow> m (ucast p) = Some (PerfPyPidData pr))"

definition python_cached :: "session \<Rightarrow> bool" where
  "python_cached s \<longleftrightarrow> (\<forall>p i. pids_all s p = Some i \<longrightarrow> pi_typ i = PROFILING_TYPE_PYTHON \<longrightarrow>
     (\<exists>pf. pyperf s = Some pf \<and> pidCache pf p \<noteq> None))"

definition backed :: "session \<times> ('m) agent_maps_scheme \<Rightarrow> bool" where
  "backed sm \<longleftrightarrow> cache_ok (pyperf (fst sm)) (py_pid_config (snd sm)) \<and> python_cached (fst sm)"

lemma ucast_s32_inj: "(ucast (p :: u32) :: s32) = ucast q \<longleftrightarrow> p = q"
  by (simp add: unsigned_ucast_eq)

definition python_cached_but :: "u32 \<Rightarrow> session \<Rightarrow> bool" where
  "python_cached_but pid s \<longleftrightarrow> (\<forall>p i. p \<noteq> pid \<longrightarrow> pids_all s p = Some i \<longrightarrow> pi_typ i = PROFILING_TYPE_PYTHON \<longrightarrow>
     (\<exists>pf. pyperf s = Some pf \<and> pidCache pf p \<noteq> None))"

lemma python_cached_but: "python_cached s \<Longrightarrow> python_cached_but pid s"
  by (auto simp: python_cached_def python_cached_but_def)

lemma setPidConfig_backed:
  assumes "cache_ok (pyperf (fst sm)) (py_pid_config (snd sm))" "python_cached_but pid (fst sm)"
    and "pi_typ info = PROFILING_TYPE_PYTHON \<Longrightarrow> \<exists>pf. pyperf (fst sm) = Some pf \<and> pidCache pf pid \<noteq> None"
  shows "backed (setPidConfig F pid info u k sm)"
  using assms
  by (cases sm) (auto simp: backed_def setPidConfig_def cache_ok_def python_cached_def python_cached_but_def split: if_splits)

lemma python_failed_backed: "backed sm \<Longrightarrow> backed (python_failed F pid info sm)"
  unfolding python_failed_def
  by (rule setPidConfig_backed) (simp_all add: profiling_types backed_def python_cached_but)

text \<open>Removing a process from the cache and from the map, before or after its entry in \<open>pids_all\<close> goes.\<close>

lemma remove_python_cache:
  assumes del: "bpf_map_delete_present (fs_delete_py F)" and c: "cache_ok (pyperf s) (py_pid_config M)"
    and but: "python_cached_but pid s" and r: "remove_python F pid (s, M) = (s', M')"
  shows "cache_ok (pyperf s') (py_pid_config M') \<and> python_cached_but pid s' \<and> pids_all s' = pids_all s"
proof (cases "pyperf s")
  case None
  then show ?thesis using c but r by (simp add: remove_python_def)
next
  case (Some pf)
  have "s' = s\<lparr>pyperf := Some (pf\<lparr>pidCache := (pidCache pf)(pid := None)\<rparr>)\<rparr>"
    "py_pid_config M' = (py_pid_config M)(ucast pid := None)"
    using r Some bpf_map_delete_present.delete_snd [OF del] by (auto simp: remove_python_def RemoveDeadPID_def)
  then show ?thesis
    using c but Some by (auto simp: cache_ok_def python_cached_but_def ucast_s32_inj split: if_splits)
qed

lemma backed_kernel: "py_pid_config M' = py_pid_config M \<Longrightarrow> backed (s, M) \<Longrightarrow> backed (s, M')"
  by (simp add: backed_def)

context agent_fs
begin

lemma startProfilingLocked_backed:
  assumes "backed (ag_session A, ag_maps A)" "startProfilingLocked F pid target A = Some A'"
  shows "backed (ag_session A', ag_maps A')"
proof (cases "\<not> started (ag_session A) \<or> (\<exists>i. selectProfilingType F (ag_session A) pid target = Some i \<and> pi_typ i = PROFILING_TYPE_PYTHON)")
  case True
  then show ?thesis using assms by (auto simp: startProfilingLocked_def Let_def split: if_splits)
next
  case False
  let ?s = "ag_session A" and ?M = "ag_maps A"
  define sm where "sm = forget_python F pid (?s, ?M)"
  obtain i where i: "selectProfilingType F ?s pid target = Some i" "pi_typ i \<noteq> PROFILING_TYPE_PYTHON"
    using False assms(2) by (auto simp: startProfilingLocked_def Let_def split: option.splits)
  have "cache_ok (pyperf (fst sm)) (py_pid_config (snd sm)) \<and> python_cached_but pid (fst sm)"
    using remove_python_cache [OF py_map(2), of ?s ?M pid] assms(1)
    by (cases "remove_python F pid (?s, ?M)")
       (auto simp: sm_def forget_python_def backed_def python_cached_but split: option.splits)
  then have "backed (setPidConfig F pid i u k sm)" for u k
    using i(2) by (intro setPidConfig_backed) simp_all
  moreover obtain s' M' where sc: "setPidConfig F pid i (CollectUser (options ?s)) (collectKernelEnabled F ?s target) sm = (s', M')"
    by (metis surj_pair)
  moreover have "A' = A\<lparr>ag_session := s', ag_maps := M'\<rparr>"
    using assms(2) False i sc [unfolded sm_def] by (simp add: startProfilingLocked_def)
  ultimately show ?thesis by (metis agent.select_convs(1,2) agent.surjective agent.update_convs(1,2))
qed

lemma serve_request_backed:
  assumes "backed (ag_session A, ag_maps A)" "serve_request F pid A = Some A'"
  shows "backed (ag_session A', ag_maps A')"
proof (cases "find_pid_target F pid")
  case None
  then show ?thesis
    using assms
    by (auto simp: serve_request_def saveUnknownPIDLocked_def backed_def python_cached_def split: if_splits)
next
  case (Some t)
  then show ?thesis
    using assms startProfilingLocked_backed [of A pid t A'] by (auto simp: serve_request_def split: if_splits)
qed

lemma getPyPerfLocked_backed:
  assumes "backed (s, M)" "getPyPerfLocked F (s, M) = (x, s', M')"
  shows "backed (s', M') \<and> (\<forall>pf. x = Some pf \<longrightarrow> pyperf s' = Some pf)"
proof (cases "pyperf s")
  case None
  then show ?thesis
    using assms
    by (auto simp: getPyPerfLocked_def backed_def cache_ok_def python_cached_def NewPerf_def
        split: if_splits load_result.splits)
next
  case (Some pf)
  then show ?thesis using assms by (simp add: getPyPerfLocked_def)
qed

lemma NewProc_backed:
  assumes "backed (s, M)" "pyperf s = Some pf" "FindProc pf pid = None"
    and "NewProc (fs_update_py F) pid dat full (py_pid_config M) pf = (r, m, pf')"
  shows "backed (s\<lparr>pyperf := Some pf'\<rparr>, M\<lparr>py_pid_config := m\<rparr>) \<and> (\<forall>pr. r = Inr pr \<longrightarrow> pidCache pf' pid \<noteq> None)"
proof -
  obtain rc m1 where u: "fs_update_py F (py_pid_config M) (ucast pid) dat BPF_ANY = (rc, m1)" by (metis surj_pair)
  show ?thesis
    using assms u bpf_hash_map.update_ok [OF py_map(1), of "py_pid_config M" "ucast pid" dat BPF_ANY m1]
      bpf_hash_map.update_fail [OF py_map(1), of "py_pid_config M" "ucast pid" dat BPF_ANY rc m1]
    by (cases "rc = 0")
       (auto simp: NewProc_def FindProc_def Let_def backed_def cache_ok_def python_cached_def ucast_s32_inj split: if_splits)
qed

lemma startPythonProfiling_backed:
  assumes "backed (s, M)" "startPythonProfiling F pid target info (s, M) = (retry, sm)"
  shows "backed sm"
proof -
  obtain x s1 M1 where g: "getPyPerfLocked F (s, M) = (x, s1, M1)" by (metis surj_pair)
  note b = getPyPerfLocked_backed [OF assms(1) g]
  have set_ok: "backed (setPidConfig F pid info u k (s', M'))"
    if "backed (s', M')" "pyperf s' = Some pf" "pidCache pf pid \<noteq> None" for s' M' pf u k
    using that by (intro setPidConfig_backed) (auto simp: backed_def python_cached_but)
  show ?thesis
  proof (cases "started s \<and> pid \<notin> pids_dead s")
    case run: True
    show ?thesis
    proof (cases x)
      case None
      then show ?thesis
        using assms(2) g run b by (auto simp: startPythonProfiling_def intro: python_failed_backed)
    next
      case (Some pf)
      with b have pf: "pyperf s1 = Some pf" "backed (s1, M1)" by simp_all
      show ?thesis
      proof (cases "pid_data F pid")
        case None
        then show ?thesis
          using assms(2) g run Some pf by (auto simp: startPythonProfiling_def intro: python_failed_backed)
      next
        case d: (Some dat)
        show ?thesis
        proof (cases "FindProc pf pid")
          case None
          obtain r m pf' where n: "NewProc (fs_update_py F) pid dat (targetFullFilePath F s1 target) (py_pid_config M1) pf = (r, m, pf')"
            by (metis surj_pair)
          note nb = NewProc_backed [OF pf(2,1) None n]
          then have nb': "backed (s1\<lparr>pyperf := Some pf'\<rparr>, M1\<lparr>py_pid_config := m\<rparr>)" by blast
          show ?thesis
            using assms(2) g run Some d None n nb nb' set_ok [OF nb'] python_failed_backed [OF nb']
            by (cases r) (auto simp: startPythonProfiling_def)
        next
          case p: (Some pr)
          then show ?thesis
            using assms(2) g run Some d set_ok [OF pf(2,1)] by (auto simp: startPythonProfiling_def FindProc_def)
        qed
      qed
    qed
  qed (use assms in \<open>auto simp: startPythonProfiling_def split: if_splits\<close>)
qed

lemma UpdateTargets_backed:
  "UpdateTargets F ps A = Some A' \<Longrightarrow> backed (ag_session A, ag_maps A) \<Longrightarrow> backed (ag_session A', ag_maps A')"
proof (induction ps arbitrary: A)
  case (Cons pid ps)
  show ?case
  proof (cases "find_pid_target F pid")
    case None
    then show ?thesis using Cons by simp
  next
    case (Some t)
    then obtain B where B: "startProfilingLocked F pid t A = Some B"
      "UpdateTargets F ps (B\<lparr>ag_session := (ag_session B)\<lparr>pids_unknown := pids_unknown (ag_session B) - {pid}\<rparr>\<rparr>) = Some A'"
      using Cons.prems(1) by (auto split: option.splits)
    have "backed (ag_session B, ag_maps B)" by (rule startProfilingLocked_backed [OF Cons.prems(2) B(1)])
    then show ?thesis using Cons.IH [OF B(2)] by (simp add: backed_def python_cached_def)
  qed
qed simp

lemma cleanup_dead_backed: "backed sm \<Longrightarrow> backed (cleanup_dead F pid sm)"
proof -
  assume b: "backed sm"
  obtain s M where sm: "sm = (s, M)" by (cases sm)
  let ?s = "s\<lparr>pids_dead := pids_dead s - {pid}, pids_unknown := pids_unknown s - {pid}, pids_all := (pids_all s)(pid := None)\<rparr>"
  obtain s' M' where r: "remove_python F pid (?s, M) = (s', M')" by (metis surj_pair)
  have "cache_ok (pyperf s') (py_pid_config M') \<and> python_cached_but pid s' \<and> pids_all s' = pids_all ?s"
    using b by (intro remove_python_cache [OF py_map(2) _ _ r]) (auto simp: sm backed_def python_cached_def python_cached_but_def)
  then have "backed (s', M')"
    by (auto simp: backed_def python_cached_def python_cached_but_def split: if_splits)
  then show ?thesis using r by (simp add: sm cleanup_dead_def)
qed

lemma cleanup_backed: "backed sm \<Longrightarrow> backed (cleanup F dead unknown keys sm)"
proof -
  assume b: "backed sm"
  obtain s M where f: "fold (cleanup_dead F) dead sm = (s, M)" by (metis surj_pair)
  have 1: "backed (fold (cleanup_dead F) ps sm)" for ps using b
    by (induction ps arbitrary: sm) (simp_all add: cleanup_dead_backed)
  have u: "backed (t, M) \<Longrightarrow> backed (cleanup_unknown F p t, M)" for t p
    by (auto simp: cleanup_unknown_def backed_def python_cached_def split: if_splits)
  have "backed (t, M) \<Longrightarrow> backed (fold (cleanup_unknown F) ps t, M)" for t ps
    by (induction ps arbitrary: t) (simp_all add: u)
  then have "backed (fold (cleanup_unknown F) unknown s, M)" using 1 [of dead] f by simp
  then show ?thesis by (auto simp: cleanup_def f Let_def backed_def)
qed

lemma CollectProfiles_backed:
  assumes "backed (s, M)" "CollectProfiles E F visit keys (s, M) = Some (ps, sm)"
  shows "backed sm"
proof -
  obtain r ps' s' M' where c: "collectRegularProfile E (s\<lparr>roundNumber := Suc (roundNumber s)\<rparr>) M = Some (r, ps', s', M')"
    using assms(2) by (auto simp: CollectProfiles_def split: option.splits)
  have "map_option pidCache (pyperf s') = map_option pidCache (pyperf s)" "pids_all s' = pids_all s"
    "py_pid_config M' = py_pid_config M"
    using collect_configs [OF c] by simp_all
  then have "backed (s', M')"
    using assms(1) by (cases "pyperf s"; cases "pyperf s'") (auto simp: backed_def cache_ok_def python_cached_def)
  then show ?thesis
    using assms(2) c cleanup_backed by (auto simp: CollectProfiles_def split: sum.splits)
qed

lemma tryStart_backed:
  assumes "backed (ag_session A, ag_maps A)"
  shows "backed (ag_session (tryStartPythonProfiling F x A), ag_maps (tryStartPythonProfiling F x A))"
proof -
  obtain retry s M where "startPythonProfiling F (st_pid x) (st_target x) (st_info x) (ag_session A, ag_maps A) = (retry, s, M)"
    by (metis surj_pair)
  with startPythonProfiling_backed [OF assms this] assms show ?thesis
    by (simp add: tryStartPythonProfiling_def Let_def)
qed

lemma process_backed:
  assumes "backed (ag_session A, ag_maps A)"
    and "processPidInfoRequests F A = Some A' \<or> processPIDExecRequests F A = Some A'"
  shows "backed (ag_session A', ag_maps A')"
proof -
  have "serve_request F pid (A\<lparr>ag_info := q\<rparr>) = Some A' \<Longrightarrow> ?thesis"
    "serve_request F pid (A\<lparr>ag_exec := q\<rparr>) = Some A' \<Longrightarrow> ?thesis" for pid q
    using serve_request_backed [of "A\<lparr>ag_info := q\<rparr>"] serve_request_backed [of "A\<lparr>ag_exec := q\<rparr>"] assms(1) by simp_all
  with assms show ?thesis
    by (auto simp: processPidInfoRequests_def processPIDExecRequests_def split: list.splits)
qed

end

lemma agent_step_backed:
  assumes "agent_step A B" "backed (ag_session A, ag_maps A)"
  shows "backed (ag_session B, ag_maps B)"
  using assms
proof (induction rule: agent_step.induct)
  case (sample A' A ar K fuel)
  then show ?case by (simp add: backed_def do_perf_event_py_config)
next
  case (exit A' A K on_exit)
  then show ?case by (simp add: backed_def disassociate_ctty_def output_event_def Let_def)
next
  case (exec A' A K)
  then show ?case by (simp add: backed_def exec_def output_event_def Let_def)
next
  case (read A' A)
  then show ?case by (simp add: backed_def readEvents_def Let_def split: list.split)
next
  case (info F npids npy A A')
  then show ?case using agent_fs.process_backed by blast
next
  case (exec_request F npids npy A A')
  then show ?case using agent_fs.process_backed by blast
next
  case (dead A' A)
  then show ?case by (simp add: backed_def python_cached_def processDeadPIDsEvents_def split: list.split)
next
  case (start F npids npy A' x A)
  then show ?case using agent_fs.tryStart_backed by blast
next
  case (targets F npids npy ps A A')
  then show ?case using agent_fs.UpdateTargets_backed by blast
next
  case (reconfigure A' opts A)
  then show ?case by (simp add: backed_def python_cached_def Update_def)
next
  case (collect F npids npy E visit keys A ps s M)
  then show ?case using agent_fs.CollectProfiles_backed [OF collect(1,3,2)] by simp
qed

section \<open>Requests\<close>

text \<open>The configuration the agent writes for a process profiled by frame pointers.\<close>

definition fp_config_of :: "proc_fs \<Rightarrow> session \<Rightarrow> nat \<Rightarrow> pid_config" where
  "fp_config_of F s target =
     \<lparr>pc_type = PROFILING_TYPE_FRAMEPOINTERS, collect_user = uint8FromBool (CollectUser (options s)),
      pc_collect_kernel = uint8FromBool (collectKernelEnabled F s target), padding_ = 0\<rparr>"

text \<open>A process that the agent would profile by frame pointers.\<close>

definition wants_fp :: "proc_fs \<Rightarrow> session \<Rightarrow> u32 \<Rightarrow> nat \<Rightarrow> bool" where
  "wants_fp F s pid target \<longleftrightarrow> started s \<and> pid \<notin> pids_dead s \<and> find_pid_target F pid = Some target \<and>
     (\<exists>info. selectProfilingType F s pid target = Some info \<and> pi_typ info = PROFILING_TYPE_FRAMEPOINTERS)"

lemma forget_python_sel:
  "pids (snd (forget_python F pid (s, M))) = pids M" "counts (snd (forget_python F pid (s, M))) = counts M"
  "events (snd (forget_python F pid (s, M))) = events M"
  "pids_dead (fst (forget_python F pid (s, M))) = pids_dead s"
  "pids_unknown (fst (forget_python F pid (s, M))) = pids_unknown s"
  "roundNumber (fst (forget_python F pid (s, M))) = roundNumber s"
  by (auto simp: forget_python_def remove_python_def split: option.split prod.split)

lemma serve_fp:
  assumes "agent_fs F npids npy" "wants_fp F (ag_session A) pid target"
    and "pid \<in> dom (pids (ag_maps A)) \<or> card (dom (pids (ag_maps A))) < npids"
  shows "\<exists>A'. serve_request F pid A = Some A' \<and>
    pids (ag_maps A') = (pids (ag_maps A))(pid \<mapsto> fp_config_of F (ag_session A) target) \<and>
    counts (ag_maps A') = counts (ag_maps A) \<and> events (ag_maps A') = events (ag_maps A) \<and>
    ag_info A' = ag_info A \<and> ag_exec A' = ag_exec A \<and> ag_dead A' = ag_dead A \<and>
    pids_dead (ag_session A') = pids_dead (ag_session A) \<and> pids_unknown (ag_session A') = pids_unknown (ag_session A) \<and>
    roundNumber (ag_session A') = roundNumber (ag_session A)"
proof -
  obtain info where w: "started (ag_session A)" "pid \<notin> pids_dead (ag_session A)" "find_pid_target F pid = Some target"
    "selectProfilingType F (ag_session A) pid target = Some info" "pi_typ info = PROFILING_TYPE_FRAMEPOINTERS"
    using assms(2) by (auto simp: wants_fp_def)
  obtain s1 M1 where f: "forget_python F pid (ag_session A, ag_maps A) = (s1, M1)" by (metis surj_pair)
  note sel = forget_python_sel [of F pid "ag_session A" "ag_maps A", unfolded f, simplified]
  have u: "fs_update_pids F (pids (ag_maps A)) pid c BPF_ANY = (0, (pids (ag_maps A))(pid \<mapsto> c))" for c
    using bpf_hash_map_room.update_room [OF agent_fs.pids_map(1) [OF assms(1)]] assms(3) by blast
  show ?thesis
    using w by (simp add: serve_request_def startProfilingLocked_def Let_def f setPidConfig_def sel u fp_config_of_def profiling_types)
qed

section \<open>Properties\<close>

text \<open>C5: In every interleaving of the kernel programs, the goroutines of the agent and its rounds of
  collection, a process that the agent holds for a Python process has its interpreter data in the
  map that the Python programs read, and these are the data in the agent's own cache.\<close>

theorem python_process_backed:
  assumes "agent_run A B" "pyperf (ag_session A) = None" "pids_all (ag_session A) = Map.empty"
    and "pids_all (ag_session B) pid = Some info" "pi_typ info = PROFILING_TYPE_PYTHON"
  shows "\<exists>perf pr. pyperf (ag_session B) = Some perf \<and> pidCache perf pid = Some pr \<and>
    py_pid_config (ag_maps B) (ucast pid) = Some (PerfPyPidData pr)"
proof -
  have "backed (ag_session A, ag_maps A)" using assms(2,3) by (simp add: backed_def cache_ok_def python_cached_def)
  with assms(1) have "backed (ag_session B, ag_maps B)"
    by (induction rule: agent_run.induct) (simp_all add: agent_step_backed)
  then show ?thesis using assms(4,5) by (fastforce simp: backed_def cache_ok_def python_cached_def)
qed



text \<open>A Python process that executes another interpreter keeps the data of the first one: when
  the process is already known to the Python profiler, the data read for the new program are
  dropped, and neither the map nor the cache changes.\<close>

lemma exec_keeps_old_data:
  assumes "started s" "pid \<notin> pids_dead s" "pyperf s = Some perf" "FindProc perf pid = Some pr" "pid_data F pid = Some dat"
  shows "\<exists>s' M'. startPythonProfiling F pid target info (s, M) = (False, s', M') \<and>
    py_pid_config M' = py_pid_config M \<and> pyperf s' = pyperf s \<and> pids_all s' pid = Some info"
  using assms by (simp add: startPythonProfiling_def getPyPerfLocked_def setPidConfig_def)

text \<open>A process whose program can be read is profiled as Python exactly when its program is
  called \<open>uwsgi\<close>, or its name begins with \<open>python\<close> and Python profiling is enabled for its
  target: the switch does not apply to \<open>uwsgi\<close>.\<close>

lemma selectProfilingType_python:
  assumes "exe_link F pid = Some path" "comm_file F pid = Some cm" "cm \<noteq> []"
  shows "\<exists>info. selectProfilingType F s pid target = Some info \<and> pi_pid info = pid \<and>
    (pi_typ info = PROFILING_TYPE_PYTHON \<longleftrightarrow>
       filepath_Base path = go_str ''uwsgi'' \<or>
       (take 6 (filepath_Base path) = go_str ''python'' \<and> pythonEnabled F s target))"
  using assms by (auto simp: selectProfilingType_def Let_def profiling_types)

end
