(* ===== verification/Go_Witness.thy ===== *)
theory Go_Witness
  imports Witness Go_Trace Go_Lifecycle
begin

text \<open>
  The concrete process of the kernel side seen by the agent: strings decoded from its memory, one
  round of collection over the maps after one sample, and the handshake that configures it.
\<close>

section \<open>Strings\<close>

text \<open>A two-byte string object with the code point U+4E8C, whose low byte is 0x8C.\<close>

definition wide_mem :: memory where
  "wide_mem = seg_mem [(0x4000, w64 1 @ w64 0 @ w64 1 @ w64 0 @ w64 0x28 @ w64 0 @ w64 0 @ [0x8C, 0x4E])]"

definition wide_ob :: py_ascii_object where
  "wide_ob = \<lparr>ao_length = 1, ao_kind = 2, ao_compact = True, ao_ascii = False\<rparr>"

definition w_wide :: profile_kernel where
  "w_wide = w_base\<lparr>probe_read_user := ref_probe_read wide_mem\<rparr>"

lemma wide_str: "compact_str wide_mem w_offsets 0x4000 wide_ob [0x8C, 0x4E]"
proof -
  have "ascii_object (w64 1 @ w64 0 @ w64 1 @ w64 0 @ w64 0x28) = wide_ob"
    by (simp add: ascii_object_def wide_ob_def) (simp add: w64_def word_le_def le_word_def)
  then show ?thesis
    unfolding compact_str_def py_str_at_def
    by (simp add: wide_mem_def seg_simps sizeof_PyASCIIObject_def pystr_data_def w_offsets_def)
       (simp add: wide_ob_def nth_append)
qed

lemma ascii_strs: "ascii_ok file_ob file_chars" "ascii_ok name_ob name_chars" "ascii_ok wide_ob [0x8C, 0x4E]"
  by (simp_all add: ascii_ok_def file_ob_def name_ob_def file_chars_def name_chars_def wide_ob_def)


theorem python_string_sign_extends_witness:
  "\<exists>buf' ty'. pystr_read w_wide 0x4000 w_offsets (replicate 128 0) 128 \<lparr>str_type = 0, size_codepoints = 0\<rparr> = (0, buf', ty') \<and>
     PythonString buf' ty' = encode_rune 0xFF8C \<and> encode_rune 0xFF8C \<noteq> encode_rune 0x4E8C"
proof -
  have r: "probe_read_resident (probe_read_user w_wide) wide_mem"
    by (simp add: w_wide_def ref_read.probe_read_resident_axioms)
  have k: "ao_kind wide_ob = 2" by (simp add: wide_ob_def)
  have "code_points 2 [0x8C, 0x4E] = [0x4E8C]" by (simp add: code_points_def le_word_def)
  then show ?thesis
    using python_string_sign_extends [OF r wide_str ascii_strs(3) k, of 128 "replicate 128 0"]
    by (simp add: runes_string_def) (simp add: encode_rune_def)
qed

lemma w_texts: "str_text file_ob file_chars 128 = file_chars" "str_text name_ob name_chars 64 = name_chars"
  by (simp_all add: str_text_def decoded_point_def file_ob_def name_ob_def file_chars_def name_chars_def code_points_def
      runes_string_def upt_rec le_word_1) (simp_all add: encode_rune_def)

text \<open>The line \<open>a.py A.f\<close>.\<close>

theorem method_frame_text_witness:
  "\<exists>sy. get_names w_base2 0x2000 0x3000 w_offsets zero_symbol = (0, sy) \<and>
    python_frame True sy = Some (go_str ''a.py A.f'')"
proof -
  have c: "[0x41] \<noteq> ([] :: u8 list)" by simp
  have "short_filename True f = f" for f by (simp add: short_filename_def)
  then show ?thesis
    using method_frame_text [OF w_base2_laws w_method(1,2) c w_method(3) ascii_strs(1) w_method(4) ascii_strs(2), of True]
    unfolding w_texts by (simp add: go_str_def file_chars_def name_chars_def)
qed

section \<open>A round\<close>

definition w_options :: session_options where
  "w_options = \<lparr>CollectUser = True, CollectKernel = True, UnknownSymbolModuleOffset = False,
     UnknownSymbolAddress = False, PythonEnabled = True, OptPythonFullFilePath = False\<rparr>"

definition w_proc :: go_proc where
  "w_proc = \<lparr>PerfPyPidData = w_pd, PythonFullFilePath = False\<rparr>"

definition w_session :: session where
  "w_session = \<lparr>options = w_options, roundNumber = 1, started = True,
     pyperf = Some (NewPerf\<lparr>pidCache := [7 \<mapsto> w_proc]\<rparr>), pyperfError = False, python_loaded = True,
     pids_unknown = {}, pids_dead = {},
     pids_all = [7 \<mapsto> \<lparr>pi_pid = 7, pi_comm = go_str ''web'', pi_exe = [], pi_typ = PROFILING_TYPE_PYTHON\<rparr>]\<rparr>"

definition w_amaps :: "pid_config \<Rightarrow> agent_maps" where
  "w_amaps c = \<lparr>counts = Map.empty, python_stacks = Map.empty, py_symbols = Map.empty, py_pid_config = [7 \<mapsto> w_pd],
     py_state_heap = (\<lambda>cpu k. if k = 0 then Some w_state else None), py_progs = init_py_progs,
     pids = [7 \<mapsto> c], events = [], progs = [0 \<mapsto> PYPERF_COLLECT], stacks = Map.empty\<rparr>"

text \<open>A library that reads the maps by iteration; \<open>es\<close> and \<open>ys\<close> are the entries it finds.\<close>

definition iter_dump :: "('k \<times> 'v) list \<Rightarrow> ('k, 'v) map_dump" where
  "iter_dump es = \<lparr>batch_entries = [], batch_not_exist = False, iter_entries = es, iter_err = False\<rparr>"

definition w_env :: "(sample_key \<times> u32) list \<Rightarrow> (py_symbol \<times> u32) list \<Rightarrow> agent_env" where
  "w_env es ys = \<lparr>find_target = (\<lambda>p. Some 0), proc_table = (\<lambda>p. Some (\<lambda>ip. \<lparr>sym_Start = 0, sym_Name = [], sym_Module = []\<rparr>)),
     kallsyms = (\<lambda>ip. \<lparr>sym_Start = 0, sym_Name = [], sym_Module = []\<rparr>), symbol_dumps = (\<lambda>n. iter_dump ys),
     counts_dump = iter_dump es, stacks_iter = Some [], python_stacks_iter = Some [],
     delete_counts = ref_delete, delete_stacks = ref_delete, delete_python_stacks = ref_delete\<rparr>"

lemma dump_iter: "dump_of (iter_dump es) m \<longleftrightarrow> set es = Map.graph m"
  by (simp add: dump_of_def iter_dump_def)

lemma w_round:
  assumes "maps_ok M" "set es = Map.graph (counts M)" "set ys = Map.graph (py_symbols M)"
  shows "round_ok (w_env es ys) w_session M"
  using assms by (simp add: round_ok_def w_env_def dump_iter w_session_def NewPerf_def table_of_def)

definition w_key7 :: sample_key where
  "w_key7 = \<lparr>k_pid = 7, k_flags = 1, kern_stack = -1, user_stack = -1\<rparr>"

definition w_round_maps :: agent_maps where
  "w_round_maps = (w_amaps py_config7)\<lparr>counts := [w_key7 \<mapsto> 1], python_stacks := [0xFFFFFFFF \<mapsto> [5, 0]], py_symbols := [w_sym \<mapsto> 5]\<rparr>"

lemma w_round_maps_ok: "round_ok (w_env [(w_key7, 1)] [(w_sym, 5)]) w_session w_round_maps"
  by (rule w_round) (simp_all add: w_round_maps_def w_amaps_def maps_ok_def inj_map_def graph_map_upd)


lemma w_deletes:
  "bpf_map_delete_present (delete_counts (w_env es ys))" "bpf_map_delete_present (delete_stacks (w_env es ys))"
  "bpf_map_delete_present (delete_python_stacks (w_env es ys))"
  by (simp_all add: w_env_def ref_del.bpf_map_delete_present_axioms)


section \<open>From the interrupt to the text\<close>

lemma ids_ok_inj: "ids_ok M \<Longrightarrow> inj_map (py_symbols M)"
  by (auto simp: ids_ok_def id_inv_def inj_map_def inj_on_def dom_def)

lemma inj_map_finite:
  fixes m :: "'k \<rightharpoonup> 'v::finite"
  assumes "inj_map m"
  shows "finite (Map.graph m)"
proof -
  have "inj_on snd (Map.graph m)" using assms by (auto simp: inj_on_def inj_map_def dest!: in_graphD)
  then show ?thesis by (rule finite_imageD [OF finite]) 
qed

lemma w_amaps_sel [simp]:
  "py_pid_config (w_amaps c) = [7 \<mapsto> w_pd]" "get_state K (w_amaps c) = Some w_state" "py_symbols (w_amaps c) = Map.empty"
  "python_stacks (w_amaps c) = Map.empty" "counts (w_amaps c) = Map.empty" "pids (w_amaps c) = [7 \<mapsto> c]"
  "py_progs (w_amaps c) PYTHON_PROG_IDX_READ_PYTHON_STACK = Some READ_PYTHON_STACK"
  "progs (w_amaps c) PROG_IDX_PYTHON = Some PYPERF_COLLECT" "stacks (w_amaps c) = Map.empty" "events (w_amaps c) = []"
  by (simp_all add: w_amaps_def get_state_def init_py_progs_def PROG_IDX_PYTHON_def)

lemma w_amaps_ids: "ids_ok (w_amaps c)" "heap_ctr (w_amaps c) cpu = 0"
  by (simp_all add: ids_ok_def id_inv_def heap_ctr_def w_amaps_def w_state_def)

lemma w_line: "python_lines False [w_sym] = [go_str ''a.py f'']"
proof -
  have "python_frame False w_sym = Some (file_chars @ go_str '' '' @ name_chars)"
    unfolding w_sym_def
    by (subst function_frame [OF _ ascii_strs(1) _ ascii_strs(2) refl refl])
       (simp_all add: w_texts, simp_all add: file_ob_def name_ob_def short_filename_def file_chars_def slash_def skipPythonFrame_def go_str_def)
  then show ?thesis
    by (simp add: python_lines_def frame_lines_def file_chars_def name_chars_def go_str_def)
qed

lemma w_sampled:
  assumes "pyperf_collect X86 w_base 3 (w_amaps c) = (rc, M1)"
  shows "maps_ok M1 \<and> finite (Map.graph (py_symbols M1)) \<and> finite (Map.graph (counts M1))"
proof -
  have "ids_ok (snd (pyperf_collect X86 w_base 3 (w_amaps c)))"
    using pyperf_collect_impl_ids [OF w_hash(2,1), of "w_amaps c" 3 X86 7] w_amaps_ids
    by (simp add: pyperf_collect_def ctr_bound_def)
  then have "inj_map (py_symbols M1)" using ids_ok_inj assms by simp
  moreover have "stacks M1 = Map.empty"
    using pyperf_collect_other [of X86 w_base 3 "w_amaps c"] assms
    by (cases M1) (simp add: other_maps_def w_amaps_def)
  moreover have "finite (dom (counts M1))"
  proof -
    have "\<exists>M' h xs. pyperf_collect X86 w_base 3 (w_amaps c) = (0, M') \<and>
      py_symbols (w_amaps c) \<subseteq>\<^sub>m py_symbols M' \<and> set [w_sym] \<subseteq> dom (py_symbols M') \<and>
      python_stacks M' (ucast h) = Some xs \<and> decode_stack xs = map (\<lambda>s. the (py_symbols M' s)) [w_sym] \<and>
      counts M' = count_sample (update_counts w_base) (counts (w_amaps c))
        \<lparr>k_pid = 7, k_flags = (if Complete = Complete then 1 else 3),
         kern_stack = (if collect_kernel w_pd \<noteq> 0 then get_stackid w_base KERN_STACKID_FLAGS else -1), user_stack = h\<rparr>"
      using w_top w_walk w_amaps_ids
      by (intro collect_records [OF w_py_kernel _ _ _ _ w_state_wf w_thread, where fp = "0x2000"])
         (simp_all add: w_pd_def ctr_bound_def PROFILE_MAPS_SIZE_def)
    then show ?thesis using assms by (auto simp: count_sample_def ref_update_def)
  qed
  ultimately show ?thesis using inj_map_finite [of "py_symbols M1"] by (simp add: maps_ok_def finite_graph_iff_finite_dom)
qed

definition w_builders :: BuildersOptions where
  "w_builders = \<lparr>SampleRate = 100, PerPIDProfile = False\<rparr>"

lemma w_period: "period_for w_builders (builder_key lh w_builders x) = (if ps_type x = SampleTypeCpu then 10000000 else 512 * 1024)"
  by (simp add: period_for_def period_of_def builder_key_def w_builders_def)

theorem python_sample_to_text_witness:
  "\<exists>E M1 k v r ps s' M2 x bs p. snd (do_perf_event X86 w_base 4 (w_amaps py_config7)) = M1 \<and>
    collectRegularProfile E w_session M1 = Some (r, ps, s', M2) \<and> k_pid k = 7 \<and>
    x = \<lparr>ps_target = 0, ps_pid = 7, ps_type = SampleTypeCpu, ps_aggregated = True,
      ps_stack = kernel_lines E w_session M1 k @ [go_str ''a.py f'', go_str ''web''], ps_value = ucast (v :: u32),
      ps_value2 = 0\<rparr> \<and> x \<in> set ps \<and>
    Collect_samples of_nat (\<lambda>bs. 0) w_builders ps Map.empty = Some bs \<and> bs (builder_key of_nat w_builders x) = Some p \<and>
    (ps_stack x, [ucast v * 10000000]) \<in> set (decode p)"
proof -
  let ?M = "w_amaps py_config7"
  obtain rc M1 where run: "do_perf_event X86 w_base 4 ?M = (rc, M1)" by (metis surj_pair)
  then have c: "pyperf_collect X86 w_base 3 ?M = (rc, M1)"
    by (simp add: do_perf_event_user [OF w_user_thread] profile_process_def py_config7_def profiling_types)
  note ok = w_sampled [OF c]
  then obtain ys where ys: "set ys = Map.graph (py_symbols M1)" using finite_list by blast
  obtain es where es: "set es = Map.graph (counts M1)" using ok finite_list by blast
  have r: "round_ok (w_env es ys) w_session M1" using ok w_round es ys by blast
  have a: "agent_profiles (w_env es ys) w_session 7 w_proc"
    by (simp add: agent_profiles_def w_env_def w_session_def w_options_def FindProc_def)
  have f: "PythonFullFilePath w_proc = False" by (simp add: w_proc_def)
  have room: "bpf_hash_map_room (update_counts w_base) PROFILE_MAPS_SIZE" by (simp add: ref_map.bpf_hash_map_room_axioms)
  have "\<exists>k v r ps s' M2 x bs p. collectRegularProfile (w_env es ys) w_session M1 = Some (r, ps, s', M2) \<and>
    k_pid k = 7 \<and> counts M1 = count_sample (update_counts w_base) (counts ?M) k \<and> counts M1 k = Some v \<and>
    x = python_report (w_env es ys) w_session M1 k v (PythonFullFilePath w_proc) [w_sym] \<and> x \<in> set ps \<and>
    Collect_samples of_nat (\<lambda>bs. 0) w_builders ps Map.empty = Some bs \<and> bs (builder_key of_nat w_builders x) = Some p \<and>
    (ps_stack x, [ucast v * period_for w_builders (builder_key of_nat w_builders x)]) \<in> set (decode p)"
    using w_top w_walk w_amaps_ids
    by (intro python_sample_to_text [OF w_py_kernel room w_user_thread _ _ _ _ _ _ w_state_wf w_thread _ _ _ _ _ _ _ _ _ _ _ _ _ run _ r a, where fp = "0x2000" and e = Complete and c = py_config7])
       (simp_all add: w_pd_def ctr_bound_def PROFILE_MAPS_SIZE_def py_config7_def w_line w_proc_def w_builders_def)
  then obtain k v r ps s' M2 bs p where p: "collectRegularProfile (w_env es ys) w_session M1 = Some (r, ps, s', M2)"
    "k_pid k = 7" "python_report (w_env es ys) w_session M1 k v False [w_sym] \<in> set ps"
    "Collect_samples of_nat (\<lambda>bs. 0) w_builders ps Map.empty = Some bs"
    "bs (builder_key of_nat w_builders (python_report (w_env es ys) w_session M1 k v False [w_sym])) = Some p"
    "(ps_stack (python_report (w_env es ys) w_session M1 k v False [w_sym]), [ucast v * 10000000]) \<in> set (decode p)"
    unfolding f by (auto simp: w_period python_report_def)
  have w: "comm w_session 7 = go_str ''web''" by (simp add: comm_def w_session_def go_str_def)
  have q: "python_report (w_env es ys) w_session M1 k v False [w_sym] =
    \<lparr>ps_target = 0, ps_pid = 7, ps_type = SampleTypeCpu, ps_aggregated = True,
      ps_stack = kernel_lines (w_env es ys) w_session M1 k @ [go_str ''a.py f'', go_str ''web''],
      ps_value = ucast v, ps_value2 = 0\<rparr>"
    by (simp add: python_report_def w_line w p(2) w_env_def)
  show ?thesis
    by (rule exI [of _ "w_env es ys"], rule exI [of _ M1], rule exI [of _ k], rule exI [of _ v], rule exI [of _ r],
        rule exI [of _ ps], rule exI [of _ s'], rule exI [of _ M2],
        rule exI [of _ "python_report (w_env es ys) w_session M1 k v False [w_sym]"], rule exI [of _ bs], rule exI [of _ p])
       (use run p q in simp)
qed

section \<open>The life of a process\<close>

definition w_fs :: proc_fs where
  "w_fs = \<lparr>exe_link = (\<lambda>p. Some (go_str ''/bin/sh'')), comm_file = (\<lambda>p. Some (go_str ''sh'')), alive = (\<lambda>p. True),
     status_file = (\<lambda>p. True), pid_data = (\<lambda>p. Some w_pd), load_result = Load_ok, target_python = (\<lambda>t. None),
     target_kernel = (\<lambda>t. None), target_full_path = (\<lambda>t. None), find_pid_target = (\<lambda>p. Some 0),
     fs_update_pids = ref_update 2048, fs_delete_pids = ref_delete, fs_update_py = ref_update 2048, fs_delete_py = ref_delete\<rparr>"

lemma w_fs_laws: "agent_fs w_fs 2048 2048"
  using ref_agent.agent_fs_axioms [of w_fs] by (simp add: ref_fs_def w_fs_def)

definition w_agent :: "u32 list \<Rightarrow> agent" where
  "w_agent q = \<lparr>ag_session = w_session\<lparr>pyperf := None, pids_all := Map.empty\<rparr>,
     ag_maps = (w_amaps fp_config)\<lparr>pids := Map.empty\<rparr>, ag_info = q, ag_exec = [], ag_dead = [], ag_starts = []\<rparr>"

lemma w_wants_fp: "wants_fp w_fs (ag_session (w_agent q)) 7 0"
  by (simp add: wants_fp_def w_agent_def w_session_def w_fs_def selectProfilingType_def Let_def filepath_Base_def go_str_def
      slash_def profiling_types pythonEnabled_def flag_or_def w_options_def)



text \<open>A run in which a waiting goroutine configures the process as a Python process.\<close>

definition w_start :: python_start where
  "w_start = \<lparr>st_pid = 7, st_target = 0, st_info = (error_info 7)\<lparr>pi_typ := PROFILING_TYPE_PYTHON\<rparr>, st_attempt = 0\<rparr>"

theorem python_process_backed_witness:
  "\<exists>B perf pr. agent_run ((w_agent [])\<lparr>ag_starts := [w_start]\<rparr>) B \<and>
     pyperf (ag_session B) = Some perf \<and> pidCache perf 7 = Some pr \<and> py_pid_config (ag_maps B) 7 = Some (PerfPyPidData pr)"
proof -
  let ?A = "(w_agent [])\<lparr>ag_starts := [w_start]\<rparr>"
  let ?B = "tryStartPythonProfiling w_fs w_start ?A"
  have run: "agent_run ?A ?B"
    by (rule agent_run.step [OF agent_run.start]) (rule agent_step.start [OF w_fs_laws refl])
  have "pids_all (ag_session ?B) 7 = Some (st_info w_start)" "pi_typ (st_info w_start) = PROFILING_TYPE_PYTHON"
    by (simp_all add: tryStartPythonProfiling_def startPythonProfiling_def w_start_def w_agent_def w_session_def
        getPyPerfLocked_def w_fs_def FindProc_def NewPerf_def NewProc_def ref_update_def setPidConfig_def Let_def BPF_ANY_def BPF_NOEXIST_def BPF_EXIST_def)
  with python_process_backed [OF run, of 7 "st_info w_start"] run show ?thesis
    by (fastforce simp: w_agent_def)
qed

end
