(* ===== verification/Go_Pcindex.thy ===== *)
theory Go_Pcindex
  imports Go_Base
begin

text \<open>
  \<open>ebpf/symtab/gosym/pcindex.go\<close>: an array of addresses that is kept with 32 bits per entry as
  long as every value fits and is widened to 64 bits by the first one that does not. A nil slice is
  \<open>None\<close>; an index out of range is a panic, also \<open>None\<close>.

  The lemmas show that an index filled from front to back holds the values it was given, whatever
  their width, and what \<open>FindIndex\<close> finds in a sorted index: the first position of the greatest
  value not above the address. They hold for 32-bit indices below address \<open>2 ^ 32\<close> only, because
  the search cuts the address down to 32 bits; beyond, the search panics or answers for another
  address.
\<close>

section \<open>Operations\<close>

record PCIndex =
  i32 :: "u32 list option"
  i64 :: "u64 list option"

definition MaxUint32 :: u64 where "MaxUint32 = 0xFFFFFFFF"

definition NewPCIndex :: "nat \<Rightarrow> PCIndex" where
  "NewPCIndex sz = \<lparr>i32 = Some (replicate sz 0), i64 = None\<rparr>"

definition index_set :: "'a list \<Rightarrow> nat \<Rightarrow> 'a \<Rightarrow> 'a list option" where
  "index_set xs i v = (if i < length xs then Some (xs[i := v]) else None)"

definition index_get :: "'a list \<Rightarrow> nat \<Rightarrow> 'a option" where
  "index_get xs i = (if i < length xs then Some (xs ! i) else None)"

text \<open>The wider copy takes the entries in front of \<open>idx\<close>; those behind it become zero.\<close>

definition setImpl :: "nat \<Rightarrow> u64 \<Rightarrow> PCIndex \<Rightarrow> PCIndex option" where
  "setImpl idx value it =
     (case i32 it of
        Some v \<Rightarrow>
          if MaxUint32 \<le> value
          then map_option (\<lambda>Values64. \<lparr>i32 = None, i64 = Some Values64\<rparr>)
                 (index_set (map ucast (take idx v) @ replicate (length v - idx) 0) idx value)
          else map_option (\<lambda>v. it\<lparr>i32 := Some v\<rparr>) (index_set v idx (ucast value))
      | None \<Rightarrow>
          (case i64 it of
             None \<Rightarrow> None
           | Some v \<Rightarrow> map_option (\<lambda>v. it\<lparr>i64 := Some v\<rparr>) (index_set v idx value)))"

definition Set :: "nat \<Rightarrow> u64 \<Rightarrow> PCIndex \<Rightarrow> PCIndex option" where
  "Set idx value it =
     (case i32 it of
        Some v \<Rightarrow>
          if value < MaxUint32 then map_option (\<lambda>v. it\<lparr>i32 := Some v\<rparr>) (index_set v idx (ucast value))
          else setImpl idx value it
      | None \<Rightarrow> setImpl idx value it)"

definition Length :: "PCIndex \<Rightarrow> nat" where
  "Length it =
     (case i32 it of Some v \<Rightarrow> length v | None \<Rightarrow> (case i64 it of Some v \<Rightarrow> length v | None \<Rightarrow> 0))"

definition Get :: "nat \<Rightarrow> PCIndex \<Rightarrow> u64 option" where
  "Get idx it =
     (case i32 it of
        Some v \<Rightarrow> map_option ucast (index_get v idx)
      | None \<Rightarrow> (case i64 it of Some v \<Rightarrow> index_get v idx | None \<Rightarrow> None))"

definition Value :: "nat \<Rightarrow> PCIndex \<Rightarrow> u64 option" where
  "Value idx it =
     (case i32 it of
        Some v \<Rightarrow> map_option ucast (index_get v idx)
      | None \<Rightarrow> (case i64 it of Some v \<Rightarrow> index_get v idx | None \<Rightarrow> None))"

definition Is32 :: "PCIndex \<Rightarrow> bool" where
  "Is32 it \<longleftrightarrow> i32 it \<noteq> None"

definition First :: "PCIndex \<Rightarrow> u64 option" where
  "First it =
     (case i32 it of
        Some v \<Rightarrow> map_option ucast (index_get v 0)
      | None \<Rightarrow> (case i64 it of Some v \<Rightarrow> index_get v 0 | None \<Rightarrow> None))"

definition PCIndex64 :: "PCIndex \<Rightarrow> PCIndex" where
  "PCIndex64 it =
     (if i64 it \<noteq> None then it
      else \<lparr>i32 = None, i64 = Some (case i32 it of Some v \<Rightarrow> map ucast v | None \<Rightarrow> [])\<rparr>)"

text \<open>The loop back to the first of equal values.\<close>

fun first_equal :: "'a list \<Rightarrow> 'a \<Rightarrow> nat \<Rightarrow> nat" where
  "first_equal xs v 0 = 0"
| "first_equal xs v (Suc i) = (if xs ! i = v then first_equal xs v i else Suc i)"

text \<open>The search in one of the arrays; the entry in front of position 0 is a panic.\<close>

definition find_in :: "'a::linorder list \<Rightarrow> 'a \<Rightarrow> int option" where
  "find_in xs a =
     (let (i, found) = BinarySearch xs a
      in if found then Some (int i)
         else if i = 0 then None
         else Some (int (first_equal xs (xs ! (i - 1)) (i - 1))))"

definition FindIndex :: "u64 \<Rightarrow> PCIndex \<Rightarrow> int option" where
  "FindIndex a it =
     (case i32 it of
        Some v \<Rightarrow>
          if v = [] then None
          else if a < ucast (v ! 0) then Some (-1)
          else find_in v (ucast a)
      | None \<Rightarrow>
          (case i64 it of
             None \<Rightarrow> None
           | Some v \<Rightarrow>
               if v = [] then None
               else if a < v ! 0 then Some (-1)
               else find_in v a))"

section \<open>The values of an index\<close>

definition wf_index :: "PCIndex \<Rightarrow> bool" where
  "wf_index it \<longleftrightarrow> (i32 it = None) \<noteq> (i64 it = None)"

definition index_values :: "PCIndex \<Rightarrow> u64 list" where
  "index_values it =
     (case i32 it of Some v \<Rightarrow> map ucast v | None \<Rightarrow> (case i64 it of Some v \<Rightarrow> v | None \<Rightarrow> []))"

lemma index_values_observers:
  "Length it = length (index_values it)"
  "Get idx it = index_get (index_values it) idx" "Value idx it = Get idx it" "First it = Get 0 it"
  "wf_index it \<Longrightarrow> index_values (PCIndex64 it) = index_values it"
  by (auto simp: Length_def Get_def Value_def First_def index_values_def index_get_def PCIndex64_def wf_index_def split: option.splits)

lemma unat_ucast_u32: "unat (ucast (x :: u32) :: u64) = unat x"
  using unsigned_less [of x, where ?'a = nat] by (simp add: unsigned_ucast_eq take_bit_nat_eq_self)

lemma ucast_u32: "unat (a :: u64) < 2 ^ 32 \<Longrightarrow> (ucast (ucast a :: u32) :: u64) = a"
  by (rule word_unat_eq_iff [THEN iffD2])
    (simp add: unat_ucast_u32, simp add: unsigned_ucast_eq take_bit_nat_eq_self)

lemma ucast_u32_eq: "(ucast (x :: u32) :: u64) = ucast y \<longleftrightarrow> x = y"
  by (simp add: word_unat_eq_iff unat_ucast_u32)

lemma ucast_u32_mono:
  "(ucast (x :: u32) :: u64) \<le> ucast y \<longleftrightarrow> x \<le> y" "(ucast (x :: u32) :: u64) < ucast y \<longleftrightarrow> x < y"
  by (simp_all add: word_le_nat_alt word_less_nat_alt unat_ucast_u32)

lemma ucast_small: "a < MaxUint32 \<Longrightarrow> (ucast (ucast (a :: u64) :: u32) :: u64) = a"
  by (rule ucast_u32) (simp add: MaxUint32_def word_less_nat_alt)

text \<open>
  Writing position \<open>i\<close> keeps the entries in front of it. The widening step loses the ones behind
  it, unless they are still zero.
\<close>

lemma Set_values:
  assumes "wf_index it" "i < Length it" "\<And>j. i < j \<Longrightarrow> j < Length it \<Longrightarrow> index_values it ! j = 0"
  shows "\<exists>it'. Set i value it = Some it' \<and> wf_index it' \<and> index_values it' = (index_values it)[i := value] \<and>
    (Is32 it' \<longleftrightarrow> Is32 it \<and> value < MaxUint32)"
proof (cases "i32 it")
  case None
  then show ?thesis
    using assms by (auto simp: Set_def setImpl_def index_set_def wf_index_def index_values_def Length_def Is32_def)
next
  case (Some v)
  then have v: "i < length v" "i64 it = None" "\<And>j. i < j \<Longrightarrow> j < length v \<Longrightarrow> v ! j = 0"
    using assms ucast_u32_eq [of _ 0] by (auto simp: Length_def wf_index_def index_values_def)
  show ?thesis
  proof (cases "value < MaxUint32")
    case True
    with Some v(1,2) show ?thesis
      by (auto simp: Set_def index_set_def wf_index_def index_values_def map_update ucast_small Is32_def)
  next
    case False
    have "(map ucast (take i v) @ replicate (length v - i) 0)[i := value] = (map ucast v)[i := value]"
      using v(1,3) by (intro nth_equalityI) (auto simp: nth_list_update nth_append)
    with Some v(1) False show ?thesis
      by (auto simp: Set_def setImpl_def index_set_def wf_index_def index_values_def Is32_def)
  qed
qed

text \<open>The loop with which symbol tables fill an index, from position \<open>i\<close> on.\<close>

fun fill :: "nat \<Rightarrow> u64 list \<Rightarrow> PCIndex \<Rightarrow> PCIndex option" where
  "fill i [] it = Some it"
| "fill i (v # vs) it = Option.bind (Set i v it) (fill (Suc i) vs)"

lemma fill_values:
  assumes "wf_index it" "Length it = i + length vs" "\<And>j. i \<le> j \<Longrightarrow> j < Length it \<Longrightarrow> index_values it ! j = 0"
  shows "\<exists>it'. fill i vs it = Some it' \<and> wf_index it' \<and> index_values it' = take i (index_values it) @ vs \<and>
    (Is32 it' \<longleftrightarrow> Is32 it \<and> (\<forall>v\<in>set vs. v < MaxUint32))"
  using assms
proof (induction vs arbitrary: i it)
  case Nil
  then show ?case by (auto simp: index_values_observers)
next
  case (Cons v vs)
  then obtain it1 where it1: "Set i v it = Some it1" "wf_index it1" "index_values it1 = (index_values it)[i := v]"
      "Is32 it1 \<longleftrightarrow> Is32 it \<and> v < MaxUint32"
    using Set_values [of it i v] by auto
  have l: "length (index_values it) = i + Suc (length vs)" using Cons.prems(2) by (simp add: index_values_observers)
  have "\<exists>it'. fill (Suc i) vs it1 = Some it' \<and> wf_index it' \<and> index_values it' = take (Suc i) (index_values it1) @ vs \<and>
      (Is32 it' \<longleftrightarrow> Is32 it1 \<and> (\<forall>v\<in>set vs. v < MaxUint32))"
    using it1 l Cons.prems(3) by (intro Cons.IH) (auto simp: index_values_observers nth_list_update)
  with it1 l show ?case by (auto simp: take_Suc_conv_app_nth)
qed

lemma NewPCIndex_fill:
  "\<exists>it. fill 0 vs (NewPCIndex (length vs)) = Some it \<and> wf_index it \<and> index_values it = vs \<and>
    (Is32 it \<longleftrightarrow> (\<forall>v\<in>set vs. v < MaxUint32))"
  using fill_values [of "NewPCIndex (length vs)" 0 vs]
  by (auto simp: NewPCIndex_def wf_index_def Length_def index_values_def Is32_def)

section \<open>Searching\<close>

text \<open>The first position of the greatest value not above \<open>a\<close>.\<close>

definition floor_at :: "'a::linorder list \<Rightarrow> 'a \<Rightarrow> nat \<Rightarrow> bool" where
  "floor_at xs a i \<longleftrightarrow> i < length xs \<and> xs ! i \<le> a \<and> (\<forall>j<i. xs ! j < xs ! i) \<and>
     (\<forall>j<length xs. xs ! j \<le> a \<longrightarrow> xs ! j \<le> xs ! i)"

lemma first_equal_first:
  "sorted xs \<Longrightarrow> i < length xs \<Longrightarrow> xs ! i = v \<Longrightarrow>
    first_equal xs v i \<le> i \<and> xs ! first_equal xs v i = v \<and> (\<forall>j<first_equal xs v i. xs ! j < v)"
proof (induction i)
  case (Suc i)
  have "xs ! j < v" if "xs ! i \<noteq> v" "j < Suc i" for j
    using that Suc.prems sorted_nth_mono [of xs j i] sorted_nth_mono [of xs i "Suc i"] by force
  with Suc show ?case by auto
qed simp

lemma find_in_floor:
  assumes "sorted xs" "xs \<noteq> []" "xs ! 0 \<le> a"
  shows "\<exists>i. find_in xs a = Some (int i) \<and> floor_at xs a i"
proof -
  define i where "i = sort_Search (length xs) (\<lambda>h. \<not> xs ! h < a)"
  have mono: "\<not> xs ! k < a" if "j \<le> k" "k < length xs" "\<not> xs ! j < a" for j k
    using that sorted_nth_mono [OF assms(1), of j k] by auto
  have lt: "xs ! k < a \<longleftrightarrow> k < i" if "k < length xs" for k
    using sort_Search_iff [of "length xs" "\<lambda>h. \<not> xs ! h < a" k] mono that unfolding i_def by (metis not_le)
  have i: "i \<le> length xs" unfolding i_def by (rule sort_Search_boundary)
  show ?thesis
  proof (cases "i < length xs \<and> xs ! i = a")
    case True
    then have "find_in xs a = Some (int i)" by (simp add: find_in_def BinarySearch_def i_def)
    moreover have "floor_at xs a i" using True lt by (auto simp: floor_at_def)
    ultimately show ?thesis by blast
  next
    case False
    then have "0 < i" using lt [of 0] assms by (cases "i = 0") (auto simp: not_less)
    let ?k = "first_equal xs (xs ! (i - 1)) (i - 1)"
    have k: "?k \<le> i - 1" "xs ! ?k = xs ! (i - 1)" "\<forall>j<?k. xs ! j < xs ! (i - 1)"
      using first_equal_first [OF assms(1), of "i - 1"] i \<open>0 < i\<close> by auto
    have "xs ! j \<le> xs ! (i - 1)" if "j < length xs" "xs ! j \<le> a" for j
    proof (cases "j < i")
      case True
      then show ?thesis using i by (intro sorted_nth_mono [OF assms(1)]) auto
    next
      case ge: False
      then have "i < length xs" "xs ! j = a" using that lt by (auto simp: le_less)
      moreover have "a \<le> xs ! i" using lt [of i] \<open>i < length xs\<close> by (simp add: not_less [symmetric])
      moreover have "xs ! i \<le> xs ! j" using ge that by (intro sorted_nth_mono [OF assms(1)]) auto
      ultimately show ?thesis using False by simp
    qed
    moreover have "xs ! (i - 1) < a" "i - 1 < length xs" using i \<open>0 < i\<close> lt [of "i - 1"] by auto
    ultimately have "floor_at xs a ?k"
      using k by (auto simp: floor_at_def)
    moreover have "find_in xs a = Some (int ?k)"
      using False \<open>0 < i\<close> by (auto simp: find_in_def BinarySearch_def i_def [symmetric] Let_def)
    ultimately show ?thesis by blast
  qed
qed

lemma floor_at_ucast:
  "floor_at (map ucast xs :: u64 list) (ucast (a :: u32)) i \<longleftrightarrow> floor_at xs a i"
  by (auto simp: floor_at_def ucast_u32_mono)

lemma FindIndex_below:
  "wf_index it \<Longrightarrow> index_values it \<noteq> [] \<Longrightarrow> a < index_values it ! 0 \<Longrightarrow> FindIndex a it = Some (-1)"
  by (auto simp: FindIndex_def index_values_def wf_index_def split: option.splits)

lemma FindIndex_floor:
  assumes "wf_index it" "sorted (index_values it)" "index_values it \<noteq> []" "Is32 it \<Longrightarrow> unat a < 2 ^ 32"
    and "index_values it ! 0 \<le> a"
  shows "\<exists>i. FindIndex a it = Some (int i) \<and> floor_at (index_values it) a i"
proof (cases "i32 it")
  case None
  then show ?thesis
    using assms find_in_floor [of "index_values it" a]
    by (auto simp: FindIndex_def index_values_def wf_index_def not_less split: option.splits)
next
  case (Some v)
  then have v: "v \<noteq> []" "index_values it = map ucast v" using assms(3) by (auto simp: index_values_def)
  have a: "(ucast (ucast a :: u32) :: u64) = a" using assms(4) Some by (intro ucast_u32) (simp add: Is32_def)
  have "sorted v" using assms(2) unfolding v(2) by (simp add: sorted_iff_nth_mono ucast_u32_mono)
  moreover have le: "v ! 0 \<le> ucast a" using assms(5) v a by (metis length_greater_0_conv nth_map ucast_u32_mono(1))
  ultimately obtain i where "find_in v (ucast a) = Some (int i)" "floor_at v (ucast a) i"
    using find_in_floor v(1) by blast
  moreover have "\<not> a < ucast (v ! 0)" using assms(5) v by (simp add: not_less)
  ultimately show ?thesis
    using Some v floor_at_ucast [of v "ucast a" i] by (simp add: FindIndex_def a)
qed

text \<open>The address is compared at full width first and then searched for with its low half.\<close>

lemma find_in_below:
  assumes "sorted xs" "xs \<noteq> []" "a < xs ! 0"
  shows "find_in xs a = None"
proof -
  have "\<not> xs ! k < a" if "k < length xs" for k
    using that sorted_nth_mono [OF assms(1), of 0 k] assms(3) by auto
  then have "sort_Search (length xs) (\<lambda>h. \<not> xs ! h < a) \<le> 0"
    using assms(2) by (subst sort_Search_iff [symmetric]) auto
  then show ?thesis using assms(2,3) by (simp add: find_in_def BinarySearch_def)
qed

lemma FindIndex_high:
  assumes "Is32 it" "sorted (index_values it)" "index_values it \<noteq> []" "index_values it ! 0 \<le> a"
    and "ucast (ucast a :: u32) < index_values it ! 0"
  shows "FindIndex a it = None"
proof -
  obtain v where v: "i32 it = Some v" using assms(1) by (auto simp: Is32_def)
  have "sorted v" "v \<noteq> []" "ucast a < v ! 0" "\<not> a < ucast (v ! 0)"
    using assms(2-5) v by (auto simp: index_values_def sorted_iff_nth_mono ucast_u32_mono nth_map)
  then show ?thesis using v find_in_below by (simp add: FindIndex_def)
qed

section \<open>Properties\<close>

text \<open>An index filled with sorted addresses finds, for an address not below the first one, the
  first position of the greatest entry not above it, and -1 below the first entry; the entries may
  have any width. The address has to be below \<open>2 ^ 32\<close> unless an entry has forced the index to 64
  bits.\<close>

lemma pc_index_find:
  assumes "sorted vs" "vs \<noteq> []" "unat a < 2 ^ 32 \<or> (\<exists>v\<in>set vs. MaxUint32 \<le> v)"
  shows "\<exists>it. fill 0 vs (NewPCIndex (length vs)) = Some it \<and>
    (if a < vs ! 0 then FindIndex a it = Some (-1) else \<exists>i. FindIndex a it = Some (int i) \<and> floor_at vs a i)"
proof -
  obtain it where it: "fill 0 vs (NewPCIndex (length vs)) = Some it" "wf_index it" "index_values it = vs"
    "Is32 it \<longleftrightarrow> (\<forall>v\<in>set vs. v < MaxUint32)" using NewPCIndex_fill by blast
  have "FindIndex a it = Some (-1)" if "a < vs ! 0"
    using it assms(2) that by (intro FindIndex_below) auto
  moreover have "\<exists>i. FindIndex a it = Some (int i) \<and> floor_at vs a i" if "\<not> a < vs ! 0"
    using FindIndex_floor [OF it(2), of a] it(3,4) assms that by (auto simp: not_less)
  ultimately show ?thesis using it(1) by auto
qed

text \<open>An index whose entries all fit 32 bits panics on an address above \<open>2 ^ 32\<close> whose low half is
  below the first entry: the guard compares the whole address, the search only its low half, and the
  entry in front of position 0 is read.\<close>

lemma pc_index_high_address:
  assumes "sorted vs" "vs \<noteq> []" "\<forall>v\<in>set vs. v < MaxUint32"
    and "2 ^ 32 \<le> unat a" "ucast (ucast a :: u32) < vs ! 0"
  shows "\<exists>it. fill 0 vs (NewPCIndex (length vs)) = Some it \<and> FindIndex a it = None"
proof -
  obtain it where it: "fill 0 vs (NewPCIndex (length vs)) = Some it" "index_values it = vs" "Is32 it"
    using NewPCIndex_fill [of vs] assms(3) by blast
  have "vs ! 0 < MaxUint32" using assms(2,3) by simp
  then have "vs ! 0 \<le> a" using assms(4) by (simp add: MaxUint32_def word_le_nat_alt word_less_nat_alt)
  then show ?thesis using FindIndex_high [of it a] it assms by auto
qed

end
