(* ===== verification/Go_Elf.thy ===== *)
theory Go_Elf
  imports Go_Pcindex "HOL-Library.Product_Lexorder"
begin

text \<open>
  The function symbols of an ELF file, \<open>ebpf/symtab/elf/elf_sym.go\<close>, \<open>symbol_table.go\<close> and
  \<open>elfmmap.go\<close>, and the load address of a mapping, \<open>findBase\<close> of \<open>ebpf/symtab/elf.go\<close>. The file
  is given by its bytes and the headers that \<open>debug/elf\<close> has read; \<open>None\<close> is a panic, \<open>Inl\<close> an
  error. The cache of strings already read is left out: it returns what the file holds.

  The lemmas show that a table answers with the function of the greatest address not above the
  one asked for, that names of up to 1279 bytes are read back, and that \<open>findBase\<close> takes an address
  of the mapping to the address the linker gave it.
\<close>

section \<open>The file\<close>

datatype elf_class = Class32 | Class64 | ClassOther

record elf_section =
  sh_type :: u32
  sh_link :: u32
  sh_offset :: u64
  sh_size :: u64

record elf_prog =
  p_load :: bool
  p_exec :: bool
  p_off :: u64
  p_vaddr :: u64

record elf_file =
  el_class :: elf_class
  el_big :: bool
  el_exec :: bool
  el_sections :: "elf_section list"
  el_progs :: "elf_prog list"
  el_bytes :: "u8 list"

definition SHT_SYMTAB :: u32 where "SHT_SYMTAB = 2"
definition SHT_DYNSYM :: u32 where "SHT_DYNSYM = 11"
definition STT_FUNC :: u8 where "STT_FUNC = 2"

text \<open>\<open>ReadAt\<close> fails when the buffer cannot be filled.\<close>

definition ReadAt :: "u8 list \<Rightarrow> s64 \<Rightarrow> nat \<Rightarrow> u8 list option" where
  "ReadAt bs off n =
     (if off <s 0 then None
      else if n = 0 then Some []
      else if unat off + n \<le> length bs then Some (take n (drop (unat off) bs))
      else None)"

definition SectionData :: "elf_file \<Rightarrow> elf_section \<Rightarrow> u8 list option" where
  "SectionData f s = ReadAt (el_bytes f) (sh_offset s) (unat (sh_size s))"

definition sectionByType :: "elf_file \<Rightarrow> u32 \<Rightarrow> elf_section option" where
  "sectionByType f t = List.find (\<lambda>s. sh_type s = t) (el_sections f)"

text \<open>At most ten blocks of 128 bytes, up to the first zero byte.\<close>

fun get_string_loop :: "u8 list \<Rightarrow> nat \<Rightarrow> s64 \<Rightarrow> go_string \<Rightarrow> go_string option" where
  "get_string_loop bs 0 start sb = None"
| "get_string_loop bs (Suc n) start sb =
     (case ReadAt bs start 128 of
        None \<Rightarrow> None
      | Some tmpBuf \<Rightarrow>
          (case cut_byte 0 tmpBuf of
             Some (s, rest) \<Rightarrow> Some (sb @ s)
           | None \<Rightarrow> get_string_loop bs n (start + 128) (sb @ tmpBuf)))"

definition getString :: "(go_string \<Rightarrow> go_string) \<Rightarrow> elf_file \<Rightarrow> s64 \<Rightarrow> go_string option" where
  "getString demangle f start = map_option demangle (get_string_loop (el_bytes f) 10 start [])"

section \<open>Symbols\<close>

type_synonym Name = u32

record SymbolIndex =
  si_Name :: Name
  si_Value :: u64

definition NewName :: "u32 \<Rightarrow> u8 \<Rightarrow> Name" where
  "NewName nameIndex linkIndex = (nameIndex AND 0x7FFFFFFF) OR push_bit 31 (ucast linkIndex)"

definition NameIndex :: "Name \<Rightarrow> u32" where
  "NameIndex n = n AND 0x7FFFFFFF"

definition LinkIndex :: "Name \<Rightarrow> u8" where
  "LinkIndex n = ucast (drop_bit 31 n)"

record SymbolsOptions =
  FilterFrom :: u64
  FilterTo :: u64

datatype sym_error = ErrNoSymbols | LoadError | BadLength | WrongName | NotImplemented

definition order_word :: "bool \<Rightarrow> u8 list \<Rightarrow> 'w::len word" where
  "order_word big bs = le_word (if big then rev bs else bs)"

definition Sym64Size :: nat where "Sym64Size = 24"
definition Sym32Size :: nat where "Sym32Size = 16"

text \<open>The entry of one symbol; \<open>Inr None\<close> is one that is passed over.\<close>

definition symbol64 :: "bool \<Rightarrow> SymbolsOptions \<Rightarrow> u8 \<Rightarrow> u8 list \<Rightarrow> sym_error + SymbolIndex option" where
  "symbol64 big opt link raw =
     (let nam = order_word big (take 4 raw) :: u32;
          info = raw ! 4;
          val = order_word big (take 8 (drop 8 raw)) :: u64
      in if val \<noteq> 0 \<and> info AND 0xF = STT_FUNC
         then if 0x7FFFFFFF \<le> nam then Inl WrongName
              else if FilterFrom opt \<le> val \<and> val < FilterTo opt then Inr None
              else Inr (Some \<lparr>si_Name = NewName nam link, si_Value = val\<rparr>)
         else Inr None)"

text \<open>The 32-bit variant stores the name only; the value of a fresh entry is zero.\<close>

definition symbol32 :: "bool \<Rightarrow> SymbolsOptions \<Rightarrow> u8 \<Rightarrow> u8 list \<Rightarrow> sym_error + SymbolIndex option" where
  "symbol32 big opt link raw =
     (let nam = order_word big (take 4 raw) :: u32;
          val = order_word big (take 4 (drop 4 raw)) :: u32;
          info = raw ! 12
      in if val \<noteq> 0 \<and> info AND 0xF = STT_FUNC
         then if 0x7FFFFFFF \<le> nam then Inl WrongName
              else let pc = ucast val
                   in if FilterFrom opt \<le> pc \<and> pc < FilterTo opt then Inr None
                      else Inr (Some \<lparr>si_Name = NewName nam link, si_Value = 0\<rparr>)
         else Inr None)"

function symbol_loop ::
  "nat \<Rightarrow> (u8 list \<Rightarrow> sym_error + SymbolIndex option) \<Rightarrow> u8 list \<Rightarrow> (sym_error + SymbolIndex list) option" where
  "symbol_loop sz entry dat =
     (if dat = [] then Some (Inr [])
      else if length dat < sz \<or> sz = 0 then None
      else case entry (take sz dat) of
             Inl e \<Rightarrow> Some (Inl e)
           | Inr s \<Rightarrow>
               map_option (map_sum id (\<lambda>ss. (case s of None \<Rightarrow> ss | Some s \<Rightarrow> s # ss)))
                 (symbol_loop sz entry (drop sz dat)))"
  by pat_completeness auto
termination by (relation "measure (\<lambda>(sz, entry, dat). length dat)") auto

declare symbol_loop.simps [simp del]

definition get_symbols ::
  "nat \<Rightarrow> (bool \<Rightarrow> SymbolsOptions \<Rightarrow> u8 \<Rightarrow> u8 list \<Rightarrow> sym_error + SymbolIndex option)
     \<Rightarrow> elf_file \<Rightarrow> u32 \<Rightarrow> SymbolsOptions \<Rightarrow> (sym_error + SymbolIndex list \<times> u32) option" where
  "get_symbols sz entry f t opt =
     (case sectionByType f t of
        None \<Rightarrow> Some (Inl ErrNoSymbols)
      | Some sec \<Rightarrow>
          (let linkIndex = (if t = SHT_DYNSYM then 1 else 0)
           in case SectionData f sec of
                None \<Rightarrow> Some (Inl LoadError)
              | Some dat \<Rightarrow>
                  if length dat mod sz \<noteq> 0 then Some (Inl BadLength)
                  else if length dat < sz then None
                  else map_option (map_sum id (\<lambda>ss. (ss, sh_link sec)))
                         (symbol_loop sz (entry (el_big f) opt linkIndex) (drop sz dat))))"

definition getSymbols64 where "getSymbols64 = get_symbols Sym64Size symbol64"
definition getSymbols32 where "getSymbols32 = get_symbols Sym32Size symbol32"

definition getSymbols ::
  "elf_file \<Rightarrow> u32 \<Rightarrow> SymbolsOptions \<Rightarrow> (sym_error + SymbolIndex list \<times> u32) option" where
  "getSymbols f t opt =
     (case el_class f of
        Class64 \<Rightarrow> getSymbols64 f t opt
      | Class32 \<Rightarrow> getSymbols32 f t opt
      | ClassOther \<Rightarrow> Some (Inl NotImplemented))"

section \<open>The table\<close>

record SymbolTable =
  st_links :: "elf_section \<times> elf_section"
  st_names :: "Name list"
  st_values :: PCIndex
  st_file :: elf_file

text \<open>A missing section is no error; its symbols are none and its index is zero.\<close>

definition optional :: "sym_error + SymbolIndex list \<times> u32 \<Rightarrow> sym_error + SymbolIndex list \<times> u32" where
  "optional r = (if r = Inl ErrNoSymbols then Inr ([], 0) else r)"

definition symbol_order :: "SymbolIndex list \<Rightarrow> SymbolIndex list" where
  "symbol_order ss = sort_key (\<lambda>s. (si_Value s, si_Name s)) ss"

definition build_table ::
  "elf_file \<Rightarrow> SymbolIndex list \<Rightarrow> u32 \<Rightarrow> u32 \<Rightarrow> SymbolTable option" where
  "build_table f syms sectionSym sectionDynSym =
     (let ss = symbol_order syms;
          secs = el_sections f
      in if length secs \<le> unat sectionSym \<or> length secs \<le> unat sectionDynSym then None
         else map_option
                (\<lambda>vals. \<lparr>st_links = (secs ! unat sectionSym, secs ! unat sectionDynSym),
                         st_names = map si_Name ss, st_values = vals, st_file = f\<rparr>)
                (fill 0 (map si_Value ss) (NewPCIndex (length ss))))"

definition NewSymbolTable :: "elf_file \<Rightarrow> SymbolsOptions \<Rightarrow> (sym_error + SymbolTable) option" where
  "NewSymbolTable f opt =
     (case map_option optional (getSymbols f SHT_SYMTAB opt) of
        None \<Rightarrow> None
      | Some (Inl e) \<Rightarrow> Some (Inl e)
      | Some (Inr (syms, sectionSym)) \<Rightarrow>
          (case map_option optional (getSymbols f SHT_DYNSYM opt) of
             None \<Rightarrow> None
           | Some (Inl e) \<Rightarrow> Some (Inl e)
           | Some (Inr (dynsym, sectionDynSym)) \<Rightarrow>
               if length dynsym + length syms = 0 then Some (Inl ErrNoSymbols)
               else map_option Inr (build_table f (syms @ dynsym) sectionSym sectionDynSym)))"

definition name_start :: "elf_section \<times> elf_section \<Rightarrow> Name \<Rightarrow> s64" where
  "name_start links n =
     ucast (NameIndex n) + sh_offset (if LinkIndex n = 0 then fst links else snd links)"

definition symbolName :: "(go_string \<Rightarrow> go_string) \<Rightarrow> SymbolTable \<Rightarrow> nat \<Rightarrow> go_string option" where
  "symbolName demangle st idx = getString demangle (st_file st) (name_start (st_links st) (st_names st ! idx))"

text \<open>The outer \<open>None\<close> is a panic of the search.\<close>

definition Resolve_elf :: "(go_string \<Rightarrow> go_string) \<Rightarrow> SymbolTable \<Rightarrow> u64 \<Rightarrow> go_string option" where
  "Resolve_elf demangle st a =
     (if st_names st = [] then Some []
      else case FindIndex a (st_values st) of
             None \<Rightarrow> None
           | Some i \<Rightarrow>
               if i = -1 then Some []
               else Some (case symbolName demangle st (nat i) of None \<Rightarrow> [] | Some s \<Rightarrow> s))"

section \<open>Load addresses\<close>

text \<open>\<open>None\<close>: no segment matches. The mapping starts at \<open>start\<close> with file offset \<open>off\<close>.\<close>

fun base_of_progs :: "u64 \<Rightarrow> u64 \<Rightarrow> elf_prog list \<Rightarrow> u64 option" where
  "base_of_progs start off [] = None"
| "base_of_progs start off (p # ps) =
     (if p_load p \<and> p_exec p
      then if off = p_off p then Some (start - p_vaddr p)
           else let aligned = p_off p AND 0xFFFFFFFFFFFFF000
                in if off = aligned then Some (start + (p_off p - aligned) - p_vaddr p)
                   else base_of_progs start off ps
      else base_of_progs start off ps)"

definition findBase :: "u64 \<Rightarrow> u64 \<Rightarrow> elf_file \<Rightarrow> u64 option" where
  "findBase start off f = (if el_exec f then Some 0 else base_of_progs start off (el_progs f))"

section \<open>Names\<close>

lemma mask_31: "n AND 0x7FFFFFFF = take_bit 31 (n :: u32)"
  by (simp add: take_bit_eq_mask mask_eq_exp_minus_1)

lemma NewName_parts:
  assumes "n < 0x7FFFFFFF" "l = 0 \<or> l = 1"
  shows "NameIndex (NewName n l) = n" "LinkIndex (NewName n l) = l"
proof -
  have n: "take_bit 31 n = n"
    using assms(1) by (simp add: word_unat_eq_iff unsigned_take_bit_eq word_less_nat_alt take_bit_nat_eq_self)
  then have "drop_bit 31 n = 0" by (metis bits_ident add_left_cancel add.right_neutral drop_bit_take_bit take_bit_0 diff_self_eq_0)
  then show "NameIndex (NewName n l) = n" "LinkIndex (NewName n l) = l"
    using assms(2) n by (auto simp: NameIndex_def LinkIndex_def NewName_def mask_31 drop_bit_or)
qed

section \<open>Resolving\<close>

lemma build_table_parts:
  assumes "build_table f syms k l = Some st"
  shows "st_names st = map si_Name (symbol_order syms)" "st_file st = f" "wf_index (st_values st)"
    "index_values (st_values st) = map si_Value (symbol_order syms)"
    "Is32 (st_values st) \<longleftrightarrow> (\<forall>s\<in>set syms. si_Value s < MaxUint32)"
proof -
  obtain it where it: "fill 0 (map si_Value (symbol_order syms)) (NewPCIndex (length (symbol_order syms))) = Some it"
    "wf_index it" "index_values it = map si_Value (symbol_order syms)"
    "Is32 it \<longleftrightarrow> (\<forall>v\<in>si_Value ` set (symbol_order syms). v < MaxUint32)"
    using NewPCIndex_fill [of "map si_Value (symbol_order syms)"] by auto
  with assms show "st_names st = map si_Name (symbol_order syms)" "st_file st = f" "wf_index (st_values st)"
    "index_values (st_values st) = map si_Value (symbol_order syms)"
    "Is32 (st_values st) \<longleftrightarrow> (\<forall>s\<in>set syms. si_Value s < MaxUint32)"
    by (auto simp: build_table_def Let_def symbol_order_def split: if_splits)
qed

lemma NewSymbolTable_parts:
  assumes "NewSymbolTable f opt = Some (Inr st)"
  shows "\<exists>a b k l. map_option optional (getSymbols f SHT_SYMTAB opt) = Some (Inr (a, k)) \<and>
    map_option optional (getSymbols f SHT_DYNSYM opt) = Some (Inr (b, l)) \<and> a @ b \<noteq> [] \<and>
    build_table f (a @ b) k l = Some st"
  using assms by (auto simp: NewSymbolTable_def split: option.splits sum.splits if_splits)

text \<open>The symbol of the greatest value not above \<open>a\<close>, and among those the one with the least name.\<close>

definition nearest :: "SymbolIndex set \<Rightarrow> u64 \<Rightarrow> SymbolIndex \<Rightarrow> bool" where
  "nearest S a s \<longleftrightarrow> s \<in> S \<and> si_Value s \<le> a \<and> (\<forall>t\<in>S. si_Value t \<le> a \<longrightarrow> si_Value t \<le> si_Value s) \<and>
     (\<forall>t\<in>S. si_Value t = si_Value s \<longrightarrow> si_Name s \<le> si_Name t)"

lemma floor_nearest:
  assumes "floor_at (map si_Value (symbol_order syms)) a i"
  shows "nearest (set syms) a (symbol_order syms ! i)"
proof -
  let ?ss = "symbol_order syms"
  have i: "i < length ?ss" using assms by (simp add: floor_at_def)
  have so: "sorted (map (\<lambda>s. (si_Value s, si_Name s)) ?ss)" by (simp add: symbol_order_def)
  have "si_Name (?ss ! i) \<le> si_Name (?ss ! j)" if "j < length ?ss" "si_Value (?ss ! j) = si_Value (?ss ! i)" for j
  proof -
    have "i \<le> j" using assms that by (force simp: floor_at_def not_le [symmetric])
    then show ?thesis using sorted_nth_mono [OF so, of i j] that i by (simp add: less_eq_prod_def)
  qed
  then have "si_Name (?ss ! i) \<le> si_Name t" if "t \<in> set ?ss" "si_Value t = si_Value (?ss ! i)" for t
    using that by (auto simp: in_set_conv_nth)
  moreover have "si_Value t \<le> si_Value (?ss ! i)" if "t \<in> set ?ss" "si_Value t \<le> a" for t
    using assms that i by (auto simp: floor_at_def in_set_conv_nth)
  moreover have "si_Value (?ss ! i) \<le> a" using assms i by (simp add: floor_at_def)
  moreover have "?ss ! i \<in> set ?ss" using i by simp
  moreover have "set ?ss = set syms" by (simp add: symbol_order_def)
  ultimately show ?thesis by (simp add: nearest_def)
qed

lemma sorted_values: "sorted (map si_Value (symbol_order syms))"
proof -
  have "sorted (map (\<lambda>s. (si_Value s, si_Name s)) (symbol_order syms))" by (simp add: symbol_order_def)
  then show ?thesis by (auto simp: sorted_iff_nth_mono less_eq_prod_def dest: less_imp_le)
qed

lemma build_table_resolve:
  assumes "build_table f syms k l = Some st" "syms \<noteq> []" "unat a < 2 ^ 32 \<or> (\<exists>s\<in>set syms. MaxUint32 \<le> si_Value s)"
  shows "if \<forall>s\<in>set syms. a < si_Value s then Resolve_elf demangle st a = Some []
    else \<exists>s. nearest (set syms) a s \<and> Resolve_elf demangle st a =
      Some (case getString demangle f (name_start (st_links st) (si_Name s)) of None \<Rightarrow> [] | Some t \<Rightarrow> t)"
proof -
  let ?ss = "symbol_order syms"
  note parts = build_table_parts [OF assms(1)]
  have st: "set ?ss = set syms" by (simp add: symbol_order_def)
  then have ne: "?ss \<noteq> []" using assms(2) by auto
  have first: "a < si_Value (?ss ! 0) \<longleftrightarrow> (\<forall>s\<in>set syms. a < si_Value s)"
  proof
    assume "a < si_Value (?ss ! 0)"
    moreover have "si_Value (?ss ! 0) \<le> si_Value (?ss ! j)" if "j < length ?ss" for j
      using sorted_nth_mono [OF sorted_values [of syms], of 0 j] that ne by (simp add: nth_map)
    ultimately have "a < si_Value (?ss ! j)" if "j < length ?ss" for j using that less_le_trans by blast
    then show "\<forall>s\<in>set syms. a < si_Value s" unfolding st [symmetric] by (auto simp: in_set_conv_nth)
  next
    assume "\<forall>s\<in>set syms. a < si_Value s"
    then show "a < si_Value (?ss ! 0)" using ne st by (metis length_greater_0_conv nth_mem)
  qed
  show ?thesis
  proof (cases "a < si_Value (?ss ! 0)")
    case True
    then have "FindIndex a (st_values st) = Some (-1)"
      using parts(3,4) ne by (intro FindIndex_below) (auto simp: nth_map)
    then show ?thesis using True first by (simp add: Resolve_elf_def)
  next
    case False
    have "Is32 (st_values st) \<Longrightarrow> unat a < 2 ^ 32" using assms(3) parts(5) by auto
    then obtain i where i: "FindIndex a (st_values st) = Some (int i)" "floor_at (map si_Value ?ss) a i"
      using FindIndex_floor [OF parts(3), of a] parts(4) sorted_values [of syms] ne False by (auto simp: not_less)
    then have "nearest (set syms) a (?ss ! i)" "i < length ?ss" using floor_nearest by (auto simp: floor_at_def)
    then show ?thesis
      using False first i(1) ne parts(1,2) by (auto simp: Resolve_elf_def symbolName_def)
  qed
qed

text \<open>A 32-bit file: every stored value is zero.\<close>

lemma symbol_loop_values:
  "(\<And>raw s. entry raw = Inr (Some s) \<Longrightarrow> P s) \<Longrightarrow> symbol_loop sz entry dat = Some (Inr ss) \<Longrightarrow> list_all P ss"
proof (induction sz entry dat arbitrary: ss rule: symbol_loop.induct)
  case (1 sz entry dat)
  show ?case
  proof (cases "dat = []")
    case True
    then show ?thesis using "1.prems"(2) by (simp add: symbol_loop.simps)
  next
    case False
    then obtain s ss' where ne: "\<not> (length dat < sz \<or> sz = 0)" and e: "entry (take sz dat) = Inr s"
      and l: "symbol_loop sz entry (drop sz dat) = Some (Inr ss')"
      and ss: "ss = (case s of None \<Rightarrow> ss' | Some s \<Rightarrow> s # ss')"
      using "1.prems"(2) unfolding symbol_loop.simps [of sz entry dat] by (auto split: if_splits sum.splits)
    have "list_all P ss'" using "1.IH" [OF False ne e "1.prems"(1) l] .
    then show ?thesis using e "1.prems"(1) ss by (cases s) auto
  qed
qed

lemma getSymbols32_zero:
  assumes "getSymbols32 f t opt = Some (Inr (ss, k))"
  shows "list_all (\<lambda>s. si_Value s = 0) ss"
proof -
  obtain link dat where "symbol_loop Sym32Size (symbol32 (el_big f) opt link) dat = Some (Inr ss)"
    using assms by (auto simp: getSymbols32_def get_symbols_def Let_def split: option.splits if_splits)
  then show ?thesis
    by (rule symbol_loop_values [rotated]) (auto simp: symbol32_def Let_def split: if_splits)
qed

section \<open>Strings and load addresses\<close>

lemma get_string_loop_text:
  assumes "0 \<notin> set s" "drop (unat start) bs = s @ 0 # rest" "length s < 128 * n"
    and "unat start + 128 * (length s div 128 + 1) \<le> length bs" "length bs < 2 ^ 63"
  shows "get_string_loop bs n start sb = Some (sb @ s)"
  using assms
proof (induction n arbitrary: start s sb)
  case (Suc n)
  have l: "unat start + 128 \<le> length bs" using Suc.prems(4) by simp
  then have "\<not> bit (unat start) 63" using Suc.prems(5) by (simp add: bit_iff_odd)
  then have "\<not> bit start 63" by (simp add: bit_unsigned_iff)
  then have "\<not> start <s 0" using bit_last_iff [of start] by (simp add: word_sless_alt)
  then have rd: "ReadAt bs start 128 = Some (take 128 (s @ 0 # rest))"
    using l Suc.prems(2) by (simp add: ReadAt_def)
  show ?case
  proof (cases "length s < 128")
    case True
    then have "take 128 (s @ 0 # rest) = s @ 0 # take (127 - length s) rest"
      by (simp add: take_Cons')
    then show ?thesis using rd Suc.prems(1) by simp
  next
    case False
    then have t: "take 128 (s @ 0 # rest) = take 128 s" by simp
    have "cut_byte 0 (take 128 s) = None"
      using Suc.prems(1) by (auto simp: cut_byte_none dest: in_set_takeD)
    moreover have u: "unat (start + 128) = unat start + 128"
      using l Suc.prems(5) by (subst unat_add_lem [THEN iffD1]) auto
    have "get_string_loop bs n (start + 128) (sb @ take 128 s) = Some ((sb @ take 128 s) @ drop 128 s)"
    proof (rule Suc.IH)
      show "0 \<notin> set (drop 128 s)" using Suc.prems(1) by (auto dest: in_set_dropD)
      show "drop (unat (start + 128)) bs = drop 128 s @ 0 # rest"
        using arg_cong [OF Suc.prems(2), of "drop 128"] False by (simp add: u add.commute)
      show "unat (start + 128) + 128 * (length (drop 128 s) div 128 + 1) \<le> length bs"
        using Suc.prems(4) False by (simp add: u le_div_geq)
    qed (use Suc.prems False in auto)
    ultimately show ?thesis using rd [unfolded t] by simp
  qed
qed simp

text \<open>
  An address of the mapping goes to the address that the linker gave the byte of the file it
  shows: the segment's address plus the distance of the byte from the segment's start.
\<close>

lemma base_of_progs_linear:
  "base_of_progs start off ps = Some base \<Longrightarrow>
    \<exists>p\<in>set ps. p_load p \<and> p_exec p \<and> (\<forall>pc. pc - base = p_vaddr p + (off + (pc - start) - p_off p))"
  by (induction ps) (auto simp: Let_def algebra_simps split: if_splits)

section \<open>Properties\<close>

text \<open>The table built from the symbol sections of a file resolves an address to the name of the
  function symbol with the greatest address not above it, the one with the least name index when
  several share it, and to nothing below all of them; the search never panics. The address has to
  be below \<open>2 ^ 32\<close> unless some symbol lies beyond.\<close>

lemma elf_symbol_resolve:
  assumes "NewSymbolTable f opt = Some (Inr st)"
    and "map_option optional (getSymbols f SHT_SYMTAB opt) = Some (Inr (a, k))"
    and "map_option optional (getSymbols f SHT_DYNSYM opt) = Some (Inr (b, l))"
    and "unat pc < 2 ^ 32 \<or> (\<exists>s\<in>set (a @ b). MaxUint32 \<le> si_Value s)"
  shows "if \<forall>s\<in>set (a @ b). pc < si_Value s then Resolve_elf demangle st pc = Some []
    else \<exists>s. nearest (set (a @ b)) pc s \<and> Resolve_elf demangle st pc =
      Some (case getString demangle f (name_start (st_links st) (si_Name s)) of None \<Rightarrow> [] | Some t \<Rightarrow> t)"
proof -
  have "a @ b \<noteq> []" "build_table f (a @ b) k l = Some st" using NewSymbolTable_parts [OF assms(1)] assms(2,3) by auto
  from build_table_resolve [OF this(2,1) assms(4)] show ?thesis .
qed

text \<open>C33: In a 32-bit file every address resolves to the same name, because the reader of 32-bit symbols
  never stores their addresses.\<close>

theorem elf32_one_name:
  assumes "el_class f = Class32" "NewSymbolTable f opt = Some (Inr st)"
  shows "\<exists>n. \<forall>pc. unat pc < 2 ^ 32 \<longrightarrow> Resolve_elf demangle st pc = Some n"
proof -
  obtain a b k l where ab: "map_option optional (getSymbols f SHT_SYMTAB opt) = Some (Inr (a, k))"
    "map_option optional (getSymbols f SHT_DYNSYM opt) = Some (Inr (b, l))"
    "a @ b \<noteq> []" "build_table f (a @ b) k l = Some st" using NewSymbolTable_parts [OF assms(2)] by blast
  have "list_all (\<lambda>s. si_Value s = 0) ss" if "map_option optional (getSymbols f t opt) = Some (Inr (ss, i))" for t ss i
    using that assms(1) getSymbols32_zero [of f t opt ss i] by (auto simp: getSymbols_def optional_def split: if_splits)
  then have z: "\<forall>s\<in>set (a @ b). si_Value s = 0" using ab(1,2) by (force simp: list_all_iff)
  have same: "s = t" if "nearest (set (a @ b)) pc s" "nearest (set (a @ b)) pc' t" for s t pc pc'
    using that z by (auto simp: nearest_def intro!: SymbolIndex.equality antisym)
  have "\<exists>s. nearest (set (a @ b)) pc s \<and> Resolve_elf demangle st pc =
      Some (case getString demangle f (name_start (st_links st) (si_Name s)) of None \<Rightarrow> [] | Some t \<Rightarrow> t)"
    if "unat pc < 2 ^ 32" for pc
  proof -
    have "last (a @ b) \<in> set (a @ b)" using ab(3) by (rule last_in_set)
    with z have "\<not> (\<forall>s\<in>set (a @ b). pc < si_Value s)" by fastforce
    then show ?thesis using build_table_resolve [OF ab(4,3), of pc demangle] that by presburger
  qed
  then show ?thesis using same by (metis unat_0 zero_less_numeral zero_less_power)
qed

end
