(* ===== verification/Go_Native.thy ===== *)
theory Go_Native
  imports Go_Elf Go_Symtab
begin

text \<open>
  The table of a mapped file, \<open>ElfTable\<close> of \<open>ebpf/symtab/elf.go\<close>, for a file that no cache holds,
  that has no separate debug file and no table of a Go program: \<open>load\<close> finds the base address and
  reads the symbols, \<open>Resolve\<close> asks for the address relative to the base. With it the mappings of a
  process and the symbols of its files compose: an address in a mapping is resolved to the function
  whose code it lies in, by the address the linker gave it.
\<close>

definition no_filter :: SymbolsOptions where
  "no_filter = \<lparr>FilterFrom = 0, FilterTo = 0\<rparr>"

text \<open>\<open>None\<close>: the file cannot be opened or is no ELF file. An error leaves a table without names, and
  the base that was found before it. Where the search of the index panics the name is left empty
  here; \<open>native_address_resolve\<close> excludes these addresses.\<close>

definition load_table :: "(go_string \<Rightarrow> go_string) \<Rightarrow> elf_file option \<Rightarrow> ProcMap \<Rightarrow> elf_table" where
  "load_table demangle me m =
     (case me of
        None \<Rightarrow> \<lparr>et_base = 0, et_table = (\<lambda>a. [])\<rparr>
      | Some f \<Rightarrow>
          (case findBase (StartAddr m) (Offset m) f of
             None \<Rightarrow> \<lparr>et_base = 0, et_table = (\<lambda>a. [])\<rparr>
           | Some base \<Rightarrow>
               \<lparr>et_base = base,
                et_table =
                  (case NewSymbolTable f no_filter of
                     Some (Inr st) \<Rightarrow> (\<lambda>a. case Resolve_elf demangle st a of None \<Rightarrow> [] | Some s \<Rightarrow> s)
                   | _ \<Rightarrow> (\<lambda>a. []))\<rparr>))"

lemma nearest_unique: "nearest S a s \<Longrightarrow> nearest S a t \<Longrightarrow> s = t"
  by (auto simp: nearest_def intro!: SymbolIndex.equality antisym)

text \<open>What the linker calls an address: the segment's address plus the distance from its start.\<close>

definition linked_address :: "elf_file \<Rightarrow> ProcMap \<Rightarrow> u64 \<Rightarrow> u64 \<Rightarrow> bool" where
  "linked_address f m pc a \<longleftrightarrow>
     (if el_exec f then a = pc
      else \<exists>p\<in>set (el_progs f). p_load p \<and> p_exec p \<and> a = p_vaddr p + (Offset m + (pc - StartAddr m) - p_off p))"

lemma findBase_linked: "findBase (StartAddr m) (Offset m) f = Some base \<Longrightarrow> linked_address f m pc (pc - base)"
  using base_of_progs_linear [of "StartAddr m" "Offset m" "el_progs f" base]
  by (auto simp: findBase_def linked_address_def split: if_splits)

lemma load_table_name:
  assumes "findBase (StartAddr m) (Offset m) f = Some base" "NewSymbolTable f no_filter = Some (Inr st)"
    and "map_option optional (getSymbols f SHT_SYMTAB no_filter) = Some (Inr (sy, k))"
    and "map_option optional (getSymbols f SHT_DYNSYM no_filter) = Some (Inr (dy, l))"
    and "nearest (set (sy @ dy)) a s" "unat a < 2 ^ 32 \<or> (\<exists>t\<in>set (sy @ dy). MaxUint32 \<le> si_Value t)"
    and "getString demangle f (name_start (st_links st) (si_Name s)) = Some nm"
  shows "et_base (load_table demangle (Some f) m) = base" "et_table (load_table demangle (Some f) m) a = nm"
proof -
  have bt: "sy @ dy \<noteq> []" "build_table f (sy @ dy) k l = Some st"
    using NewSymbolTable_parts [OF assms(2)] assms(3,4) by auto
  have "\<not> (\<forall>t\<in>set (sy @ dy). a < si_Value t)" using assms(5) by (meson leD nearest_def)
  then obtain t where
    "nearest (set (sy @ dy)) a t" "Resolve_elf demangle st a =
       Some (case getString demangle f (name_start (st_links st) (si_Name t)) of None \<Rightarrow> [] | Some x \<Rightarrow> x)"
    using build_table_resolve [OF bt(2,1) assms(6), of demangle] by (auto split: if_splits)
  then have "Resolve_elf demangle st a = Some nm" using nearest_unique [OF assms(5)] assms(7) by fastforce
  then show "et_base (load_table demangle (Some f) m) = base" "et_table (load_table demangle (Some f) m) a = nm"
    using assms(1,2) by (simp_all add: load_table_def)
qed

section \<open>Properties\<close>


end
