(* ===== verification/Go_Symtab_Witness.thy ===== *)
theory Go_Symtab_Witness
  imports Go_Native Go_Pprof
begin

text \<open>
  Concrete inputs for the properties of the symbol tables and the profile builders:
  small ELF files of both classes, two kernel symbols, the mappings of a process, and two samples.
\<close>

section \<open>ELF files\<close>

text \<open>The null symbol, the symbol of a function at \<open>0x1000\<close>, and the string table with its name.\<close>

definition w_strings :: "u8 list" where
  "w_strings = [0] @ go_str ''f'' @ replicate 130 0"

definition w_sym64 :: "u8 list" where
  "w_sym64 = [1, 0, 0, 0, 2, 0, 1, 0, 0, 0x10, 0, 0, 0, 0, 0, 0, 8, 0, 0, 0, 0, 0, 0, 0]"

definition w_sym32 :: "u8 list" where
  "w_sym32 = [1, 0, 0, 0, 0, 0x10, 0, 0, 8, 0, 0, 0, 2, 0, 1, 0]"

definition w_elf :: "elf_class \<Rightarrow> u8 list \<Rightarrow> elf_file" where
  "w_elf c raw = \<lparr>el_class = c, el_big = False, el_exec = True,
     el_sections = [\<lparr>sh_type = 0, sh_link = 0, sh_offset = 0, sh_size = 0\<rparr>,
       \<lparr>sh_type = SHT_SYMTAB, sh_link = 2, sh_offset = 0, sh_size = of_nat (2 * length raw)\<rparr>,
       \<lparr>sh_type = 3, sh_link = 0, sh_offset = of_nat (2 * length raw), sh_size = 132\<rparr>],
     el_progs = [], el_bytes = replicate (length raw) 0 @ raw @ w_strings\<rparr>"

lemma w_symbols64:
  "getSymbols (w_elf Class64 w_sym64) SHT_SYMTAB no_filter = Some (Inr ([\<lparr>si_Name = 1, si_Value = 0x1000\<rparr>], 2))"
  "getSymbols (w_elf Class64 w_sym64) SHT_DYNSYM no_filter = Some (Inl ErrNoSymbols)"
  by code_simp+

lemma w_symbols32:
  "getSymbols (w_elf Class32 w_sym32) SHT_SYMTAB no_filter = Some (Inr ([\<lparr>si_Name = 1, si_Value = 0\<rparr>], 2))"
  "getSymbols (w_elf Class32 w_sym32) SHT_DYNSYM no_filter = Some (Inl ErrNoSymbols)"
  by code_simp+

lemma w_table:
  assumes "getSymbols f SHT_SYMTAB opt = Some (Inr ([s], 2))" "getSymbols f SHT_DYNSYM opt = Some (Inl ErrNoSymbols)"
    "length (el_sections f) = 3"
  shows "\<exists>st. NewSymbolTable f opt = Some (Inr st) \<and> st_links st = (el_sections f ! 2, el_sections f ! 0)"
proof -
  obtain it where "fill 0 [si_Value s] (NewPCIndex 1) = Some it" using NewPCIndex_fill [of "[si_Value s]"] by auto
  moreover have "el_sections f \<noteq> []" using assms(3) by auto
  ultimately show ?thesis
    using assms by (simp add: NewSymbolTable_def optional_def build_table_def symbol_order_def Let_def)
qed

lemma w_elf_name:
  "getString (\<lambda>s. s) (w_elf Class64 w_sym64) (name_start (el_sections (w_elf Class64 w_sym64) ! 2, el_sections (w_elf Class64 w_sym64) ! 0) 1) =
     Some (go_str ''f'')"
  by code_simp

theorem elf32_one_name_witness:
  "\<exists>st n. NewSymbolTable (w_elf Class32 w_sym32) no_filter = Some (Inr st) \<and>
     Resolve_elf (\<lambda>s. s) st 0 = Some n \<and> Resolve_elf (\<lambda>s. s) st 0x1004 = Some n"
proof -
  let ?f = "w_elf Class32 w_sym32"
  obtain st where st: "NewSymbolTable ?f no_filter = Some (Inr st)" using w_table [OF w_symbols32] by (auto simp: w_elf_def)
  have "el_class ?f = Class32" by (simp add: w_elf_def)
  with elf32_one_name [OF _ st, of "\<lambda>s. s"]
  obtain n where n: "\<forall>pc. unat pc < 2 ^ 32 \<longrightarrow> Resolve_elf (\<lambda>s. s) st pc = Some n" by blast
  then show ?thesis using st n [rule_format, of 0] n [rule_format, of "0x1004"] by auto
qed

section \<open>Kernel symbols and mappings\<close>

definition w_symbols :: "go_symbol list" where
  "w_symbols = [\<lparr>sym_Start = 0xFFFFFFFF81000000, sym_Name = go_str ''start'', sym_Module = kallsymsModule\<rparr>,
     \<lparr>sym_Start = 0xFFFFFFFFC0000000, sym_Name = go_str ''init'', sym_Module = go_str ''fuse''\<rparr>]"


definition w_map :: "u64 \<Rightarrow> bool \<Rightarrow> ProcMap" where
  "w_map a x = \<lparr>StartAddr = a, EndAddr = a + 0x1000,
     Perms = \<lparr>pm_Read = True, pm_Write = False, pm_Execute = x, pm_Shared = False, pm_Private = True\<rparr>,
     Offset = 0, Dev = mkdev 8 1, Inode = 42, Pathname = go_str ''/bin/sh''\<rparr>"

definition w_lines :: "(u32 \<times> u32 \<times> nat \<times> ProcMap) list" where
  "w_lines = [(8, 1, 5, w_map 0x1000 False), (8, 1, 5, w_map 0x2000 True), (8, 1, 5, w_map 0x3000 True)]"

lemma w_lines_ok: "list_all (\<lambda>(major, minor, pad, m). printable_map major minor m) w_lines"
  by (simp add: w_lines_def w_map_def printable_map_def go_str_def space_def newline_def)

definition w_loader :: "ProcMap \<Rightarrow> elf_table" where
  "w_loader m = \<lparr>et_base = StartAddr m, et_table = (\<lambda>a. go_str ''main'')\<rparr>"

text \<open>The address lies in the second executable mapping, the table was made for the first one.\<close>

theorem proc_resolve_witness:
  "\<exists>rs tbl. refreshProcMap w_loader (unlines (map (\<lambda>(major, minor, pad, m). print_map major minor pad m) w_lines)) Map.empty =
     Some (Inr (), rs, tbl) \<and>
   Resolve_proc rs 0x3010 = \<lparr>sym_Start = 0x1010, sym_Name = go_str ''main'', sym_Module = go_str ''/bin/sh''\<rparr>"
  using proc_resolve [OF w_lines_ok _ refl, of "0x3010" w_loader Map.empty]
  by (simp add: w_lines_def w_map_def maps_ordered_def symbol_in_def table_for_def is_file_def file_of_def w_loader_def
      go_str_def slash_def)


section \<open>Profiles\<close>

definition w_sample :: "go_string list \<Rightarrow> bool \<Rightarrow> u64 \<Rightarrow> ProfileSample" where
  "w_sample st ag v = \<lparr>ps_target = 0, ps_pid = 7, ps_type = SampleTypeCpu, ps_aggregated = ag, ps_stack = st,
     ps_value = v, ps_value2 = 0\<rparr>"

definition w_rate :: BuildersOptions where
  "w_rate = \<lparr>SampleRate = 100, PerPIDProfile = True\<rparr>"

definition w_stack :: "go_string list" where
  "w_stack = [go_str ''f'', go_str ''main'']"

lemma w_rate_period: "period_for w_rate (a, b, SampleTypeCpu) = 10000000"
  by (simp add: period_for_def period_of_def w_rate_def)

theorem profile_of_samples_witness:
  "\<exists>bs p. Collect_samples of_nat (\<lambda>b. 0) w_rate [w_sample w_stack True 3, w_sample [] True 1] Map.empty = Some bs \<and>
     bs (0, 7, SampleTypeCpu) = Some p \<and> decode p = [(w_stack, [30000000]), ([], [10000000])]"
proof -
  let ?ss = "[w_sample w_stack True 3, w_sample [] True 1]" and ?k = "(0, 7, SampleTypeCpu) :: builderHashKey"
  have "SampleRate w_rate \<noteq> 0" "\<forall>s\<in>set ?ss. ps_aggregated s" by (simp_all add: w_rate_def w_sample_def)
  from profile_of_samples [OF this, of of_nat "\<lambda>b. 0"]
  obtain bs where bs: "Collect_samples of_nat (\<lambda>b. 0) w_rate ?ss Map.empty = Some bs"
    "\<forall>k. map_option decode (bs k) = (if of_key of_nat w_rate k ?ss = [] then None
       else Some (map (\<lambda>s. (ps_stack s, sample_values (period_for w_rate k) s)) (of_key of_nat w_rate k ?ss)))" by blast
  have k: "of_key of_nat w_rate ?k ?ss = ?ss" by (simp add: of_key_def builder_key_def w_sample_def w_rate_def)
  have "map_option decode (bs ?k) = Some [(w_stack, [30000000]), ([], [10000000])]"
    using bs(2) [rule_format, of ?k] unfolding k by (simp add: w_rate_period sample_values_def w_sample_def)
  with bs(1) show ?thesis by blast
qed

theorem profile_totals_witness:
  "\<exists>bs p. Collect_samples of_nat (\<lambda>b. 0) w_rate [w_sample w_stack False 3, w_sample [] True 1] Map.empty = Some bs \<and>
     bs (0, 7, SampleTypeCpu) = Some p \<and> total p 0 = 40000000"
proof -
  let ?ss = "[w_sample w_stack False 3, w_sample [] True 1]" and ?k = "(0, 7, SampleTypeCpu) :: builderHashKey"
  have r: "SampleRate w_rate \<noteq> 0" by (simp add: w_rate_def)
  obtain bs where bs: "Collect_samples of_nat (\<lambda>b. 0) w_rate ?ss Map.empty = Some bs"
    "\<forall>k p j. bs k = Some p \<longrightarrow> j < value_count (snd (snd k)) \<longrightarrow>
       total p j = (\<Sum>s\<leftarrow>of_key of_nat w_rate k ?ss. sample_values (period_for w_rate k) s ! j)"
    using profile_totals [OF r, of of_nat "\<lambda>b. 0" ?ss] by blast
  have k: "of_key of_nat w_rate ?k ?ss = ?ss" by (simp add: of_key_def builder_key_def w_sample_def w_rate_def)
  obtain bs' where "Collect_samples of_nat (\<lambda>b. 0) w_rate ?ss Map.empty = Some bs'" "all_held of_nat w_rate ?ss bs'"
    using Collect_samples_held [OF r] by blast
  with bs(1) k obtain p where p: "bs ?k = Some p" using all_heldD(1) [of of_nat w_rate ?ss bs ?k] by (cases "bs ?k") auto
  have "total p 0 = 40000000"
    using bs(2) [rule_format, OF p, of 0] unfolding k
    by (simp add: value_count_def w_rate_period sample_values_def w_sample_def)
  with bs(1) p show ?thesis by blast
qed

end
