(* ===== verification/Go_Versions.thy ===== *)
theory Go_Versions
  imports Go_Base
begin

text \<open>
  Versions of Python and of the C library: \<open>ebpf/python/versions.go\<close> and the version functions of
  \<open>versions_libc.go\<close>. A version is found in a file by searching block after block for a pattern,
  and the offsets for it in a table, where the nearest patch version stands in for a missing one.

  A reader is the list of its reads, each with the bytes and the status it returned. The entries
  of a Go map are a list in the order of iteration, which Go leaves open; \<open>None\<close> is a panic.
  Version numbers come from decimal digits, so their differences do not overflow and integers
  stand for Go's \<open>int\<close>.

  The lemmas show that a search finds every match of up to 17 bytes however the reads fall, and
  that the choice of a version does not depend on the order of iteration.
\<close>

section \<open>Versions\<close>

record Version =
  Major :: int
  Minor :: int
  Patch :: int

definition ver :: "int \<Rightarrow> int \<Rightarrow> int \<Rightarrow> Version" where
  "ver a b c = \<lparr>Major = a, Minor = b, Patch = c\<rparr>"

lemma ver_sel [simp]: "Major (ver a b c) = a" "Minor (ver a b c) = b" "Patch (ver a b c) = c"
  by (simp_all add: ver_def)

definition Py313 :: Version where "Py313 = ver 3 13 0"
definition Py312 :: Version where "Py312 = ver 3 12 0"
definition Py311 :: Version where "Py311 = ver 3 11 0"
definition Py310 :: Version where "Py310 = ver 3 10 0"
definition Py37 :: Version where "Py37 = ver 3 7 0"

definition Compare :: "Version \<Rightarrow> Version \<Rightarrow> int" where
  "Compare p other =
     (if Major p - Major other \<noteq> 0 then Major p - Major other
      else if Minor p - Minor other \<noteq> 0 then Minor p - Minor other
      else Patch p - Patch other)"

section \<open>Searching a file\<close>

datatype read_status = Read_ok | Read_eof | Read_error

datatype grep_error = Grep_not_found | Grep_read

text \<open>\<open>re\<close> is \<open>FindSubmatch\<close> of the pattern, \<open>lb\<close> the first 16 bytes of the buffer.\<close>

definition lookBack :: nat where "lookBack = 16"

fun rgrep_loop ::
  "(u8 list \<Rightarrow> 'm option) \<Rightarrow> u8 list \<Rightarrow> (u8 list \<times> read_status) list \<Rightarrow> grep_error + 'm" where
  "rgrep_loop re lb [] = Inl Grep_not_found"
| "rgrep_loop re lb ((bs, err) # rs) =
     (let it = lb @ bs
      in case (if bs \<noteq> [] then re it else None) of
           Some submatch \<Rightarrow> Inr submatch
         | None \<Rightarrow>
             let lb = (if bs \<noteq> [] then drop (length it - lookBack) it else lb)
             in case err of
                  Read_eof \<Rightarrow> Inl Grep_not_found
                | Read_error \<Rightarrow> Inl Grep_read
                | Read_ok \<Rightarrow> rgrep_loop re lb rs)"

definition rgrep :: "(u8 list \<Rightarrow> 'm option) \<Rightarrow> (u8 list \<times> read_status) list \<Rightarrow> grep_error + 'm" where
  "rgrep re r = rgrep_loop re (replicate lookBack 0) r"

text \<open>The patterns: a match at the start of a text, tried at every position from the left.\<close>

fun leftmost :: "(u8 list \<Rightarrow> 'm option) \<Rightarrow> u8 list \<Rightarrow> 'm option" where
  "leftmost m [] = m []"
| "leftmost m (x # xs) = (case m (x # xs) of Some r \<Rightarrow> Some r | None \<Rightarrow> leftmost m xs)"

definition is_digit :: "u8 \<Rightarrow> bool" where
  "is_digit c \<longleftrightarrow> 48 \<le> c \<and> c \<le> 57"

definition strip :: "u8 list \<Rightarrow> u8 list \<Rightarrow> u8 list option" where
  "strip p s = (if take (length p) s = p then Some (drop (length p) s) else None)"

text \<open>Digits, at least one, and then a byte that is no digit.\<close>

definition number_then :: "u8 list \<Rightarrow> go_string option" where
  "number_then s =
     (if takeWhile is_digit s \<noteq> [] \<and> dropWhile is_digit s \<noteq> [] then Some (takeWhile is_digit s) else None)"

definition rePythonVersion :: "Version \<Rightarrow> u8 list \<Rightarrow> go_string option" where
  "rePythonVersion v =
     leftmost (\<lambda>s. Option.bind (strip (digits 10 (nat (Major v)) @ go_str ''.'' @ digits 10 (nat (Minor v)) @ go_str ''.'') s) number_then)"

definition reMuslVersion :: "u8 list \<Rightarrow> (go_string \<times> go_string) option" where
  "reMuslVersion =
     leftmost (\<lambda>s. case strip (go_str ''1.1.'') s of
                     Some t \<Rightarrow> map_option (Pair (go_str ''1'')) (number_then t)
                   | None \<Rightarrow> Option.bind (strip (go_str ''1.2.'') s) (\<lambda>t. map_option (Pair (go_str ''2'')) (number_then t)))"

definition reGlibcVersion :: "u8 list \<Rightarrow> go_string option" where
  "reGlibcVersion = leftmost (\<lambda>s. Option.bind (strip (go_str ''glibc 2.'') s) number_then)"

text \<open>\<open>strconv.Atoi\<close> on digits; on a value out of range it fails and returns the greatest number.\<close>

definition Atoi :: "go_string \<Rightarrow> bool \<times> int" where
  "Atoi s =
     (case parse_digits 10 0 s of
        None \<Rightarrow> (False, 0)
      | Some n \<Rightarrow> if s = [] then (False, 0) else if int n < 2 ^ 63 then (True, int n) else (False, 2 ^ 63 - 1))"

datatype version_error = Grep_failed grep_error | Bad_version

definition GetPythonPatchVersion ::
  "(u8 list \<times> read_status) list \<Rightarrow> Version \<Rightarrow> version_error + Version" where
  "GetPythonPatchVersion r v =
     (case rgrep (rePythonVersion v) r of
        Inl e \<Rightarrow> Inl (Grep_failed e)
      | Inr m \<Rightarrow> (case Atoi m of (ok, n) \<Rightarrow> if \<not> ok then Inl Bad_version else Inr (v\<lparr>Patch := n\<rparr>)))"

definition GetMuslVersionFromReader :: "(u8 list \<times> read_status) list \<Rightarrow> version_error + Version" where
  "GetMuslVersionFromReader r =
     (case rgrep reMuslVersion r of
        Inl e \<Rightarrow> Inl (Grep_failed e)
      | Inr (m1, m2) \<Rightarrow> Inr (ver 1 (snd (Atoi m1)) (snd (Atoi m2))))"

definition GetGlibcVersionFromReader :: "(u8 list \<times> read_status) list \<Rightarrow> version_error + Version" where
  "GetGlibcVersionFromReader r =
     (case rgrep reGlibcVersion r of
        Inl e \<Rightarrow> Inl (Grep_failed e)
      | Inr m \<Rightarrow> (case Atoi m of (ok, n) \<Rightarrow> if \<not> ok then Inl Bad_version else Inr (ver 2 n 0)))"

section \<open>Choosing an entry\<close>

definition same_minor :: "Version \<Rightarrow> Version \<Rightarrow> bool" where
  "same_minor v w \<longleftrightarrow> Major v = Major w \<and> Minor v = Minor w"

fun guess_loop :: "Version \<Rightarrow> (Version \<times> 'a) list \<Rightarrow> (Version \<times> 'a) option \<Rightarrow> (Version \<times> 'a) option" where
  "guess_loop version [] found = found"
| "guess_loop version ((v, off) # es) found =
     guess_loop version es
       (if same_minor v version
        then (case found of
                None \<Rightarrow> Some (v, off)
              | Some (foundVersion, offsets) \<Rightarrow> if Compare v foundVersion > 0 then Some (v, off) else found)
        else found)"

text \<open>The offsets and whether they were guessed; \<open>None\<close> is the error.\<close>

definition getVersionGuessing :: "Version \<Rightarrow> (Version \<times> 'a) list \<Rightarrow> ('a \<times> bool) option" where
  "getVersionGuessing version m =
     (case map_of m version of
        Some offsets \<Rightarrow> Some (offsets, False)
      | None \<Rightarrow> map_option (\<lambda>(v, offsets). (offsets, True)) (guess_loop version m None))"

record GlibcOffsets =
  g_PthreadSpecific1stblock :: s16
  g_PthreadSize :: s16
  g_PthreadKeyDataData :: s16
  g_PthreadKeyDataSize :: s16

record MuslOffsets =
  m_PthreadTsd :: s16
  m_PthreadSize :: s16

text \<open>The last of the versions sorted by \<open>Compare\<close>.\<close>

fun last_version :: "(Version \<times> 'a) list \<Rightarrow> (Version \<times> 'a) option" where
  "last_version [] = None"
| "last_version (e # es) =
     (case last_version es of
        None \<Rightarrow> Some e
      | Some f \<Rightarrow> if Compare (fst e) (fst f) > 0 then Some e else Some f)"

text \<open>The outer \<open>None\<close> is the panic on an empty table, the inner one the error.\<close>

definition glibc_entry :: "Version \<Rightarrow> (Version \<times> 'a) list \<Rightarrow> ('a \<times> bool) option option" where
  "glibc_entry version m =
     (case map_of m version of
        Some offsets \<Rightarrow> Some (Some (offsets, False))
      | None \<Rightarrow>
          (case last_version m of
             None \<Rightarrow> None
           | Some (v, offsets) \<Rightarrow> Some (if Compare version v > 0 then Some (offsets, True) else None)))"

section \<open>The search finds short matches\<close>

text \<open>The bytes seen so far end in the look-back buffer.\<close>

definition stops :: "(u8 list \<times> read_status) list \<Rightarrow> bool" where
  "stops r \<longleftrightarrow> list_all (\<lambda>(bs, err). err = Read_ok) (butlast r)"

definition delivered :: "(u8 list \<times> read_status) list \<Rightarrow> u8 list" where
  "delivered r = concat (map fst r)"

lemma delivered_simps [simp]: "delivered [] = []" "delivered ((bs, err) # r) = bs @ delivered r"
  by (simp_all add: delivered_def)

text \<open>A block that reaches beyond the buffer but is short survives in what is kept of it.\<close>

lemma block_kept:
  assumes "lb @ bs @ rest = a @ w @ b" "length w \<le> Suc (length lb)" "\<not> length (a @ w) \<le> length (lb @ bs)"
  shows "drop (length bs) (lb @ bs) @ rest = drop (length bs) a @ w @ b" "length lb < length (drop (length bs) a @ w)"
proof -
  have l: "length bs \<le> length a" using assms(2,3) by simp
  have "drop (length bs) (lb @ bs @ rest) = drop (length bs) (lb @ bs) @ rest"
    by (metis append.assoc drop_append length_append le_add2 diff_is_0_eq drop0)
  then show "drop (length bs) (lb @ bs) @ rest = drop (length bs) a @ w @ b" using assms(1) l by simp
  show "length lb < length (drop (length bs) a @ w)" using assms(3) l by simp
qed

lemma rgrep_loop_finds:
  assumes mono: "\<And>a w b. re w \<noteq> None \<Longrightarrow> re (a @ w @ b) \<noteq> None"
    and w: "re w \<noteq> None" "w \<noteq> []" "length w \<le> Suc lookBack"
  shows "length lb = lookBack \<Longrightarrow> stops r \<Longrightarrow> lb @ delivered r = a @ w @ b \<Longrightarrow> length lb < length (a @ w) \<Longrightarrow>
    \<exists>m. rgrep_loop re lb r = Inr m"
proof (induction r arbitrary: lb a b)
  case Nil
  then have "length (a @ w) \<le> length lb" by (metis append_Nil2 append.assoc delivered_simps(1) le_add1 length_append)
  with Nil.prems(4) show ?case by simp
next
  case (Cons c r)
  obtain bs err where c: "c = (bs, err)" by (cases c)
  show ?case
  proof (cases "bs \<noteq> [] \<and> re (lb @ bs) \<noteq> None")
    case True
    then show ?thesis by (auto simp: c)
  next
    case no: False
    have eq: "lb @ bs @ delivered r = a @ w @ b" using Cons.prems(3) by (simp add: c)
    have out: "\<not> length (a @ w) \<le> length (lb @ bs)"
    proof
      assume le: "length (a @ w) \<le> length (lb @ bs)"
      then have "bs \<noteq> []" using Cons.prems(4) by auto
      moreover have "lb @ bs = a @ w @ drop (length (a @ w)) (lb @ bs)"
        using eq le by (metis append.assoc append_eq_append_conv_if append_take_drop_id)
      then have "re (lb @ bs) \<noteq> None" using mono [OF w(1)] by metis
      ultimately show False using no by blast
    qed
    then have "r \<noteq> []" using eq by (metis append_Nil2 append.assoc delivered_simps(1) le_add1 length_append)
    then have ok: "err = Read_ok" "stops r" using Cons.prems(2) by (auto simp: c stops_def)
    define lb' where "lb' = (if bs \<noteq> [] then drop (length (lb @ bs) - lookBack) (lb @ bs) else lb)"
    have l: "length lb' = lookBack" using Cons.prems(1) by (auto simp: lb'_def)
    have "lb' = drop (length bs) (lb @ bs)" using Cons.prems(1) by (simp add: lb'_def)
    then have ab: "lb' @ delivered r = drop (length bs) a @ w @ b" "length lb' < length (drop (length bs) a @ w)"
      using block_kept [OF eq _ out] w(3) Cons.prems(1) l by simp_all
    have "rgrep_loop re lb (c # r) = rgrep_loop re lb' r"
      using no ok(1) by (auto simp: c lb'_def Let_def)
    with Cons.IH [OF l ok(2) ab] show ?thesis by simp
  qed
qed

lemma rgrep_loop_sound:
  "rgrep_loop re lb r = Inr m \<Longrightarrow> \<exists>a w b. lb @ delivered r = a @ w @ b \<and> re w = Some m"
proof (induction r arbitrary: lb)
  case (Cons c r)
  obtain bs err where c: "c = (bs, err)" by (cases c)
  show ?case
  proof (cases "bs \<noteq> [] \<and> re (lb @ bs) \<noteq> None")
    case True
    then have "re (lb @ bs) = Some m" using Cons.prems by (auto simp: c)
    then show ?thesis by (intro exI [of _ "[]"] exI [of _ "lb @ bs"] exI [of _ "delivered r"]) (simp add: c)
  next
    case False
    define n where "n = (if bs \<noteq> [] then length (lb @ bs) - lookBack else 0)"
    have n: "n \<le> length (lb @ bs)" by (simp add: n_def)
    have "rgrep_loop re (drop n (lb @ bs)) r = Inr m"
      using False Cons.prems by (auto simp: c n_def Let_def split: read_status.splits if_splits)
    then obtain a w b where "drop n (lb @ bs) @ delivered r = a @ w @ b" "re w = Some m" using Cons.IH by blast
    moreover have "lb @ delivered (c # r) = take n (lb @ bs) @ drop n (lb @ bs) @ delivered r"
      by (metis append.assoc append_take_drop_id c delivered_simps(2))
    ultimately show ?thesis by (metis append.assoc)
  qed
qed simp

section \<open>Matches\<close>

lemma leftmost_Some: "leftmost m s = Some x \<Longrightarrow> \<exists>u v. s = u @ v \<and> m v = Some x"
proof (induction s)
  case (Cons c s)
  show ?case
  proof (cases "m (c # s)")
    case None
    with Cons obtain u v where "s = u @ v" "m v = Some x" by auto
    then show ?thesis by (intro exI [of _ "c # u"] exI [of _ v]) simp
  next
    case (Some y)
    with Cons.prems show ?thesis by (intro exI [of _ "[]"] exI [of _ "c # s"]) simp
  qed
qed simp

lemma leftmost_not_None: "m v \<noteq> None \<Longrightarrow> leftmost m (u @ v) \<noteq> None"
proof (induction u)
  case Nil
  then show ?case by (cases v) (auto split: option.splits)
qed (auto split: option.splits)

lemma strip_Some: "strip p s = Some t \<longleftrightarrow> s = p @ t"
  by (auto simp: strip_def) (metis append_take_drop_id)

text \<open>What \<open>number_then\<close> matches: digits and a byte that ends them.\<close>

definition number_text :: "go_string \<Rightarrow> u8 \<Rightarrow> bool" where
  "number_text d c \<longleftrightarrow> d \<noteq> [] \<and> list_all is_digit d \<and> \<not> is_digit c"

lemma number_then_Some: "number_then s = Some d \<longleftrightarrow> (\<exists>c b. s = d @ c # b \<and> number_text d c)"
proof
  assume n: "number_then s = Some d"
  then have "dropWhile is_digit s \<noteq> []" "d = takeWhile is_digit s" "d \<noteq> []"
    by (simp_all add: number_then_def split: if_splits)
  then obtain c b where cb: "dropWhile is_digit s = c # b" "d = takeWhile is_digit s" "d \<noteq> []"
    by (cases "dropWhile is_digit s") simp_all
  then have "\<not> is_digit c" using hd_dropWhile [of is_digit s] by simp
  moreover have "list_all is_digit d" using cb(2) by (auto simp: list_all_iff dest: set_takeWhileD)
  moreover have "s = d @ c # b" using cb by (metis takeWhile_dropWhile_id)
  ultimately show "\<exists>c b. s = d @ c # b \<and> number_text d c" using cb(3) by (auto simp: number_text_def)
qed (auto simp: number_then_def number_text_def list_all_iff takeWhile_append2 dropWhile_append2)

definition number_after :: "u8 list \<Rightarrow> u8 list \<Rightarrow> go_string option" where
  "number_after p = leftmost (\<lambda>s. Option.bind (strip p s) number_then)"

lemma number_after_Some:
  "number_after p s = Some d \<Longrightarrow> \<exists>a c b. s = a @ (p @ d @ [c]) @ b \<and> number_text d c"
  unfolding number_after_def
  by (drule leftmost_Some) (force simp: bind_eq_Some_conv strip_Some number_then_Some)

lemma number_after_found: "number_text d c \<Longrightarrow> number_after p (a @ (p @ d @ [c]) @ b) \<noteq> None"
  unfolding number_after_def
  by (intro leftmost_not_None) (auto simp: bind_eq_None_conv strip_Some number_then_Some strip_def number_text_def
      number_then_def list_all_iff takeWhile_append2 dropWhile_append2)

lemma number_after_mono: "number_after p w \<noteq> None \<Longrightarrow> number_after p (a @ w @ b) \<noteq> None"
  using number_after_found [of _ _ p "a @ _" "_ @ b"] by (auto dest!: number_after_Some)

text \<open>A pattern that starts with a digit has no match that begins in the zero bytes.\<close>

lemma no_zero_match:
  assumes "replicate n 0 @ s = a @ (x # w) @ b" "x \<noteq> 0"
  shows "\<exists>a'. s = a' @ (x # w) @ b"
  using assms
proof (induction n arbitrary: a)
  case (Suc n)
  then show ?case by (cases a) auto
qed auto

lemma rgrep_number:
  assumes p: "p \<noteq> []" "hd p \<noteq> 0" and r: "stops r" "delivered r = a @ (p @ d @ [c]) @ b" "number_text d c"
    and short: "length (p @ d @ [c]) \<le> Suc lookBack"
    and only: "\<And>a' d' c' b'. delivered r = a' @ (p @ d' @ [c']) @ b' \<Longrightarrow> number_text d' c' \<Longrightarrow> d' = d"
  shows "rgrep (number_after p) r = Inr d"
proof -
  let ?w = "p @ d @ [c]"
  have "number_after p ?w \<noteq> None" using number_after_found [OF r(3), of p "[]" "[]"] by simp
  then obtain m where m: "rgrep (number_after p) r = Inr m"
    using rgrep_loop_finds [of "number_after p" ?w "replicate lookBack 0" r "replicate lookBack 0 @ a" b]
      number_after_mono short p(1) r(1,2) by (auto simp: rgrep_def)
  obtain u w v where w: "replicate lookBack 0 @ delivered r = u @ w @ v" "number_after p w = Some m"
    using rgrep_loop_sound [OF m [unfolded rgrep_def]] by blast
  obtain a1 c1 b1 where w1: "w = a1 @ (p @ m @ [c1]) @ b1" "number_text m c1" using number_after_Some [OF w(2)] by blast
  obtain x p' where xp: "p = x # p'" "x \<noteq> 0" using p by (cases p) auto
  have "replicate lookBack 0 @ delivered r = (u @ a1) @ (x # p' @ m @ [c1]) @ (b1 @ v)"
    using w(1) w1(1) xp(1) by simp
  from no_zero_match [OF this xp(2)] obtain a' where "delivered r = a' @ (p @ m @ [c1]) @ (b1 @ v)"
    using xp(1) by auto
  then have "m = d" using only w1(2) by blast
  with m show ?thesis by simp
qed

section \<open>The choice of an entry\<close>

lemma same_minor_Compare: "same_minor v x \<Longrightarrow> same_minor w x \<Longrightarrow> Compare v w = Patch v - Patch w"
  by (auto simp: same_minor_def Compare_def)

lemma guess_loop_None: "guess_loop version es found = None \<longleftrightarrow> found = None \<and> (\<forall>e\<in>set es. \<not> same_minor (fst e) version)"
  by (induction version es found rule: guess_loop.induct) (auto split: option.splits)

lemma guess_loop_Some:
  assumes "guess_loop version es found = Some e" "\<forall>f. found = Some f \<longrightarrow> same_minor (fst f) version"
  shows "(e \<in> set es \<or> found = Some e) \<and> same_minor (fst e) version \<and>
    (\<forall>f. f \<in> set es \<or> found = Some f \<longrightarrow> same_minor (fst f) version \<longrightarrow> Patch (fst f) \<le> Patch (fst e))"
  using assms
proof (induction es arbitrary: found)
  case (Cons x es)
  obtain v off where x: "x = (v, off)" by (cases x)
  define found' where "found' = (if same_minor v version
     then (case found of None \<Rightarrow> Some (v, off)
           | Some (foundVersion, offsets) \<Rightarrow> if Compare v foundVersion > 0 then Some (v, off) else found) else found)"
  have run: "guess_loop version es found' = Some e" using Cons.prems(1) by (simp add: x found'_def)
  have best: "\<forall>f. found' = Some f \<longrightarrow> same_minor (fst f) version \<and> (f = x \<or> found = Some f)"
    using Cons.prems(2) by (auto simp: found'_def x split: option.splits if_splits)
  obtain e1: "e \<in> set es \<or> found' = Some e" "same_minor (fst e) version"
    and e2: "\<And>f. f \<in> set es \<or> found' = Some f \<Longrightarrow> same_minor (fst f) version \<Longrightarrow> Patch (fst f) \<le> Patch (fst e)"
    using Cons.IH [OF run] best by blast
  have le: "Patch (fst f) \<le> Patch (fst e)" if f: "f = x \<or> found = Some f" "same_minor (fst f) version" for f
  proof -
    obtain g where "found' = Some g" "Patch (fst f) \<le> Patch (fst g)"
    proof (cases found)
      case None
      with f that show ?thesis by (auto simp: found'_def x)
    next
      case (Some h)
      have "same_minor (fst h) version" using Cons.prems(2) Some by simp
      with Some f that same_minor_Compare [of v version "fst h"] show ?thesis
        by (cases h; cases "same_minor v version"; cases "Compare v (fst h) > 0") (auto simp: found'_def x)
    qed
    moreover from this have "Patch (fst g) \<le> Patch (fst e)" using e2 [of g] best by blast
    ultimately show ?thesis by linarith
  qed
  have "e \<in> set (x # es) \<or> found = Some e" using e1(1) best by (metis list.set_intros)
  then show ?case using e1(2) e2 le by (metis set_ConsD)
qed auto

definition chosen :: "Version \<Rightarrow> (Version \<times> 'a) set \<Rightarrow> Version \<times> 'a \<Rightarrow> bool" where
  "chosen version E e \<longleftrightarrow> e \<in> E \<and> same_minor (fst e) version \<and>
     (\<forall>f\<in>E. same_minor (fst f) version \<longrightarrow> Patch (fst f) \<le> Patch (fst e))"

lemma guess_loop_chosen: "guess_loop version es None = Some e \<Longrightarrow> chosen version (set es) e"
  using guess_loop_Some [of version es None e] by (auto simp: chosen_def)

lemma chosen_unique:
  assumes "chosen version (set es) e" "chosen version (set es) f" "distinct (map fst es)"
  shows "e = f"
proof -
  have "Patch (fst e) = Patch (fst f)" using assms(1,2) by (meson chosen_def order.antisym)
  then have "fst e = fst f" using assms(1,2) by (auto simp: chosen_def same_minor_def intro!: Version.equality)
  then show ?thesis using assms by (metis chosen_def eq_key_imp_eq_value prod.collapse)
qed

lemma guessing_cases:
  "getVersionGuessing version m = Some (off, g) \<Longrightarrow>
     if g then version \<notin> fst ` set m \<and> (\<exists>v. chosen version (set m) (v, off)) else (version, off) \<in> set m"
  by (auto simp: getVersionGuessing_def map_of_eq_None_iff dest: guess_loop_chosen map_of_SomeD split: option.splits)

section \<open>Properties\<close>

text \<open>C31: The patch version of an interpreter is found wherever the reads split its file: when the
  file holds the text of its version, short enough for the look-back buffer, and no other text with
  the same major and minor version, the result is the version with this patch number.\<close>

theorem python_version_found:
  assumes "0 \<le> Major v" "0 \<le> Minor v"
    and "p = digits 10 (nat (Major v)) @ go_str ''.'' @ digits 10 (nat (Minor v)) @ go_str ''.''"
    and "stops r" "delivered r = a @ (p @ d @ [c]) @ b" "number_text d c" "Atoi d = (True, n)"
    and "length (p @ d @ [c]) \<le> 17"
    and "\<And>a' d' c' b'. delivered r = a' @ (p @ d' @ [c']) @ b' \<Longrightarrow> number_text d' c' \<Longrightarrow> d' = d"
  shows "GetPythonPatchVersion r v = Inr (v\<lparr>Patch := n\<rparr>)"
proof -
  let ?m = "digits 10 (nat (Major v))"
  have ne: "?m \<noteq> []" by (subst digits.simps) simp
  then have "hd ?m \<noteq> 0" using digits_nonzero [of 10 "nat (Major v)"] hd_in_set [OF ne] by fastforce
  with ne have p: "p \<noteq> []" "hd p \<noteq> 0" unfolding assms(3) by simp_all
  have "length (p @ d @ [c]) \<le> Suc lookBack" using assms(8) by (simp add: lookBack_def)
  then have "rgrep (number_after p) r = Inr d" by (rule rgrep_number [OF p assms(4-6) _ assms(9)])
  then show ?thesis using assms(7) by (simp add: GetPythonPatchVersion_def rePythonVersion_def number_after_def assms(3))
qed

text \<open>C32: The entry for a version does not depend on the order in which Go visits the table: it is the
  entry of the version itself if there is one, otherwise the one with the greatest patch version
  among those with the same major and minor version, and an error if there are none.\<close>

theorem version_guess:
  assumes "distinct (map fst m)" "distinct (map fst m')" "set m' = set m"
  shows "getVersionGuessing version m' = getVersionGuessing version m \<and>
    (case getVersionGuessing version m of
       None \<Rightarrow> \<forall>e\<in>set m. \<not> same_minor (fst e) version
     | Some (off, g) \<Rightarrow>
         if g then version \<notin> fst ` set m \<and> (\<exists>v. chosen version (set m) (v, off)) else (version, off) \<in> set m)"
proof -
  have "map_of m' = map_of m" using assms by (intro map_of_eqI) (auto simp: map_of_eq_Some_iff fun_eq_iff image_iff)
  moreover have "guess_loop version m' None = guess_loop version m None"
  proof (cases "guess_loop version m None")
    case None
    then show ?thesis using assms(3) guess_loop_None [of version m None] guess_loop_None [of version m' None] by simp
  next
    case (Some e)
    then obtain f where f: "guess_loop version m' None = Some f"
      using assms(3) guess_loop_None by (metis not_None_eq option.distinct(1))
    have "f = e"
      using chosen_unique [OF _ _ assms(1)] guess_loop_chosen [OF Some] guess_loop_chosen [OF f] assms(3) by metis
    with f Some show ?thesis by simp
  qed
  ultimately have "getVersionGuessing version m' = getVersionGuessing version m" by (simp only: getVersionGuessing_def)
  moreover have "\<forall>e\<in>set m. \<not> same_minor (fst e) version" if "getVersionGuessing version m = None"
    using that by (auto simp: getVersionGuessing_def guess_loop_None split: option.splits)
  ultimately show ?thesis using guessing_cases [of version m] by (auto split: option.splits prod.splits)
qed

end
