(* ===== verification/Go_Offset_Tables.thy ===== *)
theory Go_Offset_Tables
  imports Go_Versions
begin

text \<open>
  The offsets of the fields of Python's structures, \<open>ebpf/python/python_offsets_gen_amd64.go\<close> and
  \<open>python_offsets_gen_arm64.go\<close>, and of the threads of glibc and musl, \<open>glibc_offsets_gen_*.go\<close>
  and \<open>musl_offsets_gen_*.go\<close>. Versions that share all their offsets share a definition here; the
  tables list the versions in the order of the files. A key that a literal repeats keeps its last
  value, so the entries of \<open>muslOffsets\<close> are listed without the repeated ones.
\<close>

section \<open>Offsets of Python\<close>

record UserOffsets =
  uo_PyVarObject_ob_size :: s16
  uo_PyObject_ob_type :: s16
  uo_PyTypeObject_tp_name :: s16
  uo_PyThreadState_frame :: s16
  uo_PyThreadState_cframe :: s16
  uo_PyThreadState_current_frame :: s16
  uo_PyCFrame_current_frame :: s16
  uo_PyFrameObject_f_back :: s16
  uo_PyFrameObject_f_code :: s16
  uo_PyFrameObject_f_localsplus :: s16
  uo_PyCodeObject_co_filename :: s16
  uo_PyCodeObject_co_name :: s16
  uo_PyCodeObject_co_varnames :: s16
  uo_PyCodeObject_co_localsplusnames :: s16
  uo_PyCodeObject__co_cell2arg :: s16
  uo_PyCodeObject__co_cellvars :: s16
  uo_PyCodeObject__co_nlocals :: s16
  uo_PyTupleObject_ob_item :: s16
  uo_PyInterpreterFrame_f_code :: s16
  uo_PyInterpreterFrame_f_executable :: s16
  uo_PyInterpreterFrame_previous :: s16
  uo_PyInterpreterFrame_localsplus :: s16
  uo_PyInterpreterFrame_owner :: s16
  uo_PyRuntimeState_gilstate :: s16
  uo_PyRuntimeState_autoTSSkey :: s16
  uo_Gilstate_runtime_state_autoTSSkey :: s16
  uo_PyTssT_is_initialized :: s16
  uo_PyTssT_key :: s16
  uo_PyTssTSize :: s16
  uo_PyASCIIObjectSize :: s16
  uo_PyCompactUnicodeObjectSize :: s16
  uo_PyCellObject__ob_ref :: s16

definition versions :: "int \<Rightarrow> int \<Rightarrow> int list \<Rightarrow> 'a \<Rightarrow> (Version \<times> 'a) list" where
  "versions major minor patches offsets = map (\<lambda>p. (ver major minor p, offsets)) patches"

subsection \<open>amd64\<close>

definition py3_5_amd64 :: UserOffsets where
  "py3_5_amd64 =
   \<lparr>uo_PyVarObject_ob_size = 16, uo_PyObject_ob_type = 8, uo_PyTypeObject_tp_name = 24,
    uo_PyThreadState_frame = 24, uo_PyThreadState_cframe = -1, uo_PyThreadState_current_frame = -1,
    uo_PyCFrame_current_frame = -1, uo_PyFrameObject_f_back = 24, uo_PyFrameObject_f_code = 32,
    uo_PyFrameObject_f_localsplus = 376, uo_PyCodeObject_co_filename = 96, uo_PyCodeObject_co_name = 104,
    uo_PyCodeObject_co_varnames = 64, uo_PyCodeObject_co_localsplusnames = -1,
    uo_PyCodeObject__co_cell2arg = 88, uo_PyCodeObject__co_cellvars = 80, uo_PyCodeObject__co_nlocals = 24,
    uo_PyTupleObject_ob_item = 24, uo_PyInterpreterFrame_f_code = -1,
    uo_PyInterpreterFrame_f_executable = -1, uo_PyInterpreterFrame_previous = -1,
    uo_PyInterpreterFrame_localsplus = -1, uo_PyInterpreterFrame_owner = -1,
    uo_PyRuntimeState_gilstate = -1, uo_PyRuntimeState_autoTSSkey = -1,
    uo_Gilstate_runtime_state_autoTSSkey = -1, uo_PyTssT_is_initialized = -1, uo_PyTssT_key = -1,
    uo_PyTssTSize = -1, uo_PyASCIIObjectSize = 48, uo_PyCompactUnicodeObjectSize = 72,
    uo_PyCellObject__ob_ref = 16\<rparr>"

definition py3_6_amd64 :: UserOffsets where
  "py3_6_amd64 =
   \<lparr>uo_PyVarObject_ob_size = 16, uo_PyObject_ob_type = 8, uo_PyTypeObject_tp_name = 24,
    uo_PyThreadState_frame = 24, uo_PyThreadState_cframe = -1, uo_PyThreadState_current_frame = -1,
    uo_PyCFrame_current_frame = -1, uo_PyFrameObject_f_back = 24, uo_PyFrameObject_f_code = 32,
    uo_PyFrameObject_f_localsplus = 376, uo_PyCodeObject_co_filename = 96, uo_PyCodeObject_co_name = 104,
    uo_PyCodeObject_co_varnames = 64, uo_PyCodeObject_co_localsplusnames = -1,
    uo_PyCodeObject__co_cell2arg = 88, uo_PyCodeObject__co_cellvars = 80, uo_PyCodeObject__co_nlocals = 24,
    uo_PyTupleObject_ob_item = 24, uo_PyInterpreterFrame_f_code = -1,
    uo_PyInterpreterFrame_f_executable = -1, uo_PyInterpreterFrame_previous = -1,
    uo_PyInterpreterFrame_localsplus = -1, uo_PyInterpreterFrame_owner = -1,
    uo_PyRuntimeState_gilstate = -1, uo_PyRuntimeState_autoTSSkey = -1,
    uo_Gilstate_runtime_state_autoTSSkey = -1, uo_PyTssT_is_initialized = -1, uo_PyTssT_key = -1,
    uo_PyTssTSize = -1, uo_PyASCIIObjectSize = 48, uo_PyCompactUnicodeObjectSize = 72,
    uo_PyCellObject__ob_ref = 16\<rparr>"

definition py3_7_amd64 :: UserOffsets where
  "py3_7_amd64 =
   \<lparr>uo_PyVarObject_ob_size = 16, uo_PyObject_ob_type = 8, uo_PyTypeObject_tp_name = 24,
    uo_PyThreadState_frame = 24, uo_PyThreadState_cframe = -1, uo_PyThreadState_current_frame = -1,
    uo_PyCFrame_current_frame = -1, uo_PyFrameObject_f_back = 24, uo_PyFrameObject_f_code = 32,
    uo_PyFrameObject_f_localsplus = 360, uo_PyCodeObject_co_filename = 96, uo_PyCodeObject_co_name = 104,
    uo_PyCodeObject_co_varnames = 64, uo_PyCodeObject_co_localsplusnames = -1,
    uo_PyCodeObject__co_cell2arg = 88, uo_PyCodeObject__co_cellvars = 80, uo_PyCodeObject__co_nlocals = 24,
    uo_PyTupleObject_ob_item = 24, uo_PyInterpreterFrame_f_code = -1,
    uo_PyInterpreterFrame_f_executable = -1, uo_PyInterpreterFrame_previous = -1,
    uo_PyInterpreterFrame_localsplus = -1, uo_PyInterpreterFrame_owner = -1,
    uo_PyRuntimeState_gilstate = 1384, uo_PyRuntimeState_autoTSSkey = -1,
    uo_Gilstate_runtime_state_autoTSSkey = 32, uo_PyTssT_is_initialized = 0, uo_PyTssT_key = 4,
    uo_PyTssTSize = 8, uo_PyASCIIObjectSize = 48, uo_PyCompactUnicodeObjectSize = 72,
    uo_PyCellObject__ob_ref = 16\<rparr>"

definition py3_7_4_amd64 :: UserOffsets where
  "py3_7_4_amd64 =
   \<lparr>uo_PyVarObject_ob_size = 16, uo_PyObject_ob_type = 8, uo_PyTypeObject_tp_name = 24,
    uo_PyThreadState_frame = 24, uo_PyThreadState_cframe = -1, uo_PyThreadState_current_frame = -1,
    uo_PyCFrame_current_frame = -1, uo_PyFrameObject_f_back = 24, uo_PyFrameObject_f_code = 32,
    uo_PyFrameObject_f_localsplus = 360, uo_PyCodeObject_co_filename = 96, uo_PyCodeObject_co_name = 104,
    uo_PyCodeObject_co_varnames = 64, uo_PyCodeObject_co_localsplusnames = -1,
    uo_PyCodeObject__co_cell2arg = 88, uo_PyCodeObject__co_cellvars = 80, uo_PyCodeObject__co_nlocals = 24,
    uo_PyTupleObject_ob_item = 24, uo_PyInterpreterFrame_f_code = -1,
    uo_PyInterpreterFrame_f_executable = -1, uo_PyInterpreterFrame_previous = -1,
    uo_PyInterpreterFrame_localsplus = -1, uo_PyInterpreterFrame_owner = -1,
    uo_PyRuntimeState_gilstate = 1472, uo_PyRuntimeState_autoTSSkey = -1,
    uo_Gilstate_runtime_state_autoTSSkey = 32, uo_PyTssT_is_initialized = 0, uo_PyTssT_key = 4,
    uo_PyTssTSize = 8, uo_PyASCIIObjectSize = 48, uo_PyCompactUnicodeObjectSize = 72,
    uo_PyCellObject__ob_ref = 16\<rparr>"

definition py3_8_amd64 :: UserOffsets where
  "py3_8_amd64 =
   \<lparr>uo_PyVarObject_ob_size = 16, uo_PyObject_ob_type = 8, uo_PyTypeObject_tp_name = 24,
    uo_PyThreadState_frame = 24, uo_PyThreadState_cframe = -1, uo_PyThreadState_current_frame = -1,
    uo_PyCFrame_current_frame = -1, uo_PyFrameObject_f_back = 24, uo_PyFrameObject_f_code = 32,
    uo_PyFrameObject_f_localsplus = 360, uo_PyCodeObject_co_filename = 104, uo_PyCodeObject_co_name = 112,
    uo_PyCodeObject_co_varnames = 72, uo_PyCodeObject_co_localsplusnames = -1,
    uo_PyCodeObject__co_cell2arg = 96, uo_PyCodeObject__co_cellvars = 88, uo_PyCodeObject__co_nlocals = 28,
    uo_PyTupleObject_ob_item = 24, uo_PyInterpreterFrame_f_code = -1,
    uo_PyInterpreterFrame_f_executable = -1, uo_PyInterpreterFrame_previous = -1,
    uo_PyInterpreterFrame_localsplus = -1, uo_PyInterpreterFrame_owner = -1,
    uo_PyRuntimeState_gilstate = 1360, uo_PyRuntimeState_autoTSSkey = -1,
    uo_Gilstate_runtime_state_autoTSSkey = 32, uo_PyTssT_is_initialized = 0, uo_PyTssT_key = 4,
    uo_PyTssTSize = 8, uo_PyASCIIObjectSize = 48, uo_PyCompactUnicodeObjectSize = 72,
    uo_PyCellObject__ob_ref = 16\<rparr>"

definition py3_9_amd64 :: UserOffsets where
  "py3_9_amd64 =
   \<lparr>uo_PyVarObject_ob_size = 16, uo_PyObject_ob_type = 8, uo_PyTypeObject_tp_name = 24,
    uo_PyThreadState_frame = 24, uo_PyThreadState_cframe = -1, uo_PyThreadState_current_frame = -1,
    uo_PyCFrame_current_frame = -1, uo_PyFrameObject_f_back = 24, uo_PyFrameObject_f_code = 32,
    uo_PyFrameObject_f_localsplus = 360, uo_PyCodeObject_co_filename = 104, uo_PyCodeObject_co_name = 112,
    uo_PyCodeObject_co_varnames = 72, uo_PyCodeObject_co_localsplusnames = -1,
    uo_PyCodeObject__co_cell2arg = 96, uo_PyCodeObject__co_cellvars = 88, uo_PyCodeObject__co_nlocals = 28,
    uo_PyTupleObject_ob_item = 24, uo_PyInterpreterFrame_f_code = -1,
    uo_PyInterpreterFrame_f_executable = -1, uo_PyInterpreterFrame_previous = -1,
    uo_PyInterpreterFrame_localsplus = -1, uo_PyInterpreterFrame_owner = -1,
    uo_PyRuntimeState_gilstate = 560, uo_PyRuntimeState_autoTSSkey = -1,
    uo_Gilstate_runtime_state_autoTSSkey = 24, uo_PyTssT_is_initialized = 0, uo_PyTssT_key = 4,
    uo_PyTssTSize = 8, uo_PyASCIIObjectSize = 48, uo_PyCompactUnicodeObjectSize = 72,
    uo_PyCellObject__ob_ref = 16\<rparr>"

definition py3_10_amd64 :: UserOffsets where
  "py3_10_amd64 =
   \<lparr>uo_PyVarObject_ob_size = 16, uo_PyObject_ob_type = 8, uo_PyTypeObject_tp_name = 24,
    uo_PyThreadState_frame = 24, uo_PyThreadState_cframe = 48, uo_PyThreadState_current_frame = -1,
    uo_PyCFrame_current_frame = -1, uo_PyFrameObject_f_back = 24, uo_PyFrameObject_f_code = 32,
    uo_PyFrameObject_f_localsplus = 352, uo_PyCodeObject_co_filename = 104, uo_PyCodeObject_co_name = 112,
    uo_PyCodeObject_co_varnames = 72, uo_PyCodeObject_co_localsplusnames = -1,
    uo_PyCodeObject__co_cell2arg = 96, uo_PyCodeObject__co_cellvars = 88, uo_PyCodeObject__co_nlocals = 28,
    uo_PyTupleObject_ob_item = 24, uo_PyInterpreterFrame_f_code = -1,
    uo_PyInterpreterFrame_f_executable = -1, uo_PyInterpreterFrame_previous = -1,
    uo_PyInterpreterFrame_localsplus = -1, uo_PyInterpreterFrame_owner = -1,
    uo_PyRuntimeState_gilstate = 560, uo_PyRuntimeState_autoTSSkey = -1,
    uo_Gilstate_runtime_state_autoTSSkey = 24, uo_PyTssT_is_initialized = 0, uo_PyTssT_key = 4,
    uo_PyTssTSize = 8, uo_PyASCIIObjectSize = 48, uo_PyCompactUnicodeObjectSize = 72,
    uo_PyCellObject__ob_ref = 16\<rparr>"

definition py3_11_amd64 :: UserOffsets where
  "py3_11_amd64 =
   \<lparr>uo_PyVarObject_ob_size = 16, uo_PyObject_ob_type = 8, uo_PyTypeObject_tp_name = 24,
    uo_PyThreadState_frame = -1, uo_PyThreadState_cframe = 56, uo_PyThreadState_current_frame = -1,
    uo_PyCFrame_current_frame = 8, uo_PyFrameObject_f_back = 16, uo_PyFrameObject_f_code = -1,
    uo_PyFrameObject_f_localsplus = -1, uo_PyCodeObject_co_filename = 112, uo_PyCodeObject_co_name = 120,
    uo_PyCodeObject_co_varnames = -1, uo_PyCodeObject_co_localsplusnames = 96,
    uo_PyCodeObject__co_cell2arg = -1, uo_PyCodeObject__co_cellvars = -1, uo_PyCodeObject__co_nlocals = 80,
    uo_PyTupleObject_ob_item = 24, uo_PyInterpreterFrame_f_code = 32,
    uo_PyInterpreterFrame_f_executable = -1, uo_PyInterpreterFrame_previous = 48,
    uo_PyInterpreterFrame_localsplus = 72, uo_PyInterpreterFrame_owner = 69,
    uo_PyRuntimeState_gilstate = 568, uo_PyRuntimeState_autoTSSkey = -1,
    uo_Gilstate_runtime_state_autoTSSkey = 24, uo_PyTssT_is_initialized = 0, uo_PyTssT_key = 4,
    uo_PyTssTSize = 8, uo_PyASCIIObjectSize = 48, uo_PyCompactUnicodeObjectSize = 72,
    uo_PyCellObject__ob_ref = 16\<rparr>"

definition py3_12_amd64 :: UserOffsets where
  "py3_12_amd64 =
   \<lparr>uo_PyVarObject_ob_size = 16, uo_PyObject_ob_type = 8, uo_PyTypeObject_tp_name = 24,
    uo_PyThreadState_frame = -1, uo_PyThreadState_cframe = 56, uo_PyThreadState_current_frame = -1,
    uo_PyCFrame_current_frame = 0, uo_PyFrameObject_f_back = 16, uo_PyFrameObject_f_code = -1,
    uo_PyFrameObject_f_localsplus = -1, uo_PyCodeObject_co_filename = 112, uo_PyCodeObject_co_name = 120,
    uo_PyCodeObject_co_varnames = -1, uo_PyCodeObject_co_localsplusnames = 96,
    uo_PyCodeObject__co_cell2arg = -1, uo_PyCodeObject__co_cellvars = -1, uo_PyCodeObject__co_nlocals = 80,
    uo_PyTupleObject_ob_item = 24, uo_PyInterpreterFrame_f_code = 0,
    uo_PyInterpreterFrame_f_executable = -1, uo_PyInterpreterFrame_previous = 8,
    uo_PyInterpreterFrame_localsplus = 72, uo_PyInterpreterFrame_owner = 70,
    uo_PyRuntimeState_gilstate = 2560, uo_PyRuntimeState_autoTSSkey = 1544,
    uo_Gilstate_runtime_state_autoTSSkey = -1, uo_PyTssT_is_initialized = 0, uo_PyTssT_key = 4,
    uo_PyTssTSize = 8, uo_PyASCIIObjectSize = 40, uo_PyCompactUnicodeObjectSize = 56,
    uo_PyCellObject__ob_ref = 16\<rparr>"

definition py3_13_amd64 :: UserOffsets where
  "py3_13_amd64 =
   \<lparr>uo_PyVarObject_ob_size = 16, uo_PyObject_ob_type = 8, uo_PyTypeObject_tp_name = 24,
    uo_PyThreadState_frame = -1, uo_PyThreadState_cframe = -1, uo_PyThreadState_current_frame = 72,
    uo_PyCFrame_current_frame = -1, uo_PyFrameObject_f_back = 16, uo_PyFrameObject_f_code = -1,
    uo_PyFrameObject_f_localsplus = -1, uo_PyCodeObject_co_filename = 112, uo_PyCodeObject_co_name = 120,
    uo_PyCodeObject_co_varnames = -1, uo_PyCodeObject_co_localsplusnames = 96,
    uo_PyCodeObject__co_cell2arg = -1, uo_PyCodeObject__co_cellvars = -1, uo_PyCodeObject__co_nlocals = 80,
    uo_PyTupleObject_ob_item = 24, uo_PyInterpreterFrame_f_code = -1,
    uo_PyInterpreterFrame_f_executable = 0, uo_PyInterpreterFrame_previous = 8,
    uo_PyInterpreterFrame_localsplus = 72, uo_PyInterpreterFrame_owner = 70,
    uo_PyRuntimeState_gilstate = 3160, uo_PyRuntimeState_autoTSSkey = 1896,
    uo_Gilstate_runtime_state_autoTSSkey = -1, uo_PyTssT_is_initialized = 0, uo_PyTssT_key = 4,
    uo_PyTssTSize = 8, uo_PyASCIIObjectSize = 40, uo_PyCompactUnicodeObjectSize = 56,
    uo_PyCellObject__ob_ref = 16\<rparr>"

definition pyVersions_amd64 :: "(Version \<times> UserOffsets) list" where
  "pyVersions_amd64 =
     versions 3 5 [0, 1, 2, 3, 4, 5, 6, 7, 8, 9, 10] py3_5_amd64 @
     versions 3 6 [0, 1, 2, 3, 4, 5, 6, 7, 8, 9, 10, 11, 12, 13, 14, 15] py3_6_amd64 @
     versions 3 7 [0, 1, 2, 3] py3_7_amd64 @
     versions 3 7 [4, 5, 6, 7, 8, 9, 10, 11, 12, 13, 14, 15, 16, 17] py3_7_4_amd64 @
     versions 3 8 [0, 1, 2, 3, 4, 5, 6, 7, 8, 9, 10, 11, 12, 13, 14, 15, 16, 17, 18] py3_8_amd64 @
     versions 3 9 [0, 1, 2, 4, 5, 6, 7, 8, 9, 10, 11, 12, 13, 14, 15, 16, 17, 18] py3_9_amd64 @
     versions 3 10 [0, 1, 2, 3, 4, 5, 6, 7, 8, 9, 10, 11, 12, 13] py3_10_amd64 @
     versions 3 11 [0, 1, 2, 3, 4, 5, 6, 7, 8] py3_11_amd64 @
     versions 3 12 [0, 1, 2] py3_12_amd64 @
     versions 3 13 [0] py3_13_amd64"

subsection \<open>arm64\<close>

definition py3_5_arm64 :: UserOffsets where
  "py3_5_arm64 =
   \<lparr>uo_PyVarObject_ob_size = 16, uo_PyObject_ob_type = 8, uo_PyTypeObject_tp_name = 24,
    uo_PyThreadState_frame = 24, uo_PyThreadState_cframe = -1, uo_PyThreadState_current_frame = -1,
    uo_PyCFrame_current_frame = -1, uo_PyFrameObject_f_back = 24, uo_PyFrameObject_f_code = 32,
    uo_PyFrameObject_f_localsplus = 376, uo_PyCodeObject_co_filename = 96, uo_PyCodeObject_co_name = 104,
    uo_PyCodeObject_co_varnames = 64, uo_PyCodeObject_co_localsplusnames = -1,
    uo_PyCodeObject__co_cell2arg = 88, uo_PyCodeObject__co_cellvars = 80, uo_PyCodeObject__co_nlocals = 24,
    uo_PyTupleObject_ob_item = 24, uo_PyInterpreterFrame_f_code = -1,
    uo_PyInterpreterFrame_f_executable = -1, uo_PyInterpreterFrame_previous = -1,
    uo_PyInterpreterFrame_localsplus = -1, uo_PyInterpreterFrame_owner = -1,
    uo_PyRuntimeState_gilstate = -1, uo_PyRuntimeState_autoTSSkey = -1,
    uo_Gilstate_runtime_state_autoTSSkey = -1, uo_PyTssT_is_initialized = -1, uo_PyTssT_key = -1,
    uo_PyTssTSize = -1, uo_PyASCIIObjectSize = 48, uo_PyCompactUnicodeObjectSize = 72,
    uo_PyCellObject__ob_ref = 16\<rparr>"

definition py3_6_arm64 :: UserOffsets where
  "py3_6_arm64 =
   \<lparr>uo_PyVarObject_ob_size = 16, uo_PyObject_ob_type = 8, uo_PyTypeObject_tp_name = 24,
    uo_PyThreadState_frame = 24, uo_PyThreadState_cframe = -1, uo_PyThreadState_current_frame = -1,
    uo_PyCFrame_current_frame = -1, uo_PyFrameObject_f_back = 24, uo_PyFrameObject_f_code = 32,
    uo_PyFrameObject_f_localsplus = 376, uo_PyCodeObject_co_filename = 96, uo_PyCodeObject_co_name = 104,
    uo_PyCodeObject_co_varnames = 64, uo_PyCodeObject_co_localsplusnames = -1,
    uo_PyCodeObject__co_cell2arg = 88, uo_PyCodeObject__co_cellvars = 80, uo_PyCodeObject__co_nlocals = 24,
    uo_PyTupleObject_ob_item = 24, uo_PyInterpreterFrame_f_code = -1,
    uo_PyInterpreterFrame_f_executable = -1, uo_PyInterpreterFrame_previous = -1,
    uo_PyInterpreterFrame_localsplus = -1, uo_PyInterpreterFrame_owner = -1,
    uo_PyRuntimeState_gilstate = -1, uo_PyRuntimeState_autoTSSkey = -1,
    uo_Gilstate_runtime_state_autoTSSkey = -1, uo_PyTssT_is_initialized = -1, uo_PyTssT_key = -1,
    uo_PyTssTSize = -1, uo_PyASCIIObjectSize = 48, uo_PyCompactUnicodeObjectSize = 72,
    uo_PyCellObject__ob_ref = 16\<rparr>"

definition py3_7_arm64 :: UserOffsets where
  "py3_7_arm64 =
   \<lparr>uo_PyVarObject_ob_size = 16, uo_PyObject_ob_type = 8, uo_PyTypeObject_tp_name = 24,
    uo_PyThreadState_frame = 24, uo_PyThreadState_cframe = -1, uo_PyThreadState_current_frame = -1,
    uo_PyCFrame_current_frame = -1, uo_PyFrameObject_f_back = 24, uo_PyFrameObject_f_code = 32,
    uo_PyFrameObject_f_localsplus = 360, uo_PyCodeObject_co_filename = 96, uo_PyCodeObject_co_name = 104,
    uo_PyCodeObject_co_varnames = 64, uo_PyCodeObject_co_localsplusnames = -1,
    uo_PyCodeObject__co_cell2arg = 88, uo_PyCodeObject__co_cellvars = 80, uo_PyCodeObject__co_nlocals = 24,
    uo_PyTupleObject_ob_item = 24, uo_PyInterpreterFrame_f_code = -1,
    uo_PyInterpreterFrame_f_executable = -1, uo_PyInterpreterFrame_previous = -1,
    uo_PyInterpreterFrame_localsplus = -1, uo_PyInterpreterFrame_owner = -1,
    uo_PyRuntimeState_gilstate = 1400, uo_PyRuntimeState_autoTSSkey = -1,
    uo_Gilstate_runtime_state_autoTSSkey = 32, uo_PyTssT_is_initialized = 0, uo_PyTssT_key = 4,
    uo_PyTssTSize = 8, uo_PyASCIIObjectSize = 48, uo_PyCompactUnicodeObjectSize = 72,
    uo_PyCellObject__ob_ref = 16\<rparr>"

definition py3_7_4_arm64 :: UserOffsets where
  "py3_7_4_arm64 =
   \<lparr>uo_PyVarObject_ob_size = 16, uo_PyObject_ob_type = 8, uo_PyTypeObject_tp_name = 24,
    uo_PyThreadState_frame = 24, uo_PyThreadState_cframe = -1, uo_PyThreadState_current_frame = -1,
    uo_PyCFrame_current_frame = -1, uo_PyFrameObject_f_back = 24, uo_PyFrameObject_f_code = 32,
    uo_PyFrameObject_f_localsplus = 360, uo_PyCodeObject_co_filename = 96, uo_PyCodeObject_co_name = 104,
    uo_PyCodeObject_co_varnames = 64, uo_PyCodeObject_co_localsplusnames = -1,
    uo_PyCodeObject__co_cell2arg = 88, uo_PyCodeObject__co_cellvars = 80, uo_PyCodeObject__co_nlocals = 24,
    uo_PyTupleObject_ob_item = 24, uo_PyInterpreterFrame_f_code = -1,
    uo_PyInterpreterFrame_f_executable = -1, uo_PyInterpreterFrame_previous = -1,
    uo_PyInterpreterFrame_localsplus = -1, uo_PyInterpreterFrame_owner = -1,
    uo_PyRuntimeState_gilstate = 1488, uo_PyRuntimeState_autoTSSkey = -1,
    uo_Gilstate_runtime_state_autoTSSkey = 32, uo_PyTssT_is_initialized = 0, uo_PyTssT_key = 4,
    uo_PyTssTSize = 8, uo_PyASCIIObjectSize = 48, uo_PyCompactUnicodeObjectSize = 72,
    uo_PyCellObject__ob_ref = 16\<rparr>"

definition py3_8_arm64 :: UserOffsets where
  "py3_8_arm64 =
   \<lparr>uo_PyVarObject_ob_size = 16, uo_PyObject_ob_type = 8, uo_PyTypeObject_tp_name = 24,
    uo_PyThreadState_frame = 24, uo_PyThreadState_cframe = -1, uo_PyThreadState_current_frame = -1,
    uo_PyCFrame_current_frame = -1, uo_PyFrameObject_f_back = 24, uo_PyFrameObject_f_code = 32,
    uo_PyFrameObject_f_localsplus = 360, uo_PyCodeObject_co_filename = 104, uo_PyCodeObject_co_name = 112,
    uo_PyCodeObject_co_varnames = 72, uo_PyCodeObject_co_localsplusnames = -1,
    uo_PyCodeObject__co_cell2arg = 96, uo_PyCodeObject__co_cellvars = 88, uo_PyCodeObject__co_nlocals = 28,
    uo_PyTupleObject_ob_item = 24, uo_PyInterpreterFrame_f_code = -1,
    uo_PyInterpreterFrame_f_executable = -1, uo_PyInterpreterFrame_previous = -1,
    uo_PyInterpreterFrame_localsplus = -1, uo_PyInterpreterFrame_owner = -1,
    uo_PyRuntimeState_gilstate = 1376, uo_PyRuntimeState_autoTSSkey = -1,
    uo_Gilstate_runtime_state_autoTSSkey = 32, uo_PyTssT_is_initialized = 0, uo_PyTssT_key = 4,
    uo_PyTssTSize = 8, uo_PyASCIIObjectSize = 48, uo_PyCompactUnicodeObjectSize = 72,
    uo_PyCellObject__ob_ref = 16\<rparr>"

definition py3_9_arm64 :: UserOffsets where
  "py3_9_arm64 =
   \<lparr>uo_PyVarObject_ob_size = 16, uo_PyObject_ob_type = 8, uo_PyTypeObject_tp_name = 24,
    uo_PyThreadState_frame = 24, uo_PyThreadState_cframe = -1, uo_PyThreadState_current_frame = -1,
    uo_PyCFrame_current_frame = -1, uo_PyFrameObject_f_back = 24, uo_PyFrameObject_f_code = 32,
    uo_PyFrameObject_f_localsplus = 360, uo_PyCodeObject_co_filename = 104, uo_PyCodeObject_co_name = 112,
    uo_PyCodeObject_co_varnames = 72, uo_PyCodeObject_co_localsplusnames = -1,
    uo_PyCodeObject__co_cell2arg = 96, uo_PyCodeObject__co_cellvars = 88, uo_PyCodeObject__co_nlocals = 28,
    uo_PyTupleObject_ob_item = 24, uo_PyInterpreterFrame_f_code = -1,
    uo_PyInterpreterFrame_f_executable = -1, uo_PyInterpreterFrame_previous = -1,
    uo_PyInterpreterFrame_localsplus = -1, uo_PyInterpreterFrame_owner = -1,
    uo_PyRuntimeState_gilstate = 576, uo_PyRuntimeState_autoTSSkey = -1,
    uo_Gilstate_runtime_state_autoTSSkey = 24, uo_PyTssT_is_initialized = 0, uo_PyTssT_key = 4,
    uo_PyTssTSize = 8, uo_PyASCIIObjectSize = 48, uo_PyCompactUnicodeObjectSize = 72,
    uo_PyCellObject__ob_ref = 16\<rparr>"

definition py3_10_arm64 :: UserOffsets where
  "py3_10_arm64 =
   \<lparr>uo_PyVarObject_ob_size = 16, uo_PyObject_ob_type = 8, uo_PyTypeObject_tp_name = 24,
    uo_PyThreadState_frame = 24, uo_PyThreadState_cframe = 48, uo_PyThreadState_current_frame = -1,
    uo_PyCFrame_current_frame = -1, uo_PyFrameObject_f_back = 24, uo_PyFrameObject_f_code = 32,
    uo_PyFrameObject_f_localsplus = 352, uo_PyCodeObject_co_filename = 104, uo_PyCodeObject_co_name = 112,
    uo_PyCodeObject_co_varnames = 72, uo_PyCodeObject_co_localsplusnames = -1,
    uo_PyCodeObject__co_cell2arg = 96, uo_PyCodeObject__co_cellvars = 88, uo_PyCodeObject__co_nlocals = 28,
    uo_PyTupleObject_ob_item = 24, uo_PyInterpreterFrame_f_code = -1,
    uo_PyInterpreterFrame_f_executable = -1, uo_PyInterpreterFrame_previous = -1,
    uo_PyInterpreterFrame_localsplus = -1, uo_PyInterpreterFrame_owner = -1,
    uo_PyRuntimeState_gilstate = 576, uo_PyRuntimeState_autoTSSkey = -1,
    uo_Gilstate_runtime_state_autoTSSkey = 24, uo_PyTssT_is_initialized = 0, uo_PyTssT_key = 4,
    uo_PyTssTSize = 8, uo_PyASCIIObjectSize = 48, uo_PyCompactUnicodeObjectSize = 72,
    uo_PyCellObject__ob_ref = 16\<rparr>"

definition py3_11_arm64 :: UserOffsets where
  "py3_11_arm64 =
   \<lparr>uo_PyVarObject_ob_size = 16, uo_PyObject_ob_type = 8, uo_PyTypeObject_tp_name = 24,
    uo_PyThreadState_frame = -1, uo_PyThreadState_cframe = 56, uo_PyThreadState_current_frame = -1,
    uo_PyCFrame_current_frame = 8, uo_PyFrameObject_f_back = 16, uo_PyFrameObject_f_code = -1,
    uo_PyFrameObject_f_localsplus = -1, uo_PyCodeObject_co_filename = 112, uo_PyCodeObject_co_name = 120,
    uo_PyCodeObject_co_varnames = -1, uo_PyCodeObject_co_localsplusnames = 96,
    uo_PyCodeObject__co_cell2arg = -1, uo_PyCodeObject__co_cellvars = -1, uo_PyCodeObject__co_nlocals = 80,
    uo_PyTupleObject_ob_item = 24, uo_PyInterpreterFrame_f_code = 32,
    uo_PyInterpreterFrame_f_executable = -1, uo_PyInterpreterFrame_previous = 48,
    uo_PyInterpreterFrame_localsplus = 72, uo_PyInterpreterFrame_owner = 69,
    uo_PyRuntimeState_gilstate = 584, uo_PyRuntimeState_autoTSSkey = -1,
    uo_Gilstate_runtime_state_autoTSSkey = 24, uo_PyTssT_is_initialized = 0, uo_PyTssT_key = 4,
    uo_PyTssTSize = 8, uo_PyASCIIObjectSize = 48, uo_PyCompactUnicodeObjectSize = 72,
    uo_PyCellObject__ob_ref = 16\<rparr>"

definition py3_12_arm64 :: UserOffsets where
  "py3_12_arm64 =
   \<lparr>uo_PyVarObject_ob_size = 16, uo_PyObject_ob_type = 8, uo_PyTypeObject_tp_name = 24,
    uo_PyThreadState_frame = -1, uo_PyThreadState_cframe = 56, uo_PyThreadState_current_frame = -1,
    uo_PyCFrame_current_frame = 0, uo_PyFrameObject_f_back = 16, uo_PyFrameObject_f_code = -1,
    uo_PyFrameObject_f_localsplus = -1, uo_PyCodeObject_co_filename = 112, uo_PyCodeObject_co_name = 120,
    uo_PyCodeObject_co_varnames = -1, uo_PyCodeObject_co_localsplusnames = 96,
    uo_PyCodeObject__co_cell2arg = -1, uo_PyCodeObject__co_cellvars = -1, uo_PyCodeObject__co_nlocals = 80,
    uo_PyTupleObject_ob_item = 24, uo_PyInterpreterFrame_f_code = 0,
    uo_PyInterpreterFrame_f_executable = -1, uo_PyInterpreterFrame_previous = 8,
    uo_PyInterpreterFrame_localsplus = 72, uo_PyInterpreterFrame_owner = 70,
    uo_PyRuntimeState_gilstate = 2560, uo_PyRuntimeState_autoTSSkey = 1544,
    uo_Gilstate_runtime_state_autoTSSkey = -1, uo_PyTssT_is_initialized = 0, uo_PyTssT_key = 4,
    uo_PyTssTSize = 8, uo_PyASCIIObjectSize = 40, uo_PyCompactUnicodeObjectSize = 56,
    uo_PyCellObject__ob_ref = 16\<rparr>"

definition py3_13_arm64 :: UserOffsets where
  "py3_13_arm64 =
   \<lparr>uo_PyVarObject_ob_size = 16, uo_PyObject_ob_type = 8, uo_PyTypeObject_tp_name = 24,
    uo_PyThreadState_frame = -1, uo_PyThreadState_cframe = -1, uo_PyThreadState_current_frame = 72,
    uo_PyCFrame_current_frame = -1, uo_PyFrameObject_f_back = 16, uo_PyFrameObject_f_code = -1,
    uo_PyFrameObject_f_localsplus = -1, uo_PyCodeObject_co_filename = 112, uo_PyCodeObject_co_name = 120,
    uo_PyCodeObject_co_varnames = -1, uo_PyCodeObject_co_localsplusnames = 96,
    uo_PyCodeObject__co_cell2arg = -1, uo_PyCodeObject__co_cellvars = -1, uo_PyCodeObject__co_nlocals = 80,
    uo_PyTupleObject_ob_item = 24, uo_PyInterpreterFrame_f_code = -1,
    uo_PyInterpreterFrame_f_executable = 0, uo_PyInterpreterFrame_previous = 8,
    uo_PyInterpreterFrame_localsplus = 72, uo_PyInterpreterFrame_owner = 70,
    uo_PyRuntimeState_gilstate = 3160, uo_PyRuntimeState_autoTSSkey = 1896,
    uo_Gilstate_runtime_state_autoTSSkey = -1, uo_PyTssT_is_initialized = 0, uo_PyTssT_key = 4,
    uo_PyTssTSize = 8, uo_PyASCIIObjectSize = 40, uo_PyCompactUnicodeObjectSize = 56,
    uo_PyCellObject__ob_ref = 16\<rparr>"

definition pyVersions_arm64 :: "(Version \<times> UserOffsets) list" where
  "pyVersions_arm64 =
     versions 3 5 [0, 1, 2, 3, 4, 5, 6, 7, 8, 9, 10] py3_5_arm64 @
     versions 3 6 [0, 1, 2, 3, 4, 5, 6, 7, 8, 9, 10, 11, 12, 13, 14, 15] py3_6_arm64 @
     versions 3 7 [0, 1, 2, 3] py3_7_arm64 @
     versions 3 7 [4, 5, 6, 7, 8, 9, 10, 11, 12, 13, 14, 15, 16, 17] py3_7_4_arm64 @
     versions 3 8 [0, 1, 2, 3, 4, 5, 6, 7, 8, 9, 10, 11, 12, 13, 14, 15, 16, 17, 18] py3_8_arm64 @
     versions 3 9 [0, 1, 2, 4, 5, 6, 7, 8, 9, 10, 11, 12, 13, 14, 15, 16, 17, 18] py3_9_arm64 @
     versions 3 10 [0, 1, 2, 3, 4, 5, 6, 7, 8, 9, 10, 11, 12, 13] py3_10_arm64 @
     versions 3 11 [0, 1, 2, 3, 4, 5, 6, 7, 8] py3_11_arm64 @
     versions 3 12 [0, 1, 2] py3_12_arm64 @
     versions 3 13 [0] py3_13_arm64"

section \<open>Offsets of the C libraries\<close>

definition glibcOffsets_amd64 :: "(Version \<times> GlibcOffsets) list" where
  "glibcOffsets_amd64 =
     [(ver 2 27 0, \<lparr>g_PthreadSpecific1stblock = 784, g_PthreadSize = 2304, g_PthreadKeyDataData = 8, g_PthreadKeyDataSize = 16\<rparr>),
      (ver 2 28 0, \<lparr>g_PthreadSpecific1stblock = 784, g_PthreadSize = 2304, g_PthreadKeyDataData = 8, g_PthreadKeyDataSize = 16\<rparr>),
      (ver 2 29 0, \<lparr>g_PthreadSpecific1stblock = 784, g_PthreadSize = 2304, g_PthreadKeyDataData = 8, g_PthreadKeyDataSize = 16\<rparr>),
      (ver 2 30 0, \<lparr>g_PthreadSpecific1stblock = 784, g_PthreadSize = 2304, g_PthreadKeyDataData = 8, g_PthreadKeyDataSize = 16\<rparr>),
      (ver 2 31 0, \<lparr>g_PthreadSpecific1stblock = 784, g_PthreadSize = 2304, g_PthreadKeyDataData = 8, g_PthreadKeyDataSize = 16\<rparr>),
      (ver 2 32 0, \<lparr>g_PthreadSpecific1stblock = 784, g_PthreadSize = 2496, g_PthreadKeyDataData = 8, g_PthreadKeyDataSize = 16\<rparr>),
      (ver 2 33 0, \<lparr>g_PthreadSpecific1stblock = 784, g_PthreadSize = 2496, g_PthreadKeyDataData = 8, g_PthreadKeyDataSize = 16\<rparr>),
      (ver 2 34 0, \<lparr>g_PthreadSpecific1stblock = 784, g_PthreadSize = 2496, g_PthreadKeyDataData = 8, g_PthreadKeyDataSize = 16\<rparr>),
      (ver 2 35 0, \<lparr>g_PthreadSpecific1stblock = 784, g_PthreadSize = 2496, g_PthreadKeyDataData = 8, g_PthreadKeyDataSize = 16\<rparr>),
      (ver 2 36 0, \<lparr>g_PthreadSpecific1stblock = 784, g_PthreadSize = 2368, g_PthreadKeyDataData = 8, g_PthreadKeyDataSize = 16\<rparr>),
      (ver 2 37 0, \<lparr>g_PthreadSpecific1stblock = 784, g_PthreadSize = 2368, g_PthreadKeyDataData = 8, g_PthreadKeyDataSize = 16\<rparr>),
      (ver 2 38 0, \<lparr>g_PthreadSpecific1stblock = 784, g_PthreadSize = 2368, g_PthreadKeyDataData = 8, g_PthreadKeyDataSize = 16\<rparr>)]"

definition muslOffsets_amd64 :: "(Version \<times> MuslOffsets) list" where
  "muslOffsets_amd64 =
     [(ver 1 1 19, \<lparr>m_PthreadTsd = 152, m_PthreadSize = 280\<rparr>),
      (ver 1 1 20, \<lparr>m_PthreadTsd = 152, m_PthreadSize = 240\<rparr>),
      (ver 1 1 22, \<lparr>m_PthreadTsd = 136, m_PthreadSize = 224\<rparr>),
      (ver 1 1 24, \<lparr>m_PthreadTsd = 136, m_PthreadSize = 224\<rparr>),
      (ver 1 2 2, \<lparr>m_PthreadTsd = 128, m_PthreadSize = 200\<rparr>),
      (ver 1 2 3, \<lparr>m_PthreadTsd = 128, m_PthreadSize = 200\<rparr>),
      (ver 1 2 4, \<lparr>m_PthreadTsd = 128, m_PthreadSize = 200\<rparr>)]"

definition glibcOffsets_arm64 :: "(Version \<times> GlibcOffsets) list" where
  "glibcOffsets_arm64 =
     [(ver 2 27 0, \<lparr>g_PthreadSpecific1stblock = 272, g_PthreadSize = 1776, g_PthreadKeyDataData = 8, g_PthreadKeyDataSize = 16\<rparr>),
      (ver 2 28 0, \<lparr>g_PthreadSpecific1stblock = 272, g_PthreadSize = 1792, g_PthreadKeyDataData = 8, g_PthreadKeyDataSize = 16\<rparr>),
      (ver 2 29 0, \<lparr>g_PthreadSpecific1stblock = 272, g_PthreadSize = 1792, g_PthreadKeyDataData = 8, g_PthreadKeyDataSize = 16\<rparr>),
      (ver 2 30 0, \<lparr>g_PthreadSpecific1stblock = 272, g_PthreadSize = 1792, g_PthreadKeyDataData = 8, g_PthreadKeyDataSize = 16\<rparr>),
      (ver 2 31 0, \<lparr>g_PthreadSpecific1stblock = 272, g_PthreadSize = 1792, g_PthreadKeyDataData = 8, g_PthreadKeyDataSize = 16\<rparr>),
      (ver 2 32 0, \<lparr>g_PthreadSpecific1stblock = 272, g_PthreadSize = 1936, g_PthreadKeyDataData = 8, g_PthreadKeyDataSize = 16\<rparr>),
      (ver 2 33 0, \<lparr>g_PthreadSpecific1stblock = 272, g_PthreadSize = 1936, g_PthreadKeyDataData = 8, g_PthreadKeyDataSize = 16\<rparr>),
      (ver 2 34 0, \<lparr>g_PthreadSpecific1stblock = 272, g_PthreadSize = 1936, g_PthreadKeyDataData = 8, g_PthreadKeyDataSize = 16\<rparr>),
      (ver 2 35 0, \<lparr>g_PthreadSpecific1stblock = 272, g_PthreadSize = 1984, g_PthreadKeyDataData = 8, g_PthreadKeyDataSize = 16\<rparr>),
      (ver 2 36 0, \<lparr>g_PthreadSpecific1stblock = 272, g_PthreadSize = 1856, g_PthreadKeyDataData = 8, g_PthreadKeyDataSize = 16\<rparr>),
      (ver 2 37 0, \<lparr>g_PthreadSpecific1stblock = 272, g_PthreadSize = 1856, g_PthreadKeyDataData = 8, g_PthreadKeyDataSize = 16\<rparr>),
      (ver 2 38 0, \<lparr>g_PthreadSpecific1stblock = 272, g_PthreadSize = 1856, g_PthreadKeyDataData = 8, g_PthreadKeyDataSize = 16\<rparr>)]"

definition muslOffsets_arm64 :: "(Version \<times> MuslOffsets) list" where
  "muslOffsets_arm64 =
     [(ver 1 1 19, \<lparr>m_PthreadTsd = 152, m_PthreadSize = 280\<rparr>),
      (ver 1 1 20, \<lparr>m_PthreadTsd = 152, m_PthreadSize = 240\<rparr>),
      (ver 1 1 22, \<lparr>m_PthreadTsd = 136, m_PthreadSize = 224\<rparr>),
      (ver 1 1 24, \<lparr>m_PthreadTsd = 136, m_PthreadSize = 224\<rparr>),
      (ver 1 2 2, \<lparr>m_PthreadTsd = 112, m_PthreadSize = 200\<rparr>),
      (ver 1 2 3, \<lparr>m_PthreadTsd = 112, m_PthreadSize = 200\<rparr>),
      (ver 1 2 4, \<lparr>m_PthreadTsd = 112, m_PthreadSize = 200\<rparr>)]"

end
