(* ===== verification/Go_Pydata.thy ===== *)
theory Go_Pydata
  imports Go_Offset_Tables Go_Symtab Pyperf "HOL-Library.Sublist"
begin

text \<open>
  How the agent learns what the kernel programs need to know of a Python process:
  \<open>ebpf/python/procinfo.go\<close>, \<open>tss.go\<close>, \<open>GetLibc\<close> of \<open>versions_libc.go\<close> and
  \<open>pyperf_pid_data.go\<close>. The mappings of the process name the interpreter and the C library, their
  files the exact versions, the tables the offsets, and the memory of the process the key of the
  thread state.

  Parameters, in \<open>py_env\<close>: the lines of \<open>/proc/pid/maps\<close>, the reads of files, the dynamic symbols
  that \<open>debug/elf\<close> finds in a file, and the memory of processes. \<open>None\<close> is a panic. The pattern
  of interpreter paths is the one of the source for paths of single-byte characters.

  The lemmas show that the tables hold every offset the agent asks for and the kernel programs
  use, so that data handed to the kernel is usable whenever it is handed over.
\<close>

section \<open>The mappings\<close>

record ProcInfo =
  inf_Version :: Version
  PythonMaps :: "ProcMap list"
  LibPythonMaps :: "ProcMap list"
  Musl :: "ProcMap list"
  Glibc :: "ProcMap list"

text \<open>Pieces of a pattern: the rests of a text after each way to match a prefix, in order of preference.\<close>

definition lit :: "u8 list \<Rightarrow> u8 list \<Rightarrow> u8 list list" where
  "lit p s = (case strip p s of None \<Rightarrow> [] | Some t \<Rightarrow> [t])"

definition one :: "(u8 \<Rightarrow> bool) \<Rightarrow> u8 list \<Rightarrow> u8 list list" where
  "one P s = (case s of c # t \<Rightarrow> if P c then [t] else [] | [] \<Rightarrow> [])"

definition andAlso :: "(u8 list \<Rightarrow> u8 list list) \<Rightarrow> (u8 list \<Rightarrow> u8 list list) \<Rightarrow> u8 list \<Rightarrow> u8 list list" where
  "andAlso m n s = concat (map n (m s))"

definition maybe :: "(u8 list \<Rightarrow> u8 list list) \<Rightarrow> u8 list \<Rightarrow> u8 list list" where
  "maybe m s = m s @ [s]"

definition any :: "u8 list \<Rightarrow> u8 list list" where
  "any = one (\<lambda>c. True)"

definition number_splits :: "u8 list \<Rightarrow> (go_string \<times> u8 list) list" where
  "number_splits s = map (\<lambda>k. (take k s, drop k s)) (rev [1..<Suc (length (takeWhile is_digit s))])"

definition python_suffix :: "u8 list \<Rightarrow> u8 list list" where
  "python_suffix =
     andAlso (maybe (one (\<lambda>c. c \<in> set (go_str ''mu''))))
       (andAlso (maybe (andAlso (lit (go_str ''-pyston'')) (andAlso (one is_digit) (andAlso any (one is_digit)))))
         (andAlso (maybe (lit (go_str ''.so'')))
           (maybe (andAlso any (andAlso (lit (go_str ''1'')) (andAlso any (lit (go_str ''0''))))))))"

text \<open>The last element of the path: library or not, major and minor version.\<close>

definition python_tail :: "u8 list \<Rightarrow> (bool \<times> go_string \<times> go_string) option" where
  "python_tail s =
     (let matches = [(t \<noteq> s, mjr, mnr).
            t \<leftarrow> maybe (lit (go_str ''lib'')) s, u \<leftarrow> lit (go_str ''python'') t,
            (mjr, v) \<leftarrow> number_splits u, w \<leftarrow> lit (go_str ''.'') v,
            (mnr, x) \<leftarrow> number_splits w, [] \<in> set (python_suffix x)]
      in case matches of [] \<Rightarrow> None | m # ms \<Rightarrow> Some m)"

fun last_tail :: "u8 list \<Rightarrow> (bool \<times> go_string \<times> go_string) option" where
  "last_tail [] = None"
| "last_tail (c # s) =
     (case last_tail s of
        Some m \<Rightarrow> Some m
      | None \<Rightarrow> if c = slash then python_tail s else None)"

definition rePython :: "go_string \<Rightarrow> (bool \<times> go_string \<times> go_string) option" where
  "rePython path = (case cut_byte slash path of None \<Rightarrow> None | Some (a, rest) \<Rightarrow> last_tail rest)"

datatype info_error = Bad_map parse_error | Bad_python_version | No_python

definition strings_Contains :: "go_string \<Rightarrow> go_string \<Rightarrow> bool" where
  "strings_Contains s sub \<longleftrightarrow> list_ex (\<lambda>t. prefix sub t) (suffixes s)"

definition note_python :: "ProcMap \<Rightarrow> ProcInfo \<Rightarrow> info_error + ProcInfo" where
  "note_python m res =
     (case rePython (Pathname m) of
        None \<Rightarrow> Inr res
      | Some (lib, mjr, mnr) \<Rightarrow>
          (let res' =
             (if Major (inf_Version res) = 0
              then case (Atoi mjr, Atoi mnr) of
                     ((ok1, a), (ok2, b)) \<Rightarrow>
                       if \<not> ok1 \<or> \<not> ok2 then Inl Bad_python_version
                       else Inr (res\<lparr>inf_Version := ver a b (Patch (inf_Version res))\<rparr>)
              else Inr res)
           in case res' of
                Inl e \<Rightarrow> Inl e
              | Inr res \<Rightarrow>
                  Inr (if \<not> lib then res\<lparr>PythonMaps := PythonMaps res @ [m]\<rparr>
                       else res\<lparr>LibPythonMaps := LibPythonMaps res @ [m]\<rparr>)))"

definition note_libc :: "ProcMap \<Rightarrow> ProcInfo \<Rightarrow> ProcInfo" where
  "note_libc m res =
     (let res = (if strings_Contains (Pathname m) (go_str ''/lib/ld-musl-x86_64.so.1'') \<or>
                    strings_Contains (Pathname m) (go_str ''/lib/ld-musl-aarch64.so.1'')
                 then res\<lparr>Musl := Musl res @ [m]\<rparr> else res)
      in if suffix (go_str ''/libc.so.6'') (Pathname m) \<or> prefix (go_str ''libc-2.'') (filepath_Base (Pathname m))
         then res\<lparr>Glibc := Glibc res @ [m]\<rparr> else res)"

fun info_lines :: "go_string list \<Rightarrow> ProcInfo \<Rightarrow> (info_error + ProcInfo) option" where
  "info_lines [] res = Some (Inr res)"
| "info_lines (line # ls) res =
     (case ParseProcMapLine False line of
        None \<Rightarrow> None
      | Some (Inl e) \<Rightarrow> Some (Inl (Bad_map e))
      | Some (Inr None) \<Rightarrow> None
      | Some (Inr (Some m)) \<Rightarrow>
          if Pathname m \<noteq> []
          then (case note_python m res of
                  Inl e \<Rightarrow> Some (Inl e)
                | Inr res \<Rightarrow> info_lines ls (note_libc m res))
          else info_lines ls res)"

definition no_info :: ProcInfo where
  "no_info = \<lparr>inf_Version = ver 0 0 0, PythonMaps = [], LibPythonMaps = [], Musl = [], Glibc = []\<rparr>"

definition GetProcInfo :: "go_string list \<Rightarrow> (info_error + ProcInfo) option" where
  "GetProcInfo lines =
     map_option (\<lambda>r. case r of Inl e \<Rightarrow> Inl e
                     | Inr res \<Rightarrow> if LibPythonMaps res = [] \<and> PythonMaps res = [] then Inl No_python else Inr res)
       (info_lines lines no_info)"

section \<open>Environment\<close>

type_synonym reads = "(u8 list \<times> read_status) list"

record py_env =
  maps_file :: "u32 \<Rightarrow> go_string list option"
  open_file :: "go_string \<Rightarrow> reads option"
  elf_symbols :: "go_string \<Rightarrow> (bool \<times> (go_string \<times> u64) list option) option"
  proc_mem :: "u32 \<Rightarrow> (s64 \<Rightarrow> nat \<Rightarrow> u8 list option) option"

definition root_path :: "u32 \<Rightarrow> go_string \<Rightarrow> go_string" where
  "root_path pid path = go_str ''/proc/'' @ digits 10 (unat pid) @ go_str ''/root'' @ path"

definition pyVersions :: "arch \<Rightarrow> (Version \<times> UserOffsets) list" where
  "pyVersions ar = (case ar of X86 \<Rightarrow> pyVersions_amd64 | ARM64 \<Rightarrow> pyVersions_arm64)"

definition glibcOffsets :: "arch \<Rightarrow> (Version \<times> GlibcOffsets) list" where
  "glibcOffsets ar = (case ar of X86 \<Rightarrow> glibcOffsets_amd64 | ARM64 \<Rightarrow> glibcOffsets_arm64)"

definition muslOffsets :: "arch \<Rightarrow> (Version \<times> MuslOffsets) list" where
  "muslOffsets ar = (case ar of X86 \<Rightarrow> muslOffsets_amd64 | ARM64 \<Rightarrow> muslOffsets_arm64)"

definition mutexSizeGlibc :: "arch \<Rightarrow> s64" where
  "mutexSizeGlibc ar = (case ar of X86 \<Rightarrow> 40 | ARM64 \<Rightarrow> 48)"

definition mutexSizeMusl :: "arch \<Rightarrow> s64" where
  "mutexSizeMusl ar = 40"

section \<open>The C library\<close>

datatype libc_error = No_libc | Libc_open | Libc_version version_error | Unsupported_libc

definition GetGlibcOffsets :: "arch \<Rightarrow> Version \<Rightarrow> (libc_error + libc) option" where
  "GetGlibcOffsets ar v =
     map_option (\<lambda>r. case r of None \<Rightarrow> Inl Unsupported_libc
                     | Some (off, guess) \<Rightarrow>
                         Inr \<lparr>musl = False, pthread_size = g_PthreadSize off,
                              pthread_specific1stblock = g_PthreadSpecific1stblock off\<rparr>)
       (glibc_entry v (glibcOffsets ar))"

definition GetLibc :: "arch \<Rightarrow> py_env \<Rightarrow> u32 \<Rightarrow> ProcInfo \<Rightarrow> (libc_error + libc) option" where
  "GetLibc ar E pid info =
     (if Glibc info = [] \<and> Musl info = [] then Some (Inl No_libc)
      else if Musl info \<noteq> [] then
        (case open_file E (root_path pid (Pathname (hd (Musl info)))) of
           None \<Rightarrow> Some (Inl Libc_open)
         | Some r \<Rightarrow>
             (case GetMuslVersionFromReader r of
                Inl e \<Rightarrow> Some (Inl (Libc_version e))
              | Inr v \<Rightarrow>
                  (case getVersionGuessing v (muslOffsets ar) of
                     None \<Rightarrow> Some (Inl Unsupported_libc)
                   | Some (mo, guess) \<Rightarrow>
                       Some (Inr \<lparr>musl = True, pthread_size = m_PthreadSize mo,
                                  pthread_specific1stblock = m_PthreadTsd mo\<rparr>))))
      else
        (case open_file E (root_path pid (Pathname (hd (Glibc info)))) of
           None \<Rightarrow> Some (Inl Libc_open)
         | Some r \<Rightarrow>
             (case GetGlibcVersionFromReader r of
                Inl e \<Rightarrow> Some (Inl (Libc_version e))
              | Inr v \<Rightarrow> GetGlibcOffsets ar v)))"

section \<open>The key of the thread state\<close>

datatype tss_error = Mem_open | Missing_symbol | Unexpected_offsets | Missing_offsets | Mem_read | Not_initialized

definition getAutoTLSKey :: "u64 \<Rightarrow> (s64 \<Rightarrow> nat \<Rightarrow> u8 list option) \<Rightarrow> tss_error + s32" where
  "getAutoTLSKey autoTLSkeyAddr mem =
     (if autoTLSkeyAddr = 0 then Inl Missing_symbol
      else case mem autoTLSkeyAddr 4 of
             None \<Rightarrow> Inl Mem_read
           | Some key \<Rightarrow>
               if length key \<noteq> 4 then Inl Mem_read
               else let res = le_word key in if res = -1 then Inl Not_initialized else Inr res)"

text \<open>Where the key lies.\<close>

definition tss_address :: "arch \<Rightarrow> Version \<Rightarrow> UserOffsets \<Rightarrow> u64 \<Rightarrow> libc \<Rightarrow> tss_error + s64" where
  "tss_address ar v offsets pyRuntime lc =
     (if uo_PyTssT_is_initialized offsets \<noteq> 0 \<or> uo_PyTssT_key offsets \<noteq> 4 \<or> uo_PyTssTSize offsets \<noteq> 8
      then Inl Unexpected_offsets
      else if pyRuntime = 0 then Inl Missing_symbol
      else if Compare v Py312 \<ge> 0
      then if uo_PyRuntimeState_autoTSSkey offsets = -1 then Inl Missing_offsets
           else Inr (pyRuntime + scast (uo_PyRuntimeState_autoTSSkey offsets))
      else if uo_PyRuntimeState_gilstate offsets = -1 \<or> uo_Gilstate_runtime_state_autoTSSkey offsets = -1
      then Inl Missing_offsets
      else let pkey = pyRuntime + scast (uo_PyRuntimeState_gilstate offsets + uo_Gilstate_runtime_state_autoTSSkey offsets)
           in Inr (if musl lc then pkey - 2 * (mutexSizeGlibc ar - mutexSizeMusl ar) else pkey))"

definition getPyTssKey ::
  "arch \<Rightarrow> Version \<Rightarrow> UserOffsets \<Rightarrow> u64 \<Rightarrow> libc \<Rightarrow> (s64 \<Rightarrow> nat \<Rightarrow> u8 list option) \<Rightarrow> tss_error + s32" where
  "getPyTssKey ar v offsets pyRuntime lc mem =
     (case tss_address ar v offsets pyRuntime lc of
        Inl e \<Rightarrow> Inl e
      | Inr pkey \<Rightarrow>
          (case mem pkey 8 of
             None \<Rightarrow> Inl Mem_read
           | Some key \<Rightarrow>
               if length key \<noteq> 8 then Inl Mem_read
               else let isInitialized = le_word (take 4 key) :: s32; res = le_word (drop 4 key)
                    in if isInitialized = 0 \<or> res = -1 then Inl Not_initialized else Inr res))"

definition GetTSSKey ::
  "arch \<Rightarrow> py_env \<Rightarrow> u32 \<Rightarrow> Version \<Rightarrow> UserOffsets \<Rightarrow> u64 \<Rightarrow> u64 \<Rightarrow> libc \<Rightarrow> tss_error + s32" where
  "GetTSSKey ar E pid v offsets autoTLSkeyAddr pyRuntime lc =
     (case proc_mem E pid of
        None \<Rightarrow> Inl Mem_open
      | Some mem \<Rightarrow>
          if Compare v Py37 < 0 then getAutoTLSKey autoTLSkeyAddr mem
          else getPyTssKey ar v offsets pyRuntime lc mem)"

section \<open>The data of a process\<close>

datatype pydata_error = Open_maps | Info_error info_error | Open_python | Patch_version version_error
  | Unsupported_python | Elf_open | Elf_symbols | Missing_symbols | Libc_error libc_error | Tss_error tss_error
  | Broken_offsets

definition vframe_offsets :: "Version \<Rightarrow> UserOffsets \<Rightarrow> (s16 \<times> s16 \<times> s16) option" where
  "vframe_offsets v offsets =
     (let (code, back, locals) =
        (if Compare v Py311 \<ge> 0
         then (if Compare v Py313 \<ge> 0 then uo_PyInterpreterFrame_f_executable offsets else uo_PyInterpreterFrame_f_code offsets,
               uo_PyInterpreterFrame_previous offsets, uo_PyInterpreterFrame_localsplus offsets)
         else (uo_PyFrameObject_f_code offsets, uo_PyFrameObject_f_back offsets, uo_PyFrameObject_f_localsplus offsets))
      in if code = -1 \<or> back = -1 \<or> locals = -1 then None else Some (code, back, locals))"

text \<open>The offsets of the top frame: \<open>frame\<close>, \<open>cframe\<close> and \<open>currentFrame\<close>.\<close>

definition top_offsets :: "Version \<Rightarrow> UserOffsets \<Rightarrow> (s16 \<times> s16 \<times> s16) option" where
  "top_offsets v offsets =
     (let cframe = uo_PyThreadState_cframe offsets; currentFrame = uo_PyCFrame_current_frame offsets;
          frame = uo_PyThreadState_frame offsets
      in if Compare v Py313 \<ge> 0
         then if cframe \<noteq> -1 \<or> currentFrame \<noteq> -1 \<or> frame \<noteq> -1 then None
              else let frame = uo_PyThreadState_current_frame offsets
                   in if frame = -1 then None else Some (frame, cframe, currentFrame)
         else Some (frame, cframe, currentFrame))"

definition offset_config :: "Version \<Rightarrow> UserOffsets \<Rightarrow> u64 \<Rightarrow> u64 \<Rightarrow> py_offset_config option" where
  "offset_config v offsets baseAddr cellType =
     (case vframe_offsets v offsets of
        None \<Rightarrow> None
      | Some (code, back, locals) \<Rightarrow>
          (case top_offsets v offsets of
             None \<Rightarrow> None
           | Some (frame, cframe, currentFrame) \<Rightarrow>
               Some \<lparr>PyThreadState_frame = frame, PyThreadState_cframe = cframe, PyCFrame_current_frame = currentFrame,
                     PyCodeObject_co_filename = uo_PyCodeObject_co_filename offsets,
                     PyCodeObject_co_name = uo_PyCodeObject_co_name offsets,
                     PyCodeObject_co_varnames = uo_PyCodeObject_co_varnames offsets,
                     PyCodeObject_co_localsplusnames = uo_PyCodeObject_co_localsplusnames offsets,
                     PyCodeObject__co_cell2arg = uo_PyCodeObject__co_cell2arg offsets,
                     PyCodeObject__co_cellvars = uo_PyCodeObject__co_cellvars offsets,
                     PyCodeObject__co_nlocals = uo_PyCodeObject__co_nlocals offsets,
                     PyTupleObject_ob_item = uo_PyTupleObject_ob_item offsets,
                     PyVarObject_ob_size = uo_PyVarObject_ob_size offsets,
                     PyObject_ob_type = uo_PyObject_ob_type offsets,
                     PyTypeObject_tp_name = uo_PyTypeObject_tp_name offsets,
                     VFrame_code = code, VFrame_previous = back, VFrame_localsplus = locals,
                     PyInterpreterFrame_owner = uo_PyInterpreterFrame_owner offsets,
                     PyASCIIObject_size = uo_PyASCIIObjectSize offsets,
                     PyCompactUnicodeObject_size = uo_PyCompactUnicodeObjectSize offsets,
                     PyCellObject_ob_ref = uo_PyCellObject__ob_ref offsets,
                     off_base = baseAddr, PyCell_Type = cellType\<rparr>))"

text \<open>The address of a symbol: the last one of the name counts, zero stands for none.\<close>

definition symbol_addr :: "go_string \<Rightarrow> u64 \<Rightarrow> (go_string \<times> u64) list \<Rightarrow> u64" where
  "symbol_addr name baseAddr symbols =
     fold (\<lambda>(n, value) a. if n = name then baseAddr + value else a) symbols 0"

definition finish_data ::
  "arch \<Rightarrow> py_env \<Rightarrow> u32 \<Rightarrow> bool \<Rightarrow> ProcInfo \<Rightarrow> Version \<Rightarrow> UserOffsets \<Rightarrow> u64 \<Rightarrow> (go_string \<times> u64) list
     \<Rightarrow> (pydata_error + py_pid_data) option" where
  "finish_data ar E pid collectKernel info v offsets baseAddr symbols =
     (let autoTLSkeyAddr = symbol_addr (go_str ''autoTLSkey'') baseAddr symbols;
          pyRuntimeAddr = symbol_addr (go_str ''_PyRuntime'') baseAddr symbols;
          cellType = symbol_addr (go_str ''PyCell_Type'') baseAddr symbols
      in if pyRuntimeAddr = 0 \<and> autoTLSkeyAddr = 0 then Some (Inl Missing_symbols)
         else case GetLibc ar E pid info of
                None \<Rightarrow> None
              | Some (Inl e) \<Rightarrow> Some (Inl (Libc_error e))
              | Some (Inr lc) \<Rightarrow>
                  (case GetTSSKey ar E pid v offsets autoTLSkeyAddr pyRuntimeAddr lc of
                     Inl e \<Rightarrow> Some (Inl (Tss_error e))
                   | Inr key \<Rightarrow>
                       (case offset_config v offsets baseAddr cellType of
                          None \<Rightarrow> Some (Inl Broken_offsets)
                        | Some cfg \<Rightarrow>
                            Some (Inr \<lparr>pd_offsets = cfg,
                                       version = \<lparr>major = of_int (Major v), minor = of_int (Minor v), patch = of_int (Patch v)\<rparr>,
                                       pd_libc = lc, tssKey = key, collect_kernel = (if collectKernel then 1 else 0)\<rparr>))))"

definition python_maps :: "ProcInfo \<Rightarrow> ProcMap list" where
  "python_maps info = (if LibPythonMaps info = [] then PythonMaps info else LibPythonMaps info)"

definition file_data ::
  "arch \<Rightarrow> py_env \<Rightarrow> u32 \<Rightarrow> bool \<Rightarrow> ProcInfo \<Rightarrow> ProcMap \<Rightarrow> (pydata_error + py_pid_data) option" where
  "file_data ar E pid collectKernel info base =
     (let pythonPath = root_path pid (Pathname base)
      in case open_file E pythonPath of
           None \<Rightarrow> Some (Inl Open_python)
         | Some r \<Rightarrow>
             (case GetPythonPatchVersion r (inf_Version info) of
                Inl e \<Rightarrow> Some (Inl (Patch_version e))
              | Inr v \<Rightarrow>
                  (case getVersionGuessing v (pyVersions ar) of
                     None \<Rightarrow> Some (Inl Unsupported_python)
                   | Some (offsets, guess) \<Rightarrow>
                       (case elf_symbols E pythonPath of
                          None \<Rightarrow> Some (Inl Elf_open)
                        | Some (isExec, None) \<Rightarrow> Some (Inl Elf_symbols)
                        | Some (isExec, Some symbols) \<Rightarrow>
                            finish_data ar E pid collectKernel info v offsets
                              (if isExec then 0 else StartAddr base) symbols))))"

definition GetPyPerfPidData ::
  "arch \<Rightarrow> py_env \<Rightarrow> u32 \<Rightarrow> bool \<Rightarrow> (pydata_error + py_pid_data) option" where
  "GetPyPerfPidData ar E pid collectKernel =
     (case maps_file E pid of
        None \<Rightarrow> Some (Inl Open_maps)
      | Some lines \<Rightarrow>
          (case GetProcInfo lines of
             None \<Rightarrow> None
           | Some (Inl e) \<Rightarrow> Some (Inl (Info_error e))
           | Some (Inr info) \<Rightarrow>
               (case python_maps info of
                  [] \<Rightarrow> None
                | base # ms \<Rightarrow> file_data ar E pid collectKernel info base)))"

section \<open>Usable offsets\<close>

text \<open>
  The kernel programs test four offsets for -1: that of the frame, which is then found through the
  C frame, that of the variable names, replaced by those of the locals, that of the owner, and
  those of the cells, which are then not used. Every other offset they add to a pointer as it is.
\<close>

definition offsets_usable :: "py_offset_config \<Rightarrow> bool" where
  "offsets_usable c \<longleftrightarrow>
     (PyThreadState_frame c = -1 \<longrightarrow> PyThreadState_cframe c \<noteq> -1 \<and> PyCFrame_current_frame c \<noteq> -1) \<and>
     (PyCodeObject_co_varnames c = -1 \<longrightarrow> PyCodeObject_co_localsplusnames c \<noteq> -1) \<and>
     (PyCodeObject__co_cell2arg c \<noteq> -1 \<and> PyCodeObject__co_cellvars c \<noteq> -1 \<longrightarrow> PyCodeObject__co_nlocals c \<noteq> -1) \<and>
     -1 \<notin> {VFrame_code c, VFrame_previous c, VFrame_localsplus c, PyCodeObject_co_filename c, PyCodeObject_co_name c,
       PyTupleObject_ob_item c, PyVarObject_ob_size c, PyObject_ob_type c, PyTypeObject_tp_name c,
       PyASCIIObject_size c, PyCompactUnicodeObject_size c, PyCellObject_ob_ref c}"

definition tss_offsets_ok :: "Version \<Rightarrow> UserOffsets \<Rightarrow> bool" where
  "tss_offsets_ok v offsets \<longleftrightarrow>
     uo_PyTssT_is_initialized offsets = 0 \<and> uo_PyTssT_key offsets = 4 \<and> uo_PyTssTSize offsets = 8 \<and>
     (if Compare v Py312 \<ge> 0 then uo_PyRuntimeState_autoTSSkey offsets \<noteq> -1
      else uo_PyRuntimeState_gilstate offsets \<noteq> -1 \<and> uo_Gilstate_runtime_state_autoTSSkey offsets \<noteq> -1)"

definition row_ok :: "int \<Rightarrow> int \<Rightarrow> UserOffsets \<Rightarrow> bool" where
  "row_ok a b offsets \<longleftrightarrow>
     (\<forall>v base cell. Major v = a \<longrightarrow> Minor v = b \<longrightarrow> 0 \<le> Patch v \<longrightarrow>
        (\<exists>c. offset_config v offsets base cell = Some c \<and> offsets_usable c) \<and>
        (0 \<le> Compare v Py37 \<longrightarrow> tss_offsets_ok v offsets))"

lemmas row_defs = row_ok_def offset_config_def vframe_offsets_def top_offsets_def offsets_usable_def tss_offsets_ok_def
  Compare_def Py37_def Py311_def Py312_def Py313_def Let_def

lemma rows_amd64:
  "row_ok 3 5 py3_5_amd64" "row_ok 3 6 py3_6_amd64" "row_ok 3 7 py3_7_amd64" "row_ok 3 7 py3_7_4_amd64"
  "row_ok 3 8 py3_8_amd64" "row_ok 3 9 py3_9_amd64" "row_ok 3 10 py3_10_amd64" "row_ok 3 11 py3_11_amd64"
  "row_ok 3 12 py3_12_amd64" "row_ok 3 13 py3_13_amd64"
  by (simp_all add: row_defs py3_5_amd64_def py3_6_amd64_def py3_7_amd64_def py3_7_4_amd64_def py3_8_amd64_def
      py3_9_amd64_def py3_10_amd64_def py3_11_amd64_def py3_12_amd64_def py3_13_amd64_def)

lemma rows_arm64:
  "row_ok 3 5 py3_5_arm64" "row_ok 3 6 py3_6_arm64" "row_ok 3 7 py3_7_arm64" "row_ok 3 7 py3_7_4_arm64"
  "row_ok 3 8 py3_8_arm64" "row_ok 3 9 py3_9_arm64" "row_ok 3 10 py3_10_arm64" "row_ok 3 11 py3_11_arm64"
  "row_ok 3 12 py3_12_arm64" "row_ok 3 13 py3_13_arm64"
  by (simp_all add: row_defs py3_5_arm64_def py3_6_arm64_def py3_7_arm64_def py3_7_4_arm64_def py3_8_arm64_def
      py3_9_arm64_def py3_10_arm64_def py3_11_arm64_def py3_12_arm64_def py3_13_arm64_def)

lemma versions_rows: "row_ok a b offsets \<Longrightarrow> list_all (\<lambda>(w, off). row_ok (Major w) (Minor w) off) (versions a b ps offsets)"
  by (auto simp: versions_def list_all_iff)

lemma table_rows: "list_all (\<lambda>(w, off). row_ok (Major w) (Minor w) off) (pyVersions ar)"
  by (cases ar) (simp_all only: pyVersions_def arch.case pyVersions_amd64_def pyVersions_arm64_def list_all_append
      versions_rows rows_amd64 rows_arm64 conj_absorb simp_thms)

text \<open>A version that the table serves, by itself or by a guess, finds a row of its minor version.\<close>

lemma guessed_row:
  assumes "getVersionGuessing v (pyVersions ar) = Some (offsets, g)"
  shows "row_ok (Major v) (Minor v) offsets"
proof -
  obtain w where "(w, offsets) \<in> set (pyVersions ar)" "same_minor w v"
    using guessing_cases [OF assms] by (cases g) (auto simp: chosen_def same_minor_def)
  then show ?thesis using table_rows [of ar] by (force simp: list_all_iff same_minor_def)
qed

lemma Atoi_nonneg: "0 \<le> snd (Atoi s)"
  by (simp add: Atoi_def split: option.split)

lemma patch_nonneg: "GetPythonPatchVersion r v = Inr w \<Longrightarrow> 0 \<le> Patch w"
  using Atoi_nonneg by (auto simp: GetPythonPatchVersion_def split: sum.splits prod.splits if_splits) (metis snd_conv)

lemma tss_key_ok:
  assumes "GetTSSKey ar E pid v offsets a b lc = Inr k"
  shows "k \<noteq> -1"
  using assms by (auto simp: GetTSSKey_def getAutoTLSKey_def getPyTssKey_def Let_def split: option.splits if_splits sum.splits)

lemma tss_errors:
  assumes "0 \<le> Compare v Py37 \<longrightarrow> tss_offsets_ok v offsets"
  shows "GetTSSKey ar E pid v offsets a b lc \<notin> {Inl Unexpected_offsets, Inl Missing_offsets}"
  using assms
  by (auto simp: GetTSSKey_def getAutoTLSKey_def getPyTssKey_def tss_address_def tss_offsets_ok_def Let_def
      split: option.splits if_splits sum.splits)

lemma tables_nonempty: "glibcOffsets ar \<noteq> []"
  by (cases ar) (simp_all add: glibcOffsets_def glibcOffsets_amd64_def glibcOffsets_arm64_def)

lemma last_version_None: "last_version m = None \<longleftrightarrow> m = []"
  by (cases m) (auto split: option.split)

lemma GetLibc_total: "GetLibc ar E pid info \<noteq> None"
proof -
  have "glibc_entry v (glibcOffsets ar) \<noteq> None" for v
    using tables_nonempty [of ar] by (auto simp: glibc_entry_def last_version_None split: option.split)
  then show ?thesis by (auto simp: GetLibc_def GetGlibcOffsets_def split: option.split sum.split)
qed

definition usable_result :: "(pydata_error + py_pid_data) option \<Rightarrow> bool" where
  "usable_result r \<longleftrightarrow>
     (case r of
        Some (Inr pd) \<Rightarrow> tssKey pd \<noteq> -1 \<and> offsets_usable (pd_offsets pd)
      | Some (Inl e) \<Rightarrow> e \<notin> {Broken_offsets, Tss_error Unexpected_offsets, Tss_error Missing_offsets}
      | None \<Rightarrow> False)"

lemma finish_data_ok:
  assumes "row_ok (Major v) (Minor v) offsets" "0 \<le> Patch v"
  shows "usable_result (finish_data ar E pid ck info v offsets base symbols)"
proof -
  define cell where "cell = symbol_addr (go_str ''PyCell_Type'') base symbols"
  obtain c where c: "offset_config v offsets base cell = Some c" "offsets_usable c"
    "0 \<le> Compare v Py37 \<longrightarrow> tss_offsets_ok v offsets"
    using assms unfolding row_ok_def by blast
  have "GetTSSKey ar E pid v offsets a b lc = Inr k \<Longrightarrow> k \<noteq> -1"
    "GetTSSKey ar E pid v offsets a b lc \<noteq> Inl Unexpected_offsets" "GetTSSKey ar E pid v offsets a b lc \<noteq> Inl Missing_offsets"
    for a b lc k using tss_key_ok tss_errors [OF c(3)] by blast+
  then show ?thesis using c(1,2) GetLibc_total [of ar E pid info]
    by (auto simp: finish_data_def usable_result_def Let_def cell_def [symmetric] split: option.split sum.split)
qed

lemma file_data_ok: "usable_result (file_data ar E pid ck info base)"
proof -
  have "usable_result (finish_data ar E pid ck info v offsets b symbols)"
    if "GetPythonPatchVersion r w = Inr v" "getVersionGuessing v (pyVersions ar) = Some (offsets, g)" for r w v offsets g b symbols
    using finish_data_ok [OF guessed_row [OF that(2)] patch_nonneg [OF that(1)]] .
  moreover have "usable_result (Some (Inl e))" if "e \<in> {Open_python, Unsupported_python, Elf_open, Elf_symbols} \<union> range Patch_version" for e
    using that by (auto simp: usable_result_def)
  ultimately show ?thesis by (auto simp: file_data_def Let_def split: option.split sum.split)
qed

lemma GetProcInfo_maps:
  assumes "GetProcInfo lines = Some (Inr info)"
  shows "python_maps info \<noteq> []"
proof -
  obtain r where "info_lines lines no_info = Some r" using assms by (auto simp: GetProcInfo_def)
  then show ?thesis using assms by (cases r) (auto simp: GetProcInfo_def python_maps_def split: if_splits)
qed

section \<open>Properties\<close>


end
