(* ===== verification/Go_Pydata_Witness.thy ===== *)
theory Go_Pydata_Witness
  imports Go_Pydata
begin

text \<open>
  Concrete inputs for the properties of the versions and of the data of a Python process: a file
  that two reads split inside the version text, a table visited in two orders, and a process with
  Python 3.11 and glibc 2.31 for which the agent finds all it needs.
\<close>

section \<open>Versions\<close>

definition w_python_file :: reads where
  "w_python_file = [(go_str ''ab3.1'', Read_ok), (go_str ''1.4 cd'', Read_eof)]"

lemma w_only:
  assumes "delivered w_python_file = a @ (go_str ''3.11.'' @ d @ [c]) @ b" "number_text d c"
  shows "d = go_str ''4''"
proof -
  have bytes: "delivered w_python_file = [97, 98, 51, 46, 49, 49, 46, 52, 32, 99, 100]" by code_simp
  have p: "go_str ''3.11.'' = [51, 46, 49, 49, 46]" by code_simp
  have "[97, 98, 51, 46, 49, 49, 46, 52, 32, 99, 100] = a @ 51 # 46 # 49 # 49 # 46 # d @ c # b"
    using assms(1) unfolding bytes p by simp
  then have "d @ c # b = [52, 32, 99, 100]" by (auto simp: Cons_eq_append_conv)
  then show ?thesis
    using assms(2) by (auto simp: Cons_eq_append_conv append_eq_Cons_conv number_text_def is_digit_def go_str_def)
qed

theorem python_version_found_witness:
  "GetPythonPatchVersion w_python_file (ver 3 11 0) = Inr (ver 3 11 4)"
proof -
  have t: "stops w_python_file" "delivered w_python_file = go_str ''ab'' @ (go_str ''3.11.'' @ go_str ''4'' @ [32]) @ go_str ''cd''"
    "number_text (go_str ''4'') 32" "Atoi (go_str ''4'') = (True, 4)"
    by code_simp+
  have p: "go_str ''3.11.'' = digits 10 (nat (Major (ver 3 11 0))) @ go_str ''.'' @ digits 10 (nat (Minor (ver 3 11 0))) @ go_str ''.''"
    by code_simp
  have "length (go_str ''3.11.'' @ go_str ''4'' @ [32 :: u8]) \<le> 17" by (simp add: go_str_def)
  from python_version_found [OF _ _ p t this w_only] show ?thesis by (simp add: ver_def)
qed

definition w_versions :: "(Version \<times> nat) list" where
  "w_versions = [(ver 3 11 2, 20), (ver 3 11 7, 70), (ver 3 12 0, 0)]"

theorem version_guess_witness:
  "getVersionGuessing (ver 3 11 9) (rev w_versions) = getVersionGuessing (ver 3 11 9) w_versions \<and>
   getVersionGuessing (ver 3 11 9) w_versions = Some (70, True)"
proof -
  have "distinct (map fst w_versions)" "distinct (map fst (rev w_versions))" by code_simp+
  moreover have "getVersionGuessing (ver 3 11 9) w_versions = Some (70, True)" by code_simp
  ultimately show ?thesis using version_guess [of w_versions "rev w_versions" "ver 3 11 9"] by simp
qed

section \<open>A process\<close>

definition w_mapping :: "u64 \<Rightarrow> string \<Rightarrow> ProcMap" where
  "w_mapping a path = \<lparr>StartAddr = a, EndAddr = a + 0x1000,
     Perms = \<lparr>pm_Read = True, pm_Write = False, pm_Execute = True, pm_Shared = False, pm_Private = True\<rparr>,
     Offset = 0, Dev = mkdev 8 1, Inode = 42, Pathname = go_str path\<rparr>"

definition w_python :: ProcMap where "w_python = w_mapping 0x400000 ''/usr/bin/python3.11''"
definition w_libc :: ProcMap where "w_libc = w_mapping 0x7F000000 ''/lib/libc.so.6''"

definition w_info :: ProcInfo where
  "w_info = \<lparr>inf_Version = ver 3 11 0, PythonMaps = [w_python], LibPythonMaps = [], Musl = [], Glibc = [w_libc]\<rparr>"

definition w_py :: py_env where
  "w_py = \<lparr>maps_file = (\<lambda>pid. Some [print_map 8 1 5 w_python, print_map 8 1 5 w_libc]),
     open_file = (\<lambda>path. Some (if suffix (go_str ''python3.11'') path then w_python_file else [(go_str ''glibc 2.31 '', Read_eof)])),
     elf_symbols = (\<lambda>path. Some (True, Some [(go_str ''_PyRuntime'', 0x5000), (go_str ''PyCell_Type'', 0x6000)])),
     proc_mem = (\<lambda>pid. Some (\<lambda>a n. if n = 8 then Some [1, 0, 0, 0, 5, 0, 0, 0] else None))\<rparr>"

lemma w_printable: "printable_map 8 1 w_python" "printable_map 8 1 w_libc"
  by (simp_all add: printable_map_def w_python_def w_libc_def w_mapping_def go_str_def space_def newline_def)

lemma w_notes:
  "note_python w_python no_info = Inr (no_info\<lparr>inf_Version := ver 3 11 0, PythonMaps := [w_python]\<rparr>)"
  "note_libc w_python (no_info\<lparr>inf_Version := ver 3 11 0, PythonMaps := [w_python]\<rparr>) =
     no_info\<lparr>inf_Version := ver 3 11 0, PythonMaps := [w_python]\<rparr>"
  "note_python w_libc (no_info\<lparr>inf_Version := ver 3 11 0, PythonMaps := [w_python]\<rparr>) =
     Inr (no_info\<lparr>inf_Version := ver 3 11 0, PythonMaps := [w_python]\<rparr>)"
  "note_libc w_libc (no_info\<lparr>inf_Version := ver 3 11 0, PythonMaps := [w_python]\<rparr>) = w_info"
  by code_simp+

lemma w_found: "GetProcInfo [print_map 8 1 5 w_python, print_map 8 1 5 w_libc] = Some (Inr w_info)"
proof -
  have "Pathname w_python \<noteq> []" "Pathname w_libc \<noteq> []" "PythonMaps w_info \<noteq> []"
    by (simp_all add: w_python_def w_libc_def w_mapping_def w_info_def go_str_def)
  then show ?thesis by (simp add: GetProcInfo_def ParseProcMapLine_print w_printable w_notes)
qed

lemma w_suffixes:
  "suffix (go_str ''python3.11'') (root_path 7 (go_str ''/usr/bin/python3.11''))"
  "\<not> suffix (go_str ''python3.11'') (root_path 7 (go_str ''/lib/libc.so.6''))"
  by code_simp+

lemma w_open:
  "open_file w_py (root_path 7 (Pathname w_python)) = Some w_python_file"
  "open_file w_py (root_path 7 (Pathname w_libc)) = Some [(go_str ''glibc 2.31 '', Read_eof)]"
  using w_suffixes by (simp_all add: w_py_def w_python_def w_libc_def w_mapping_def)

lemma w_version: "GetPythonPatchVersion w_python_file (ver 3 11 0) = Inr (ver 3 11 4)"
  by code_simp

lemma w_row: "getVersionGuessing (ver 3 11 4) (pyVersions X86) = Some (py3_11_amd64, False)"
  by (simp add: getVersionGuessing_def pyVersions_def pyVersions_amd64_def versions_def ver_def)

lemma w_glibc_version: "GetGlibcVersionFromReader [(go_str ''glibc 2.31 '', Read_eof)] = Inr (ver 2 31 0)"
  by code_simp

lemma w_glibc: "GetLibc X86 w_py 7 w_info = Some (Inr \<lparr>musl = False, pthread_size = 2304, pthread_specific1stblock = 784\<rparr>)"
  by (simp add: GetLibc_def w_info_def w_open w_glibc_version GetGlibcOffsets_def glibc_entry_def glibcOffsets_def
      glibcOffsets_amd64_def ver_def)

lemma w_addrs:
  "symbol_addr (go_str ''autoTLSkey'') 0 [(go_str ''_PyRuntime'', 0x5000), (go_str ''PyCell_Type'', 0x6000)] = 0"
  "symbol_addr (go_str ''_PyRuntime'') 0 [(go_str ''_PyRuntime'', 0x5000), (go_str ''PyCell_Type'', 0x6000)] = 0x5000"
  "symbol_addr (go_str ''PyCell_Type'') 0 [(go_str ''_PyRuntime'', 0x5000), (go_str ''PyCell_Type'', 0x6000)] = 0x6000"
  by code_simp+

lemma w_key:
  "GetTSSKey X86 w_py 7 (ver 3 11 4) py3_11_amd64 0 0x5000 \<lparr>musl = False, pthread_size = 2304, pthread_specific1stblock = 784\<rparr> = Inr 5"
proof -
  have "le_word [1, 0, 0, 0] = (1 :: s32)" "le_word [5, 0, 0, 0] = (5 :: s32)" by code_simp+
  moreover have "tss_address X86 (ver 3 11 4) py3_11_amd64 0x5000 lc \<noteq> Inl e" for lc e
    by (simp add: tss_address_def py3_11_amd64_def Compare_def Py312_def Let_def)
  moreover have "\<not> Compare (ver 3 11 4) Py37 < 0" by code_simp
  moreover have "proc_mem w_py 7 = Some (\<lambda>a n. if n = 8 then Some [1, 0, 0, 0, 5, 0, 0, 0] else None)"
    by (simp add: w_py_def)
  ultimately show ?thesis by (simp add: GetTSSKey_def getPyTssKey_def split: sum.splits)
qed

lemma w_config:
  "case offset_config (ver 3 11 4) py3_11_amd64 0 0x6000 of
     Some c \<Rightarrow> VFrame_code c = 32 \<and> PyCell_Type c = 0x6000 | None \<Rightarrow> False"
  by code_simp

lemma w_data:
  "case file_data X86 w_py 7 True w_info w_python of
     Some (Inr pd) \<Rightarrow> tssKey pd = 5 \<and> version pd = \<lparr>major = 3, minor = 11, patch = 4\<rparr> \<and> \<not> musl (pd_libc pd) \<and>
       VFrame_code (pd_offsets pd) = 32 \<and> PyCell_Type (pd_offsets pd) = 0x6000
   | _ \<Rightarrow> False"
proof -
  have "inf_Version w_info = ver 3 11 0" by (simp add: w_info_def)
  moreover have "elf_symbols w_py path = Some (True, Some [(go_str ''_PyRuntime'', 0x5000), (go_str ''PyCell_Type'', 0x6000)])" for path
    by (simp add: w_py_def)
  ultimately show ?thesis
    using w_config
    by (simp add: file_data_def finish_data_def w_open w_version w_row w_addrs w_glibc w_key Let_def split: option.splits)
qed

text \<open>The agent finds the data of this process.\<close>

lemma pid_data_example:
  "case GetPyPerfPidData X86 w_py 7 True of
     Some (Inr pd) \<Rightarrow> tssKey pd = 5 \<and> version pd = \<lparr>major = 3, minor = 11, patch = 4\<rparr> \<and> \<not> musl (pd_libc pd) \<and>
       VFrame_code (pd_offsets pd) = 32 \<and> PyCell_Type (pd_offsets pd) = 0x6000
   | _ \<Rightarrow> False"
proof -
  have "maps_file w_py 7 = Some [print_map 8 1 5 w_python, print_map 8 1 5 w_libc]" by (simp add: w_py_def)
  moreover have "python_maps w_info = [w_python]" by (simp add: python_maps_def w_info_def)
  ultimately show ?thesis using w_data by (simp add: GetPyPerfPidData_def w_found)
qed

end
