(* ===== verification/Spec2Isabelle.thy ===== *)
theory Spec2Isabelle
  imports Core_Relocs Helper_Defs Bpf_Endian Shared_Layout Go_Witness Go_Symtab_Witness Go_Pydata_Witness
begin

text \<open>
  A verification development for the eBPF profiler of Pyroscope: the C programs under
  \<open>src/ebpf/bpf\<close> and the part of the Go agent under \<open>src/ebpf\<close> that shares maps with them.

  \<^bold>\<open>The program.\<close> Two eBPF programs sample the processes of a machine. \<open>do_perf_event\<close>
  (\<open>profile.bpf.c\<close>) runs on every tick of a CPU clock event. It looks the running process up in
  the map \<open>pids\<close>; an unknown process is marked and announced to user space over a perf buffer;
  a process configured for frame pointers is sampled with \<open>bpf_get_stackid\<close>; a Python process is
  handed over by a tail call to \<open>pyperf_collect\<close> (\<open>pyperf.bpf.c\<close>). That program finds the
  interpreter's thread state in the thread-specific data of the C library (\<open>pthread_*.h\<close>), walks
  the frame list in user memory in batches, one tail call of \<open>read_python_stack\<close> per batch,
  interns the class, file and function name of every frame in the map \<open>py_symbols\<close>
  (\<open>pystr.h\<close> reads the strings), stores the list of symbol ids in \<open>python_stacks\<close> under its hash
  (\<open>hash.h\<close>) and counts the sample in \<open>counts\<close> (\<open>stacks.h\<close>). Probes on process exit and exec keep
  \<open>pids\<close> up to date. \<open>pid.h\<close> translates process ids into the configured namespace. The programs
  are written against libbpf's headers (\<open>libbpf/\<close>) and generated kernel types (\<open>vmlinux/\<close>).
  The agent is the other side of the maps. Its goroutines (\<open>session.go\<close>, \<open>session_python.go\<close>) read
  the perf buffer, decide how a process is profiled and write \<open>pids\<close> and \<open>py_pid_config\<close>; every
  round \<open>collectRegularProfile\<close> drains \<open>counts\<close>, turns stacks into text with the symbols of
  \<open>py_symbols\<close> (\<open>python/pyperf.go\<close>, \<open>python/str.go\<close>), and clears the maps (\<open>session_maps.go\<close>).
  Native addresses are resolved through the mappings of the process and the symbols of its ELF
  files (\<open>symtab/\<close>), the offsets of an interpreter are found from the files and the memory of its
  process (\<open>python/pyperf_pid_data.go\<close>), and the samples of a round become profiles
  (\<open>pprof/pprof.go\<close>).

  \<^bold>\<open>How the code is modelled.\<close> Integers are words of their C width, structures are records, a
  helper call that may fail returns its result code together with the buffer it was given, and
  an uninitialised variable holds a value that the kernel record supplies. The kernel (its
  helpers, map updates and field offsets) is a parameter, the record \<open>kernel\<close> of \<open>Bpf_Env\<close>
  and its extensions. What the code relies on is stated as locales, with the documented behaviour
  of a helper as the assumptions; every locale is interpreted on a reference implementation of
  the helper or on the model's own definitions. In the Go part \<open>None\<close> is a panic, an error value is
  a left injection, what the map library returns from a dump of a map is a parameter
  (\<open>map_dump\<close>), and what an operation does while it holds the session's mutex is one step.

  \<^bold>\<open>Theories\<close>, in the order in which they build on one another:

  \<^item> \<open>Prelude\<close>: integer types and little-endian byte lists, with their round trips.
  \<^item> \<open>Hash\<close>: \<open>hash.h\<close>. The loop equals a fold over blocks, stays inside the key for the lengths
    the program uses, and separates stacks that differ in one block.
  \<^item> \<open>Bpf_Env\<close>: the helpers as interfaces: user and kernel reads, string reads, hash maps with
    their capacity, and their reference implementations.
  \<^item> \<open>Bpf_Core_Read\<close>: \<open>libbpf/bpf_core_read.h\<close>, pointer chains and bit fields; \<open>Core_Queries\<close>: its
    queries, the interface of the loader that answers them, and that a bit-field read returns
    the declared bits.
  \<^item> \<open>Pid\<close>, \<open>Pthread\<close>, \<open>Pystr\<close>, \<open>Pyoffsets\<close>, \<open>Stacks\<close>: the headers of the same names.
  \<^item> \<open>Pysym\<close>: one frame of \<open>pyperf.bpf.c\<close>, from \<open>get_frame_data\<close> down to the names. A read
    symbol depends on user memory only and not on what the reused buffer held before.
  \<^item> \<open>Pyperf\<close>: the rest of \<open>pyperf.bpf.c\<close>: symbol interning, the frame loop, the chain of tail
    calls, submission. \<open>Pyperf_Inv\<close> holds the invariants (shape of the state, uniqueness of
    symbol ids) and \<open>Pyperf_Props\<close> the properties, of which the central one describes a complete
    run: the stored stack decodes to the symbols of the first 96 frames.
  \<^item> \<open>Profile\<close>: \<open>profile.bpf.c\<close> and the step relation of samples, exits, execs and configuration
    by user space, with its invariants by rule induction.
  \<^item> \<open>Interleave\<close>: \<open>get_symbol_id\<close> and the counting of a sample split into their atomic map
    operations, on several CPUs at once. Under every schedule ids identify symbols, calls finish
    without waiting, and counters never exceed the number of samples; a schedule that loses a sample exists.
  \<^item> \<open>C_Layout\<close>: sizes, alignments and offsets of C types; \<open>Vmlinux_X86\<close> and \<open>Vmlinux_Arm64\<close>:
    the kernel types that the programs reach, one definition per declaration of the headers.
  \<^item> \<open>Bpf_Endian\<close>, \<open>Bpf_Helpers\<close>, \<open>Bpf_Tracing\<close>: the other headers of libbpf: byte order, printing
    and static tail calls, register access and program wrappers.
  \<^item> \<open>Helper_Defs\<close>: \<open>bpf_helper_defs.h\<close> and the kernels' own numbering of the helpers.
  \<^item> \<open>Core_Relocs\<close>: the kernel fields that the programs read, resolved in the kernel headers.
  \<^item> \<open>Shared_Layout\<close>: the structures that programs and agent exchange, as C and as Go declare them
    (\<open>python/perf_bpfel_x86.go\<close>, \<open>pyrobpf/profile_bpfel_x86.go\<close>), with the same layout.
  \<^item> \<open>Go_Base\<close>: what the agent uses of Go's standard library: strings, numbers, binary searches.
  \<^item> \<open>Go_Pcindex\<close>: \<open>symtab/gosym/pcindex.go\<close>, an index of addresses that finds the entry at or below
    one. \<open>Go_Elf\<close>: \<open>symtab/elf/elf_sym.go\<close>, \<open>symbol_table.go\<close>, \<open>elfmmap.go\<close> and \<open>findBase\<close> of
    \<open>symtab/elf.go\<close>: the function of an address of an ELF file. \<open>Go_Symtab\<close>: \<open>symtab/table.go\<close>,
    \<open>kallsyms.go\<close>, \<open>procmap.go\<close> and \<open>proc.go\<close>: the parsers read back what the kernel prints, and an
    address resolves through the mapping that contains it. \<open>Go_Native\<close>: \<open>load\<close> of \<open>symtab/elf.go\<close>, and
    both composed: an address of a process resolves to the function of its file.
  \<^item> \<open>Go_Pprof\<close>: \<open>pprof/pprof.go\<close>. A profile decodes to the samples it was built from, and merging
    by hash keeps the totals.
  \<^item> \<open>Go_Versions\<close>: \<open>python/versions.go\<close>, the search for a version in a file and the choice of a table
    entry. \<open>Go_Offset_Tables\<close>: \<open>python/*_offsets_gen_*.go\<close>, the offsets of all supported versions of
    Python, glibc and musl. \<open>Go_Pydata\<close>: \<open>python/procinfo.go\<close>, \<open>tss.go\<close>, \<open>versions_libc.go\<close> and
    \<open>pyperf_pid_data.go\<close>. The data handed to the kernel programs lacks nothing that they use.
  \<^item> \<open>Go_Pystring\<close>: \<open>python/str.go\<close>, and the round trip of a string from Python's memory through
    \<open>pystr_read\<close> to text. \<open>Go_Pyperf\<close>: \<open>python/pyperf.go\<close> and the text of a Python stack.
  \<^item> \<open>Go_Session\<close>: one round of collection. It does not panic and clears what it has reported.
    \<open>Go_Trace\<close> composes it with the kernel programs and the profile builders, from the interrupt to
    the text of a sample in a profile.
  \<^item> \<open>Go_Lifecycle\<close>: the processes the agent knows, its channels and goroutines, and the step
    relation in which they interleave with the kernel programs.
  \<^item> \<open>Witness\<close> and \<open>Go_Witness\<close>: a concrete kernel, process and Python program, on which the
    properties with hypotheses are applied; \<open>Go_Symtab_Witness\<close> and \<open>Go_Pydata_Witness\<close>: small files,
    mappings and samples for the properties of the symbol tables, the profiles and the discovery.

  \<^bold>\<open>Bounds.\<close> The chain of tail calls is recursive in the number of tail calls that are left; the
  kernel allows 33 per event and the programs need at most four (one into \<open>pyperf_collect\<close>, three
  runs of \<open>read_python_stack\<close>), and a property states that any budget from there on gives the same
  outcome. The loops over frames, namespace levels, cells and hash blocks have constant bounds in
  the source and are recursions over lists of that length, so every definition is total.

  \<^bold>\<open>Not modelled.\<close> Starting and stopping a session, opening perf events and loading programs are
  calls of the operating system and of the loader library; only the outcome of loading the Python
  programs is modelled. The round of collection and the lifecycle take symbol tables, the data of
  interpreters and targets as parameters (\<open>agent_env\<close>, \<open>proc_fs\<close>): the first two are modelled in
  theories of their own, of which \<open>Resolve_proc\<close>, \<open>Resolve_tab\<close> and \<open>GetPyPerfPidData\<close> are the
  results; the discovery of targets by labels and container ids is not modelled. Which file a
  symbol table is loaded from, the caches of tables, build ids and the line tables of Go programs
  (\<open>symtab/elf_cache.go\<close>, \<open>gcache.go\<close>, \<open>gosym/pclntab.go\<close>) are left out: \<open>Go_Native\<close> loads the
  mapped file itself. Metrics, logging and debug printing have no effect on the state.
  The server and the web interface do not touch the profiler. In \<open>Profile\<close> and \<open>Pyperf\<close> a run of a
  program is one step; only the two shared updates in \<open>Interleave\<close> are split further. User space
  deleting entries of a map while a program holds a pointer to one, and kernel programs changing a
  map while the agent dumps it, are outside the model. Of the kernel headers only the types that
  the programs reach are modelled: the others are generated and no program uses them.
\<close>

end
